(* ===== verification/Prelude.thy ===== *)
theory Prelude
  imports Main "HOL-Library.Sublist" "HOL-Library.Word" "HOL-Library.AList"
begin

text \<open>
  Shared vocabulary of the development: the lemma collections, the type
  synonyms for the primitive Rust types, the string functions of the Rust
  standard library the sources use, and the state-and-error computations in
  which the request handlers are written.

  A Rust \<open>String\<close> is a HOL \<open>string\<close>, read as the bytes of its UTF-8 encoding:
  equality, \<open>contains\<close>, \<open>starts_with\<close> and concatenation are then exact.
  \<open>to_lowercase\<close> is modelled on ASCII letters; the tool names, attribute names
  and enum names the sources apply it to are compared with ASCII patterns.

  A UUID newtype of \<open>crates/ferrum-proto/src/ids.rs\<close> is its hyphenated text
  (what \<open>Display\<close> prints and every store binds), so \<open>to_string\<close> is the
  identity.  A \<open>DateTime<Utc>\<close> is an integer count of nanoseconds.
\<close>

named_theorems proc_simps \<open>unfolding of the computation combinators\<close>
named_theorems proc_Inr \<open>when a computation returns a value\<close>
named_theorems preserves_intros \<open>closure of state relations under the combinators\<close>

type_synonym uuid = string
type_synonym timestamp = int

definition seconds :: "int \<Rightarrow> timestamp" where
  "seconds n = n * 1000000000"

subsection \<open>Strings\<close>

definition ascii_lower :: "char \<Rightarrow> char" where
  "ascii_lower c = (let n = (of_char c :: nat) in
     if 65 \<le> n \<and> n \<le> 90 then char_of (n + 32) else c)"

definition to_lowercase :: "string \<Rightarrow> string" where
  "to_lowercase s = map ascii_lower s"

definition str_contains :: "string \<Rightarrow> string \<Rightarrow> bool" where
  "str_contains s p = sublist p s"

definition starts_with :: "string \<Rightarrow> string \<Rightarrow> bool" where
  "starts_with s p = prefix p s"

text \<open>\<open>char::is_whitespace\<close> on ASCII: tab, line feed, vertical tab, form feed,
  carriage return and space.\<close>

definition is_whitespace :: "char \<Rightarrow> bool" where
  "is_whitespace c = (let n = (of_char c :: nat) in n = 32 \<or> (9 \<le> n \<and> n \<le> 13))"

definition trim :: "string \<Rightarrow> string" where
  "trim s = rev (dropWhile is_whitespace (rev (dropWhile is_whitespace s)))"

definition unwrap_or :: "'a option \<Rightarrow> 'a \<Rightarrow> 'a" where
  "unwrap_or x d = (case x of None \<Rightarrow> d | Some y \<Rightarrow> y)"

lemma unwrap_or_simps [simp]:
  "unwrap_or None d = d" "unwrap_or (Some y) d = y"
  by (simp_all add: unwrap_or_def)

lemma find_mem: "find p xs = Some x \<Longrightarrow> x \<in> set xs \<and> p x"
  by (induction xs) (auto split: if_splits)

lemma find_append: "find p (xs @ ys) = (case find p xs of None \<Rightarrow> find p ys | Some x \<Rightarrow> Some x)"
  by (induction xs) auto

lemma ascii_lower_idem [simp]: "ascii_lower (ascii_lower c) = ascii_lower c"
  by (auto simp: ascii_lower_def Let_def)

lemma to_lowercase_idem [simp]: "to_lowercase (to_lowercase s) = to_lowercase s"
  by (simp add: to_lowercase_def)

lemma to_lowercase_append [simp]:
  "to_lowercase (s @ t) = to_lowercase s @ to_lowercase t"
  by (simp add: to_lowercase_def)

subsection \<open>Computations with state and early return\<close>

text \<open>
  A handler reads and writes the state and either returns a value or leaves
  early with an error; the writes made before the early return stay.  \<open>andthen\<close>
  is the sequencing of two statements (with \<open>?\<close> on the first one).
\<close>

type_synonym ('s, 'e, 'a) proc = "'s \<Rightarrow> ('e + 'a) \<times> 's"

definition ret :: "'a \<Rightarrow> ('s, 'e, 'a) proc" where
  "ret x = (\<lambda>s. (Inr x, s))"

definition raise :: "'e \<Rightarrow> ('s, 'e, 'a) proc" where
  "raise e = (\<lambda>s. (Inl e, s))"

definition andthen :: "('s, 'e, 'a) proc \<Rightarrow> ('a \<Rightarrow> ('s, 'e, 'b) proc) \<Rightarrow> ('s, 'e, 'b) proc" where
  "andthen m f = (\<lambda>s. case m s of (Inl e, s') \<Rightarrow> (Inl e, s') | (Inr x, s') \<Rightarrow> f x s')"

definition ensure :: "bool \<Rightarrow> 'e \<Rightarrow> ('s, 'e, unit) proc" where
  "ensure b e = (if b then ret () else raise e)"

definition of_result :: "'e + 'a \<Rightarrow> ('s, 'e, 'a) proc" where
  "of_result r = (\<lambda>s. (r, s))"

definition reads :: "('s \<Rightarrow> 'a) \<Rightarrow> ('s, 'e, 'a) proc" where
  "reads f = (\<lambda>s. (Inr (f s), s))"

definition modifies :: "('s \<Rightarrow> 's) \<Rightarrow> ('s, 'e, unit) proc" where
  "modifies f = (\<lambda>s. (Inr (), f s))"

definition some_or :: "'a option \<Rightarrow> 'e \<Rightarrow> ('s, 'e, 'a) proc" where
  "some_or x e = (case x of None \<Rightarrow> raise e | Some y \<Rightarrow> ret y)"

text \<open>\<open>attempt\<close> turns an error of a call into a value (a \<open>match\<close> on its result),
  \<open>map_err\<close> rewrites the error.\<close>

definition attempt :: "('s, 'e, 'a) proc \<Rightarrow> ('s, 'f, 'e + 'a) proc" where
  "attempt m = (\<lambda>s. case m s of (r, s') \<Rightarrow> (Inr r, s'))"

definition map_err :: "('e \<Rightarrow> 'f) \<Rightarrow> ('s, 'e, 'a) proc \<Rightarrow> ('s, 'f, 'a) proc" where
  "map_err g m = (\<lambda>s. case m s of (Inl e, s') \<Rightarrow> (Inl (g e), s') | (Inr x, s') \<Rightarrow> (Inr x, s'))"

lemmas proc_defs [proc_simps] =
  ret_def raise_def andthen_def ensure_def of_result_def reads_def modifies_def
  some_or_def attempt_def map_err_def

lemma andthen_ret [simp]: "andthen (ret x) f = f x"
  by (simp add: proc_simps)

lemma andthen_raise [simp]: "andthen (raise e) f = raise e"
  by (simp add: proc_simps)

lemma andthen_assoc: "andthen (andthen m f) g = andthen m (\<lambda>x. andthen (f x) g)"
  by (auto simp: proc_simps fun_eq_iff split: prod.splits sum.splits)

lemma andthen_InrE:
  assumes "andthen m f s = (Inr y, s'')"
  obtains x s' where "m s = (Inr x, s')" "f x s' = (Inr y, s'')"
  using assms by (auto simp: andthen_def split: prod.splits sum.splits)

lemma ensure_Inr_iff [simp]: "ensure b e s = (Inr u, s') \<longleftrightarrow> b \<and> s' = s"
  by (auto simp: ensure_def ret_def raise_def)

lemma andthen_Inr [proc_Inr]:
  "andthen m f s = (Inr y, s'') \<longleftrightarrow> (\<exists>x s'. m s = (Inr x, s') \<and> f x s' = (Inr y, s''))"
  by (auto simp: andthen_def split: prod.splits sum.splits)

lemma ret_Inr [proc_Inr]: "ret x s = (Inr y, s') \<longleftrightarrow> y = x \<and> s' = s"
  by (auto simp: ret_def)

lemma raise_Inr [proc_Inr]: "raise e s = (Inr y, s') \<longleftrightarrow> False"
  by (simp add: raise_def)

lemma of_result_Inr [proc_Inr]: "of_result r s = (Inr y, s') \<longleftrightarrow> r = Inr y \<and> s' = s"
  by (auto simp: of_result_def)

lemma reads_Inr [proc_Inr]: "reads f s = (Inr y, s') \<longleftrightarrow> y = f s \<and> s' = s"
  by (auto simp: reads_def)

lemma modifies_Inr [proc_Inr]: "modifies f s = (Inr y, s') \<longleftrightarrow> s' = f s"
  by (auto simp: modifies_def)

lemma some_or_Inr [proc_Inr]: "some_or x e s = (Inr y, s') \<longleftrightarrow> x = Some y \<and> s' = s"
  by (cases x) (auto simp: some_or_def ret_def raise_def)

lemma map_err_Inr [proc_Inr]: "map_err g m s = (Inr y, s') \<longleftrightarrow> m s = (Inr y, s')"
  by (auto simp: map_err_def split: prod.splits sum.splits)

lemma attempt_Inr [proc_Inr]: "attempt m s = (Inr y, s') \<longleftrightarrow> m s = (y, s')"
  by (auto simp: attempt_def split: prod.splits)

lemmas ensure_Inr [proc_Inr] = ensure_Inr_iff

subsection \<open>State relations along a computation\<close>

text \<open>\<open>along R m\<close>: whatever \<open>m\<close> returns, its final state is related to its
  initial one.  For a reflexive and transitive \<open>R\<close> the combinators are closed
  under it, so a handler inherits it from the store calls it makes.\<close>

definition along :: "('s \<Rightarrow> 's \<Rightarrow> bool) \<Rightarrow> ('s, 'e, 'a) proc \<Rightarrow> bool" where
  "along R m = (\<forall>s. R s (snd (m s)))"

locale state_preorder =
  fixes R :: "'s \<Rightarrow> 's \<Rightarrow> bool"
  assumes R_refl: "R s s"
    and R_trans: "R s t \<Longrightarrow> R t u \<Longrightarrow> R s u"
begin

lemma along_ret [preserves_intros]: "along R (ret x)"
  by (simp add: along_def ret_def R_refl)

lemma along_raise [preserves_intros]: "along R (raise e)"
  by (simp add: along_def raise_def R_refl)

lemma along_ensure [preserves_intros]: "along R (ensure b e)"
  by (simp add: ensure_def along_ret along_raise)

lemma along_of_result [preserves_intros]: "along R (of_result r)"
  by (simp add: along_def of_result_def R_refl)

lemma along_reads [preserves_intros]: "along R (reads f)"
  by (simp add: along_def reads_def R_refl)

lemma along_some_or [preserves_intros]: "along R (some_or x e)"
  by (cases x) (simp_all add: some_or_def along_ret along_raise)

lemma along_andthen [preserves_intros]:
  assumes "along R m" and "\<And>x. along R (f x)"
  shows "along R (andthen m f)"
  using assms by (auto simp: along_def andthen_def split: prod.splits sum.splits)
    (metis R_trans snd_conv)+

lemma along_attempt [preserves_intros]: "along R m \<Longrightarrow> along R (attempt m)"
  by (auto simp: along_def attempt_def split: prod.splits) (metis snd_conv)

lemma along_map_err [preserves_intros]: "along R m \<Longrightarrow> along R (map_err g m)"
  by (auto simp: along_def map_err_def split: prod.splits sum.splits) (metis snd_conv)+

lemma along_if [preserves_intros]:
  "\<lbrakk>b \<Longrightarrow> along R m; \<not> b \<Longrightarrow> along R m'\<rbrakk> \<Longrightarrow> along R (if b then m else m')"
  by simp

lemma along_case_option [preserves_intros]:
  "\<lbrakk>along R m; \<And>y. along R (f y)\<rbrakk> \<Longrightarrow> along R (case x of None \<Rightarrow> m | Some y \<Rightarrow> f y)"
  by (cases x) simp_all

lemma along_case_sum [preserves_intros]:
  "\<lbrakk>\<And>e. along R (f e); \<And>y. along R (g y)\<rbrakk> \<Longrightarrow> along R (case r of Inl e \<Rightarrow> f e | Inr y \<Rightarrow> g y)"
  by (cases r) simp_all

end

end
