(* ===== verification/Json.thy ===== *)
theory Json
  imports Prelude "HOL-Library.Multiset" "HOL-Library.List_Lexorder" "HOL-Library.Char_ord"
begin

text \<open>
  JSON values and the ordered string maps of the protocol crate
  (\<open>serde_json::Value\<close> and \<open>JsonMap = IndexMap<String, Value>\<close> of
  \<open>crates/ferrum-proto/src/common.rs\<close>), the accessors the sources call on them,
  and \<open>normalize_json_value\<close> of \<open>crates/ferrum-proto/src/execution.rs\<close>, which
  puts every object in key order before an action digest is taken.

  An object is the list of its entries in iteration order; keys are distinct
  (\<open>json_wf\<close>).  A number is one of the three representations \<open>serde_json\<close>
  has: an unsigned or a signed 64-bit integer, or the bits of a double.
\<close>

datatype jnum =
    PosInt "64 word"
  | NegInt "64 word"
  | Float "64 word"

datatype json =
    JNull
  | JBool bool
  | JNum jnum
  | JStr string
  | JArr "json list"
  | JObj "(string \<times> json) list"

type_synonym JsonMap = "(string \<times> json) list"

fun as_str :: "json \<Rightarrow> string option" where
  "as_str (JStr s) = Some s"
| "as_str _ = None"

fun as_bool :: "json \<Rightarrow> bool option" where
  "as_bool (JBool b) = Some b"
| "as_bool _ = None"

fun as_i64 :: "json \<Rightarrow> int option" where
  "as_i64 (JNum (PosInt n)) = (if uint n < 2 ^ 63 then Some (uint n) else None)"
| "as_i64 (JNum (NegInt n)) = Some (sint n)"
| "as_i64 _ = None"

text \<open>\<open>IndexMap::insert\<close> replaces the value of a present key in place and
  appends a new key at the end.\<close>

definition jm_insert :: "string \<Rightarrow> json \<Rightarrow> JsonMap \<Rightarrow> JsonMap" where
  "jm_insert k v m = AList.update k v m"

definition jm_get :: "JsonMap \<Rightarrow> string \<Rightarrow> json option" where
  "jm_get m k = map_of m k"

fun obj_get :: "json \<Rightarrow> string \<Rightarrow> json option" where
  "obj_get (JObj m) k = map_of m k"
| "obj_get _ k = None"

fun json_wf :: "json \<Rightarrow> bool" where
  "json_wf (JObj m) \<longleftrightarrow> distinct (map fst m) \<and> (\<forall>kv \<in> set m. json_wf (snd kv))"
| "json_wf (JArr xs) \<longleftrightarrow> (\<forall>x \<in> set xs. json_wf x)"
| "json_wf _ \<longleftrightarrow> True"

fun normalize_json_value :: "json \<Rightarrow> json" where
  "normalize_json_value (JObj m) =
     JObj (map (\<lambda>(k, v). (k, normalize_json_value v)) (sort_key fst m))"
| "normalize_json_value (JArr xs) = JArr (map normalize_json_value xs)"
| "normalize_json_value v = v"

text \<open>Two values are the same up to the order of object entries.\<close>

inductive json_same :: "json \<Rightarrow> json \<Rightarrow> bool" where
  Same_refl: "json_same v v"
| Same_arr: "list_all2 json_same xs ys \<Longrightarrow> json_same (JArr xs) (JArr ys)"
| Same_obj: "\<lbrakk>mset m' = mset m''; list_all2 (\<lambda>x y. fst x = fst y \<and> json_same (snd x) (snd y)) m m'\<rbrakk>
    \<Longrightarrow> json_same (JObj m) (JObj m'')"

lemma jm_get_insert [simp]:
  "jm_get (jm_insert k v m) k' = (if k = k' then Some v else jm_get m k')"
  by (simp add: jm_get_def jm_insert_def update_conv')

subsection \<open>Equality of values\<close>

text \<open>\<open>PartialEq\<close> of \<open>serde_json::Value\<close>: objects are maps, compared without regard to
  the order of their entries, and the two zeros of a float are equal.\<close>

fun num_eq :: "jnum \<Rightarrow> jnum \<Rightarrow> bool" where
  "num_eq (PosInt a) (PosInt b) = (a = b)"
| "num_eq (NegInt a) (NegInt b) = (a = b)"
| "num_eq (Float a) (Float b) = (a = b \<or> (take_bit 63 a = 0 \<and> take_bit 63 b = 0))"
| "num_eq _ _ = False"

function (sequential) json_eq :: "json \<Rightarrow> json \<Rightarrow> bool" where
  "json_eq (JObj m) (JObj m') =
     (length m = length m' \<and>
      list_all (\<lambda>kv. case map_of m' (fst kv) of None \<Rightarrow> False | Some w \<Rightarrow> json_eq (snd kv) w) m)"
| "json_eq (JArr xs) (JArr ys) =
     (length xs = length ys \<and> list_all (\<lambda>(x, y). json_eq x y) (zip xs ys))"
| "json_eq (JNum a) (JNum b) = num_eq a b"
| "json_eq (JStr s) (JStr t) = (s = t)"
| "json_eq (JBool a) (JBool b) = (a = b)"
| "json_eq JNull JNull = True"
| "json_eq _ _ = False"
  by pat_completeness auto

lemma size_snd_member: "(k, v) \<in> set m \<Longrightarrow> size v < Suc (size_list (size_prod (\<lambda>x. 0) size) m)"
  by (induction m) auto

lemma size_zip_member: "(x, y) \<in> set (zip xs ys) \<Longrightarrow> size x < Suc (size_list size xs)"
  by (drule set_zip_leftD) (induction xs, auto)

termination json_eq
  by (relation "measure (size \<circ> fst)") (auto simp: size_snd_member size_zip_member)

lemma num_eq_refl [simp]: "num_eq a a"
  by (cases a) simp_all

lemma json_eq_refl: "json_wf v \<Longrightarrow> json_eq v v"
proof (induction v rule: json_wf.induct)
  case (1 m)
  then show ?case
    by (auto simp: list_all_iff dest: map_of_is_SomeI)
next
  case (2 xs)
  then show ?case by (auto simp: list_all_iff zip_same)
qed simp_all

end
