(* ===== verification/Proto.thy ===== *)
theory Proto
  imports Json
begin

text \<open>
  The data of the protocol crate (\<open>crates/ferrum-proto/src\<close>): enums as
  datatypes and structs as records, in the order of the source files.  Enum
  constructors and record fields carry a short prefix of their type, because
  the source reuses names (\<open>Prepared\<close>, \<open>Revoked\<close>, \<open>metadata\<close>) across types:
  \<open>CapabilityStatus::Active\<close> is \<open>CS_Active\<close>, the field \<open>status\<close> of
  \<open>CapabilityLease\<close> is \<open>cl_status\<close>.
\<close>

subsection \<open>common.rs\<close>

datatype RiskTier = RT_Low | RT_Medium | RT_High | RT_Critical

datatype ApprovalMode = AM_None | AM_Required | AM_DraftOnly | AM_TwoPhaseCommit

datatype Decision = Allow | Deny | Quarantine | RequireApproval | AllowDraftOnly

datatype TrustLabel =
    Trusted | UserProvided | InternalPolicy | InternalSystem | ExternalWeb | ExternalEmail
  | ExternalRepoText | ExternalToolMetadata | ExternalToolOutput | OCRExtracted | Untrusted

datatype SensitivityLabel =
    SL_Public | SL_Internal | SL_Confidential | SL_Secret | SL_Credential | SL_Pii

datatype ResourceMode = RM_Read | RM_Write | RM_ReadWrite | RM_Draft | RM_Execute | RM_Admin

datatype HttpMethod = HM_Get | HM_Post | HM_Put | HM_Patch | HM_Delete

datatype RollbackClass =
    R0NativeReversible | R1SnapshotRecoverable | R2Compensatable | R3IrreversibleHighConsequence

record TimeBudget =
  tb_max_duration_ms :: "64 word"
  tb_max_steps :: "32 word"
  tb_max_retries_per_step :: "8 word"

record TrustContextSummary =
  tc_input_labels :: "TrustLabel list"
  tc_sensitivity_labels :: "SensitivityLabel list"
  tc_taint_score :: "8 word"
  tc_contains_external_metadata :: bool
  tc_contains_tool_output :: bool
  tc_contains_untrusted_text :: bool

datatype ActorType =
    AT_User | AT_Agent | AT_PolicyEngine | AT_Gateway | AT_Adapter | AT_Operator | AT_System

record ActorRef =
  ar_actor_type :: ActorType
  ar_actor_id :: string
  ar_display_name :: "string option"

datatype ObjectType =
    OT_Intent | OT_Proposal | OT_Capability | OT_ToolManifest | OT_ToolCall | OT_ToolOutput
  | OT_SideEffect | OT_RollbackContract | OT_Approval | OT_QuarantineHold | OT_PolicyBundle
  | OT_Message | OT_File | OT_GitRef | OT_SqlQuery | OT_HttpRequest | OT_EmailDraft
  | OT_ProvenanceEvent | OT_Unknown

record ObjectRef =
  or_object_type :: ObjectType
  or_object_id :: string
  or_summary :: "string option"

record HashChainRef =
  hc_content_hash :: "string option"
  hc_manifest_hash :: "string option"
  hc_policy_bundle_hash :: "string option"
  hc_previous_ledger_hash :: "string option"

subsection \<open>capability.rs\<close>

datatype CapabilityStatus = CS_Active | CS_Used | CS_Expired | CS_Revoked | CS_Quarantined

record ToolBinding =
  tb_server_name :: string
  tb_tool_name :: string
  tb_tool_version :: "string option"

datatype ResourceBinding =
    RB_File string ResourceMode "string option"
  | RB_Git string "string list" ResourceMode
  | RB_Sqlite string "string list" ResourceMode
  | RB_Http HttpMethod string string "string list" ResourceMode
  | RB_EmailDraft "string list" bool ResourceMode

datatype ArgumentConstraint =
    AC_ExactString string string
  | AC_StringOneOf string "string list"
  | AC_StringRegex string string
  | AC_IntRange string int int
  | AC_BoolExact string bool
  | AC_JsonPointerMustExist string
  | AC_JsonPointerMustNotExist string

record TaintBudget =
  tn_max_taint_score :: "8 word"
  tn_allow_external_tool_output :: bool
  tn_allow_external_metadata :: bool
  tn_allow_untrusted_text :: bool

record ApprovalBinding =
  ab_approval_id :: uuid
  ab_approver_roles :: "string list"
  ab_approved_action_digest :: string
  ab_expires_at :: timestamp

record CapabilityLease =
  cl_capability_id :: uuid
  cl_intent_id :: uuid
  cl_proposal_id :: uuid
  cl_tool_binding :: ToolBinding
  cl_resource_bindings :: "ResourceBinding list"
  cl_argument_constraints :: "ArgumentConstraint list"
  cl_taint_budget :: TaintBudget
  cl_approval_binding :: "ApprovalBinding option"
  cl_issued_by :: string
  cl_policy_bundle_id :: uuid
  cl_tool_manifest_id :: "string option"
  cl_manifest_hash :: "string option"
  cl_status :: CapabilityStatus
  cl_issued_at :: timestamp
  cl_expires_at :: timestamp
  cl_revoked_at :: "timestamp option"
  cl_metadata :: JsonMap
  cl_owner_actor_id :: "string option"

record CapabilityMintRequest =
  mr_intent_id :: uuid
  mr_proposal_id :: uuid
  mr_tool_binding :: ToolBinding
  mr_resource_bindings :: "ResourceBinding list"
  mr_argument_constraints :: "ArgumentConstraint list"
  mr_taint_budget :: TaintBudget
  mr_approval_binding :: "ApprovalBinding option"
  mr_requested_ttl_secs :: "64 word"
  mr_metadata :: JsonMap

record CapabilityMintResponse =
  mp_lease :: CapabilityLease
  mp_warnings :: "string list"

subsection \<open>intent.rs\<close>

datatype IntentStatus = IS_Active | IS_Expired | IS_Closed | IS_Quarantined | IS_Revoked

datatype EffectType =
    ReadOnlyAnalysis | DraftCreation | FileMutation | GitMutation | DatabaseMutation
  | ExternalApiCall | ExternalCommunication | Scheduling | AdministrativeChange

record OutcomeClause =
  oc_id :: string
  oc_description :: string
  oc_effect_type :: EffectType
  oc_required :: bool

record OutcomeReport =
  rp_execution_id :: uuid
  rp_actual_effect :: EffectType
  rp_description :: string
  rp_result_digest :: "string option"
  rp_adapter_success :: bool
  rp_adapter_metadata :: JsonMap

datatype ResourceSelector =
    RSel_FilesystemPath string ResourceMode "string option"
  | RSel_GitRepository string "string list" ResourceMode
  | RSel_SqliteDatabase string "string list" ResourceMode
  | RSel_HttpEndpoint HttpMethod string string ResourceMode
  | RSel_EmailDraft "string list" "string list" ResourceMode
  | RSel_McpTool string string ResourceMode
  | RSel_S3Bucket string "string list" ResourceMode

record IntentEnvelope =
  in_intent_id :: uuid
  in_principal_id :: uuid
  in_session_id :: "uuid option"
  in_channel_id :: "uuid option"
  in_title :: string
  in_goal :: string
  in_normalized_goal :: string
  in_allowed_outcomes :: "OutcomeClause list"
  in_forbidden_outcomes :: "OutcomeClause list"
  in_resource_scope :: "ResourceSelector list"
  in_risk_tier :: RiskTier
  in_approval_mode :: ApprovalMode
  in_default_rollback_class :: RollbackClass
  in_time_budget :: TimeBudget
  in_trust_context :: TrustContextSummary
  in_derived_from_event_ids :: "uuid list"
  in_tags :: "string list"
  in_metadata :: JsonMap
  in_status :: IntentStatus
  in_created_at :: timestamp
  in_expires_at :: timestamp
  in_owner_actor_id :: "string option"

definition allowed_effect_types :: "IntentEnvelope \<Rightarrow> EffectType list" where
  "allowed_effect_types i = map oc_effect_type (in_allowed_outcomes i)"

definition validate_intent :: "IntentEnvelope \<Rightarrow> string + unit" where
  "validate_intent i =
    (if in_allowed_outcomes i = [] then
       Inl ''intent envelope validation failed: allowed_outcomes is empty (at least one outcome is required)''
     else if in_expires_at i \<le> in_created_at i then
       Inl ''intent envelope validation failed: expires_at must be greater than created_at''
     else Inr ())"

subsection \<open>policy_bundle.rs\<close>

datatype Matcher =
    ScopeMismatch
  | TaintAtLeast "8 word"
  | ActionIsMutation
  | RollbackClassEquals string
  | ActionTypeEquals string
  | CriticalRiskNoApproval
  | ApprovalModeEquals string
  | UnknownMatcher json

text \<open>A priority is an \<open>i32\<close>; it is only compared, so it is an integer here
  (\<open>i32_max\<close> is its largest value).\<close>

definition i32_max :: int where
  "i32_max = 2147483647"

record PolicyRule =
  pr_id :: string
  pr_description :: string
  pr_decision :: Decision
  pr_priority :: int
  pr_matchers :: "Matcher list"

record PolicyBundle =
  pb_bundle_id :: string
  pb_version :: string
  pb_rules :: "PolicyRule list"
  pb_active :: bool
  pb_content_hash :: "string option"
  pb_created_at :: timestamp
  pb_updated_at :: timestamp

text \<open>The YAML form of a bundle, after \<open>serde_yaml\<close> has parsed it, and its
  conversion.  A matcher's \<open>value\<close> is the scalar \<open>serde_yaml\<close> read; \<open>as_u64\<close> of
  it is its unsigned integer if it is one, \<open>as_str\<close> its text if it is a string;
  the unknown-matcher branch keeps it as JSON.\<close>

record YamlMatcher =
  ym_matcher_type :: string
  ym_value :: "json option"

record YamlPolicyRule =
  yr_id :: string
  yr_description :: string
  yr_decision :: string
  yr_priority :: int
  yr_matchers :: "YamlMatcher list"

fun as_u64 :: "json \<Rightarrow> (64 word) option" where
  "as_u64 (JNum (PosInt n)) = Some n"
| "as_u64 _ = None"

definition parse_decision :: "string \<Rightarrow> Decision" where
  "parse_decision s = (let l = to_lowercase s in
     if l = ''allow'' then Allow
     else if l = ''deny'' then Deny
     else if l = ''quarantine'' then Quarantine
     else if l = ''requireapproval'' \<or> l = ''require_approval'' then RequireApproval
     else if l = ''allowdraftonly'' \<or> l = ''allow_draft_only'' then AllowDraftOnly
     else Deny)"

definition yaml_str_value :: "json option \<Rightarrow> string" where
  "yaml_str_value v = (case v of None \<Rightarrow> [] | Some x \<Rightarrow> unwrap_or (as_str x) [])"

text \<open>The cast \<open>as u8\<close> of \<open>taint_at_least\<close> keeps the low eight bits.\<close>

definition into_matcher :: "YamlMatcher \<Rightarrow> Matcher" where
  "into_matcher m = (let t = ym_matcher_type m; v = ym_value m in
     if t = ''scope_mismatch'' then ScopeMismatch
     else if t = ''taint_at_least'' then
       TaintAtLeast (ucast (unwrap_or (Option.bind v as_u64) 0))
     else if t = ''action_is_mutation'' then ActionIsMutation
     else if t = ''rollback_class_equals'' then RollbackClassEquals (yaml_str_value v)
     else if t = ''action_type_equals'' then ActionTypeEquals (yaml_str_value v)
     else if t = ''critical_risk_no_approval'' then CriticalRiskNoApproval
     else if t = ''approval_mode_equals'' then ApprovalModeEquals (yaml_str_value v)
     else UnknownMatcher (JObj [(''unknown_matcher_type'', JStr t),
                                (''value'', unwrap_or v JNull)]))"

definition into_policy_rule :: "YamlPolicyRule \<Rightarrow> PolicyRule" where
  "into_policy_rule r = \<lparr>pr_id = yr_id r, pr_description = yr_description r,
     pr_decision = parse_decision (yr_decision r), pr_priority = yr_priority r,
     pr_matchers = map into_matcher (yr_matchers r)\<rparr>"

end
