(* ===== verification/Proto_Execution.thy ===== *)
theory Proto_Execution
  imports Proto
begin

text \<open>
  The protocol data of an execution: \<open>execution.rs\<close> and \<open>rollback.rs\<close> of
  \<open>crates/ferrum-proto/src\<close>, with the explicit action binding a proposal's
  metadata may carry and the canonical action digest an approval is bound to.
  SHA-256, the JSON printer and the hex encoder are library code: their
  composition is the parameter \<open>hash_json\<close>.
\<close>

subsection \<open>execution.rs\<close>

record ActionProposal =
  ap_proposal_id :: uuid
  ap_intent_id :: uuid
  ap_step_index :: "32 word"
  ap_title :: string
  ap_tool_name :: string
  ap_server_name :: string
  ap_raw_arguments :: json
  ap_expected_effect :: string
  ap_estimated_risk :: RiskTier
  ap_requested_rollback_class :: RollbackClass
  ap_taint_inputs :: "string list"
  ap_metadata :: JsonMap
  ap_created_at :: timestamp
  ap_owner_actor_id :: "string option"

datatype ExecutionState =
    ES_Proposed | ES_Authorized | ES_Prepared | ES_Running | ES_AwaitingApproval
  | ES_AwaitingVerification | ES_RecoveryRequired | ES_Committed | ES_Compensated
  | ES_RolledBack | ES_Denied | ES_Quarantined | ES_Failed | ES_Canceled

record ExecutionRecord =
  ex_execution_id :: uuid
  ex_proposal_id :: uuid
  ex_intent_id :: uuid
  ex_capability_id :: uuid
  ex_rollback_contract_id :: "uuid option"
  ex_decision :: Decision
  ex_state :: ExecutionState
  ex_started_at :: timestamp
  ex_finished_at :: "timestamp option"
  ex_result_digest :: "string option"
  ex_metadata :: JsonMap
  ex_owner_actor_id :: "string option"

record CancelExecutionResponse =
  cr_execution_id :: uuid
  cr_previous_state :: ExecutionState
  cr_current_state :: ExecutionState
  cr_canceled_at :: timestamp

subsection \<open>rollback.rs\<close>

datatype RollbackState =
    RS_PendingPrepare | RS_Prepared | RS_RecoveryRequired | RS_ExecutedAwaitingVerify
  | RS_Verified | RS_Committed | RS_CompensationPending | RS_Compensated | RS_RolledBack
  | RS_Failed | RS_Expired

datatype ActionType =
    FileWrite | FileDelete | FileMove | FileCopy | FileAppend | FileChmod | DirCreate | DirDelete
  | GitCommit | GitBranchCreate | GitBranchDelete | GitTagCreate | GitTagDelete | GitPush
  | GitPull | GitFetch | SqlMutation | HttpMutation | EmailSend | MailDraft | McpToolMutation
  | S3PutObject | S3DeleteObject | S3GetObject | S3CopyObject | GcsPutObject | GcsDeleteObject
  | GcsGetObject | UnknownAction

datatype RollbackTarget =
    RTgt_FilePath string "string option" "string option"
  | RTgt_GitRef string "string option" "string option"
  | RTgt_SqliteTxn string string
  | RTgt_HttpRequest HttpMethod string string
  | RTgt_EmailDraft "string option" "string list"
  | RTgt_S3Object string string "string option"
  | RTgt_GcsObject string string "int option"
  | RTgt_Generic string string

datatype CheckType =
    FileExists | FileHashMatches | GitRefMatches | SqlRowCountRange | HttpStatusExpected
  | EmailDraftExists | JsonPredicate | S3ObjectExists | S3VersionIdMatches | GcsObjectExists
  | GcsGenerationMatches

record CheckSpec =
  ck_check_type :: CheckType
  ck_config :: JsonMap

record CompensationStep =
  cs_order :: "32 word"
  cs_adapter_key :: string
  cs_operation :: string
  cs_args :: JsonMap
  cs_idempotency_key :: string

record RollbackContract =
  rc_contract_id :: uuid
  rc_intent_id :: uuid
  rc_proposal_id :: uuid
  rc_execution_id :: uuid
  rc_action_type :: ActionType
  rc_rollback_class :: RollbackClass
  rc_adapter_key :: string
  rc_target :: RollbackTarget
  rc_prepare_checks :: "CheckSpec list"
  rc_verify_checks :: "CheckSpec list"
  rc_compensation_plan :: "CompensationStep list"
  rc_auto_commit :: bool
  rc_state :: RollbackState
  rc_created_at :: timestamp
  rc_expires_at :: "timestamp option"
  rc_metadata :: JsonMap

record ExecutionPlan =
  pl_prepare_checks :: "CheckSpec list"
  pl_verify_checks :: "CheckSpec list"
  pl_compensation_plan :: "CompensationStep list"
  pl_auto_commit :: bool
  pl_plan_description :: string

record RollbackPrepareRequest =
  rq_intent_id :: uuid
  rq_proposal_id :: uuid
  rq_execution_id :: uuid
  rq_action_type :: ActionType
  rq_rollback_class :: RollbackClass
  rq_adapter_key :: string
  rq_target :: RollbackTarget
  rq_prepare_checks :: "CheckSpec list"
  rq_verify_checks :: "CheckSpec list"
  rq_compensation_plan :: "CompensationStep list"
  rq_auto_commit :: bool
  rq_metadata :: JsonMap

record RollbackPrepareResponse =
  rs_contract :: RollbackContract
  rs_accepted :: bool
  rs_warnings :: "string list"

subsection \<open>The text of the enums\<close>

text \<open>The names \<open>serde\<close> and \<open>{:?}\<close> give to the constructors.\<close>

fun risk_tier_text :: "RiskTier \<Rightarrow> string" where
  "risk_tier_text RT_Low = ''Low''"
| "risk_tier_text RT_Medium = ''Medium''"
| "risk_tier_text RT_High = ''High''"
| "risk_tier_text RT_Critical = ''Critical''"

fun rollback_class_text :: "RollbackClass \<Rightarrow> string" where
  "rollback_class_text R0NativeReversible = ''R0NativeReversible''"
| "rollback_class_text R1SnapshotRecoverable = ''R1SnapshotRecoverable''"
| "rollback_class_text R2Compensatable = ''R2Compensatable''"
| "rollback_class_text R3IrreversibleHighConsequence = ''R3IrreversibleHighConsequence''"

fun approval_mode_text :: "ApprovalMode \<Rightarrow> string" where
  "approval_mode_text AM_None = ''None''"
| "approval_mode_text AM_Required = ''Required''"
| "approval_mode_text AM_DraftOnly = ''DraftOnly''"
| "approval_mode_text AM_TwoPhaseCommit = ''TwoPhaseCommit''"

fun decision_text :: "Decision \<Rightarrow> string" where
  "decision_text Allow = ''Allow''"
| "decision_text Deny = ''Deny''"
| "decision_text Quarantine = ''Quarantine''"
| "decision_text RequireApproval = ''RequireApproval''"
| "decision_text AllowDraftOnly = ''AllowDraftOnly''"

fun execution_state_text :: "ExecutionState \<Rightarrow> string" where
  "execution_state_text ES_Proposed = ''Proposed''"
| "execution_state_text ES_Authorized = ''Authorized''"
| "execution_state_text ES_Prepared = ''Prepared''"
| "execution_state_text ES_Running = ''Running''"
| "execution_state_text ES_AwaitingApproval = ''AwaitingApproval''"
| "execution_state_text ES_AwaitingVerification = ''AwaitingVerification''"
| "execution_state_text ES_RecoveryRequired = ''RecoveryRequired''"
| "execution_state_text ES_Committed = ''Committed''"
| "execution_state_text ES_Compensated = ''Compensated''"
| "execution_state_text ES_RolledBack = ''RolledBack''"
| "execution_state_text ES_Denied = ''Denied''"
| "execution_state_text ES_Quarantined = ''Quarantined''"
| "execution_state_text ES_Failed = ''Failed''"
| "execution_state_text ES_Canceled = ''Canceled''"

fun rollback_state_text :: "RollbackState \<Rightarrow> string" where
  "rollback_state_text RS_PendingPrepare = ''PendingPrepare''"
| "rollback_state_text RS_Prepared = ''Prepared''"
| "rollback_state_text RS_RecoveryRequired = ''RecoveryRequired''"
| "rollback_state_text RS_ExecutedAwaitingVerify = ''ExecutedAwaitingVerify''"
| "rollback_state_text RS_Verified = ''Verified''"
| "rollback_state_text RS_Committed = ''Committed''"
| "rollback_state_text RS_CompensationPending = ''CompensationPending''"
| "rollback_state_text RS_Compensated = ''Compensated''"
| "rollback_state_text RS_RolledBack = ''RolledBack''"
| "rollback_state_text RS_Failed = ''Failed''"
| "rollback_state_text RS_Expired = ''Expired''"

definition action_type_names :: "(string \<times> ActionType) list" where
  "action_type_names =
    [(''FileWrite'', FileWrite), (''FileDelete'', FileDelete), (''FileMove'', FileMove),
     (''FileCopy'', FileCopy), (''FileAppend'', FileAppend), (''FileChmod'', FileChmod),
     (''DirCreate'', DirCreate), (''DirDelete'', DirDelete), (''GitCommit'', GitCommit),
     (''GitBranchCreate'', GitBranchCreate), (''GitBranchDelete'', GitBranchDelete),
     (''GitTagCreate'', GitTagCreate), (''GitTagDelete'', GitTagDelete), (''GitPush'', GitPush),
     (''GitPull'', GitPull), (''GitFetch'', GitFetch), (''SqlMutation'', SqlMutation),
     (''HttpMutation'', HttpMutation), (''EmailSend'', EmailSend), (''MailDraft'', MailDraft),
     (''McpToolMutation'', McpToolMutation), (''S3PutObject'', S3PutObject),
     (''S3DeleteObject'', S3DeleteObject), (''S3GetObject'', S3GetObject),
     (''S3CopyObject'', S3CopyObject), (''GcsPutObject'', GcsPutObject),
     (''GcsDeleteObject'', GcsDeleteObject), (''GcsGetObject'', GcsGetObject),
     (''Unknown'', UnknownAction)]"

subsection \<open>Explicit action binding and action digest\<close>

record ActionBinding =
  bd_action_type :: ActionType
  bd_adapter_key :: string

datatype BindingError =
    BindingRequiresAdapterKey | BindingEmptyAdapterKey | BindingInvalidActionType
  | BindingUnknownActionType

definition action_binding_from_metadata :: "JsonMap \<Rightarrow> BindingError + ActionBinding option" where
  "action_binding_from_metadata md =
    (case jm_get md ''action_type'' of
       None \<Rightarrow> Inr None
     | Some atv \<Rightarrow>
       (case Option.bind (jm_get md ''adapter_key'') as_str of
          None \<Rightarrow> Inl BindingRequiresAdapterKey
        | Some key \<Rightarrow>
          if trim key = [] then Inl BindingEmptyAdapterKey
          else (case Option.bind (as_str atv) (map_of action_type_names) of
                  None \<Rightarrow> Inl BindingInvalidActionType
                | Some ty \<Rightarrow>
                  if ty = UnknownAction then Inl BindingUnknownActionType
                  else Inr (Some \<lparr>bd_action_type = ty, bd_adapter_key = key\<rparr>))))"

text \<open>The object whose normalized text is hashed.\<close>

definition digest_input :: "ActionProposal \<Rightarrow> json" where
  "digest_input p = JObj
    [(''intent_id'', JStr (ap_intent_id p)),
     (''proposal_id'', JStr (ap_proposal_id p)),
     (''tool_name'', JStr (ap_tool_name p)),
     (''server_name'', JStr (ap_server_name p)),
     (''raw_arguments'', normalize_json_value (ap_raw_arguments p)),
     (''expected_effect'', JStr (ap_expected_effect p)),
     (''estimated_risk'', JStr (risk_tier_text (ap_estimated_risk p))),
     (''requested_rollback_class'', JStr (rollback_class_text (ap_requested_rollback_class p)))]"

definition canonical_action_digest :: "(json \<Rightarrow> string) \<Rightarrow> ActionProposal \<Rightarrow> string" where
  "canonical_action_digest hash_json p = hash_json (normalize_json_value (digest_input p))"

end
