(* ===== verification/Proto_Provenance.thy ===== *)
theory Proto_Provenance
  imports Proto_Execution
begin

text \<open>
  Provenance events and edges (\<open>provenance.rs\<close>), the lifecycle outbox record
  with its provenance obligations (\<open>lifecycle_outbox.rs\<close>), approvals
  (\<open>approval.rs\<close>) and quarantine holds (\<open>quarantine.rs\<close>) of
  \<open>crates/ferrum-proto/src\<close>.
\<close>

subsection \<open>provenance.rs\<close>

datatype ProvenanceEventKind =
    UserGoalReceived | IntentCompiled | IntentRevoked | ActionProposalSubmitted | PolicyEvaluated
  | CapabilityMinted | CapabilityRevoked | ApprovalRequested | ApprovalGranted | ApprovalDenied
  | ApprovalTimedOut | ToolCallPrepared | ToolCallIntercepted | ToolCallExecuted
  | ToolOutputReceived | ToolOutputSanitized | DlpBlocked | SideEffectPrepared
  | SideEffectVerified | SideEffectCommitted | SideEffectCompensated | SideEffectRolledBack
  | Quarantined | QuarantineHoldCreated | QuarantineResolved | QuarantineTimedOut | ErrorRaised
  | ExternalEventReceived | PolicyBundleActivated | PolicyBundleDeactivated
  | PolicyBundleRolledBack

datatype ProvenanceEdgeType =
    DerivedFrom | AuthorizedBy | ApprovedBy | TaintedBy | UsesManifest | EvaluatedByPolicy
  | Caused | Compensates | Verifies | References

record ProvenanceEdge =
  ed_edge_type :: ProvenanceEdgeType
  ed_from_event_id :: uuid
  ed_to_event_id :: "uuid option"
  ed_summary :: "string option"

record ProvenanceEvent =
  ev_event_id :: uuid
  ev_kind :: ProvenanceEventKind
  ev_occurred_at :: timestamp
  ev_actor :: ActorRef
  ev_object :: ObjectRef
  ev_intent_id :: "uuid option"
  ev_proposal_id :: "uuid option"
  ev_execution_id :: "uuid option"
  ev_capability_id :: "uuid option"
  ev_rollback_contract_id :: "uuid option"
  ev_policy_bundle_id :: "uuid option"
  ev_trust_labels :: "TrustLabel list"
  ev_sensitivity_labels :: "SensitivityLabel list"
  ev_parent_edges :: "ProvenanceEdge list"
  ev_hash_chain :: HashChainRef
  ev_metadata :: JsonMap
  ev_source_runtime_id :: "string option"

fun lineage_parent_spec ::
  "ProvenanceEventKind \<Rightarrow> (ProvenanceEventKind \<times> ProvenanceEdgeType) option" where
  "lineage_parent_spec CapabilityMinted = Some (PolicyEvaluated, EvaluatedByPolicy)"
| "lineage_parent_spec CapabilityRevoked = Some (CapabilityMinted, References)"
| "lineage_parent_spec ApprovalGranted = Some (PolicyEvaluated, ApprovedBy)"
| "lineage_parent_spec ApprovalDenied = Some (PolicyEvaluated, ApprovedBy)"
| "lineage_parent_spec ApprovalTimedOut = Some (PolicyEvaluated, ApprovedBy)"
| "lineage_parent_spec QuarantineHoldCreated = Some (PolicyEvaluated, Caused)"
| "lineage_parent_spec QuarantineResolved = Some (QuarantineHoldCreated, Caused)"
| "lineage_parent_spec QuarantineTimedOut = Some (QuarantineHoldCreated, Caused)"
| "lineage_parent_spec ActionProposalSubmitted = Some (CapabilityMinted, AuthorizedBy)"
| "lineage_parent_spec SideEffectPrepared = Some (ActionProposalSubmitted, Caused)"
| "lineage_parent_spec ToolCallPrepared = Some (SideEffectPrepared, Caused)"
| "lineage_parent_spec ToolCallExecuted = Some (ToolCallPrepared, Caused)"
| "lineage_parent_spec SideEffectVerified = Some (ToolCallExecuted, Verifies)"
| "lineage_parent_spec SideEffectCommitted = Some (SideEffectVerified, Caused)"
| "lineage_parent_spec SideEffectCompensated = Some (ToolCallExecuted, Compensates)"
| "lineage_parent_spec SideEffectRolledBack = Some (ToolCallExecuted, Compensates)"
| "lineage_parent_spec _ = None"

record ProvenanceQueryRequest =
  pq_intent_id :: "uuid option"
  pq_execution_id :: "uuid option"
  pq_capability_id :: "uuid option"
  pq_event_kind :: "ProvenanceEventKind option"
  pq_since :: "timestamp option"
  pq_until :: "timestamp option"
  pq_edge_types :: "ProvenanceEdgeType list"

datatype LineageDirection = Ancestors | Descendants | BothDirections

subsection \<open>lifecycle_outbox.rs\<close>

datatype LifecycleOutboxStatus =
    PendingProvenance | ProvenanceWritten | Reconciled | NeedsOperatorReview

record ProvenanceObligation =
  ob_event_kind :: ProvenanceEventKind
  ob_parent_kind :: "ProvenanceEventKind option"
  ob_edge_type :: "ProvenanceEdgeType option"
  ob_event_id :: "uuid option"

definition obligation_pending :: "ProvenanceEventKind \<Rightarrow> ProvenanceObligation" where
  "obligation_pending k = (case lineage_parent_spec k of
     Some (p, e) \<Rightarrow> \<lparr>ob_event_kind = k, ob_parent_kind = Some p, ob_edge_type = Some e, ob_event_id = None\<rparr>
   | None \<Rightarrow> \<lparr>ob_event_kind = k, ob_parent_kind = None, ob_edge_type = None, ob_event_id = None\<rparr>)"

definition is_satisfied :: "ProvenanceObligation \<Rightarrow> bool" where
  "is_satisfied ob = (ob_event_id ob \<noteq> None)"

record LifecycleOutboxRecord =
  lo_outbox_id :: uuid
  lo_execution_id :: uuid
  lo_rollback_contract_id :: "uuid option"
  lo_previous_execution_state :: "ExecutionState option"
  lo_new_execution_state :: ExecutionState
  lo_previous_rollback_state :: "RollbackState option"
  lo_new_rollback_state :: "RollbackState option"
  lo_intended_provenance_kind :: ProvenanceEventKind
  lo_idempotency_key :: string
  lo_status :: LifecycleOutboxStatus
  lo_provenance_event_id :: "uuid option"
  lo_provenance_obligations :: "ProvenanceObligation list"
  lo_attempt_count :: "32 word"
  lo_last_error :: "string option"
  lo_created_at :: timestamp
  lo_updated_at :: timestamp
  lo_metadata :: JsonMap

text \<open>The fresh identifier and the clock reading of the constructor are its
  first two arguments.\<close>

definition pending_with_obligations ::
  "uuid \<Rightarrow> timestamp \<Rightarrow> uuid \<Rightarrow> uuid option \<Rightarrow> ExecutionState option \<Rightarrow> ExecutionState \<Rightarrow>
   RollbackState option \<Rightarrow> RollbackState option \<Rightarrow> ProvenanceEventKind list \<Rightarrow> string \<Rightarrow>
   LifecycleOutboxRecord" where
  "pending_with_obligations new_id now eid cid pes nes prs nrs kinds key =
    \<lparr>lo_outbox_id = new_id, lo_execution_id = eid, lo_rollback_contract_id = cid,
     lo_previous_execution_state = pes, lo_new_execution_state = nes,
     lo_previous_rollback_state = prs, lo_new_rollback_state = nrs,
     lo_intended_provenance_kind = (case kinds of [] \<Rightarrow> ErrorRaised | k # _ \<Rightarrow> k),
     lo_idempotency_key = key, lo_status = PendingProvenance, lo_provenance_event_id = None,
     lo_provenance_obligations = map obligation_pending kinds,
     lo_attempt_count = 0, lo_last_error = None, lo_created_at = now, lo_updated_at = now,
     lo_metadata = []\<rparr>"

definition outbox_pending ::
  "uuid \<Rightarrow> timestamp \<Rightarrow> uuid \<Rightarrow> uuid option \<Rightarrow> ExecutionState option \<Rightarrow> ExecutionState \<Rightarrow>
   RollbackState option \<Rightarrow> RollbackState option \<Rightarrow> ProvenanceEventKind \<Rightarrow> string \<Rightarrow>
   LifecycleOutboxRecord" where
  "outbox_pending new_id now eid cid pes nes prs nrs kind key =
     pending_with_obligations new_id now eid cid pes nes prs nrs [kind] key"

subsection \<open>approval.rs and quarantine.rs\<close>

definition CURRENT_RESOLVER_EVIDENCE_VERSION :: "32 word" where
  "CURRENT_RESOLVER_EVIDENCE_VERSION = 1"

datatype ApprovalState = AS_Pending | AS_Granted | AS_Denied | AS_Expired

record ApprovalRequest =
  aq_approval_id :: uuid
  aq_intent_id :: uuid
  aq_proposal_id :: uuid
  aq_execution_id :: "uuid option"
  aq_requested_by :: ActorRef
  aq_reason :: string
  aq_action_digest :: string
  aq_expires_at :: timestamp
  aq_state :: ApprovalState
  aq_created_at :: timestamp
  aq_resolver_evidence_version :: "(32 word) option"
  aq_owner_actor_id :: "string option"

datatype QuarantineHoldState = QS_Pending | QS_Allowed | QS_Denied | QS_Expired

record QuarantineHold =
  qh_hold_id :: uuid
  qh_intent_id :: uuid
  qh_proposal_id :: uuid
  qh_reason :: string
  qh_matched_rule_ids :: "string list"
  qh_policy_bundle_id :: "string option"
  qh_state :: QuarantineHoldState
  qh_expires_at :: timestamp
  qh_created_at :: timestamp
  qh_resolved_at :: "timestamp option"
  qh_resolved_by :: "ActorRef option"
  qh_resolution_reason :: "string option"
  qh_metadata :: JsonMap
  qh_owner_actor_id :: "string option"

end
