(* ===== verification/Samples.thy ===== *)
theory Samples
  imports Proto_Provenance
begin

text \<open>
  Concrete protocol values at which the properties of the other theories are
  evaluated: one intent with a file scope, a proposal that reads and one that
  writes that file, a trust context, a capability request and the actors.
\<close>

definition sample_trust :: TrustContextSummary where
  "sample_trust = \<lparr>tc_input_labels = [], tc_sensitivity_labels = [], tc_taint_score = 0,
     tc_contains_external_metadata = False, tc_contains_tool_output = False,
     tc_contains_untrusted_text = False\<rparr>"

definition sample_intent :: IntentEnvelope where
  "sample_intent = \<lparr>in_intent_id = ''i1'', in_principal_id = ''u1'', in_session_id = None,
     in_channel_id = None, in_title = ''t'', in_goal = ''g'', in_normalized_goal = ''g'',
     in_allowed_outcomes = [\<lparr>oc_id = ''w'', oc_description = ''write'', oc_effect_type = FileMutation,
       oc_required = True\<rparr>],
     in_forbidden_outcomes = [],
     in_resource_scope = [RSel_FilesystemPath ''/data'' RM_ReadWrite None],
     in_risk_tier = RT_Medium, in_approval_mode = AM_None,
     in_default_rollback_class = R1SnapshotRecoverable,
     in_time_budget = \<lparr>tb_max_duration_ms = 30000, tb_max_steps = 8, tb_max_retries_per_step = 1\<rparr>,
     in_trust_context = sample_trust, in_derived_from_event_ids = [], in_tags = [],
     in_metadata = [], in_status = IS_Active, in_created_at = 0,
     in_expires_at = 1000000000000, in_owner_actor_id = None\<rparr>"

definition sample_proposal :: ActionProposal where
  "sample_proposal = \<lparr>ap_proposal_id = ''p1'', ap_intent_id = ''i1'', ap_step_index = 0,
     ap_title = ''write'', ap_tool_name = ''fs_write'', ap_server_name = ''fs'',
     ap_raw_arguments = JObj [(''path'', JStr ''/data/a'')], ap_expected_effect = ''write file'',
     ap_estimated_risk = RT_Low, ap_requested_rollback_class = R1SnapshotRecoverable,
     ap_taint_inputs = [], ap_metadata = [], ap_created_at = 0, ap_owner_actor_id = None\<rparr>"

definition sample_mint_request :: CapabilityMintRequest where
  "sample_mint_request = \<lparr>mr_intent_id = ''i1'', mr_proposal_id = ''p1'',
     mr_tool_binding = \<lparr>tb_server_name = ''fs'', tb_tool_name = ''fs_write'', tb_tool_version = None\<rparr>,
     mr_resource_bindings = [RB_File ''/data'' RM_Write None], mr_argument_constraints = [],
     mr_taint_budget = \<lparr>tn_max_taint_score = 50, tn_allow_external_tool_output = False,
       tn_allow_external_metadata = False, tn_allow_untrusted_text = False\<rparr>,
     mr_approval_binding = None, mr_requested_ttl_secs = 60, mr_metadata = []\<rparr>"

end
