(* ===== verification/Pdp.thy ===== *)
theory Pdp
  imports Samples
begin

text \<open>
  The policy decision point, \<open>crates/ferrum-pdp/src\<close>: the hard-coded engine
  (\<open>engine.rs\<close>), the rule matchers (\<open>matchers.rs\<close>) and the policy-bundle
  engine (\<open>bundle_engine.rs\<close>), with the default bundle
  \<open>configs/policy-bundles/static-default.yaml\<close>.

  The lemmas characterise a bundle evaluation as the strictest decision of the
  highest matching priority group, show that both engines keep the contract
  \<open>pdp_contract\<close>, and that the bundle engine on the default bundle takes the
  same decision as the hard-coded one.
\<close>

record EvaluateProposalResponse =
  ep_decision :: Decision
  ep_reason :: string
  ep_matched_rule_ids :: "string list"
  ep_warnings :: "string list"

record EvaluateOutcomeResponse =
  eo_aligned :: bool
  eo_reason :: string
  eo_matched_rule_ids :: "string list"
  eo_warnings :: "string list"

fun effect_type_text :: "EffectType \<Rightarrow> string" where
  "effect_type_text ReadOnlyAnalysis = ''ReadOnlyAnalysis''"
| "effect_type_text DraftCreation = ''DraftCreation''"
| "effect_type_text FileMutation = ''FileMutation''"
| "effect_type_text GitMutation = ''GitMutation''"
| "effect_type_text DatabaseMutation = ''DatabaseMutation''"
| "effect_type_text ExternalApiCall = ''ExternalApiCall''"
| "effect_type_text ExternalCommunication = ''ExternalCommunication''"
| "effect_type_text Scheduling = ''Scheduling''"
| "effect_type_text AdministrativeChange = ''AdministrativeChange''"

subsection \<open>engine.rs\<close>

definition contains_any :: "string \<Rightarrow> string list \<Rightarrow> bool" where
  "contains_any s ps = list_ex (str_contains s) ps"

definition infer_effect_type :: "ActionProposal \<Rightarrow> EffectType" where
  "infer_effect_type p =
    (let tool_name = to_lowercase (ap_tool_name p);
         server_name = to_lowercase (ap_server_name p);
         expected_effect = to_lowercase (ap_expected_effect p);
         has_file_word = contains_any expected_effect [''file'', ''directory'', ''folder'', ''path''];
         has_mutation_word = contains_any expected_effect
           [''delete'', ''remove'', ''rename'', ''move'', ''create'', ''write'', ''modify'']
     in if contains_any tool_name [''sql'', ''db'', ''database''] then DatabaseMutation
        else if str_contains tool_name ''git'' \<or> str_contains server_name ''git'' then GitMutation
        else if has_file_word \<and> has_mutation_word then FileMutation
        else if contains_any tool_name [''http'', ''api'', ''fetch''] then ExternalApiCall
        else if contains_any tool_name [''email'', ''slack'', ''message'', ''send'']
          then ExternalCommunication
        else if contains_any tool_name [''schedule'', ''cron'', ''timer''] then Scheduling
        else if contains_any tool_name [''admin'', ''user'', ''permission'', ''role'']
          then AdministrativeChange
        else if contains_any expected_effect [''draft'', ''create''] then DraftCreation
        else if ap_requested_rollback_class p = R0NativeReversible then ReadOnlyAnalysis
        else if ap_requested_rollback_class p = R3IrreversibleHighConsequence
          then AdministrativeChange
        else ReadOnlyAnalysis)"

fun check_forbidden_outcomes :: "EffectType \<Rightarrow> OutcomeClause list \<Rightarrow> string option" where
  "check_forbidden_outcomes inferred [] = None"
| "check_forbidden_outcomes inferred (c # cs) =
    (if inferred = oc_effect_type c then
       Some (''forbidden outcome detected: '' @ oc_description c @ '' (effect_type='' @
             effect_type_text (oc_effect_type c) @ '')'')
     else check_forbidden_outcomes inferred cs)"

definition check_allowed_outcomes :: "EffectType \<Rightarrow> OutcomeClause list \<Rightarrow> string option" where
  "check_allowed_outcomes inferred allowed =
    (if allowed = [] then None
     else if list_ex (\<lambda>c. inferred = oc_effect_type c) allowed then None
     else Some (''advisory mismatch: inferred effect '' @ effect_type_text inferred @
                '' is not in allowed outcomes''))"

definition is_mutation :: "ActionProposal \<Rightarrow> bool" where
  "is_mutation p = (ap_requested_rollback_class p \<noteq> R0NativeReversible)"

definition static_evaluate ::
  "IntentEnvelope \<Rightarrow> ActionProposal \<Rightarrow> TrustContextSummary \<Rightarrow> EvaluateProposalResponse" where
  "static_evaluate i p t =
    (if in_resource_scope i = [] \<and> is_mutation p then
       \<lparr>ep_decision = Deny,
        ep_reason = ''scope mismatch: no resources authorized for mutation action'',
        ep_matched_rule_ids = [''scope.mismatch.empty.scope''], ep_warnings = []\<rparr>
     else if ap_estimated_risk p = RT_Critical \<and> in_approval_mode i = AM_None then
       \<lparr>ep_decision = RequireApproval,
        ep_reason = ''critical risk tier requires explicit approval mode'',
        ep_matched_rule_ids = [''approval.critical.risk.required''], ep_warnings = []\<rparr>
     else if 70 \<le> tc_taint_score t \<and> ap_requested_rollback_class p \<noteq> R0NativeReversible then
       \<lparr>ep_decision = Quarantine,
        ep_reason = ''taint score is too high for mutating or impactful action'',
        ep_matched_rule_ids = [''quarantine.high.taint.mutation''], ep_warnings = []\<rparr>
     else if ap_requested_rollback_class p = R3IrreversibleHighConsequence then
       \<lparr>ep_decision = RequireApproval,
        ep_reason = ''R3 action requires approval or draft-only handling'',
        ep_matched_rule_ids = [''approval.r3.required''], ep_warnings = []\<rparr>
     else if in_approval_mode i = AM_DraftOnly then
       \<lparr>ep_decision = AllowDraftOnly,
        ep_reason = ''intent requires draft-only execution'',
        ep_matched_rule_ids = [''draft.only.intent''],
        ep_warnings = [''intent enforces draft-only mode'']\<rparr>
     else
       (let inferred = infer_effect_type p in
        case check_forbidden_outcomes inferred (in_forbidden_outcomes i) of
          Some reason \<Rightarrow>
            \<lparr>ep_decision = Deny, ep_reason = reason,
             ep_matched_rule_ids = [''outcome.forbidden''], ep_warnings = []\<rparr>
        | None \<Rightarrow>
            (case check_allowed_outcomes inferred (in_allowed_outcomes i) of
               Some w \<Rightarrow>
                 \<lparr>ep_decision = Allow, ep_reason = ''proposal passed default scaffold policy'',
                  ep_matched_rule_ids = [''outcome.advisory.mismatch'', ''allow.default''],
                  ep_warnings = [w]\<rparr>
             | None \<Rightarrow>
                 \<lparr>ep_decision = Allow, ep_reason = ''proposal passed default scaffold policy'',
                  ep_matched_rule_ids = [''allow.default''], ep_warnings = []\<rparr>)))"

definition evaluate_outcome :: "IntentEnvelope \<Rightarrow> OutcomeReport \<Rightarrow> EvaluateOutcomeResponse" where
  "evaluate_outcome i r =
    (case check_forbidden_outcomes (rp_actual_effect r) (in_forbidden_outcomes i) of
       Some reason \<Rightarrow>
         \<lparr>eo_aligned = False, eo_reason = reason,
          eo_matched_rule_ids = [''outcome.forbidden''], eo_warnings = []\<rparr>
     | None \<Rightarrow>
         (let (ids, ws) =
            (case check_allowed_outcomes (rp_actual_effect r) (in_allowed_outcomes i) of
               Some w \<Rightarrow> ([''outcome.advisory.mismatch''], [w]) | None \<Rightarrow> ([], []))
          in if \<not> rp_adapter_success r then
               \<lparr>eo_aligned = False, eo_reason = ''adapter reported execution failure'',
                eo_matched_rule_ids = ids @ [''outcome.adapter.failure''], eo_warnings = ws\<rparr>
             else
               \<lparr>eo_aligned = True, eo_reason = ''outcome matches intent expectations'',
                eo_matched_rule_ids = ids @ [''outcome.aligned''], eo_warnings = ws\<rparr>))"

subsection \<open>matchers.rs\<close>

fun decision_strictness_rank :: "Decision \<Rightarrow> 8 word" where
  "decision_strictness_rank Allow = 0"
| "decision_strictness_rank AllowDraftOnly = 1"
| "decision_strictness_rank RequireApproval = 2"
| "decision_strictness_rank Quarantine = 3"
| "decision_strictness_rank Deny = 4"

definition stricter_decision :: "Decision \<Rightarrow> Decision \<Rightarrow> Decision" where
  "stricter_decision a b =
    (if decision_strictness_rank b \<le> decision_strictness_rank a then a else b)"

fun evaluate_matcher ::
  "Matcher \<Rightarrow> IntentEnvelope \<Rightarrow> ActionProposal \<Rightarrow> TrustContextSummary \<Rightarrow> bool" where
  "evaluate_matcher ScopeMismatch i p t =
     (in_resource_scope i = [] \<and> ap_requested_rollback_class p \<noteq> R0NativeReversible)"
| "evaluate_matcher (TaintAtLeast v) i p t = (v \<le> tc_taint_score t)"
| "evaluate_matcher ActionIsMutation i p t = (ap_requested_rollback_class p \<noteq> R0NativeReversible)"
| "evaluate_matcher (RollbackClassEquals v) i p t =
     (rollback_class_text (ap_requested_rollback_class p) = v)"
| "evaluate_matcher (ActionTypeEquals v) i p t = (effect_type_text (infer_effect_type p) = v)"
| "evaluate_matcher CriticalRiskNoApproval i p t =
     (ap_estimated_risk p = RT_Critical \<and> in_approval_mode i = AM_None)"
| "evaluate_matcher (ApprovalModeEquals v) i p t = (approval_mode_text (in_approval_mode i) = v)"
| "evaluate_matcher (UnknownMatcher extra) i p t = False"

definition evaluate_rule_matchers ::
  "PolicyRule \<Rightarrow> IntentEnvelope \<Rightarrow> ActionProposal \<Rightarrow> TrustContextSummary \<Rightarrow> bool" where
  "evaluate_rule_matchers r i p t = list_all (\<lambda>m. evaluate_matcher m i p t) (pr_matchers r)"

type_synonym rule_result = "(string \<times> Decision \<times> string) option"

definition bundle_rule_id :: "PolicyBundle \<Rightarrow> PolicyRule \<Rightarrow> string" where
  "bundle_rule_id b r = ''policy_bundle:'' @ pb_bundle_id b @ '':'' @ pr_id r"

definition bundle_rule_reason :: "PolicyBundle \<Rightarrow> PolicyRule \<Rightarrow> string" where
  "bundle_rule_reason b r = ''policy bundle '' @ pb_bundle_id b @ '' matched rule '' @ pr_id r @
     '': '' @ pr_description r"

text \<open>The \<open>for\<close> loop over the sorted rules, with its two mutable variables
  \<open>result\<close> and \<open>current_priority\<close> and its \<open>break\<close>; \<open>matches\<close> is the test of the
  rule's matchers in the context.\<close>

fun rules_loop ::
  "(PolicyRule \<Rightarrow> bool) \<Rightarrow> PolicyBundle \<Rightarrow> PolicyRule list \<Rightarrow> rule_result \<Rightarrow> int option \<Rightarrow> rule_result" where
  "rules_loop matches b [] result current = result"
| "rules_loop matches b (r # rs) result current =
    (if (case current of Some p \<Rightarrow> p \<noteq> pr_priority r | None \<Rightarrow> False) \<and> result \<noteq> None then result
     else if matches r then
       rules_loop matches b rs
         (case result of
            Some (existing_id, existing_decision, _) \<Rightarrow>
              Some (existing_id @ ''+'' @ bundle_rule_id b r,
                    stricter_decision existing_decision (pr_decision r), bundle_rule_reason b r)
          | None \<Rightarrow> Some (bundle_rule_id b r, pr_decision r, bundle_rule_reason b r))
         (Some (pr_priority r))
     else rules_loop matches b rs result current)"

definition evaluate_bundle_rules ::
  "PolicyBundle \<Rightarrow> IntentEnvelope \<Rightarrow> ActionProposal \<Rightarrow> TrustContextSummary \<Rightarrow> rule_result" where
  "evaluate_bundle_rules b i p t =
     rules_loop (\<lambda>r. evaluate_rule_matchers r i p t) b
       (sort_key (\<lambda>r. - pr_priority r) (pb_rules b)) None None"

definition invariant_reason :: "string \<Rightarrow> string" where
  "invariant_reason rule_id =
    (if rule_id = ''invariant.scope_mismatch'' then
       ''scope mismatch: no resources authorized for mutation action''
     else if rule_id = ''invariant.critical_risk_no_approval'' then
       ''critical risk tier requires explicit approval mode''
     else ''invariant rule matched: '' @ rule_id)"

subsection \<open>bundle_engine.rs\<close>

definition invariant_rules :: "PolicyRule list" where
  "invariant_rules =
    [\<lparr>pr_id = ''invariant.scope_mismatch'',
      pr_description = ''Deny mutating actions when no resource scope is declared'',
      pr_decision = Deny, pr_priority = i32_max, pr_matchers = [ScopeMismatch]\<rparr>,
     \<lparr>pr_id = ''invariant.critical_risk_no_approval'',
      pr_description = ''Critical risk with no approval mode requires approval'',
      pr_decision = RequireApproval, pr_priority = i32_max - 1,
      pr_matchers = [CriticalRiskNoApproval]\<rparr>]"

definition evaluate_bundle ::
  "PolicyBundle \<Rightarrow> IntentEnvelope \<Rightarrow> ActionProposal \<Rightarrow> TrustContextSummary \<Rightarrow>
   EvaluateProposalResponse option" where
  "evaluate_bundle b i p t =
     map_option (\<lambda>(rule_id, decision, reason).
         \<lparr>ep_decision = decision,
          ep_reason = (if str_contains rule_id '':invariant.'' then invariant_reason rule_id else reason),
          ep_matched_rule_ids = [rule_id], ep_warnings = []\<rparr>)
       (evaluate_bundle_rules (b\<lparr>pb_rules := pb_rules b @ invariant_rules\<rparr>) i p t)"

fun find_map :: "('a \<Rightarrow> 'b option) \<Rightarrow> 'a list \<Rightarrow> 'b option" where
  "find_map f [] = None"
| "find_map f (x # xs) = (case f x of Some y \<Rightarrow> Some y | None \<Rightarrow> find_map f xs)"

definition bundles_evaluate ::
  "PolicyBundle list \<Rightarrow> IntentEnvelope \<Rightarrow> ActionProposal \<Rightarrow> TrustContextSummary \<Rightarrow>
   EvaluateProposalResponse" where
  "bundles_evaluate bundles i p t =
    (let response =
       (case find_map (\<lambda>b. evaluate_bundle b i p t) bundles of
          Some r \<Rightarrow> r
        | None \<Rightarrow> \<lparr>ep_decision = Allow, ep_reason = ''no policy bundle rule matched; default allow'',
                   ep_matched_rule_ids = [''allow.default''], ep_warnings = []\<rparr>)
     in if ep_decision response = Allow then
          (let inferred = infer_effect_type p in
           case check_forbidden_outcomes inferred (in_forbidden_outcomes i) of
             Some reason \<Rightarrow>
               \<lparr>ep_decision = Deny, ep_reason = reason,
                ep_matched_rule_ids = [''outcome.forbidden''], ep_warnings = ep_warnings response\<rparr>
           | None \<Rightarrow>
               (case check_allowed_outcomes inferred (in_allowed_outcomes i) of
                  Some w \<Rightarrow>
                    \<lparr>ep_decision = Allow, ep_reason = ep_reason response,
                     ep_matched_rule_ids =
                       ep_matched_rule_ids response @ [''outcome.advisory.mismatch''],
                     ep_warnings = ep_warnings response @ [w]\<rparr>
                | None \<Rightarrow> response))
        else response)"

subsection \<open>The default bundle\<close>

definition static_default_yaml :: "YamlPolicyRule list" where
  "static_default_yaml =
    [\<lparr>yr_id = ''quarantine.high.taint.mutation'',
      yr_description = ''Quarantine mutating actions with high taint'',
      yr_decision = ''Quarantine'', yr_priority = 90,
      yr_matchers = [\<lparr>ym_matcher_type = ''taint_at_least'', ym_value = Some (JNum (PosInt 70))\<rparr>,
                     \<lparr>ym_matcher_type = ''action_is_mutation'', ym_value = None\<rparr>]\<rparr>,
     \<lparr>yr_id = ''approval.r3.required'', yr_description = ''Require approval for R3 actions'',
      yr_decision = ''RequireApproval'', yr_priority = 80,
      yr_matchers = [\<lparr>ym_matcher_type = ''rollback_class_equals'',
                      ym_value = Some (JStr ''R3IrreversibleHighConsequence'')\<rparr>]\<rparr>,
     \<lparr>yr_id = ''draft.only.intent'',
      yr_description = ''Force draft-only execution when intent approval mode is DraftOnly'',
      yr_decision = ''AllowDraftOnly'', yr_priority = 70,
      yr_matchers = [\<lparr>ym_matcher_type = ''approval_mode_equals'',
                      ym_value = Some (JStr ''DraftOnly'')\<rparr>]\<rparr>,
     \<lparr>yr_id = ''allow.default'', yr_description = ''Default allow when no other rule matches'',
      yr_decision = ''Allow'', yr_priority = 0, yr_matchers = []\<rparr>]"

definition static_default_bundle :: PolicyBundle where
  "static_default_bundle =
    \<lparr>pb_bundle_id = ''static-default'', pb_version = ''0.1.0'',
     pb_rules = map into_policy_rule static_default_yaml, pb_active = False,
     pb_content_hash = None, pb_created_at = 0, pb_updated_at = 0\<rparr>"

definition strictest :: "Decision list \<Rightarrow> Decision" where
  "strictest ds =
    (if Deny \<in> set ds then Deny else if Quarantine \<in> set ds then Quarantine
     else if RequireApproval \<in> set ds then RequireApproval
     else if AllowDraftOnly \<in> set ds then AllowDraftOnly else Allow)"

definition top_group_decision :: "PolicyRule list \<Rightarrow> Decision option" where
  "top_group_decision ms =
    (if ms = [] then None
     else (let top = Max (set (map pr_priority ms))
           in Some (strictest (map pr_decision (filter (\<lambda>r. pr_priority r = top) ms)))))"

lemma strictest_Cons2: "strictest (stricter_decision a b # ds) = strictest (a # b # ds)"
  by (cases a; cases b) (simp_all add: strictest_def stricter_decision_def word_le_nat_alt)

lemma strictest_single [simp]: "strictest [d] = d"
  by (cases d) (simp_all add: strictest_def)

lemma strictest_set_cong: "set ds = set es \<Longrightarrow> strictest ds = strictest es"
  by (simp add: strictest_def)

abbreviation result_decision :: "rule_result \<Rightarrow> Decision option" where
  "result_decision r \<equiv> map_option (\<lambda>x. fst (snd x)) r"

lemma rules_loop_in_group:
  assumes "sorted (map (\<lambda>r. - pr_priority r) rs)" and "\<forall>r \<in> set rs. pr_priority r \<le> q"
  shows "result_decision (rules_loop mt b rs (Some (i, d, e)) (Some q)) =
    Some (strictest (d # map pr_decision (filter (\<lambda>r. mt r \<and> pr_priority r = q) rs)))"
  using assms
proof (induction rs arbitrary: i d e)
  case (Cons r rs)
  show ?case
  proof (cases "pr_priority r = q")
    case True
    then show ?thesis using Cons by (auto simp flip: strictest_Cons2)
  next
    case False
    with Cons.prems have "filter (\<lambda>r. mt r \<and> pr_priority r = q) rs = []"
      by (auto simp: filter_empty_conv)
    with False show ?thesis by simp
  qed
qed simp

lemma Max_eq_of_bound: "finite A \<Longrightarrow> x \<in> A \<Longrightarrow> \<forall>y \<in> A. y \<le> (x::int) \<Longrightarrow> Max A = x"
  by (simp add: Max_eqI)

lemma rules_loop_spec:
  assumes "sorted (map (\<lambda>r. - pr_priority r) rs)"
  shows "result_decision (rules_loop mt b rs None None) = top_group_decision (filter mt rs)"
  using assms
proof (induction rs)
  case Nil
  then show ?case by (simp add: top_group_decision_def)
next
  case (Cons r rs)
  show ?case
  proof (cases "mt r")
    case True
    have le: "\<forall>x \<in> set rs. pr_priority x \<le> pr_priority r"
      using Cons.prems by auto
    then have top: "Max (insert (pr_priority r) (pr_priority ` set (filter mt rs))) = pr_priority r"
      by (intro Max_eq_of_bound) auto
    have "filter (\<lambda>x. pr_priority x = pr_priority r) (filter mt rs) =
          filter (\<lambda>x. mt x \<and> pr_priority x = pr_priority r) rs"
      by (simp add: conj_commute)
    with True top show ?thesis
      using rules_loop_in_group [OF _ le, of mt b "bundle_rule_id b r" "pr_decision r" "bundle_rule_reason b r"]
        Cons.prems
      by (simp add: top_group_decision_def)
  next
    case False
    then show ?thesis using Cons by simp
  qed
qed

lemma top_group_decision_set_cong:
  assumes "set ms = set ms'"
  shows "top_group_decision ms = top_group_decision ms'"
proof -
  have "(ms = []) = (ms' = [])" using assms by (metis set_empty)
  with assms show ?thesis
    by (auto simp: top_group_decision_def Let_def intro!: strictest_set_cong)
qed

lemma evaluate_bundle_rules_decision:
  "result_decision (evaluate_bundle_rules b i p t) =
   top_group_decision (filter (\<lambda>r. evaluate_rule_matchers r i p t) (pb_rules b))"
proof -
  let ?k = "\<lambda>r. - pr_priority r" and ?m = "\<lambda>r. evaluate_rule_matchers r i p t"
  have "result_decision (evaluate_bundle_rules b i p t) =
        top_group_decision (filter ?m (sort_key ?k (pb_rules b)))"
    unfolding evaluate_bundle_rules_def by (rule rules_loop_spec) simp
  also have "\<dots> = top_group_decision (filter ?m (pb_rules b))"
    by (rule top_group_decision_set_cong) simp
  finally show ?thesis .
qed

lemma find_map_Cons_Some: "f x = Some y \<Longrightarrow> find_map f (x # xs) = Some y"
  by simp

lemma check_forbidden_outcomes_None_iff:
  "check_forbidden_outcomes e cs = None \<longleftrightarrow> (\<forall>c \<in> set cs. oc_effect_type c \<noteq> e)"
  by (induction cs) auto

locale pdp_contract =
  fixes evaluate :: "IntentEnvelope \<Rightarrow> ActionProposal \<Rightarrow> TrustContextSummary \<Rightarrow> EvaluateProposalResponse"
  assumes scope_denied:
    "in_resource_scope i = [] \<Longrightarrow> is_mutation p \<Longrightarrow> ep_decision (evaluate i p t) = Deny"
    and critical_held:
    "ap_estimated_risk p = RT_Critical \<Longrightarrow> in_approval_mode i = AM_None \<Longrightarrow>
     ep_decision (evaluate i p t) \<in> {Deny, Quarantine, RequireApproval}"
    and forbidden_not_allowed:
    "c \<in> set (in_forbidden_outcomes i) \<Longrightarrow> oc_effect_type c = infer_effect_type p \<Longrightarrow>
     ep_decision (evaluate i p t) \<noteq> Allow"
begin

lemma allow_safe:
  assumes "ep_decision (evaluate i p t) = Allow"
  shows "in_resource_scope i \<noteq> [] \<or> ap_requested_rollback_class p = R0NativeReversible"
    and "ap_estimated_risk p \<noteq> RT_Critical \<or> in_approval_mode i \<noteq> AM_None"
    and "\<forall>c \<in> set (in_forbidden_outcomes i). oc_effect_type c \<noteq> infer_effect_type p"
  using assms scope_denied [of i p t] critical_held [of p i t] forbidden_not_allowed [of _ i p t]
  by (auto simp: is_mutation_def)

end

interpretation static_pdp: pdp_contract static_evaluate
proof
  fix i p t c
  show "in_resource_scope i = [] \<Longrightarrow> is_mutation p \<Longrightarrow> ep_decision (static_evaluate i p t) = Deny"
    by (simp add: static_evaluate_def)
  show "ap_estimated_risk p = RT_Critical \<Longrightarrow> in_approval_mode i = AM_None \<Longrightarrow>
     ep_decision (static_evaluate i p t) \<in> {Deny, Quarantine, RequireApproval}"
    by (simp add: static_evaluate_def)
  show "c \<in> set (in_forbidden_outcomes i) \<Longrightarrow> oc_effect_type c = infer_effect_type p \<Longrightarrow>
     ep_decision (static_evaluate i p t) \<noteq> Allow"
    by (auto simp: static_evaluate_def Let_def check_forbidden_outcomes_None_iff split: option.splits)
qed

definition operator_source :: "PolicyBundle list \<Rightarrow> bool" where
  "operator_source bs = (bs \<noteq> [] \<and> (\<forall>b \<in> set bs. \<forall>r \<in> set (pb_rules b). pr_priority r < i32_max))"

lemma strictest_ge:
  "d \<in> set ds \<Longrightarrow> decision_strictness_rank d \<le> decision_strictness_rank (strictest ds)"
  by (cases d) (auto simp: strictest_def word_le_nat_alt)

lemma top_group_ge:
  assumes "r \<in> set ms" and "\<forall>x \<in> set ms. pr_priority x \<le> pr_priority r"
  shows "\<exists>d. top_group_decision ms = Some d \<and>
             decision_strictness_rank (pr_decision r) \<le> decision_strictness_rank d"
proof -
  have top: "Max (pr_priority ` set ms) = pr_priority r"
    using assms by (intro Max_eq_of_bound) auto
  have "decision_strictness_rank (pr_decision r) \<le>
        decision_strictness_rank (strictest (map pr_decision (filter (\<lambda>x. pr_priority x = pr_priority r) ms)))"
    using assms(1) by (intro strictest_ge) auto
  with assms(1) top show ?thesis by (auto simp: top_group_decision_def)
qed

lemma evaluate_bundle_decision:
  "map_option ep_decision (evaluate_bundle b i p t) =
   top_group_decision (filter (\<lambda>r. evaluate_rule_matchers r i p t) (pb_rules b @ invariant_rules))"
  using evaluate_bundle_rules_decision [of "b\<lparr>pb_rules := pb_rules b @ invariant_rules\<rparr>" i p t]
  by (simp add: evaluate_bundle_def option.map_comp comp_def split_beta)

text \<open>The outcome post-pass only turns an \<open>Allow\<close> into a \<open>Deny\<close>.\<close>

lemma bundles_evaluate_decision:
  "ep_decision (bundles_evaluate bs i p t) =
    (let d = (case find_map (\<lambda>b. map_option ep_decision (evaluate_bundle b i p t)) bs of
                Some d \<Rightarrow> d | None \<Rightarrow> Allow)
     in if d = Allow \<and> (\<exists>c \<in> set (in_forbidden_outcomes i). oc_effect_type c = infer_effect_type p)
        then Deny else d)"
proof -
  have fm: "find_map (\<lambda>b. map_option ep_decision (evaluate_bundle b i p t)) bs =
            map_option ep_decision (find_map (\<lambda>b. evaluate_bundle b i p t) bs)"
    by (induction bs) (auto split: option.splits)
  show ?thesis
  proof (cases "check_forbidden_outcomes (infer_effect_type p) (in_forbidden_outcomes i)")
    case None
    then have "\<not> (\<exists>c \<in> set (in_forbidden_outcomes i). oc_effect_type c = infer_effect_type p)"
      by (auto simp: check_forbidden_outcomes_None_iff)
    with None show ?thesis
      by (auto simp: bundles_evaluate_def Let_def fm split: option.splits)
  next
    case (Some x)
    then have "\<exists>c \<in> set (in_forbidden_outcomes i). oc_effect_type c = infer_effect_type p"
      by (metis check_forbidden_outcomes_None_iff option.distinct(1))
    with Some show ?thesis
      by (auto simp: bundles_evaluate_def Let_def fm split: option.splits)
  qed
qed

lemma rank_Deny [simp]: "4 \<le> decision_strictness_rank d \<longleftrightarrow> d = Deny"
  by (cases d) (simp_all add: word_le_nat_alt)

lemma rank_held: "2 \<le> decision_strictness_rank d \<longleftrightarrow> d \<in> {Deny, Quarantine, RequireApproval}"
  by (cases d) (simp_all add: word_le_nat_alt)

lemma evaluate_bundle_scope:
  assumes "\<forall>r \<in> set (pb_rules b). pr_priority r \<le> i32_max"
    and "in_resource_scope i = []" "is_mutation p"
  shows "map_option ep_decision (evaluate_bundle b i p t) = Some Deny"
proof -
  let ?ms = "filter (\<lambda>r. evaluate_rule_matchers r i p t) (pb_rules b @ invariant_rules)"
  have "hd invariant_rules \<in> set ?ms" "\<forall>x \<in> set ?ms. pr_priority x \<le> pr_priority (hd invariant_rules)"
    using assms by (auto simp: invariant_rules_def evaluate_rule_matchers_def is_mutation_def)
  from top_group_ge [OF this] show ?thesis
    by (auto simp: evaluate_bundle_decision) (simp add: invariant_rules_def)
qed

lemma evaluate_bundle_critical:
  assumes "\<forall>r \<in> set (pb_rules b). pr_priority r < i32_max"
    and "ap_estimated_risk p = RT_Critical" "in_approval_mode i = AM_None"
  shows "\<exists>d. map_option ep_decision (evaluate_bundle b i p t) = Some d \<and>
             d \<in> {Deny, Quarantine, RequireApproval}"
proof (cases "in_resource_scope i = [] \<and> is_mutation p")
  case True
  with evaluate_bundle_scope [of b i p t] assms(1) show ?thesis by fastforce
next
  case False
  let ?ms = "filter (\<lambda>r. evaluate_rule_matchers r i p t) (pb_rules b @ invariant_rules)"
  let ?r = "last invariant_rules"
  have "?r \<in> set ?ms" "\<forall>x \<in> set ?ms. pr_priority x \<le> pr_priority ?r"
    using assms False by (auto simp: invariant_rules_def evaluate_rule_matchers_def is_mutation_def)
  from top_group_ge [OF this] show ?thesis
    by (auto simp: evaluate_bundle_decision invariant_rules_def rank_held)
qed

lemma bundles_pdp_contract:
  assumes "operator_source bs"
  shows "pdp_contract (bundles_evaluate bs)"
proof -
  obtain b bs' where bs: "bs = b # bs'" and pr: "\<forall>r \<in> set (pb_rules b). pr_priority r < i32_max"
    using assms by (cases bs) (auto simp: operator_source_def)
  show ?thesis
  proof
    fix i p t c
    show "ep_decision (bundles_evaluate bs i p t) = Deny"
      if "in_resource_scope i = []" "is_mutation p"
      using evaluate_bundle_scope [OF _ that, of b t] pr
      by (auto simp: bundles_evaluate_decision bs less_imp_le)
    show "ep_decision (bundles_evaluate bs i p t) \<in> {Deny, Quarantine, RequireApproval}"
      if "ap_estimated_risk p = RT_Critical" "in_approval_mode i = AM_None"
      using evaluate_bundle_critical [OF pr that, of t]
      by (auto simp: bundles_evaluate_decision bs)
    show "ep_decision (bundles_evaluate bs i p t) \<noteq> Allow"
      if "c \<in> set (in_forbidden_outcomes i)" "oc_effect_type c = infer_effect_type p"
      using that by (auto simp: bundles_evaluate_decision Let_def)
  qed
qed

lemma static_default_rules:
  "pb_rules static_default_bundle =
    [\<lparr>pr_id = ''quarantine.high.taint.mutation'',
      pr_description = ''Quarantine mutating actions with high taint'',
      pr_decision = Quarantine, pr_priority = 90,
      pr_matchers = [TaintAtLeast 70, ActionIsMutation]\<rparr>,
     \<lparr>pr_id = ''approval.r3.required'', pr_description = ''Require approval for R3 actions'',
      pr_decision = RequireApproval, pr_priority = 80,
      pr_matchers = [RollbackClassEquals ''R3IrreversibleHighConsequence'']\<rparr>,
     \<lparr>pr_id = ''draft.only.intent'',
      pr_description = ''Force draft-only execution when intent approval mode is DraftOnly'',
      pr_decision = AllowDraftOnly, pr_priority = 70,
      pr_matchers = [ApprovalModeEquals ''DraftOnly'']\<rparr>,
     \<lparr>pr_id = ''allow.default'', pr_description = ''Default allow when no other rule matches'',
      pr_decision = Allow, pr_priority = 0, pr_matchers = []\<rparr>]"
  by code_simp

lemma static_default_operator_source: "operator_source [static_default_bundle]"
  by (simp add: operator_source_def static_default_rules i32_max_def)

interpretation default_pdp: pdp_contract "bundles_evaluate [static_default_bundle]"
  by (rule bundles_pdp_contract [OF static_default_operator_source])

lemma rollback_class_text_R3 [simp]:
  "rollback_class_text c = ''R3IrreversibleHighConsequence'' \<longleftrightarrow> c = R3IrreversibleHighConsequence"
  by (cases c) simp_all

lemma approval_mode_text_Draft [simp]:
  "approval_mode_text m = ''DraftOnly'' \<longleftrightarrow> m = AM_DraftOnly"
  by (cases m) simp_all

definition base_decision :: "IntentEnvelope \<Rightarrow> ActionProposal \<Rightarrow> TrustContextSummary \<Rightarrow> Decision" where
  "base_decision i p t =
    (if in_resource_scope i = [] \<and> is_mutation p then Deny
     else if ap_estimated_risk p = RT_Critical \<and> in_approval_mode i = AM_None then RequireApproval
     else if 70 \<le> tc_taint_score t \<and> is_mutation p then Quarantine
     else if ap_requested_rollback_class p = R3IrreversibleHighConsequence then RequireApproval
     else if in_approval_mode i = AM_DraftOnly then AllowDraftOnly
     else Allow)"

lemma top_group_sorted_distinct:
  assumes "sorted_wrt (\<lambda>a b. pr_priority b < pr_priority a) rs"
  shows "top_group_decision (filter mt rs) = map_option pr_decision (find mt rs)"
  using assms
proof (induction rs)
  case Nil
  then show ?case by (simp add: top_group_decision_def)
next
  case (Cons r rs)
  show ?case
  proof (cases "mt r")
    case True
    have lt: "\<forall>x \<in> set rs. pr_priority x < pr_priority r" using Cons.prems by simp
    then have "Max (insert (pr_priority r) (pr_priority ` set (filter mt rs))) = pr_priority r"
      by (intro Max_eq_of_bound) auto
    moreover have "filter (\<lambda>x. pr_priority x = pr_priority r) (filter mt rs) = []"
      using lt by (fastforce simp: filter_empty_conv)
    ultimately show ?thesis using True by (simp add: top_group_decision_def del: filter_filter)
  next
    case False
    then show ?thesis using Cons by simp
  qed
qed

lemma evaluate_static_default_bundle:
  "map_option ep_decision (evaluate_bundle static_default_bundle i p t) = Some (base_decision i p t)"
proof -
  let ?mt = "\<lambda>r. evaluate_rule_matchers r i p t"
  have "map_option ep_decision (evaluate_bundle static_default_bundle i p t) =
        top_group_decision (filter ?mt (invariant_rules @ pb_rules static_default_bundle))"
    unfolding evaluate_bundle_decision by (rule top_group_decision_set_cong) auto
  also have "\<dots> = map_option pr_decision (find ?mt (invariant_rules @ pb_rules static_default_bundle))"
    by (rule top_group_sorted_distinct)
      (simp add: static_default_rules invariant_rules_def i32_max_def)
  also have "\<dots> = Some (base_decision i p t)"
    by (simp add: static_default_rules invariant_rules_def evaluate_rule_matchers_def
        base_decision_def is_mutation_def)
  finally show ?thesis .
qed

lemma static_evaluate_decision:
  "ep_decision (static_evaluate i p t) =
    (if base_decision i p t = Allow \<and>
        (\<exists>c \<in> set (in_forbidden_outcomes i). oc_effect_type c = infer_effect_type p)
     then Deny else base_decision i p t)"
proof -
  have "(\<exists>c \<in> set (in_forbidden_outcomes i). oc_effect_type c = infer_effect_type p) =
        (check_forbidden_outcomes (infer_effect_type p) (in_forbidden_outcomes i) \<noteq> None)"
    by (auto simp: check_forbidden_outcomes_None_iff)
  then show ?thesis
    by (simp add: static_evaluate_def base_decision_def is_mutation_def Let_def split: option.split)
qed

lemma bundle_evaluate_max_priority_allow:
  assumes "pb_rules b = [r]" "pr_matchers r = []" "pr_decision r = Allow" "pr_priority r = i32_max"
    and "in_resource_scope i \<noteq> []"
  shows "map_option ep_decision (evaluate_bundle b i p t) = Some Allow"
proof -
  let ?mt = "\<lambda>r. evaluate_rule_matchers r i p t"
  have "top_group_decision (filter ?mt (pb_rules b @ invariant_rules)) =
        top_group_decision (filter ?mt [r, last invariant_rules])"
    using assms by (simp add: invariant_rules_def evaluate_rule_matchers_def)
  also have "\<dots> = Some Allow"
    using assms
    by (subst top_group_sorted_distinct) (simp_all add: invariant_rules_def evaluate_rule_matchers_def)
  finally show ?thesis by (simp only: evaluate_bundle_decision)
qed

subsection \<open>Properties\<close>

text \<open>C22: the rule loop of a bundle (stable sort by descending priority, early
  exit when a lower priority group starts, combination inside a group) takes
  exactly the strictest decision among the matching rules of the highest
  matching priority, and takes no decision exactly when no rule matches.\<close>

theorem bundle_rules_strictest_of_top_group:
  "map_option (\<lambda>x. fst (snd x)) (evaluate_bundle_rules b i p t) =
   top_group_decision (filter (\<lambda>r. evaluate_rule_matchers r i p t) (pb_rules b))"
  by (rule evaluate_bundle_rules_decision)

text \<open>C10: on the default bundle shipped with the repository, the
  policy-bundle engine takes the same decision as the hard-coded engine, for
  every intent, proposal and trust context.\<close>

theorem default_bundle_parity:
  "ep_decision (bundles_evaluate [static_default_bundle] i p t) = ep_decision (static_evaluate i p t)"
  by (simp add: bundles_evaluate_decision evaluate_static_default_bundle static_evaluate_decision Let_def)

text \<open>C11: whatever rules an operator writes with priorities below \<open>i32::MAX\<close>,
  a proposal the bundle engine allows is not a mutation without resource scope,
  is not of critical risk under an intent without approval mode, and has no
  effect the intent forbids.\<close>

theorem bundles_allow_only_safe:
  assumes "operator_source bs" and "ep_decision (bundles_evaluate bs i p t) = Allow"
  shows "(in_resource_scope i \<noteq> [] \<or> ap_requested_rollback_class p = R0NativeReversible) \<and>
    (ap_estimated_risk p \<noteq> RT_Critical \<or> in_approval_mode i \<noteq> AM_None) \<and>
    (\<forall>c \<in> set (in_forbidden_outcomes i). oc_effect_type c \<noteq> infer_effect_type p)"
  using pdp_contract.allow_safe [OF bundles_pdp_contract [OF assms(1)] assms(2)] by blast

theorem bundles_allow_only_safe_witness:
  "in_resource_scope sample_intent \<noteq> [] \<and>
   ep_decision (bundles_evaluate [static_default_bundle] sample_intent sample_proposal sample_trust) = Allow"
proof -
  have "ep_decision (bundles_evaluate [static_default_bundle] sample_intent sample_proposal sample_trust) = Allow"
    by (simp add: bundles_evaluate_decision evaluate_static_default_bundle base_decision_def
        is_mutation_def sample_intent_def sample_proposal_def sample_trust_def)
  with bundles_allow_only_safe [OF static_default_operator_source this] show ?thesis
    by (auto simp: sample_intent_def sample_proposal_def)
qed

text \<open>C23: the exact condition under which the hard-coded engine allows a
  proposal.\<close>

theorem static_allow_iff:
  "ep_decision (static_evaluate i p t) = Allow \<longleftrightarrow>
    (in_resource_scope i \<noteq> [] \<or> ap_requested_rollback_class p = R0NativeReversible) \<and>
    (ap_estimated_risk p \<noteq> RT_Critical \<or> in_approval_mode i \<noteq> AM_None) \<and>
    (tc_taint_score t < 70 \<or> ap_requested_rollback_class p = R0NativeReversible) \<and>
    ap_requested_rollback_class p \<noteq> R3IrreversibleHighConsequence \<and>
    in_approval_mode i \<noteq> AM_DraftOnly \<and>
    \<not> list_ex (\<lambda>c. oc_effect_type c = infer_effect_type p) (in_forbidden_outcomes i)"
  by (auto simp: static_evaluate_decision list_ex_iff base_decision_def is_mutation_def not_le)

theorem static_allow_iff_witness:
  "ep_decision (static_evaluate sample_intent sample_proposal sample_trust) = Allow"
  unfolding static_allow_iff
  by (simp add: sample_intent_def sample_proposal_def sample_trust_def)

text \<open>C24: an operator rule at priority \<open>i32::MAX\<close> that always matches with
  \<open>Allow\<close> switches off the critical-risk invariant, which sits at
  \<open>i32::MAX - 1\<close>: a critical proposal under an intent without approval mode is
  then allowed.\<close>

theorem max_priority_rule_overrides_invariant:
  assumes "pb_rules b = [r]" "pr_matchers r = []" "pr_decision r = Allow" "pr_priority r = i32_max"
    and "in_resource_scope i \<noteq> []" "in_forbidden_outcomes i = []"
    and "ap_estimated_risk p = RT_Critical" "in_approval_mode i = AM_None"
  shows "ep_decision (bundles_evaluate [b] i p t) = Allow"
  using bundle_evaluate_max_priority_allow [OF assms(1-5), of p t] assms(6)
  by (auto simp: bundles_evaluate_decision)

theorem max_priority_rule_overrides_invariant_witness:
  "ep_decision (bundles_evaluate
      [static_default_bundle\<lparr>pb_rules := [\<lparr>pr_id = ''all'', pr_description = ''all'',
         pr_decision = Allow, pr_priority = i32_max, pr_matchers = []\<rparr>]\<rparr>]
      sample_intent (sample_proposal\<lparr>ap_estimated_risk := RT_Critical\<rparr>) sample_trust) = Allow"
  by (rule max_priority_rule_overrides_invariant [where r = "\<lparr>pr_id = ''all'', pr_description = ''all'',
         pr_decision = Allow, pr_priority = i32_max, pr_matchers = []\<rparr>"])
    (simp_all add: sample_intent_def)

end
