(* ===== verification/Resource_Scope.thy ===== *)
theory Resource_Scope
  imports Samples
begin

text \<open>
  Containment of a capability's resource bindings in an intent's resource
  scope, \<open>crates/ferrum-gateway/src/execution/resource_scope.rs\<close>.

  A path is the list of its components as \<open>std::path\<close> iterates over them on
  Unix: the root component is the text \<open>/\<close>, an ordinary component never
  contains a slash, empty components and \<open>.\<close> are skipped.  The file system
  (\<open>exists\<close>, \<open>canonicalize\<close>) and the URL parser are parameters.
\<close>

type_synonym path = "string list"

record fs =
  fs_exists :: "path \<Rightarrow> bool"
  fs_canonicalize :: "path \<Rightarrow> path option"

record url =
  u_scheme :: string
  u_host :: "string option"
  u_port :: "(16 word) option"
  u_username :: string
  u_password :: "string option"
  u_path :: string

type_synonym url_parser = "string \<Rightarrow> url option"

fun mode_allows :: "ResourceMode \<Rightarrow> ResourceMode \<Rightarrow> bool" where
  "mode_allows scope binding =
    (scope = binding \<or> scope = RM_Admin \<or>
     (scope = RM_ReadWrite \<and> binding \<in> {RM_Read, RM_Write, RM_ReadWrite}))"

definition list_is_subset :: "string list \<Rightarrow> string list \<Rightarrow> bool" where
  "list_is_subset binding scope = (scope = [] \<or> list_all (\<lambda>x. x \<in> set scope) binding)"

fun split_on :: "char \<Rightarrow> string \<Rightarrow> string list" where
  "split_on c [] = [[]]"
| "split_on c (x # xs) =
    (if x = c then [] # split_on c xs
     else (case split_on c xs of [] \<Rightarrow> [[x]] | w # ws \<Rightarrow> (x # w) # ws))"

definition path_root :: string where
  "path_root = ''/''"

text \<open>The components of a path text, with \<open>.\<close> kept out and \<open>..\<close> kept in.\<close>

definition path_components :: "string \<Rightarrow> path" where
  "path_components s =
    (if starts_with s ''/'' then [path_root] else []) @
    filter (\<lambda>w. w \<noteq> [] \<and> w \<noteq> ''.'') (split_on CHR ''/'' s)"

definition lexical_normalize :: "string \<Rightarrow> path option" where
  "lexical_normalize s =
    (let cs = path_components s in if ''..'' \<in> set cs then None else Some cs)"

text \<open>The loop walks up to the nearest existing ancestor, collecting the missing
  tail; the path is given reversed, the tail in order.  The root and the empty
  path have neither a file name nor a parent.\<close>

fun canonicalize_loop :: "fs \<Rightarrow> path \<Rightarrow> path \<Rightarrow> path option" where
  "canonicalize_loop f [] tail =
    (if fs_exists f [] then map_option (\<lambda>r. r @ tail) (fs_canonicalize f []) else None)"
| "canonicalize_loop f (c # rcs) tail =
    (if fs_exists f (rev (c # rcs)) then
       map_option (\<lambda>r. r @ tail) (fs_canonicalize f (rev (c # rcs)))
     else if c = path_root then None
     else canonicalize_loop f rcs (c # tail))"

definition canonicalize_with_missing_tail :: "fs \<Rightarrow> path \<Rightarrow> path option" where
  "canonicalize_with_missing_tail f p = canonicalize_loop f (rev p) []"

definition path_within_scope :: "fs \<Rightarrow> string \<Rightarrow> string \<Rightarrow> bool" where
  "path_within_scope f candidate scope =
    (case lexical_normalize candidate of
       None \<Rightarrow> False
     | Some c \<Rightarrow>
       (case lexical_normalize scope of
          None \<Rightarrow> False
        | Some s \<Rightarrow>
          if \<not> prefix s c then False
          else (case (canonicalize_with_missing_tail f c, canonicalize_with_missing_tail f s) of
                  (Some c', Some s') \<Rightarrow> prefix s' c'
                | _ \<Rightarrow> True)))"

definition trim_start_slashes :: "string \<Rightarrow> string" where
  "trim_start_slashes s = dropWhile (\<lambda>c. c = CHR ''/'') s"

definition url_path_within_scope :: "fs \<Rightarrow> string \<Rightarrow> string \<Rightarrow> bool" where
  "url_path_within_scope f candidate scope =
     path_within_scope f (''/'' @ trim_start_slashes candidate) (''/'' @ trim_start_slashes scope)"

definition http_base_within_scope :: "fs \<Rightarrow> url_parser \<Rightarrow> string \<Rightarrow> string \<Rightarrow> bool" where
  "http_base_within_scope f parse candidate scope =
    (case parse candidate of
       None \<Rightarrow> False
     | Some c \<Rightarrow>
       (case parse scope of
          None \<Rightarrow> False
        | Some s \<Rightarrow>
          u_scheme c = u_scheme s \<and> u_host c = u_host s \<and> u_port c = u_port s \<and>
          u_username c = u_username s \<and> u_password c = u_password s \<and>
          url_path_within_scope f (u_path c) (u_path s)))"

text \<open>Does one scope selector cover one binding?\<close>

fun selector_covers :: "fs \<Rightarrow> url_parser \<Rightarrow> ResourceBinding \<Rightarrow> ResourceSelector \<Rightarrow> bool" where
  "selector_covers f parse (RB_File path mode required_hash)
      (RSel_FilesystemPath scope_path scope_mode content_hash) =
    (path_within_scope f path scope_path \<and> mode_allows scope_mode mode \<and>
     (case content_hash of None \<Rightarrow> True | Some h \<Rightarrow> required_hash = Some h))"
| "selector_covers f parse (RB_Git repo_path allowed_refs mode)
      (RSel_GitRepository scope_repo_path scope_refs scope_mode) =
    (path_within_scope f repo_path scope_repo_path \<and> list_is_subset allowed_refs scope_refs \<and>
     mode_allows scope_mode mode)"
| "selector_covers f parse (RB_Sqlite db_path tables mode)
      (RSel_SqliteDatabase scope_db_path scope_tables scope_mode) =
    (path_within_scope f db_path scope_db_path \<and> list_is_subset tables scope_tables \<and>
     mode_allows scope_mode mode)"
| "selector_covers f parse (RB_Http meth base_url path_prefix headers mode)
      (RSel_HttpEndpoint scope_method scope_base_url scope_path_prefix scope_mode) =
    (meth = scope_method \<and> http_base_within_scope f parse base_url scope_base_url \<and>
     url_path_within_scope f path_prefix scope_path_prefix \<and> mode_allows scope_mode mode)"
| "selector_covers f parse (RB_EmailDraft recipients allow_send mode)
      (RSel_EmailDraft recipient_allowlist subjects scope_mode) =
    (list_all (\<lambda>r. list_ex (\<lambda>a. suffix a r) recipient_allowlist) recipients \<and>
     mode_allows scope_mode mode)"
| "selector_covers f parse _ _ = False"

datatype ScopeViolation = ScopeEmpty | BindingNotCovered ResourceBinding

fun first_uncovered ::
  "fs \<Rightarrow> url_parser \<Rightarrow> ResourceBinding list \<Rightarrow> ResourceSelector list \<Rightarrow> ResourceBinding option" where
  "first_uncovered f parse [] scope = None"
| "first_uncovered f parse (b # bs) scope =
    (if list_ex (selector_covers f parse b) scope then first_uncovered f parse bs scope else Some b)"

definition validate_resource_bindings_subset_of_scope ::
  "fs \<Rightarrow> url_parser \<Rightarrow> ResourceBinding list \<Rightarrow> ResourceSelector list \<Rightarrow> ScopeViolation + unit" where
  "validate_resource_bindings_subset_of_scope f parse bindings scope =
    (if bindings = [] then Inr ()
     else if scope = [] then Inl ScopeEmpty
     else (case first_uncovered f parse bindings scope of
             Some b \<Rightarrow> Inl (BindingNotCovered b) | None \<Rightarrow> Inr ()))"

subsection \<open>Lemmas\<close>

lemma first_uncovered_None:
  "first_uncovered f parse bs scope = None \<longleftrightarrow>
   (\<forall>b \<in> set bs. \<exists>s \<in> set scope. selector_covers f parse b s)"
  by (induction bs) (auto simp: list_ex_iff)

lemma validate_bindings_iff:
  "validate_resource_bindings_subset_of_scope f parse bs scope = Inr () \<longleftrightarrow>
   (\<forall>b \<in> set bs. \<exists>s \<in> set scope. selector_covers f parse b s)"
  using first_uncovered_None [of f parse bs scope]
  by (cases bs)
    (auto simp: validate_resource_bindings_subset_of_scope_def simp del: first_uncovered.simps
      split: option.splits)

lemma path_within_scope_lexical:
  assumes "path_within_scope f c s"
  shows "\<exists>rest. path_components c = path_components s @ rest \<and>
          ''..'' \<notin> set (path_components c)"
  using assms
  by (auto simp: path_within_scope_def lexical_normalize_def Let_def prefix_def
      split: option.splits if_splits)

lemma mode_allows_refl: "mode_allows m m"
  by simp

lemma mode_allows_trans: "mode_allows a b \<Longrightarrow> mode_allows b c \<Longrightarrow> mode_allows a c"
  by (cases a; cases b; cases c) simp_all

lemma path_within_scope_canonical:
  assumes "path_within_scope f c s"
    and "canonicalize_with_missing_tail f (path_components c) = Some c'"
    and "canonicalize_with_missing_tail f (path_components s) = Some s'"
  shows "prefix s' c'"
  using assms
  by (auto simp: path_within_scope_def lexical_normalize_def Let_def split: option.splits if_splits)

lemma file_binding_covered:
  assumes "selector_covers f parse (RB_File p m h) sel"
  obtains sp sm ch where "sel = RSel_FilesystemPath sp sm ch" "path_within_scope f p sp"
    "mode_allows sm m" "ch = None \<or> h = ch"
  using assms by (cases sel) (auto split: option.splits)

lemma path_components_dot: "path_components ''.'' = []"
  by (simp add: path_components_def starts_with_def)

subsection \<open>Properties\<close>

text \<open>C12: when the bindings of a capability pass the scope check, every file it
  names lies component-wise below the path of some file selector of the intent,
  contains no parent component, stays below it after symbolic links are
  resolved (whenever both paths resolve), asks for a mode the selector allows
  and pins the content hash the selector pins.\<close>

theorem accepted_file_binding_contained:
  assumes "validate_resource_bindings_subset_of_scope f parse bs scope = Inr ()"
    and "RB_File p m h \<in> set bs"
  shows "\<exists>sp sm ch rest. RSel_FilesystemPath sp sm ch \<in> set scope \<and>
    path_components p = path_components sp @ rest \<and> ''..'' \<notin> set (path_components p) \<and>
    (\<forall>p' sp'. canonicalize_with_missing_tail f (path_components p) = Some p' \<and>
       canonicalize_with_missing_tail f (path_components sp) = Some sp' \<longrightarrow> prefix sp' p') \<and>
    mode_allows sm m \<and> (ch = None \<or> h = ch)"
proof -
  from assms obtain sel where sel: "sel \<in> set scope" "selector_covers f parse (RB_File p m h) sel"
    by (auto simp: validate_bindings_iff)
  obtain sp sm ch where s: "sel = RSel_FilesystemPath sp sm ch" "path_within_scope f p sp"
    "mode_allows sm m" "ch = None \<or> h = ch"
    using sel(2) by (rule file_binding_covered)
  then show ?thesis
    using sel(1) path_within_scope_lexical [OF s(2)] path_within_scope_canonical [OF s(2)] by blast
qed

theorem accepted_file_binding_contained_witness:
  "\<exists>sp sm ch rest. RSel_FilesystemPath sp sm ch \<in> set (in_resource_scope sample_intent) \<and>
    path_components ''/data/a'' = path_components sp @ rest"
proof -
  let ?f = "\<lparr>fs_exists = (\<lambda>p. True), fs_canonicalize = (\<lambda>p. Some p)\<rparr>"
  have "validate_resource_bindings_subset_of_scope ?f (\<lambda>_. None)
     [RB_File ''/data/a'' RM_Write None] (in_resource_scope sample_intent) = Inr ()"
    by (simp add: validate_resource_bindings_subset_of_scope_def sample_intent_def
        path_within_scope_def lexical_normalize_def path_components_def starts_with_def
        path_root_def canonicalize_with_missing_tail_def)
  from accepted_file_binding_contained [OF this] show ?thesis by fastforce
qed

text \<open>the scope check is monotone: a capability accepted for a scope stays
  accepted when the scope grows or bindings are dropped, so narrowing a
  capability or widening an intent never turns an accepted pair into a
  rejected one.\<close>

theorem scope_check_monotone:
  assumes "validate_resource_bindings_subset_of_scope f parse bs scope = Inr ()"
    and "set bs' \<subseteq> set bs" "set scope \<subseteq> set scope'"
  shows "validate_resource_bindings_subset_of_scope f parse bs' scope' = Inr ()"
  using assms by (auto simp: validate_bindings_iff) blast

theorem scope_check_monotone_witness:
  "validate_resource_bindings_subset_of_scope \<lparr>fs_exists = (\<lambda>p. True), fs_canonicalize = (\<lambda>p. Some p)\<rparr>
     (\<lambda>_. None) [] (in_resource_scope sample_intent) = Inr ()"
  by (rule scope_check_monotone [where bs = "[RB_File ''/data/a'' RM_Write None]"
        and scope = "in_resource_scope sample_intent"])
    (simp_all add: validate_resource_bindings_subset_of_scope_def sample_intent_def
      path_within_scope_def lexical_normalize_def path_components_def starts_with_def
      path_root_def canonicalize_with_missing_tail_def)

text \<open>a file selector whose path is \<open>.\<close> normalizes to the empty path, which
  is a prefix of every path and (since the empty path does not exist) skips the
  canonical comparison: it covers every file of the machine that is named
  without a parent component, not only those below the working directory.\<close>

theorem dot_scope_covers_every_file:
  assumes "\<not> fs_exists f []" and "''..'' \<notin> set (path_components p)"
  shows "validate_resource_bindings_subset_of_scope f parse [RB_File p m h]
    [RSel_FilesystemPath ''.'' m None] = Inr ()"
proof -
  have "canonicalize_with_missing_tail f [] = None"
    using assms(1) by (simp add: canonicalize_with_missing_tail_def)
  with assms(2) have "path_within_scope f p ''.''"
    by (auto simp: path_within_scope_def lexical_normalize_def Let_def path_components_dot
        split: option.splits)
  then show ?thesis by (simp add: validate_bindings_iff)
qed

theorem dot_scope_covers_every_file_witness:
  "validate_resource_bindings_subset_of_scope \<lparr>fs_exists = (\<lambda>p. p \<noteq> []), fs_canonicalize = (\<lambda>p. Some p)\<rparr>
     (\<lambda>_. None) [RB_File ''/etc/passwd'' RM_Write None] [RSel_FilesystemPath ''.'' RM_Write None] = Inr ()"
  by (rule dot_scope_covers_every_file)
    (simp_all add: path_components_def starts_with_def path_root_def)

end
