(* ===== verification/Rollback.thy ===== *)
theory Rollback
  imports Samples
begin

text \<open>
  The rollback service, \<open>crates/ferrum-rollback/src\<close>.  An adapter is the record
  of its operations (the trait \<open>RollbackAdapter\<close>); the adapters themselves act on
  files, repositories and remote services and are parameters of the model, as
  are the planners.  The registry, the no-op adapter and the whole of
  \<open>RollbackService\<close> are modelled.
\<close>

subsection \<open>adapter.rs\<close>

datatype AdapterError =
    AE_Unsupported string
  | AE_Validation string
  | AE_Internal string
  | AE_DuplicateKey string

record PrepareReceipt =
  pc_accepted :: bool
  pc_adapter_metadata :: JsonMap

record ExecuteReceipt =
  xr_external_id :: "string option"
  xr_result_digest :: "string option"
  xr_adapter_metadata :: JsonMap

record VerifyReceipt =
  vr_verified :: bool
  vr_adapter_metadata :: JsonMap

datatype VerifyOutcome = Applied | NotApplied | Indeterminate

record VerifyOutcomeReceipt =
  vo_outcome :: VerifyOutcome
  vo_adapter_metadata :: JsonMap

record RecoveryReceipt =
  rr_recovered :: bool
  rr_adapter_metadata :: JsonMap

definition verify_receipt_outcome :: "VerifyReceipt \<Rightarrow> VerifyOutcome" where
  "verify_receipt_outcome r = (if vr_verified r then Applied else Indeterminate)"

record RollbackAdapter =
  ad_key :: string
  ad_prepare :: "RollbackPrepareRequest \<Rightarrow> AdapterError + PrepareReceipt"
  ad_execute :: "RollbackContract \<Rightarrow> json \<Rightarrow> AdapterError + ExecuteReceipt"
  ad_verify :: "RollbackContract \<Rightarrow> AdapterError + VerifyReceipt"
  ad_verify_with_outcome :: "RollbackContract \<Rightarrow> AdapterError + VerifyOutcomeReceipt"
  ad_compensate :: "RollbackContract \<Rightarrow> AdapterError + RecoveryReceipt"
  ad_rollback :: "RollbackContract \<Rightarrow> AdapterError + RecoveryReceipt"

text \<open>The default method of the trait for \<open>verify_with_outcome\<close>.\<close>

definition default_verify_with_outcome ::
  "(RollbackContract \<Rightarrow> AdapterError + VerifyReceipt) \<Rightarrow> RollbackContract \<Rightarrow>
   AdapterError + VerifyOutcomeReceipt" where
  "default_verify_with_outcome verify c =
    (case verify c of
       Inl e \<Rightarrow> Inl e
     | Inr r \<Rightarrow> Inr \<lparr>vo_outcome = verify_receipt_outcome r, vo_adapter_metadata = vr_adapter_metadata r\<rparr>)"

type_synonym AdapterRegistry = "string \<rightharpoonup> RollbackAdapter"

text \<open>\<open>register\<close> panics on a duplicate key (\<open>None\<close>).\<close>

definition registry_register :: "RollbackAdapter \<Rightarrow> AdapterRegistry \<Rightarrow> AdapterRegistry option" where
  "registry_register a r = (if r (ad_key a) \<noteq> None then None else Some (r(ad_key a \<mapsto> a)))"

definition registry_try_register ::
  "RollbackAdapter \<Rightarrow> AdapterRegistry \<Rightarrow> AdapterError + AdapterRegistry" where
  "registry_try_register a r =
    (if r (ad_key a) \<noteq> None then Inl (AE_DuplicateKey (ad_key a)) else Inr (r(ad_key a \<mapsto> a)))"

definition registry_get :: "AdapterRegistry \<Rightarrow> string \<Rightarrow> RollbackAdapter option" where
  "registry_get r key = r key"

definition NoopRollbackAdapter :: "string \<Rightarrow> RollbackAdapter" where
  "NoopRollbackAdapter key =
    (let verify = (\<lambda>c. Inr \<lparr>vr_verified = True, vr_adapter_metadata = []\<rparr>)
     in \<lparr>ad_key = key,
         ad_prepare = (\<lambda>r. Inr \<lparr>pc_accepted = True, pc_adapter_metadata = []\<rparr>),
         ad_execute = (\<lambda>c p. Inr \<lparr>xr_external_id = None, xr_result_digest = Some ''noop-execution'',
                                  xr_adapter_metadata = []\<rparr>),
         ad_verify = verify,
         ad_verify_with_outcome = default_verify_with_outcome verify,
         ad_compensate = (\<lambda>c. Inr \<lparr>rr_recovered = True, rr_adapter_metadata = []\<rparr>),
         ad_rollback = (\<lambda>c. Inr \<lparr>rr_recovered = True, rr_adapter_metadata = []\<rparr>)\<rparr>)"

type_synonym PlannableAdapter =
  "ActionType \<Rightarrow> RollbackTarget \<Rightarrow> AdapterError + ExecutionPlan option"

definition PlannableNoopAdapter :: PlannableAdapter where
  "PlannableNoopAdapter ty tgt = Inr (Some
    \<lparr>pl_prepare_checks = [], pl_verify_checks = [], pl_compensation_plan = [],
     pl_auto_commit = True, pl_plan_description = ''noop auto-plan: no checks generated''\<rparr>)"

subsection \<open>service.rs\<close>

datatype RollbackError =
    RE_R2Unsupported
  | RE_NotRegistered
  | RE_Adapter AdapterError
  | RE_R2NoPlan

record RollbackService =
  sv_registry :: AdapterRegistry
  sv_planners :: "PlannableAdapter list"

definition register_planner :: "PlannableAdapter \<Rightarrow> RollbackService \<Rightarrow> RollbackService" where
  "register_planner p sv = sv\<lparr>sv_planners := sv_planners sv @ [p]\<rparr>"

text \<open>A service whose only adapter and planner are the no-op ones.\<close>

definition noop_service :: RollbackService where
  "noop_service = \<lparr>sv_registry = [''noop'' \<mapsto> NoopRollbackAdapter ''noop''],
     sv_planners = [PlannableNoopAdapter]\<rparr>"

text \<open>The first planner that answers \<open>Ok(Some(plan))\<close>.\<close>

fun first_plan :: "PlannableAdapter list \<Rightarrow> ActionType \<Rightarrow> RollbackTarget \<Rightarrow> ExecutionPlan option" where
  "first_plan [] ty tgt = None"
| "first_plan (p # ps) ty tgt =
    (case p ty tgt of Inr (Some plan) \<Rightarrow> Some plan | _ \<Rightarrow> first_plan ps ty tgt)"

definition r2_unsupported :: "RollbackClass \<Rightarrow> ActionType \<Rightarrow> bool" where
  "r2_unsupported cls ty = (cls = R2Compensatable \<and> (ty = HttpMutation \<or> ty = SqlMutation))"

definition merge_metadata :: "JsonMap \<Rightarrow> JsonMap \<Rightarrow> JsonMap" where
  "merge_metadata base extra = fold (\<lambda>(k, v) m. jm_insert k v m) extra base"

text \<open>The checks, compensation plan and auto-commit flag of the contract: those
  of the request, or of the first plan when the request has none.\<close>

definition final_plan ::
  "RollbackService \<Rightarrow> RollbackPrepareRequest \<Rightarrow>
   CheckSpec list \<times> CheckSpec list \<times> CompensationStep list \<times> bool" where
  "final_plan sv r =
    (let own = (rq_prepare_checks r, rq_verify_checks r, rq_compensation_plan r, rq_auto_commit r)
     in if rq_prepare_checks r = [] \<and> rq_verify_checks r = [] \<and> rq_compensation_plan r = [] then
          (case first_plan (sv_planners sv) (rq_action_type r) (rq_target r) of
             Some plan \<Rightarrow> (pl_prepare_checks plan, pl_verify_checks plan,
                           pl_compensation_plan plan, pl_auto_commit plan)
           | None \<Rightarrow> own)
        else own)"

text \<open>\<open>new_id\<close> and \<open>now\<close> are the fresh contract identifier and the clock.\<close>

definition rollback_prepare ::
  "RollbackService \<Rightarrow> uuid \<Rightarrow> timestamp \<Rightarrow> RollbackPrepareRequest \<Rightarrow>
   RollbackError + RollbackPrepareResponse" where
  "rollback_prepare sv new_id now request =
    (let r = (if rq_rollback_class request = R3IrreversibleHighConsequence
              then request\<lparr>rq_auto_commit := False\<rparr> else request)
     in if r2_unsupported (rq_rollback_class r) (rq_action_type r) then Inl RE_R2Unsupported
        else
        (case registry_get (sv_registry sv) (rq_adapter_key r) of
           None \<Rightarrow> Inl RE_NotRegistered
         | Some adapter \<Rightarrow>
           (case ad_prepare adapter r of
              Inl e \<Rightarrow> Inl (RE_Adapter e)
            | Inr receipt \<Rightarrow>
              (let (prepare_checks, verify_checks, compensation_plan, auto_commit) = final_plan sv r
               in if rq_rollback_class r = R2Compensatable \<and> compensation_plan = [] then Inl RE_R2NoPlan
                  else Inr
                   \<lparr>rs_contract =
                      \<lparr>rc_contract_id = new_id, rc_intent_id = rq_intent_id r,
                       rc_proposal_id = rq_proposal_id r, rc_execution_id = rq_execution_id r,
                       rc_action_type = rq_action_type r, rc_rollback_class = rq_rollback_class r,
                       rc_adapter_key = rq_adapter_key r, rc_target = rq_target r,
                       rc_prepare_checks = prepare_checks, rc_verify_checks = verify_checks,
                       rc_compensation_plan = compensation_plan,
                       rc_auto_commit =
                         (if rq_rollback_class r = R3IrreversibleHighConsequence then False
                          else auto_commit),
                       rc_state = RS_Prepared, rc_created_at = now, rc_expires_at = None,
                       rc_metadata = merge_metadata (rq_metadata r) (pc_adapter_metadata receipt)\<rparr>,
                    rs_accepted = pc_accepted receipt, rs_warnings = []\<rparr>))))"

text \<open>The other operations look the adapter up and pass its answer on.\<close>

definition with_adapter ::
  "RollbackService \<Rightarrow> RollbackContract \<Rightarrow> (RollbackAdapter \<Rightarrow> AdapterError + 'a) \<Rightarrow> RollbackError + 'a" where
  "with_adapter sv c op =
    (case registry_get (sv_registry sv) (rc_adapter_key c) of
       None \<Rightarrow> Inl RE_NotRegistered
     | Some adapter \<Rightarrow> (case op adapter of Inl e \<Rightarrow> Inl (RE_Adapter e) | Inr r \<Rightarrow> Inr r))"

definition rollback_verify :: "RollbackService \<Rightarrow> RollbackContract \<Rightarrow> RollbackError + bool" where
  "rollback_verify sv c =
    (case with_adapter sv c (\<lambda>a. ad_verify a c) of Inl e \<Rightarrow> Inl e | Inr r \<Rightarrow> Inr (vr_verified r))"

definition rollback_verify_with_outcome ::
  "RollbackService \<Rightarrow> RollbackContract \<Rightarrow> RollbackError + VerifyOutcomeReceipt" where
  "rollback_verify_with_outcome sv c = with_adapter sv c (\<lambda>a. ad_verify_with_outcome a c)"

definition rollback_execute ::
  "RollbackService \<Rightarrow> RollbackContract \<Rightarrow> json \<Rightarrow> RollbackError + ExecuteReceipt" where
  "rollback_execute sv c payload = with_adapter sv c (\<lambda>a. ad_execute a c payload)"

definition rollback_compensate ::
  "RollbackService \<Rightarrow> RollbackContract \<Rightarrow> RollbackError + RecoveryReceipt" where
  "rollback_compensate sv c = with_adapter sv c (\<lambda>a. ad_compensate a c)"

definition rollback_rollback ::
  "RollbackService \<Rightarrow> RollbackContract \<Rightarrow> RollbackError + RecoveryReceipt" where
  "rollback_rollback sv c = with_adapter sv c (\<lambda>a. ad_rollback a c)"

definition build_prepare_request_with_target ::
  "uuid \<Rightarrow> uuid \<Rightarrow> uuid \<Rightarrow> RollbackClass \<Rightarrow> ActionType \<Rightarrow> string \<Rightarrow> RollbackTarget \<Rightarrow>
   RollbackPrepareRequest" where
  "build_prepare_request_with_target iid pid eid cls ty key tgt =
    \<lparr>rq_intent_id = iid, rq_proposal_id = pid, rq_execution_id = eid, rq_action_type = ty,
     rq_rollback_class = cls, rq_adapter_key = key, rq_target = tgt, rq_prepare_checks = [],
     rq_verify_checks = [], rq_compensation_plan = [],
     rq_auto_commit = (cls \<noteq> R3IrreversibleHighConsequence), rq_metadata = []\<rparr>"

definition build_prepare_request ::
  "uuid \<Rightarrow> uuid \<Rightarrow> uuid \<Rightarrow> RollbackClass \<Rightarrow> ActionType \<Rightarrow> string \<Rightarrow> RollbackPrepareRequest" where
  "build_prepare_request iid pid eid cls ty key =
     build_prepare_request_with_target iid pid eid cls ty key (RTgt_Generic ''mcp'' ''tool-call'')"

definition default_prepare_request ::
  "uuid \<Rightarrow> uuid \<Rightarrow> uuid \<Rightarrow> RollbackClass \<Rightarrow> RollbackPrepareRequest" where
  "default_prepare_request iid pid eid cls =
     build_prepare_request iid pid eid cls McpToolMutation ''noop''"

subsection \<open>Lemmas\<close>

lemma rollback_prepare_Inr:
  assumes "rollback_prepare sv new_id now rq = Inr resp"
  shows "sv_registry sv (rq_adapter_key rq) \<noteq> None"
    and "\<not> r2_unsupported (rq_rollback_class rq) (rq_action_type rq)"
    and "rc_contract_id (rs_contract resp) = new_id"
    and "rc_intent_id (rs_contract resp) = rq_intent_id rq"
    and "rc_proposal_id (rs_contract resp) = rq_proposal_id rq"
    and "rc_execution_id (rs_contract resp) = rq_execution_id rq"
    and "rc_action_type (rs_contract resp) = rq_action_type rq"
    and "rc_rollback_class (rs_contract resp) = rq_rollback_class rq"
    and "rc_adapter_key (rs_contract resp) = rq_adapter_key rq"
    and "rc_target (rs_contract resp) = rq_target rq"
    and "rc_state (rs_contract resp) = RS_Prepared"
    and "rq_rollback_class rq = R3IrreversibleHighConsequence \<Longrightarrow> \<not> rc_auto_commit (rs_contract resp)"
    and "rq_rollback_class rq = R2Compensatable \<Longrightarrow> rc_compensation_plan (rs_contract resp) \<noteq> []"
  using assms
  by (auto simp: rollback_prepare_def registry_get_def Let_def
      split: if_splits option.splits sum.splits prod.splits)

lemma try_register_get:
  "registry_try_register a r = Inr r' \<Longrightarrow>
   registry_get r' k = (if k = ad_key a then Some a else registry_get r k)"
  by (auto simp: registry_try_register_def registry_get_def split: if_splits)

subsection \<open>Properties\<close>

text \<open>C21: whatever the adapter and the planners answer, a contract the rollback
  service hands out is bound to the request's intent, proposal and execution,
  starts in \<open>Prepared\<close>, never auto-commits in class R3, has a compensation plan
  in class R2, and is never an R2 contract for an HTTP or SQL mutation.\<close>

theorem prepared_contract_sound:
  assumes "rollback_prepare sv new_id now rq = Inr resp"
  shows "let c = rs_contract resp in
    rc_contract_id c = new_id \<and> rc_intent_id c = rq_intent_id rq \<and>
    rc_proposal_id c = rq_proposal_id rq \<and> rc_execution_id c = rq_execution_id rq \<and>
    rc_state c = RS_Prepared \<and>
    (rc_rollback_class c = R3IrreversibleHighConsequence \<longrightarrow> \<not> rc_auto_commit c) \<and>
    (rc_rollback_class c = R2Compensatable \<longrightarrow> rc_compensation_plan c \<noteq> []) \<and>
    \<not> r2_unsupported (rc_rollback_class c) (rc_action_type c)"
  using rollback_prepare_Inr [OF assms] by (simp add: Let_def)

theorem prepared_contract_sound_witness:
  "\<exists>resp. rollback_prepare noop_service ''c1'' 0
       (default_prepare_request ''i1'' ''p1'' ''e1'' R3IrreversibleHighConsequence) = Inr resp \<and>
     \<not> rc_auto_commit (rs_contract resp)"
proof -
  let ?rq = "default_prepare_request ''i1'' ''p1'' ''e1'' R3IrreversibleHighConsequence"
  obtain resp where r: "rollback_prepare noop_service ''c1'' 0 ?rq = Inr resp"
    by (simp add: rollback_prepare_def default_prepare_request_def build_prepare_request_def
        build_prepare_request_with_target_def r2_unsupported_def registry_get_def
        NoopRollbackAdapter_def final_plan_def PlannableNoopAdapter_def noop_service_def Let_def)
  moreover have "rc_rollback_class (rs_contract resp) = R3IrreversibleHighConsequence"
    using rollback_prepare_Inr(8) [OF r]
    by (simp add: default_prepare_request_def build_prepare_request_def
        build_prepare_request_with_target_def)
  ultimately show ?thesis
    using prepared_contract_sound [OF r] by (auto simp: Let_def)
qed

end
