(* ===== verification/Validation.thy ===== *)
theory Validation
  imports Resource_Scope Rollback
begin

text \<open>
  Checks the gateway makes between a capability, a proposal and an execute
  payload (\<open>crates/ferrum-gateway/src/execution/validation.rs\<close>), and the
  inference of the adapter, the rollback target and the prepare request from a
  proposal (\<open>inference.rs\<close> in the same directory).  The regular-expression
  engine is the parameter \<open>regex\<close>: compiling a pattern gives a matcher or fails.
\<close>

subsection \<open>validation.rs\<close>

datatype BindingMismatch = ProposalIdMismatch | IntentIdMismatch | ToolMismatch

definition validate_capability_proposal_binding ::
  "CapabilityLease \<Rightarrow> ActionProposal \<Rightarrow> BindingMismatch + unit" where
  "validate_capability_proposal_binding lease p =
    (if cl_proposal_id lease \<noteq> ap_proposal_id p then Inl ProposalIdMismatch
     else if cl_intent_id lease \<noteq> ap_intent_id p then Inl IntentIdMismatch
     else if tb_server_name (cl_tool_binding lease) \<noteq> ap_server_name p \<or>
             tb_tool_name (cl_tool_binding lease) \<noteq> ap_tool_name p then Inl ToolMismatch
     else Inr ())"

text \<open>\<open>Value::pointer\<close> of \<open>serde_json\<close> (RFC 6901): tokens are unescaped with
  \<open>~1\<close> before \<open>~0\<close>, an array index has no sign and no leading zero.\<close>

fun unescape :: "char \<Rightarrow> char \<Rightarrow> string \<Rightarrow> string" where
  "unescape d r (x # y # xs) =
    (if x = CHR ''~'' \<and> y = d then r # unescape d r xs else x # unescape d r (y # xs))"
| "unescape d r xs = xs"

definition is_digit :: "char \<Rightarrow> bool" where
  "is_digit c = (48 \<le> (of_char c :: nat) \<and> (of_char c :: nat) \<le> 57)"

definition parse_index :: "string \<Rightarrow> nat option" where
  "parse_index s =
    (if s = [] \<or> \<not> list_all is_digit s \<or> (hd s = CHR ''0'' \<and> length s \<noteq> 1) then None
     else Some (foldl (\<lambda>n c. 10 * n + (of_char c - 48)) 0 s))"

fun pointer_step :: "json \<Rightarrow> string \<Rightarrow> json option" where
  "pointer_step (JObj m) tok = map_of m tok"
| "pointer_step (JArr xs) tok =
    (case parse_index tok of None \<Rightarrow> None
     | Some i \<Rightarrow> if i < length xs then Some (xs ! i) else None)"
| "pointer_step _ tok = None"

fun pointer_walk :: "json \<Rightarrow> string list \<Rightarrow> json option" where
  "pointer_walk v [] = Some v"
| "pointer_walk v (t # ts) =
    (case pointer_step v t of None \<Rightarrow> None | Some w \<Rightarrow> pointer_walk w ts)"

definition json_pointer :: "json \<Rightarrow> string \<Rightarrow> json option" where
  "json_pointer v ptr =
    (if ptr = [] then Some v
     else if \<not> starts_with ptr ''/'' then None
     else pointer_walk v (map (\<lambda>t. unescape CHR ''0'' CHR ''~'' (unescape CHR ''1'' CHR ''/'' t))
            (tl (split_on CHR ''/'' ptr))))"

definition argument_value :: "json \<Rightarrow> string \<Rightarrow> json option" where
  "argument_value payload key =
    (if starts_with key ''/'' then json_pointer payload key else obj_get payload key)"

datatype ConstraintError =
    RequiresString string | ExactStringFailed string | StringOneOfFailed string
  | InvalidRegex string | StringRegexFailed string | InvalidIntRange string
  | RequiresInteger string | IntRangeFailed string | RequiresBoolean string
  | BoolExactFailed string | InvalidPointer string | MustExistFailed string
  | MustNotExistFailed string

type_synonym regex_engine = "string \<Rightarrow> (string \<Rightarrow> bool) option"

fun check_constraint ::
  "regex_engine \<Rightarrow> json \<Rightarrow> ArgumentConstraint \<Rightarrow> ConstraintError option" where
  "check_constraint regex payload (AC_ExactString key v) =
    (case Option.bind (argument_value payload key) as_str of
       None \<Rightarrow> Some (RequiresString key)
     | Some actual \<Rightarrow> if actual \<noteq> v then Some (ExactStringFailed key) else None)"
| "check_constraint regex payload (AC_StringOneOf key vs) =
    (case Option.bind (argument_value payload key) as_str of
       None \<Rightarrow> Some (RequiresString key)
     | Some actual \<Rightarrow> if actual \<notin> set vs then Some (StringOneOfFailed key) else None)"
| "check_constraint regex payload (AC_StringRegex key pattern) =
    (case Option.bind (argument_value payload key) as_str of
       None \<Rightarrow> Some (RequiresString key)
     | Some actual \<Rightarrow>
       (case regex pattern of
          None \<Rightarrow> Some (InvalidRegex key)
        | Some matches \<Rightarrow> if \<not> matches actual then Some (StringRegexFailed key) else None))"
| "check_constraint regex payload (AC_IntRange key lo hi) =
    (if hi < lo then Some (InvalidIntRange key)
     else (case Option.bind (argument_value payload key) as_i64 of
             None \<Rightarrow> Some (RequiresInteger key)
           | Some actual \<Rightarrow> if actual < lo \<or> hi < actual then Some (IntRangeFailed key) else None))"
| "check_constraint regex payload (AC_BoolExact key v) =
    (case Option.bind (argument_value payload key) as_bool of
       None \<Rightarrow> Some (RequiresBoolean key)
     | Some actual \<Rightarrow> if actual \<noteq> v then Some (BoolExactFailed key) else None)"
| "check_constraint regex payload (AC_JsonPointerMustExist ptr) =
    (if ptr \<noteq> [] \<and> \<not> starts_with ptr ''/'' then Some (InvalidPointer ptr)
     else if json_pointer payload ptr = None then Some (MustExistFailed ptr) else None)"
| "check_constraint regex payload (AC_JsonPointerMustNotExist ptr) =
    (if ptr \<noteq> [] \<and> \<not> starts_with ptr ''/'' then Some (InvalidPointer ptr)
     else if json_pointer payload ptr \<noteq> None then Some (MustNotExistFailed ptr) else None)"

fun validate_argument_constraints ::
  "regex_engine \<Rightarrow> json \<Rightarrow> ArgumentConstraint list \<Rightarrow> ConstraintError + unit" where
  "validate_argument_constraints regex payload [] = Inr ()"
| "validate_argument_constraints regex payload (c # cs) =
    (case check_constraint regex payload c of
       Some e \<Rightarrow> Inl e
     | None \<Rightarrow> validate_argument_constraints regex payload cs)"

subsection \<open>inference.rs\<close>

fun is_email_draft :: "ResourceSelector \<Rightarrow> bool" where
  "is_email_draft (RSel_EmailDraft _ _ _) = True"
| "is_email_draft _ = False"

definition infer_rollback_class :: "ResourceSelector list \<Rightarrow> RollbackClass" where
  "infer_rollback_class scope =
    (if list_ex is_email_draft scope then R2Compensatable else R0NativeReversible)"

datatype InferenceError =
    IE_Binding BindingError
  | IE_EmailSendReserved
  | IE_UnknownTool string

text \<open>The tool-name patterns in the order the source tests them.\<close>

definition tool_patterns :: "(string list \<times> ActionType \<times> string) list" where
  "tool_patterns =
    [([''file_write'', ''write_file'', ''fs_'', ''filesystem.write'', ''filesystem_write'',
       ''file-mutation''], FileWrite, ''fs''),
     ([''fs.read'', ''filesystem.read'', ''file_read'', ''read_file''], McpToolMutation, ''noop''),
     ([''sql_mutate''], SqlMutation, ''sqlite''),
     ([''maildraft'', ''draft_create'', ''email_draft''], MailDraft, ''maildraft''),
     ([''git_branch_create''], GitBranchCreate, ''git''),
     ([''git_tag_create''], GitTagCreate, ''git''),
     ([''git_branch_delete''], GitBranchDelete, ''git''),
     ([''git_tag_delete''], GitTagDelete, ''git''),
     ([''git_push''], GitPush, ''git''),
     ([''git_pull''], GitPull, ''git''),
     ([''git_fetch''], GitFetch, ''git''),
     ([''http_post'', ''http_put'', ''http_patch'', ''http_delete''], HttpMutation, ''http''),
     ([''s3_put'', ''s3putobject'', ''s3.write''], S3PutObject, ''s3''),
     ([''s3_delete'', ''s3deleteobject'', ''s3.remove''], S3DeleteObject, ''s3''),
     ([''s3_get'', ''s3getobject'', ''s3.read''], S3GetObject, ''s3''),
     ([''s3_copy'', ''s3copyobject''], S3CopyObject, ''s3'')]"

definition infer_action_type_and_adapter ::
  "string \<Rightarrow> JsonMap \<Rightarrow> InferenceError + ActionType \<times> string" where
  "infer_action_type_and_adapter tool_name md =
    (case action_binding_from_metadata md of
       Inl e \<Rightarrow> Inl (IE_Binding e)
     | Inr (Some b) \<Rightarrow>
       if bd_action_type b = EmailSend then Inl IE_EmailSendReserved
       else Inr (bd_action_type b, bd_adapter_key b)
     | Inr None \<Rightarrow>
       (let tool_lower = to_lowercase tool_name in
        if str_contains tool_lower ''email_send'' then Inl IE_EmailSendReserved
        else (case find (\<lambda>(ps, _, _). list_ex (str_contains tool_lower) ps) tool_patterns of
                Some (_, ty, key) \<Rightarrow> Inr (ty, key)
              | None \<Rightarrow> Inl (IE_UnknownTool tool_name))))"

definition is_file_action :: "ActionType \<Rightarrow> bool" where
  "is_file_action ty = (ty \<in> {FileWrite, FileDelete, FileMove, FileCopy, FileAppend, FileChmod})"

definition is_git_action :: "ActionType \<Rightarrow> bool" where
  "is_git_action ty = (ty \<in> {GitBranchCreate, GitTagCreate, GitBranchDelete, GitTagDelete, GitPush,
     GitPull, GitFetch, GitCommit})"

definition is_s3_action :: "ActionType \<Rightarrow> bool" where
  "is_s3_action ty = (ty \<in> {S3PutObject, S3DeleteObject, S3GetObject, S3CopyObject})"

text \<open>The target a selector gives for an action type; \<open>tx\<close> is the fresh
  identifier of the transaction.\<close>

fun selector_target :: "uuid \<Rightarrow> ActionType \<Rightarrow> ResourceSelector \<Rightarrow> RollbackTarget option" where
  "selector_target tx ty (RSel_FilesystemPath path mode h) =
     (if is_file_action ty then Some (RTgt_FilePath path None None) else None)"
| "selector_target tx ty (RSel_SqliteDatabase db_path tables mode) =
     (if ty = SqlMutation then Some (RTgt_SqliteTxn db_path (''tx-'' @ tx)) else None)"
| "selector_target tx ty (RSel_EmailDraft allow subjects mode) =
     (if ty = MailDraft then Some (RTgt_EmailDraft None allow) else None)"
| "selector_target tx ty (RSel_GitRepository repo_path refs mode) =
     (if is_git_action ty then Some (RTgt_GitRef repo_path None None) else None)"
| "selector_target tx ty (RSel_HttpEndpoint meth base_url path_prefix mode) =
     (if ty = HttpMutation then
        Some (RTgt_HttpRequest meth
          (if starts_with path_prefix ''/'' then base_url @ path_prefix
           else base_url @ ''/'' @ path_prefix) [])
      else None)"
| "selector_target tx ty (RSel_S3Bucket bucket keys mode) =
     (if is_s3_action ty then Some (RTgt_S3Object bucket [] None) else None)"
| "selector_target tx ty (RSel_McpTool server tool mode) = None"

text \<open>Each action type belongs to at most one of the tests of the source, so its
  sequence of loops returns the target of the first selector that has one.\<close>

fun infer_target_from_scope :: "uuid \<Rightarrow> ResourceSelector list \<Rightarrow> ActionType \<Rightarrow> RollbackTarget" where
  "infer_target_from_scope tx [] ty = RTgt_Generic ''mcp'' ''tool-call''"
| "infer_target_from_scope tx (s # ss) ty =
    (case selector_target tx ty s of
       Some tgt \<Rightarrow> tgt
     | None \<Rightarrow> infer_target_from_scope tx ss ty)"

definition git_argument_metadata :: "ActionType \<Rightarrow> json \<Rightarrow> JsonMap \<Rightarrow> JsonMap" where
  "git_argument_metadata ty args md =
    (case args of
       JObj m \<Rightarrow>
        (if ty = GitBranchCreate then
           (let v = (case map_of m ''branch_name'' of Some x \<Rightarrow> Some x | None \<Rightarrow> map_of m ''branch'')
            in case Option.bind v as_str of
                 Some branch \<Rightarrow> jm_insert ''branch_name'' (JStr branch) md
               | None \<Rightarrow> md)
         else if ty \<in> {GitPush, GitPull, GitFetch} then
           (let md1 = (case Option.bind (map_of m ''refspec'') as_str of
                         Some r \<Rightarrow> jm_insert ''branch_name'' (JStr r) md | None \<Rightarrow> md)
            in case Option.bind (map_of m ''remote'') as_str of
                 Some r \<Rightarrow> jm_insert ''remote_name'' (JStr r) md1 | None \<Rightarrow> md1)
         else md)
     | _ \<Rightarrow> md)"

fun first_tables :: "ResourceSelector list \<Rightarrow> string list option" where
  "first_tables [] = None"
| "first_tables (RSel_SqliteDatabase db_path tables mode # ss) = Some tables"
| "first_tables (_ # ss) = first_tables ss"

definition build_prepare_request_for_proposal ::
  "uuid \<Rightarrow> uuid \<Rightarrow> uuid \<Rightarrow> RollbackClass \<Rightarrow> ActionProposal \<Rightarrow> ResourceSelector list \<Rightarrow>
   InferenceError + RollbackPrepareRequest" where
  "build_prepare_request_for_proposal tx intent_id execution_id cls p scope =
    (case infer_action_type_and_adapter (ap_tool_name p) (ap_metadata p) of
       Inl e \<Rightarrow> Inl e
     | Inr (ty, key) \<Rightarrow>
       (let rq = build_prepare_request_with_target intent_id (ap_proposal_id p) execution_id cls ty key
                   (infer_target_from_scope tx scope ty);
            md = git_argument_metadata ty (ap_raw_arguments p) (rq_metadata rq);
            md' = (if ty = SqlMutation then
                     (case first_tables scope of
                        Some ts \<Rightarrow> jm_insert ''allowed_tables'' (JArr (map JStr ts)) md
                      | None \<Rightarrow> md)
                   else md)
        in Inr (rq\<lparr>rq_metadata := md'\<rparr>)))"

fun http_method_text :: "HttpMethod \<Rightarrow> string" where
  "http_method_text HM_Get = ''Get''"
| "http_method_text HM_Post = ''Post''"
| "http_method_text HM_Put = ''Put''"
| "http_method_text HM_Patch = ''Patch''"
| "http_method_text HM_Delete = ''Delete''"

text \<open>The cast \<open>as u16\<close> of the response status keeps its low sixteen bits.\<close>

definition enrich_http_compensation_if_needed :: "RollbackContract \<Rightarrow> RollbackContract" where
  "enrich_http_compensation_if_needed c =
    (case rc_compensation_plan c of
       [step] \<Rightarrow>
        (if rc_adapter_key c \<noteq> ''http'' \<or> cs_operation step \<noteq> ''http.replay_v1'' \<or>
            jm_get (cs_args step) ''method'' \<noteq> None then c
         else (case rc_target c of
                 RTgt_HttpRequest meth url digest \<Rightarrow>
                  (let payload = unwrap_or (jm_get (rc_metadata c) ''execute_payload'') JNull;
                       status = (case Option.bind (jm_get (rc_metadata c) ''response_status'') as_u64 of
                                   Some n \<Rightarrow> (ucast n :: 16 word) | None \<Rightarrow> 200);
                       args = jm_insert ''expected_statuses'' (JArr [JNum (PosInt (ucast status))])
                               (jm_insert ''payload'' payload
                                 (jm_insert ''method'' (JStr (http_method_text meth)) (cs_args step)))
                   in c\<lparr>rc_compensation_plan := [step\<lparr>cs_args := args\<rparr>]\<rparr>)
               | _ \<Rightarrow> c))
     | _ \<Rightarrow> c)"

subsection \<open>Lemmas\<close>

lemma validate_argument_constraints_iff:
  "validate_argument_constraints regex payload cs = Inr () \<longleftrightarrow>
   list_all (\<lambda>c. check_constraint regex payload c = None) cs"
  by (induction cs) (auto split: option.splits)

lemma validate_capability_proposal_binding_iff:
  "validate_capability_proposal_binding lease p = Inr () \<longleftrightarrow>
   cl_proposal_id lease = ap_proposal_id p \<and> cl_intent_id lease = ap_intent_id p \<and>
   tb_server_name (cl_tool_binding lease) = ap_server_name p \<and>
   tb_tool_name (cl_tool_binding lease) = ap_tool_name p"
  by (simp add: validate_capability_proposal_binding_def)

lemma build_prepare_request_for_proposal_Inr:
  assumes "build_prepare_request_for_proposal tx iid eid cls p scope = Inr rq"
  shows "rq_intent_id rq = iid" "rq_proposal_id rq = ap_proposal_id p" "rq_execution_id rq = eid"
    "rq_rollback_class rq = cls"
    "\<exists>key. infer_action_type_and_adapter (ap_tool_name p) (ap_metadata p) =
       Inr (rq_action_type rq, key) \<and> rq_adapter_key rq = key"
  using assms
  by (auto simp: build_prepare_request_for_proposal_def build_prepare_request_with_target_def Let_def
      split: sum.splits)

lemma infer_action_not_email_send:
  assumes "infer_action_type_and_adapter tool md = Inr (ty, key)"
  shows "ty \<noteq> EmailSend \<and> ty \<noteq> UnknownAction"
proof (cases "action_binding_from_metadata md")
  case (Inl e)
  then show ?thesis using assms by (simp add: infer_action_type_and_adapter_def)
next
  case (Inr b)
  show ?thesis
  proof (cases b)
    case None
    with Inr assms have "\<exists>ps. (ps, ty, key) \<in> set tool_patterns"
      by (auto simp: infer_action_type_and_adapter_def Let_def find_Some_iff
          split: if_splits option.splits) (metis nth_mem)
    then show ?thesis by (auto simp: tool_patterns_def)
  next
    case (Some bd)
    with Inr assms show ?thesis
      by (auto simp: infer_action_type_and_adapter_def action_binding_from_metadata_def
          split: if_splits option.splits)
  qed
qed

end
