(* ===== verification/Transitions.thy ===== *)
theory Transitions
  imports Proto_Provenance
begin

text \<open>
  The transition matrices of \<open>crates/ferrum-store/src/transitions.rs\<close>: which
  status changes of a capability, an approval, a rollback contract and an
  execution the store accepts.  The four matrices share one contract, the
  locale \<open>transition_matrix\<close>: a terminal state admits no transition.  Its
  lemmas on runs (sequences of transitions) are obtained for each of the four
  by interpretation.
\<close>

fun capability_status_is_terminal :: "CapabilityStatus \<Rightarrow> bool" where
  "capability_status_is_terminal CS_Used = True"
| "capability_status_is_terminal CS_Expired = True"
| "capability_status_is_terminal CS_Revoked = True"
| "capability_status_is_terminal CS_Quarantined = True"
| "capability_status_is_terminal _ = False"

fun is_valid_capability_transition :: "CapabilityStatus \<Rightarrow> CapabilityStatus \<Rightarrow> bool" where
  "is_valid_capability_transition CS_Active t =
     (t \<in> {CS_Used, CS_Expired, CS_Revoked, CS_Quarantined})"
| "is_valid_capability_transition _ t = False"

fun approval_state_is_terminal :: "ApprovalState \<Rightarrow> bool" where
  "approval_state_is_terminal AS_Granted = True"
| "approval_state_is_terminal AS_Denied = True"
| "approval_state_is_terminal AS_Expired = True"
| "approval_state_is_terminal _ = False"

fun is_valid_approval_transition :: "ApprovalState \<Rightarrow> ApprovalState \<Rightarrow> bool" where
  "is_valid_approval_transition AS_Pending t = (t \<in> {AS_Granted, AS_Denied, AS_Expired})"
| "is_valid_approval_transition _ t = False"

fun execution_state_is_terminal :: "ExecutionState \<Rightarrow> bool" where
  "execution_state_is_terminal ES_Committed = True"
| "execution_state_is_terminal ES_Compensated = True"
| "execution_state_is_terminal ES_RolledBack = True"
| "execution_state_is_terminal ES_Denied = True"
| "execution_state_is_terminal ES_Quarantined = True"
| "execution_state_is_terminal ES_Failed = True"
| "execution_state_is_terminal ES_Canceled = True"
| "execution_state_is_terminal _ = False"

fun rollback_state_is_terminal :: "RollbackState \<Rightarrow> bool" where
  "rollback_state_is_terminal RS_Committed = True"
| "rollback_state_is_terminal RS_Compensated = True"
| "rollback_state_is_terminal RS_RolledBack = True"
| "rollback_state_is_terminal RS_Failed = True"
| "rollback_state_is_terminal RS_Expired = True"
| "rollback_state_is_terminal _ = False"

definition is_valid_rollback_transition :: "RollbackState \<Rightarrow> RollbackState \<Rightarrow> bool" where
  "is_valid_rollback_transition f t =
    (if rollback_state_is_terminal f then False
     else case f of
       RS_PendingPrepare \<Rightarrow> t \<in> {RS_Prepared, RS_PendingPrepare}
     | RS_Prepared \<Rightarrow> t \<in> {RS_ExecutedAwaitingVerify, RS_RecoveryRequired, RS_Prepared}
     | RS_ExecutedAwaitingVerify \<Rightarrow>
         t \<in> {RS_Verified, RS_Failed, RS_Compensated, RS_RecoveryRequired, RS_ExecutedAwaitingVerify}
     | RS_RecoveryRequired \<Rightarrow>
         t \<in> {RS_ExecutedAwaitingVerify, RS_Compensated, RS_Failed, RS_RecoveryRequired}
     | RS_Verified \<Rightarrow> t = RS_Committed
     | _ \<Rightarrow> False)"

definition is_valid_execution_transition :: "ExecutionState \<Rightarrow> ExecutionState \<Rightarrow> bool" where
  "is_valid_execution_transition f t =
    (if execution_state_is_terminal f then False
     else case f of
       ES_Proposed \<Rightarrow> t \<in> {ES_Authorized, ES_Running, ES_Canceled}
     | ES_Authorized \<Rightarrow> t \<in> {ES_Running, ES_Canceled, ES_Authorized}
     | ES_Prepared \<Rightarrow> t \<in> {ES_Running, ES_Canceled, ES_Prepared}
     | ES_Running \<Rightarrow>
         t \<in> {ES_Committed, ES_Failed, ES_Compensated, ES_RecoveryRequired,
              ES_AwaitingVerification, ES_Running}
     | ES_AwaitingVerification \<Rightarrow>
         t \<in> {ES_Committed, ES_Failed, ES_Compensated, ES_RecoveryRequired,
              ES_AwaitingVerification}
     | ES_RecoveryRequired \<Rightarrow>
         t \<in> {ES_AwaitingVerification, ES_Compensated, ES_Failed, ES_RecoveryRequired}
     | ES_AwaitingApproval \<Rightarrow> t = ES_Canceled
     | _ \<Rightarrow> False)"

subsection \<open>Runs of a transition matrix\<close>

fun run_ok :: "('a \<Rightarrow> 'a \<Rightarrow> bool) \<Rightarrow> 'a \<Rightarrow> 'a list \<Rightarrow> bool" where
  "run_ok valid s [] = True"
| "run_ok valid s (t # ts) = (valid s t \<and> run_ok valid t ts)"

locale transition_matrix =
  fixes terminal :: "'a \<Rightarrow> bool" and valid :: "'a \<Rightarrow> 'a \<Rightarrow> bool"
  assumes terminal_absorbing: "terminal s \<Longrightarrow> \<not> valid s t"
begin

lemma terminal_run: "terminal s \<Longrightarrow> run_ok valid s ts \<Longrightarrow> ts = []"
  by (cases ts) (auto dest: terminal_absorbing)

lemma terminal_reach: "valid\<^sup>*\<^sup>* s t \<Longrightarrow> terminal s \<Longrightarrow> t = s"
  by (induction rule: converse_rtranclp_induct) (auto dest: terminal_absorbing)

lemma terminal_only_last:
  assumes "run_ok valid s (ts @ us)" and "terminal (last (s # ts))"
  shows "us = []"
  using assms by (induction ts arbitrary: s) (auto dest: terminal_run split: if_splits)

end

interpretation cap_tm: transition_matrix capability_status_is_terminal is_valid_capability_transition
proof
  fix s t
  show "capability_status_is_terminal s \<Longrightarrow> \<not> is_valid_capability_transition s t"
    by (cases s) simp_all
qed

interpretation appr_tm: transition_matrix approval_state_is_terminal is_valid_approval_transition
proof
  fix s t
  show "approval_state_is_terminal s \<Longrightarrow> \<not> is_valid_approval_transition s t"
    by (cases s) simp_all
qed

interpretation rb_tm: transition_matrix rollback_state_is_terminal is_valid_rollback_transition
  by unfold_locales (simp add: is_valid_rollback_transition_def)

interpretation exec_tm: transition_matrix execution_state_is_terminal is_valid_execution_transition
  by unfold_locales (simp add: is_valid_execution_transition_def)

subsection \<open>Phases of an execution\<close>

text \<open>The phase of an execution state; no valid transition goes back to an
  earlier phase, so the pre-execution states are never entered again once the
  adapter has been started.\<close>

fun execution_phase :: "ExecutionState \<Rightarrow> nat" where
  "execution_phase ES_Proposed = 0"
| "execution_phase ES_AwaitingApproval = 0"
| "execution_phase ES_Authorized = 1"
| "execution_phase ES_Prepared = 1"
| "execution_phase ES_Running = 2"
| "execution_phase ES_AwaitingVerification = 3"
| "execution_phase ES_RecoveryRequired = 3"
| "execution_phase _ = 4"

lemma execution_phase_mono:
  "is_valid_execution_transition s t \<Longrightarrow> execution_phase s \<le> execution_phase t"
  by (cases s) (auto simp: is_valid_execution_transition_def)

lemma execution_phase_reach:
  "is_valid_execution_transition\<^sup>*\<^sup>* s t \<Longrightarrow> execution_phase s \<le> execution_phase t"
  by (induction rule: rtranclp_induct) (auto dest: execution_phase_mono)

end
