(* ===== verification/Store.thy ===== *)
theory Store
  imports Transitions Samples
begin

text \<open>
  The SQLite store, \<open>crates/ferrum-store/src/sqlite\<close>: a database is a record of
  tables and a repository operation is a computation on it.

  A table is the list of its rows in insertion order; a row is the entity its
  \<open>raw_json\<close> column holds (the other columns are copies of its fields).  Primary
  keys, the unique idempotency key and the foreign keys of
  \<open>crates/ferrum-store/migrations\<close> are enforced: a violating statement fails
  with \<open>SE_Database\<close> and its transaction leaves no trace.  The write queue hands
  an operation to a single writer that runs the same operation, so both paths
  of a repository method are the one modelled here.

  Every call may also fail with an I/O error without effect: \<open>db_call io m\<close> is
  the call \<open>m\<close>, where \<open>io\<close> says whether the database is unavailable at that
  call.  Clock readings and fresh identifiers are arguments.
\<close>

subsection \<open>Tables\<close>

definition tget :: "('r \<Rightarrow> 'k) \<Rightarrow> 'k \<Rightarrow> 'r list \<Rightarrow> 'r option" where
  "tget key k t = find (\<lambda>r. key r = k) t"

definition tupd :: "('r \<Rightarrow> 'k) \<Rightarrow> 'k \<Rightarrow> ('r \<Rightarrow> 'r) \<Rightarrow> 'r list \<Rightarrow> 'r list" where
  "tupd key k f t = map (\<lambda>r. if key r = k then f r else r) t"

subsection \<open>error.rs and the database\<close>

datatype StoreError =
    SE_Database
  | SE_NotFound string string
  | SE_InvalidState string
  | SE_Other string

record OutboxRow =
  ow_record :: LifecycleOutboxRecord
  ow_lease_owner :: "string option"
  ow_lease_expires_at :: "timestamp option"
  ow_lease_generation :: int

record database =
  t_intents :: "IntentEnvelope list"
  t_proposals :: "ActionProposal list"
  t_capabilities :: "CapabilityLease list"
  t_executions :: "ExecutionRecord list"
  t_contracts :: "RollbackContract list"
  t_approvals :: "ApprovalRequest list"
  t_holds :: "QuarantineHold list"
  t_bundles :: "PolicyBundle list"
  t_events :: "ProvenanceEvent list"
  t_edges :: "ProvenanceEdge list"
  t_outbox :: "OutboxRow list"

definition empty_database :: database where
  "empty_database = \<lparr>t_intents = [], t_proposals = [], t_capabilities = [], t_executions = [],
     t_contracts = [], t_approvals = [], t_holds = [], t_bundles = [], t_events = [], t_edges = [],
     t_outbox = []\<rparr>"

type_synonym 'a store_op = "(database, StoreError, 'a) proc"

definition db_call :: "bool \<Rightarrow> 'a store_op \<Rightarrow> 'a store_op" where
  "db_call io m = (if io then raise SE_Database else m)"

definition get_intent :: "database \<Rightarrow> uuid \<Rightarrow> IntentEnvelope option" where
  "get_intent d k = tget in_intent_id k (t_intents d)"

definition get_proposal :: "database \<Rightarrow> uuid \<Rightarrow> ActionProposal option" where
  "get_proposal d k = tget ap_proposal_id k (t_proposals d)"

definition get_capability :: "database \<Rightarrow> uuid \<Rightarrow> CapabilityLease option" where
  "get_capability d k = tget cl_capability_id k (t_capabilities d)"

definition get_execution :: "database \<Rightarrow> uuid \<Rightarrow> ExecutionRecord option" where
  "get_execution d k = tget ex_execution_id k (t_executions d)"

definition get_contract :: "database \<Rightarrow> uuid \<Rightarrow> RollbackContract option" where
  "get_contract d k = tget rc_contract_id k (t_contracts d)"

definition get_approval :: "database \<Rightarrow> uuid \<Rightarrow> ApprovalRequest option" where
  "get_approval d k = tget aq_approval_id k (t_approvals d)"

definition get_hold :: "database \<Rightarrow> uuid \<Rightarrow> QuarantineHold option" where
  "get_hold d k = tget qh_hold_id k (t_holds d)"

definition get_event :: "database \<Rightarrow> uuid \<Rightarrow> ProvenanceEvent option" where
  "get_event d k = tget ev_event_id k (t_events d)"

subsection \<open>intents.rs and proposals.rs\<close>

definition intent_insert :: "IntentEnvelope \<Rightarrow> unit store_op" where
  "intent_insert i = (\<lambda>d.
    if get_intent d (in_intent_id i) \<noteq> None then (Inl SE_Database, d)
    else (Inr (), d\<lparr>t_intents := t_intents d @ [i]\<rparr>))"

definition intent_update :: "IntentEnvelope \<Rightarrow> unit store_op" where
  "intent_update i = modifies (\<lambda>d.
    d\<lparr>t_intents := tupd in_intent_id (in_intent_id i) (\<lambda>_. i) (t_intents d)\<rparr>)"

definition intent_update_status :: "uuid \<Rightarrow> IntentStatus \<Rightarrow> unit store_op" where
  "intent_update_status k st =
    andthen (reads (\<lambda>d. get_intent d k)) (\<lambda>r.
    case r of None \<Rightarrow> ret () | Some i \<Rightarrow> intent_update (i\<lparr>in_status := st\<rparr>))"

definition proposal_insert :: "ActionProposal \<Rightarrow> unit store_op" where
  "proposal_insert p = (\<lambda>d.
    if get_proposal d (ap_proposal_id p) \<noteq> None \<or> get_intent d (ap_intent_id p) = None
    then (Inl SE_Database, d)
    else (Inr (), d\<lparr>t_proposals := t_proposals d @ [p]\<rparr>))"

subsection \<open>capabilities.rs\<close>

definition capability_insert :: "CapabilityLease \<Rightarrow> unit store_op" where
  "capability_insert c = (\<lambda>d.
    if get_capability d (cl_capability_id c) \<noteq> None \<or> get_intent d (cl_intent_id c) = None \<or>
       get_proposal d (cl_proposal_id c) = None
    then (Inl SE_Database, d)
    else (Inr (), d\<lparr>t_capabilities := t_capabilities d @ [c]\<rparr>))"

definition capability_update :: "CapabilityLease \<Rightarrow> unit store_op" where
  "capability_update c = modifies (\<lambda>d.
    d\<lparr>t_capabilities := tupd cl_capability_id (cl_capability_id c) (\<lambda>_. c) (t_capabilities d)\<rparr>)"

fun capability_status_text :: "CapabilityStatus \<Rightarrow> string" where
  "capability_status_text CS_Active = ''Active''"
| "capability_status_text CS_Used = ''Used''"
| "capability_status_text CS_Expired = ''Expired''"
| "capability_status_text CS_Revoked = ''Revoked''"
| "capability_status_text CS_Quarantined = ''Quarantined''"

definition capability_update_status :: "uuid \<Rightarrow> CapabilityStatus \<Rightarrow> unit store_op" where
  "capability_update_status k st =
    andthen (reads (\<lambda>d. get_capability d k)) (\<lambda>r.
    case r of
      None \<Rightarrow> ret ()
    | Some c \<Rightarrow>
        andthen (ensure (is_valid_capability_transition (cl_status c) st)
          (SE_InvalidState (''invalid capability transition from '' @
             capability_status_text (cl_status c) @ '' to '' @ capability_status_text st))) (\<lambda>_.
        capability_update (c\<lparr>cl_status := st\<rparr>)))"

text \<open>The single-statement conditional updates; the result says whether a row
  was changed.\<close>

definition capability_active :: "timestamp \<Rightarrow> CapabilityLease \<Rightarrow> bool" where
  "capability_active now c = (cl_status c = CS_Active \<and> now < cl_expires_at c)"

definition capability_cas ::
  "(CapabilityLease \<Rightarrow> CapabilityLease) \<Rightarrow> timestamp \<Rightarrow> uuid \<Rightarrow> bool store_op" where
  "capability_cas f now k = (\<lambda>d.
    case get_capability d k of
      None \<Rightarrow> (Inr False, d)
    | Some c \<Rightarrow>
      if capability_active now c then
        (Inr True, d\<lparr>t_capabilities := tupd cl_capability_id k f (t_capabilities d)\<rparr>)
      else (Inr False, d))"

definition capability_update_status_if_active ::
  "timestamp \<Rightarrow> uuid \<Rightarrow> CapabilityStatus \<Rightarrow> bool store_op" where
  "capability_update_status_if_active now k st = capability_cas (\<lambda>c. c\<lparr>cl_status := st\<rparr>) now k"

definition capability_revoke_if_active :: "uuid \<Rightarrow> timestamp \<Rightarrow> bool store_op" where
  "capability_revoke_if_active k revoked_at =
     capability_cas (\<lambda>c. c\<lparr>cl_status := CS_Revoked, cl_revoked_at := Some revoked_at\<rparr>) revoked_at k"

subsection \<open>executions.rs\<close>

definition execution_insert :: "ExecutionRecord \<Rightarrow> unit store_op" where
  "execution_insert e = (\<lambda>d.
    if get_execution d (ex_execution_id e) \<noteq> None \<or> get_intent d (ex_intent_id e) = None \<or>
       get_proposal d (ex_proposal_id e) = None \<or> get_capability d (ex_capability_id e) = None
    then (Inl SE_Database, d)
    else (Inr (), d\<lparr>t_executions := t_executions d @ [e]\<rparr>))"

definition execution_update :: "ExecutionRecord \<Rightarrow> unit store_op" where
  "execution_update e = modifies (\<lambda>d.
    d\<lparr>t_executions := tupd ex_execution_id (ex_execution_id e) (\<lambda>_. e) (t_executions d)\<rparr>)"

definition invalid_execution_transition :: "ExecutionState \<Rightarrow> ExecutionState \<Rightarrow> StoreError" where
  "invalid_execution_transition f t = SE_InvalidState (''invalid execution transition from '' @
     execution_state_text f @ '' to '' @ execution_state_text t)"

definition execution_update_state :: "uuid \<Rightarrow> ExecutionState \<Rightarrow> unit store_op" where
  "execution_update_state k st =
    andthen (reads (\<lambda>d. get_execution d k)) (\<lambda>r.
    case r of
      None \<Rightarrow> ret ()
    | Some e \<Rightarrow>
        andthen (ensure (is_valid_execution_transition (ex_state e) st)
          (invalid_execution_transition (ex_state e) st)) (\<lambda>_.
        execution_update (e\<lparr>ex_state := st\<rparr>)))"

definition execution_compare_and_set_state ::
  "timestamp \<Rightarrow> uuid \<Rightarrow> ExecutionState list \<Rightarrow> ExecutionState \<Rightarrow> bool store_op" where
  "execution_compare_and_set_state now k expected st = (\<lambda>d.
    if expected = [] then (Inr False, d)
    else (case get_execution d k of
            None \<Rightarrow> (Inr False, d)
          | Some e \<Rightarrow>
            if ex_state e \<in> set expected then
              (Inr True, d\<lparr>t_executions := tupd ex_execution_id k
                 (\<lambda>e. if execution_state_is_terminal st
                      then e\<lparr>ex_state := st, ex_finished_at := Some now\<rparr> else e\<lparr>ex_state := st\<rparr>)
                 (t_executions d)\<rparr>)
            else (Inr False, d)))"

definition list_stale_in_flight ::
  "timestamp \<Rightarrow> ExecutionState list \<Rightarrow> nat \<Rightarrow> database \<Rightarrow> ExecutionRecord list" where
  "list_stale_in_flight stale_before states limit d =
    (if states = [] then []
     else take limit (sort_key ex_started_at
       (filter (\<lambda>e. ex_state e \<in> set states \<and> ex_started_at e < stale_before \<and>
                    ex_finished_at e = None) (t_executions d))))"

definition executions_by_capability :: "uuid \<Rightarrow> database \<Rightarrow> ExecutionRecord list" where
  "executions_by_capability k d =
     sort_key (\<lambda>e. - ex_started_at e) (filter (\<lambda>e. ex_capability_id e = k) (t_executions d))"

subsection \<open>rollback.rs\<close>

definition contract_insert :: "RollbackContract \<Rightarrow> unit store_op" where
  "contract_insert c = (\<lambda>d.
    if get_contract d (rc_contract_id c) \<noteq> None \<or> get_intent d (rc_intent_id c) = None \<or>
       get_proposal d (rc_proposal_id c) = None \<or> get_execution d (rc_execution_id c) = None
    then (Inl SE_Database, d)
    else (Inr (), d\<lparr>t_contracts := t_contracts d @ [c]\<rparr>))"

definition contract_update :: "RollbackContract \<Rightarrow> unit store_op" where
  "contract_update c = modifies (\<lambda>d.
    d\<lparr>t_contracts := tupd rc_contract_id (rc_contract_id c) (\<lambda>_. c) (t_contracts d)\<rparr>)"

definition invalid_rollback_transition :: "RollbackState \<Rightarrow> RollbackState \<Rightarrow> StoreError" where
  "invalid_rollback_transition f t = SE_InvalidState (''invalid rollback transition from '' @
     rollback_state_text f @ '' to '' @ rollback_state_text t)"

definition contract_update_state :: "uuid \<Rightarrow> RollbackState \<Rightarrow> unit store_op" where
  "contract_update_state k st =
    andthen (reads (\<lambda>d. get_contract d k)) (\<lambda>r.
    case r of
      None \<Rightarrow> ret ()
    | Some c \<Rightarrow>
        andthen (ensure (is_valid_rollback_transition (rc_state c) st)
          (invalid_rollback_transition (rc_state c) st)) (\<lambda>_.
        contract_update (c\<lparr>rc_state := st\<rparr>)))"

subsection \<open>approvals.rs and quarantine.rs\<close>

definition approval_insert :: "ApprovalRequest \<Rightarrow> unit store_op" where
  "approval_insert a = (\<lambda>d.
    if get_approval d (aq_approval_id a) \<noteq> None \<or> get_intent d (aq_intent_id a) = None \<or>
       get_proposal d (aq_proposal_id a) = None
    then (Inl SE_Database, d)
    else (Inr (), d\<lparr>t_approvals := t_approvals d @ [a]\<rparr>))"

definition approval_update :: "ApprovalRequest \<Rightarrow> unit store_op" where
  "approval_update a = modifies (\<lambda>d.
    d\<lparr>t_approvals := tupd aq_approval_id (aq_approval_id a) (\<lambda>_. a) (t_approvals d)\<rparr>)"

fun approval_state_text :: "ApprovalState \<Rightarrow> string" where
  "approval_state_text AS_Pending = ''Pending''"
| "approval_state_text AS_Granted = ''Granted''"
| "approval_state_text AS_Denied = ''Denied''"
| "approval_state_text AS_Expired = ''Expired''"

definition resolve_approval_sqlite :: "uuid \<Rightarrow> ApprovalState \<Rightarrow> timestamp \<Rightarrow> bool store_op" where
  "resolve_approval_sqlite k st now = (\<lambda>d.
    case get_approval d k of
      None \<Rightarrow> (Inr False, d)
    | Some a \<Rightarrow>
      if st \<noteq> AS_Granted \<and> st \<noteq> AS_Denied then
        (Inl (SE_InvalidState (''invalid approval resolve target '' @ approval_state_text st @
           '': must be Granted or Denied'')), d)
      else if aq_state a \<noteq> AS_Pending then (Inr False, d)
      else if now < aq_expires_at a then
        (Inr True, d\<lparr>t_approvals := tupd aq_approval_id k
           (\<lambda>_. a\<lparr>aq_state := st,
                  aq_resolver_evidence_version := Some CURRENT_RESOLVER_EVIDENCE_VERSION\<rparr>)
           (t_approvals d)\<rparr>)
      else (Inr False, d))"

text \<open>The rows a batch of the expiry job selects; each is then set to \<open>Expired\<close>
  (in one run no row leaves \<open>Pending\<close> between selection and update).\<close>

definition stale_approvals :: "timestamp \<Rightarrow> 64 word \<Rightarrow> nat \<Rightarrow> database \<Rightarrow> ApprovalRequest list" where
  "stale_approvals now max_age_seconds batch_size d =
     take batch_size (filter (\<lambda>a. aq_state a = AS_Pending \<and>
       (aq_expires_at a < now \<or> aq_created_at a < now - seconds (sint max_age_seconds)))
       (t_approvals d))"

definition expire_stale_approvals ::
  "timestamp \<Rightarrow> 64 word \<Rightarrow> nat \<Rightarrow> (ApprovalRequest list) store_op" where
  "expire_stale_approvals now max_age_seconds batch_size = (\<lambda>d.
    let stale = stale_approvals now max_age_seconds batch_size d;
        ids = map aq_approval_id stale
    in (Inr (map (\<lambda>a. a\<lparr>aq_state := AS_Expired\<rparr>) stale),
        d\<lparr>t_approvals := map (\<lambda>a. if aq_approval_id a \<in> set ids then a\<lparr>aq_state := AS_Expired\<rparr> else a)
            (t_approvals d)\<rparr>))"

definition hold_insert :: "QuarantineHold \<Rightarrow> unit store_op" where
  "hold_insert h = (\<lambda>d.
    if get_hold d (qh_hold_id h) \<noteq> None \<or> get_intent d (qh_intent_id h) = None \<or>
       get_proposal d (qh_proposal_id h) = None
    then (Inl SE_Database, d)
    else (Inr (), d\<lparr>t_holds := t_holds d @ [h]\<rparr>))"

text \<open>The newest hold of a proposal (\<open>ORDER BY created_at DESC LIMIT 1\<close>).\<close>

definition hold_by_proposal :: "database \<Rightarrow> uuid \<Rightarrow> QuarantineHold option" where
  "hold_by_proposal d k =
    (case sort_key (\<lambda>h. - qh_created_at h) (filter (\<lambda>h. qh_proposal_id h = k) (t_holds d)) of
       [] \<Rightarrow> None | h # _ \<Rightarrow> Some h)"

definition hold_resolve ::
  "uuid \<Rightarrow> bool \<Rightarrow> ActorRef \<Rightarrow> string option \<Rightarrow> timestamp \<Rightarrow> bool store_op" where
  "hold_resolve k allow actor reason resolved_at = (\<lambda>d.
    case get_hold d k of
      None \<Rightarrow> (Inr False, d)
    | Some h \<Rightarrow>
      if qh_state h \<noteq> QS_Pending then (Inr False, d)
      else (Inr True, d\<lparr>t_holds := tupd qh_hold_id k
        (\<lambda>r. if qh_state r = QS_Pending then
               h\<lparr>qh_state := (if allow then QS_Allowed else QS_Denied),
                 qh_resolved_at := Some resolved_at, qh_resolved_by := Some actor,
                 qh_resolution_reason := reason\<rparr> else r) (t_holds d)\<rparr>))"

text \<open>The expiry job of the holds, as for the approvals.\<close>

definition stale_holds :: "timestamp \<Rightarrow> 64 word \<Rightarrow> nat \<Rightarrow> database \<Rightarrow> QuarantineHold list" where
  "stale_holds now max_age_seconds batch_size d =
     take batch_size (filter (\<lambda>h. qh_state h = QS_Pending \<and>
       (qh_expires_at h < now \<or> qh_created_at h < now - seconds (sint max_age_seconds)))
       (t_holds d))"

definition expire_stale_holds ::
  "timestamp \<Rightarrow> 64 word \<Rightarrow> nat \<Rightarrow> (QuarantineHold list) store_op" where
  "expire_stale_holds now max_age_seconds batch_size = (\<lambda>d.
    let stale = stale_holds now max_age_seconds batch_size d;
        ids = map qh_hold_id stale
    in (Inr (map (\<lambda>h. h\<lparr>qh_state := QS_Expired\<rparr>) stale),
        d\<lparr>t_holds := map (\<lambda>h. if qh_hold_id h \<in> set ids \<and> qh_state h = QS_Pending
                               then h\<lparr>qh_state := QS_Expired\<rparr> else h) (t_holds d)\<rparr>))"

definition active_bundles :: "database \<Rightarrow> PolicyBundle list" where
  "active_bundles d = sort_key (\<lambda>b. - pb_created_at b) (filter pb_active (t_bundles d))"

subsection \<open>provenance.rs\<close>

definition event_append :: "ProvenanceEvent \<Rightarrow> unit store_op" where
  "event_append e = (\<lambda>d.
    if get_event d (ev_event_id e) \<noteq> None then (Inl SE_Database, d)
    else (Inr (), d\<lparr>t_events := t_events d @ [e]\<rparr>))"

text \<open>An edge row points to the appended event; its parent must exist.\<close>

definition edge_row :: "uuid \<Rightarrow> ProvenanceEdge \<Rightarrow> ProvenanceEdge" where
  "edge_row to e = e\<lparr>ed_to_event_id := Some to\<rparr>"

definition event_append_with_edges :: "ProvenanceEvent \<Rightarrow> ProvenanceEdge list \<Rightarrow> unit store_op" where
  "event_append_with_edges e edges = (\<lambda>d.
    if list_ex (\<lambda>x. ed_to_event_id x \<noteq> None \<and> ed_to_event_id x \<noteq> Some (ev_event_id e)) edges then
      (Inl (SE_Other ''provenance edge to_event_id does not match appended event''), d)
    else if get_event d (ev_event_id e) \<noteq> None then (Inl SE_Database, d)
    else if list_ex (\<lambda>x. ed_from_event_id x \<noteq> ev_event_id e \<and> get_event d (ed_from_event_id x) = None) edges
      then (Inl SE_Database, d)
    else (Inr (), d\<lparr>t_events := t_events d @ [e],
                    t_edges := t_edges d @ map (edge_row (ev_event_id e)) edges\<rparr>))"

definition get_edges_to :: "database \<Rightarrow> uuid \<Rightarrow> ProvenanceEdge list" where
  "get_edges_to d k = filter (\<lambda>x. ed_to_event_id x = Some k) (t_edges d)"

definition get_edges_from :: "database \<Rightarrow> uuid list \<Rightarrow> ProvenanceEdge list" where
  "get_edges_from d ks =
    (if ks = [] then [] else filter (\<lambda>x. ed_from_event_id x \<in> set ks) (t_edges d))"

definition event_matches :: "database \<Rightarrow> ProvenanceQueryRequest \<Rightarrow> ProvenanceEvent \<Rightarrow> bool" where
  "event_matches d q e =
    ((pq_intent_id q \<noteq> None \<longrightarrow> ev_intent_id e = pq_intent_id q) \<and>
     (pq_execution_id q \<noteq> None \<longrightarrow> ev_execution_id e = pq_execution_id q) \<and>
     (pq_capability_id q \<noteq> None \<longrightarrow> ev_capability_id e = pq_capability_id q) \<and>
     (case pq_event_kind q of None \<Rightarrow> True | Some k \<Rightarrow> ev_kind e = k) \<and>
     (case pq_since q of None \<Rightarrow> True | Some t \<Rightarrow> t \<le> ev_occurred_at e) \<and>
     (case pq_until q of None \<Rightarrow> True | Some t \<Rightarrow> ev_occurred_at e \<le> t) \<and>
     (pq_edge_types q = [] \<or>
      list_ex (\<lambda>x. ed_edge_type x \<in> set (pq_edge_types q)) (get_edges_to d (ev_event_id e))))"

definition provenance_query :: "ProvenanceQueryRequest \<Rightarrow> database \<Rightarrow> ProvenanceEvent list" where
  "provenance_query q d = filter (event_matches d q) (sort_key ev_occurred_at (t_events d))"

subsection \<open>Lemmas\<close>

lemma tget_key: "tget key k t = Some r \<Longrightarrow> key r = k"
  by (auto simp: tget_def find_Some_iff)

lemma tget_in: "tget key k t = Some r \<Longrightarrow> r \<in> set t"
  by (auto simp: tget_def find_Some_iff)

lemma tget_None_iff: "tget key k t = None \<longleftrightarrow> k \<notin> key ` set t"
  by (auto simp: tget_def find_None_iff)

lemma tget_snoc:
  "tget key k (t @ [r]) = (case tget key k t of Some x \<Rightarrow> Some x | None \<Rightarrow> if key r = k then Some r else None)"
  by (induction t) (auto simp: tget_def)

lemma tget_tupd:
  assumes "\<And>r. key r = k \<Longrightarrow> key (f r) = k"
  shows "tget key k' (tupd key k f t) = (if k' = k then map_option f (tget key k t) else tget key k' t)"
  using assms by (induction t) (auto simp: tget_def tupd_def)

lemma keys_tupd:
  assumes "\<And>r. key r = k \<Longrightarrow> key (f r) = k"
  shows "map key (tupd key k f t) = map key t"
  using assms by (auto simp: tupd_def)

lemma tget_unique:
  "distinct (map key t) \<Longrightarrow> r \<in> set t \<Longrightarrow> tget key (key r) t = Some r"
  by (induction t) (auto simp: tget_def image_iff)

lemma set_tupd:
  "x \<in> set (tupd key k f t) \<Longrightarrow> (x \<in> set t \<and> key x \<noteq> k) \<or> (\<exists>r \<in> set t. key r = k \<and> x = f r)"
  by (auto simp: tupd_def split: if_splits)

lemmas get_defs = get_intent_def get_proposal_def get_capability_def get_execution_def
  get_contract_def get_approval_def get_hold_def get_event_def

end
