(* ===== verification/Outbox.thy ===== *)
theory Outbox
  imports Store
begin

text \<open>
  The lifecycle outbox of the SQLite store,
  \<open>crates/ferrum-store/src/sqlite/lifecycle_outbox.rs\<close>: the two transactions that
  change an execution (\<open>record_lifecycle_transition\<close>, \<open>record_authorization\<close>), the
  settlement of provenance obligations, and the reconciliation leases with
  their fencing generation.

  A method reads the clock where it needs it; the readings are arguments, in
  the order the code takes them.  A reconciliation lease column holds an RFC 3339
  text in UTC, whose lexicographic order is the order of the instants.
\<close>

subsection \<open>Transactions\<close>

text \<open>A transaction that fails is rolled back.\<close>

definition transaction :: "'a store_op \<Rightarrow> 'a store_op" where
  "transaction m = (\<lambda>d. case m d of (Inl e, _) \<Rightarrow> (Inl e, d) | (Inr x, d') \<Rightarrow> (Inr x, d'))"

lemma transaction_Inr [simp]: "transaction m d = (Inr x, d') \<longleftrightarrow> m d = (Inr x, d')"
  by (auto simp: transaction_def split: prod.splits sum.splits)

lemma transaction_Inl: "transaction m d = (Inl e, d') \<Longrightarrow> d' = d"
  by (auto simp: transaction_def split: prod.splits sum.splits)

definition get_outbox_row :: "database \<Rightarrow> uuid \<Rightarrow> OutboxRow option" where
  "get_outbox_row d k = tget (\<lambda>r. lo_outbox_id (ow_record r)) k (t_outbox d)"

definition get_outbox :: "database \<Rightarrow> uuid \<Rightarrow> LifecycleOutboxRecord option" where
  "get_outbox d k = map_option ow_record (get_outbox_row d k)"

text \<open>A nullable foreign key: absent, or present in the parent table.\<close>

definition fk_ok :: "('k \<Rightarrow> 'r option) \<Rightarrow> 'k option \<Rightarrow> bool" where
  "fk_ok parent k = (case k of None \<Rightarrow> True | Some x \<Rightarrow> parent x \<noteq> None)"

definition insert_outbox_record_tx :: "LifecycleOutboxRecord \<Rightarrow> unit store_op" where
  "insert_outbox_record_tx r = (\<lambda>d.
    if list_ex (\<lambda>w. lo_idempotency_key (ow_record w) = lo_idempotency_key r) (t_outbox d) then
      (Inl (SE_Other (''lifecycle outbox idempotency conflict for key '' @ lo_idempotency_key r)), d)
    else if get_outbox_row d (lo_outbox_id r) \<noteq> None \<or> get_execution d (lo_execution_id r) = None \<or>
            \<not> fk_ok (get_contract d) (lo_rollback_contract_id r) \<or>
            \<not> fk_ok (get_event d) (lo_provenance_event_id r)
      then (Inl SE_Database, d)
    else (Inr (), d\<lparr>t_outbox := t_outbox d @
      [\<lparr>ow_record = r, ow_lease_owner = None, ow_lease_expires_at = None, ow_lease_generation = 0\<rparr>]\<rparr>))"

definition enqueue_lifecycle_transition :: "LifecycleOutboxRecord \<Rightarrow> unit store_op" where
  "enqueue_lifecycle_transition r = transaction (insert_outbox_record_tx r)"

subsection \<open>record\_lifecycle\_transition\<close>

definition execution_update_if_state :: "ExecutionState \<Rightarrow> ExecutionRecord \<Rightarrow> unit store_op" where
  "execution_update_if_state expected e = (\<lambda>d.
    case get_execution d (ex_execution_id e) of
      Some x \<Rightarrow>
        if ex_state x = expected then execution_update e d
        else (Inl (SE_InvalidState (''execution '' @ ex_execution_id e @
                '' state changed before lifecycle transition'')), d)
    | None \<Rightarrow> (Inl (SE_InvalidState (''execution '' @ ex_execution_id e @
                '' state changed before lifecycle transition'')), d))"

definition contract_update_if_state :: "RollbackState \<Rightarrow> RollbackContract \<Rightarrow> unit store_op" where
  "contract_update_if_state expected c = (\<lambda>d.
    case get_contract d (rc_contract_id c) of
      Some x \<Rightarrow>
        if rc_state x = expected then contract_update c d
        else (Inl (SE_InvalidState (''rollback contract '' @ rc_contract_id c @
                '' state changed before lifecycle transition'')), d)
    | None \<Rightarrow> (Inl (SE_InvalidState (''rollback contract '' @ rc_contract_id c @
                '' state changed before lifecycle transition'')), d))"

definition lifecycle_contract_guard ::
  "RollbackContract option \<Rightarrow> RollbackState option \<Rightarrow> unit store_op" where
  "lifecycle_contract_guard c prev =
    (case (c, prev) of
       (Some c, Some p) \<Rightarrow>
         ensure (is_valid_rollback_transition p (rc_state c)) (invalid_rollback_transition p (rc_state c))
     | _ \<Rightarrow> ret ())"

definition lifecycle_contract_write ::
  "RollbackContract option \<Rightarrow> RollbackState option \<Rightarrow> unit store_op" where
  "lifecycle_contract_write c prev =
    (case c of
       None \<Rightarrow> ret ()
     | Some c \<Rightarrow> (case prev of Some p \<Rightarrow> contract_update_if_state p c | None \<Rightarrow> contract_insert c))"

definition record_lifecycle_transition ::
  "ExecutionRecord \<Rightarrow> RollbackContract option \<Rightarrow> LifecycleOutboxRecord \<Rightarrow> unit store_op" where
  "record_lifecycle_transition e c ob = transaction (
    andthen (some_or (lo_previous_execution_state ob)
      (SE_InvalidState (''lifecycle outbox '' @ lo_outbox_id ob @ '' missing previous execution state''))) (\<lambda>expected.
    andthen (ensure (is_valid_execution_transition expected (ex_state e))
      (invalid_execution_transition expected (ex_state e))) (\<lambda>_.
    andthen (lifecycle_contract_guard c (lo_previous_rollback_state ob)) (\<lambda>_.
    andthen (execution_update_if_state expected e) (\<lambda>_.
    andthen (lifecycle_contract_write c (lo_previous_rollback_state ob)) (\<lambda>_.
    insert_outbox_record_tx ob))))))"

subsection \<open>record\_authorization\<close>

text \<open>The capability is consumed, the execution and its outbox row inserted, in
  one transaction; \<open>False\<close> when the capability is not active at the database.\<close>

definition record_authorization ::
  "timestamp \<Rightarrow> CapabilityLease \<Rightarrow> ExecutionRecord \<Rightarrow> LifecycleOutboxRecord \<Rightarrow> bool store_op" where
  "record_authorization now c e ob = transaction (
    andthen (capability_update_status_if_active now (cl_capability_id c) CS_Used) (\<lambda>updated.
    if \<not> updated then ret False
    else andthen (execution_insert e) (\<lambda>_.
         andthen (insert_outbox_record_tx ob) (\<lambda>_. ret True))))"

subsection \<open>Obligations\<close>

fun set_obligation :: "ProvenanceEventKind \<Rightarrow> uuid \<Rightarrow> ProvenanceObligation list \<Rightarrow> ProvenanceObligation list" where
  "set_obligation k e [] = [(obligation_pending k)\<lparr>ob_event_id := Some e\<rparr>]"
| "set_obligation k e (ob # obs) =
    (if ob_event_kind ob = k then ob\<lparr>ob_event_id := Some e\<rparr> # obs else ob # set_obligation k e obs)"

definition mark_obligation_written ::
  "timestamp \<Rightarrow> ProvenanceEventKind \<Rightarrow> uuid \<Rightarrow> LifecycleOutboxRecord \<Rightarrow> LifecycleOutboxRecord" where
  "mark_obligation_written now k e r =
    (let obs = (if lo_provenance_obligations r = []
                then [obligation_pending (lo_intended_provenance_kind r)]
                else lo_provenance_obligations r)
     in r\<lparr>lo_provenance_obligations := set_obligation k e obs,
          lo_provenance_event_id := Some e, lo_status := ProvenanceWritten, lo_updated_at := now\<rparr>)"

definition all_obligations_satisfied :: "LifecycleOutboxRecord \<Rightarrow> bool" where
  "all_obligations_satisfied r =
    (if lo_provenance_obligations r = [] then lo_provenance_event_id r \<noteq> None
     else list_all is_satisfied (lo_provenance_obligations r))"

definition require_all_obligations_satisfied :: "LifecycleOutboxRecord \<Rightarrow> unit store_op" where
  "require_all_obligations_satisfied r = ensure (all_obligations_satisfied r)
     (SE_Other (''lifecycle outbox '' @ lo_outbox_id r @ '' has unsatisfied provenance obligations''))"

definition require_updated :: "bool \<Rightarrow> unit store_op" where
  "require_updated updated = ensure updated (SE_Other ''lifecycle outbox update did not affect any row'')"

subsection \<open>Writing an outbox row\<close>

definition write_outbox_row :: "LifecycleOutboxRecord \<Rightarrow> bool \<Rightarrow> OutboxRow \<Rightarrow> OutboxRow" where
  "write_outbox_row r clear_lease w =
    (if clear_lease then w\<lparr>ow_record := r, ow_lease_owner := None, ow_lease_expires_at := None\<rparr>
     else w\<lparr>ow_record := r\<rparr>)"

text \<open>The \<open>UPDATE lifecycle_outbox ... WHERE outbox_id = k AND guard\<close> of both
  writers; the event the row names is a foreign key.\<close>

definition outbox_write ::
  "uuid \<Rightarrow> (OutboxRow \<Rightarrow> bool) \<Rightarrow> LifecycleOutboxRecord \<Rightarrow> bool \<Rightarrow> bool store_op" where
  "outbox_write k guard r clear_lease = (\<lambda>d.
    case get_outbox_row d k of
      None \<Rightarrow> (Inr False, d)
    | Some w \<Rightarrow>
      if \<not> guard w then (Inr False, d)
      else if \<not> fk_ok (get_event d) (lo_provenance_event_id r) then (Inl SE_Database, d)
      else (Inr True, d\<lparr>t_outbox := tupd (\<lambda>w. lo_outbox_id (ow_record w)) k
              (write_outbox_row r clear_lease) (t_outbox d)\<rparr>))"

definition update_outbox_record :: "LifecycleOutboxRecord \<Rightarrow> bool \<Rightarrow> bool \<Rightarrow> bool store_op" where
  "update_outbox_record r clear_lease allow_lease_override =
     outbox_write (lo_outbox_id r) (\<lambda>w. allow_lease_override \<or> ow_lease_owner w = None) r clear_lease"

record LifecycleOutboxLease =
  ls_outbox_id :: uuid
  ls_owner :: string
  ls_generation :: int
  ls_expires_at :: timestamp

definition lease_current :: "timestamp \<Rightarrow> LifecycleOutboxLease \<Rightarrow> OutboxRow \<Rightarrow> bool" where
  "lease_current now l w =
    (ow_lease_owner w = Some (ls_owner l) \<and> ow_lease_generation w = ls_generation l \<and>
     (case ow_lease_expires_at w of None \<Rightarrow> False | Some t \<Rightarrow> now < t))"

definition lease_is_current :: "timestamp \<Rightarrow> LifecycleOutboxLease \<Rightarrow> database \<Rightarrow> bool" where
  "lease_is_current now l d =
    (case get_outbox_row d (ls_outbox_id l) of None \<Rightarrow> False | Some w \<Rightarrow> lease_current now l w)"

definition update_outbox_record_claimed ::
  "timestamp \<Rightarrow> LifecycleOutboxRecord \<Rightarrow> LifecycleOutboxLease \<Rightarrow> bool \<Rightarrow> bool store_op" where
  "update_outbox_record_claimed now r l clear_lease =
     outbox_write (ls_outbox_id l) (lease_current now l) r clear_lease"

subsection \<open>Operations on an outbox record\<close>

text \<open>Read a row, compute the new record, write it: \<open>absent\<close> is the outcome when
  there is no such row.\<close>

definition with_outbox ::
  "uuid \<Rightarrow> 'a store_op \<Rightarrow> (LifecycleOutboxRecord \<Rightarrow> 'a store_op) \<Rightarrow> 'a store_op" where
  "with_outbox k absent f =
    andthen (reads (\<lambda>d. get_outbox d k)) (\<lambda>r. case r of None \<Rightarrow> absent | Some r \<Rightarrow> f r)"

definition outbox_not_found :: "uuid \<Rightarrow> StoreError" where
  "outbox_not_found k = SE_NotFound ''lifecycle_outbox'' k"

definition mark_provenance_obligation_written ::
  "timestamp \<Rightarrow> uuid \<Rightarrow> ProvenanceEventKind \<Rightarrow> uuid \<Rightarrow> bool store_op" where
  "mark_provenance_obligation_written now k kind e =
    with_outbox k (raise (outbox_not_found k)) (\<lambda>r.
      update_outbox_record (mark_obligation_written now kind e r) False False)"

definition mark_provenance_written :: "timestamp \<Rightarrow> uuid \<Rightarrow> uuid \<Rightarrow> unit store_op" where
  "mark_provenance_written now k e =
    with_outbox k (raise (outbox_not_found k)) (\<lambda>r.
      andthen (mark_provenance_obligation_written now k (lo_intended_provenance_kind r) e) require_updated)"

definition reconciled_record :: "timestamp \<Rightarrow> JsonMap \<Rightarrow> LifecycleOutboxRecord \<Rightarrow> LifecycleOutboxRecord" where
  "reconciled_record now result r =
    r\<lparr>lo_status := Reconciled,
      lo_metadata := jm_insert ''reconciliation_result'' (JObj result) (lo_metadata r),
      lo_updated_at := now\<rparr>"

definition mark_reconciled :: "timestamp \<Rightarrow> uuid \<Rightarrow> JsonMap \<Rightarrow> unit store_op" where
  "mark_reconciled now k result =
    with_outbox k (ret ()) (\<lambda>r.
      let r' = reconciled_record now result r in
      andthen (require_all_obligations_satisfied r') (\<lambda>_.
      andthen (update_outbox_record r' True False) require_updated))"

definition saturating_succ :: "32 word \<Rightarrow> 32 word" where
  "saturating_succ n = (if n = - 1 then n else n + 1)"

definition review_record :: "timestamp \<Rightarrow> string \<Rightarrow> LifecycleOutboxRecord \<Rightarrow> LifecycleOutboxRecord" where
  "review_record now reason r =
    r\<lparr>lo_status := NeedsOperatorReview, lo_last_error := Some reason,
      lo_attempt_count := saturating_succ (lo_attempt_count r), lo_updated_at := now\<rparr>"

definition mark_needs_operator_review :: "timestamp \<Rightarrow> uuid \<Rightarrow> string \<Rightarrow> unit store_op" where
  "mark_needs_operator_review now k reason =
    with_outbox k (ret ()) (\<lambda>r.
      andthen (update_outbox_record (review_record now reason r) True False) require_updated)"

text \<open>\<open>ts\<close> is the JSON text of a timestamp.\<close>

definition retry_record ::
  "(timestamp \<Rightarrow> json) \<Rightarrow> timestamp \<Rightarrow> string \<Rightarrow> string option \<Rightarrow> LifecycleOutboxRecord \<Rightarrow> LifecycleOutboxRecord" where
  "retry_record ts now actor reason r =
    r\<lparr>lo_status := PendingProvenance, lo_last_error := None, lo_updated_at := now,
      lo_metadata := jm_insert ''operator_retry''
        (JObj [(''actor_id'', JStr actor),
               (''reason'', case reason of None \<Rightarrow> JNull | Some s \<Rightarrow> JStr s),
               (''requested_at'', ts now)]) (lo_metadata r)\<rparr>"

definition reset_for_retry ::
  "(timestamp \<Rightarrow> json) \<Rightarrow> timestamp \<Rightarrow> uuid \<Rightarrow> string \<Rightarrow> string option \<Rightarrow> LifecycleOutboxRecord option store_op" where
  "reset_for_retry ts now k actor reason =
    with_outbox k (ret None) (\<lambda>r.
      let r' = retry_record ts now actor reason r in
      andthen (andthen (update_outbox_record r' True True) require_updated) (\<lambda>_. ret (Some r')))"

definition resolved_record ::
  "(timestamp \<Rightarrow> json) \<Rightarrow> timestamp \<Rightarrow> string \<Rightarrow> string \<Rightarrow> LifecycleOutboxRecord \<Rightarrow> LifecycleOutboxRecord" where
  "resolved_record ts now actor reason r =
    r\<lparr>lo_status := Reconciled, lo_last_error := None, lo_updated_at := now,
      lo_metadata := jm_insert ''operator_resolved''
        (JObj [(''actor_id'', JStr actor), (''reason'', JStr reason), (''resolved_at'', ts now)])
        (lo_metadata r)\<rparr>"

definition mark_operator_resolved ::
  "(timestamp \<Rightarrow> json) \<Rightarrow> timestamp \<Rightarrow> uuid \<Rightarrow> string \<Rightarrow> string \<Rightarrow> LifecycleOutboxRecord option store_op" where
  "mark_operator_resolved ts now k actor reason =
    with_outbox k (ret None) (\<lambda>r.
      let r' = resolved_record ts now actor reason r in
      andthen (andthen (update_outbox_record r' True True) require_updated) (\<lambda>_. ret (Some r')))"

subsection \<open>Listing and leases\<close>

text \<open>\<open>ORDER BY t ASC, outbox_id ASC\<close>.\<close>

definition outbox_order ::
  "(LifecycleOutboxRecord \<Rightarrow> timestamp) \<Rightarrow> OutboxRow list \<Rightarrow> OutboxRow list" where
  "outbox_order t ws = sort_key (t \<circ> ow_record) (sort_key (lo_outbox_id \<circ> ow_record) ws)"

definition list_by_status ::
  "LifecycleOutboxStatus \<Rightarrow> 32 word \<Rightarrow> database \<Rightarrow> LifecycleOutboxRecord list" where
  "list_by_status st limit d =
     map ow_record (take (unat limit) (outbox_order lo_updated_at
       (filter (\<lambda>w. lo_status (ow_record w) = st) (t_outbox d))))"

definition list_pending_reconciliation :: "32 word \<Rightarrow> database \<Rightarrow> LifecycleOutboxRecord list" where
  "list_pending_reconciliation limit d =
     map ow_record (take (unat limit) (outbox_order lo_created_at
       (filter (\<lambda>w. lo_status (ow_record w) \<in> {PendingProvenance, ProvenanceWritten, NeedsOperatorReview})
         (t_outbox d))))"

record LifecycleOutboxClaim =
  lcl_record :: LifecycleOutboxRecord
  lcl_lease :: LifecycleOutboxLease

definition lease_free :: "timestamp \<Rightarrow> OutboxRow \<Rightarrow> bool" where
  "lease_free now w = (case ow_lease_expires_at w of None \<Rightarrow> True | Some t \<Rightarrow> t \<le> now)"

definition open_status :: "OutboxRow \<Rightarrow> bool" where
  "open_status w = (lo_status (ow_record w) \<in> {PendingProvenance, ProvenanceWritten})"

definition claim_row :: "timestamp \<Rightarrow> timestamp \<Rightarrow> string \<Rightarrow> uuid \<Rightarrow> database \<Rightarrow>
    LifecycleOutboxClaim option \<times> database" where
  "claim_row now expires owner k d =
    (case get_outbox_row d k of
       None \<Rightarrow> (None, d)
     | Some w \<Rightarrow>
       if lease_free now w then
         (Some \<lparr>lcl_record = ow_record w,
                lcl_lease = \<lparr>ls_outbox_id = lo_outbox_id (ow_record w), ls_owner = owner,
                             ls_generation = ow_lease_generation w + 1, ls_expires_at = expires\<rparr>\<rparr>,
          d\<lparr>t_outbox := tupd (\<lambda>w. lo_outbox_id (ow_record w)) k
             (\<lambda>w. w\<lparr>ow_lease_owner := Some owner, ow_lease_expires_at := Some expires,
                    ow_lease_generation := ow_lease_generation w + 1\<rparr>) (t_outbox d)\<rparr>)
       else (None, d))"

fun claim_rows :: "timestamp \<Rightarrow> timestamp \<Rightarrow> string \<Rightarrow> uuid list \<Rightarrow> database \<Rightarrow>
    LifecycleOutboxClaim list \<times> database" where
  "claim_rows now expires owner [] d = ([], d)"
| "claim_rows now expires owner (k # ks) d =
    (case claim_row now expires owner k d of (c, d1) \<Rightarrow>
     case claim_rows now expires owner ks d1 of (cs, d2) \<Rightarrow>
       ((case c of None \<Rightarrow> cs | Some x \<Rightarrow> x # cs), d2))"

definition claim_pending_reconciliation ::
  "timestamp \<Rightarrow> 32 word \<Rightarrow> string \<Rightarrow> int \<Rightarrow> (LifecycleOutboxClaim list) store_op" where
  "claim_pending_reconciliation now limit owner ttl = (\<lambda>d.
    if limit = 0 then (Inr [], d)
    else
      (let ks = map (\<lambda>w. lo_outbox_id (ow_record w)) (take (unat limit) (outbox_order lo_created_at
                  (filter (\<lambda>w. open_status w \<and> lease_free now w) (t_outbox d))))
       in case claim_rows now (now + ttl) owner ks d of (cs, d') \<Rightarrow> (Inr cs, d')))"

definition renew_reconciliation_lease ::
  "timestamp \<Rightarrow> timestamp \<Rightarrow> LifecycleOutboxLease \<Rightarrow> int \<Rightarrow> bool store_op" where
  "renew_reconciliation_lease now1 now2 l ttl = (\<lambda>d.
    case get_outbox_row d (ls_outbox_id l) of
      None \<Rightarrow> (Inr False, d)
    | Some w \<Rightarrow>
      if lease_current now2 l w \<and> open_status w then
        (Inr True, d\<lparr>t_outbox := tupd (\<lambda>w. lo_outbox_id (ow_record w)) (ls_outbox_id l)
           (\<lambda>w. w\<lparr>ow_lease_expires_at := Some (now1 + ttl)\<rparr>) (t_outbox d)\<rparr>)
      else (Inr False, d))"

definition mark_provenance_obligation_written_claimed ::
  "timestamp \<Rightarrow> timestamp \<Rightarrow> LifecycleOutboxLease \<Rightarrow> ProvenanceEventKind \<Rightarrow> uuid \<Rightarrow> bool store_op" where
  "mark_provenance_obligation_written_claimed now1 now2 l kind e =
    with_outbox (ls_outbox_id l) (ret False) (\<lambda>r.
      update_outbox_record_claimed now2 (mark_obligation_written now1 kind e r) l False)"

definition mark_provenance_written_claimed ::
  "timestamp \<Rightarrow> timestamp \<Rightarrow> LifecycleOutboxLease \<Rightarrow> uuid \<Rightarrow> bool store_op" where
  "mark_provenance_written_claimed now1 now2 l e =
    with_outbox (ls_outbox_id l) (ret False) (\<lambda>r.
      mark_provenance_obligation_written_claimed now1 now2 l (lo_intended_provenance_kind r) e)"

definition mark_reconciled_claimed ::
  "timestamp \<Rightarrow> timestamp \<Rightarrow> timestamp \<Rightarrow> LifecycleOutboxLease \<Rightarrow> JsonMap \<Rightarrow> bool store_op" where
  "mark_reconciled_claimed now1 now2 now3 l result =
    andthen (reads (lease_is_current now1 l)) (\<lambda>current.
    if \<not> current then ret False
    else with_outbox (ls_outbox_id l) (ret False) (\<lambda>r.
      let r' = reconciled_record now2 result r in
      andthen (require_all_obligations_satisfied r') (\<lambda>_.
      update_outbox_record_claimed now3 r' l True)))"

definition mark_needs_operator_review_claimed ::
  "timestamp \<Rightarrow> timestamp \<Rightarrow> LifecycleOutboxLease \<Rightarrow> string \<Rightarrow> bool store_op" where
  "mark_needs_operator_review_claimed now1 now2 l reason =
    with_outbox (ls_outbox_id l) (ret False) (\<lambda>r.
      update_outbox_record_claimed now2 (review_record now1 reason r) l True)"

datatype ReconciliationFailureDisposition = Retryable | FD_NeedsOperatorReview | LeaseLost

definition failed_record ::
  "timestamp \<Rightarrow> string \<Rightarrow> 32 word \<Rightarrow> LifecycleOutboxRecord \<Rightarrow> LifecycleOutboxRecord \<times> ReconciliationFailureDisposition" where
  "failed_record now err max_attempts r =
    (let r' = r\<lparr>lo_attempt_count := saturating_succ (lo_attempt_count r), lo_last_error := Some err,
                lo_updated_at := now\<rparr>
     in if max_attempts \<le> lo_attempt_count r'
        then (r'\<lparr>lo_status := NeedsOperatorReview\<rparr>, FD_NeedsOperatorReview)
        else (r', Retryable))"

definition record_reconciliation_failure ::
  "timestamp \<Rightarrow> timestamp \<Rightarrow> LifecycleOutboxLease \<Rightarrow> string \<Rightarrow> 32 word \<Rightarrow> ReconciliationFailureDisposition store_op" where
  "record_reconciliation_failure now1 now2 l err max_attempts =
    with_outbox (ls_outbox_id l) (ret LeaseLost) (\<lambda>r.
      case failed_record now1 err max_attempts r of (r', disposition) \<Rightarrow>
      andthen (update_outbox_record_claimed now2 r' l True) (\<lambda>ok.
      ret (if ok then disposition else LeaseLost)))"

definition reconciliation_lease_stats :: "timestamp \<Rightarrow> database \<Rightarrow> nat \<times> nat" where
  "reconciliation_lease_stats now d =
    (let ws = filter (\<lambda>w. open_status w \<and> ow_lease_owner w \<noteq> None) (t_outbox d)
     in (length (filter (\<lambda>w. case ow_lease_expires_at w of None \<Rightarrow> False | Some t \<Rightarrow> now < t) ws),
         length (filter (\<lambda>w. case ow_lease_expires_at w of None \<Rightarrow> False | Some t \<Rightarrow> t \<le> now) ws)))"

end
