(* ===== verification/Gateway.thy ===== *)
theory Gateway
  imports Validation Outbox
begin

text \<open>
  What the gateway's request handlers share (\<open>crates/ferrum-gateway/src\<close>): the
  error envelope (\<open>problem.rs\<close>), the object owner guard (\<open>auth_actor.rs\<close>), the
  provenance append and the lineage gate (\<open>provenance.rs\<close>), and the lifecycle
  outbox helpers (\<open>execution/lifecycle_outbox.rs\<close>).

  A handler is a computation on \<open>gstate\<close>: the database, and the sequence of
  calls made to the rollback service (the side effects).  Its other inputs are
  the configuration \<open>gateway\<close>, which also carries the code outside this
  repository as functions (adapters, hash, regular expressions, file system,
  URL and UUID parsers), and the \<open>env\<close> of the request: at the numbered sites of
  a handler, what the clock reads, which identifier is drawn, whether the
  database is unavailable, and what the other requests have done to the database
  since the previous call (\<open>at_others\<close>), so that every statement about a handler
  holds under interference.  Metrics, tracing and the sanitising of responses are
  left out; they do not influence the outcome.
\<close>

subsection \<open>problem.rs\<close>

datatype ApiErrorCode =
    ValidationError | NotFound | PolicyDenied | ApprovalRequired | CapabilityExpired
  | CapabilityRevokedCode | IntegrityMismatch | RollbackUnsupported | AdapterFailure | Conflict
  | Internal | Unauthorized | Forbidden | BadRequest | PayloadTooLarge | MfaRequired | MfaInvalid
  | MfaLocked | Misconfigured

datatype CapabilityError =
    CE_NotFound | CE_AlreadyUsed | CE_Revoked | CE_Expired | CE_TtlTooLong | CE_Internal

datatype LineageError =
    LineageUnreadable StoreError
  | PrerequisiteMissing ProvenanceEventKind
  | EdgeMissing ProvenanceEventKind ProvenanceEventKind
  | ContextMismatch ProvenanceEventKind
  | GrantMissing
  | DecisionForbids Decision
  | DecisionMissing
  | OrderInvalid ProvenanceEventKind ProvenanceEventKind

text \<open>The text of a problem: a literal, or the display of the error it wraps.\<close>

datatype ApiMessage =
    Msg string
  | StoreMsg StoreError
  | CapabilityMsg CapabilityError
  | RollbackMsg RollbackError
  | BindingMsg BindingMismatch
  | ScopeMsg ScopeViolation
  | ConstraintMsg ConstraintError
  | InferenceMsg InferenceError
  | LineageMsg LineageError

record ApiProblem =
  pb_status :: nat
  pb_code :: ApiErrorCode
  pb_message :: ApiMessage

definition problem :: "nat \<Rightarrow> ApiErrorCode \<Rightarrow> string \<Rightarrow> ApiProblem" where
  "problem status code msg = \<lparr>pb_status = status, pb_code = code, pb_message = Msg msg\<rparr>"

definition object_not_found :: ApiProblem where
  "object_not_found = problem 404 NotFound ''object not found''"

definition internal :: "StoreError \<Rightarrow> ApiProblem" where
  "internal e = \<lparr>pb_status = 500, pb_code = Internal, pb_message = StoreMsg e\<rparr>"

fun from_capability :: "CapabilityError \<Rightarrow> ApiProblem" where
  "from_capability CE_NotFound = \<lparr>pb_status = 404, pb_code = NotFound, pb_message = CapabilityMsg CE_NotFound\<rparr>"
| "from_capability CE_AlreadyUsed = \<lparr>pb_status = 409, pb_code = Conflict, pb_message = CapabilityMsg CE_AlreadyUsed\<rparr>"
| "from_capability CE_Revoked = \<lparr>pb_status = 400, pb_code = CapabilityRevokedCode, pb_message = CapabilityMsg CE_Revoked\<rparr>"
| "from_capability CE_Expired = \<lparr>pb_status = 400, pb_code = CapabilityExpired, pb_message = CapabilityMsg CE_Expired\<rparr>"
| "from_capability CE_TtlTooLong = \<lparr>pb_status = 400, pb_code = ValidationError, pb_message = CapabilityMsg CE_TtlTooLong\<rparr>"
| "from_capability CE_Internal = \<lparr>pb_status = 500, pb_code = Internal, pb_message = CapabilityMsg CE_Internal\<rparr>"

subsection \<open>Configuration, request environment and state\<close>

datatype AuthMode = AuthDisabled | AuthBearer | AuthScoped | AuthOidc | AuthAgent

datatype TokenRole = Role_Admin | Role_Operator | Role_PolicyAuthor | Role_Auditor | Role_Agent | Role_ReadOnly

record AuthActor =
  aa_actor_id :: string
  aa_source :: string
  aa_scopes :: "string list"
  aa_role :: "TokenRole option"

record gateway =
  gw_auth_mode :: AuthMode
  gw_legacy_object_compat_allow_until :: "timestamp option"
  gw_rollback :: RollbackService
  gw_hash_json :: "json \<Rightarrow> string"
  gw_regex :: regex_engine
  gw_fs :: fs
  gw_parse_url :: url_parser
  gw_parse_uuid :: "string \<Rightarrow> uuid option"
  gw_audit_fail_closed :: bool

record env =
  at_now :: "nat \<Rightarrow> timestamp"
  at_id :: "nat \<Rightarrow> uuid"
  at_down :: "nat \<Rightarrow> bool"
  at_others :: "nat \<Rightarrow> database \<Rightarrow> database"

datatype AdapterCall =
    PrepareCall RollbackPrepareRequest
  | ExecuteCall RollbackContract json
  | VerifyCall RollbackContract
  | CompensateCall RollbackContract
  | RollbackCall RollbackContract

record gstate =
  g_db :: database
  g_calls :: "AdapterCall list"

type_synonym 'a gw = "(gstate, ApiProblem, 'a) proc"
type_synonym 'a gw_store = "(gstate, StoreError, 'a) proc"

definition db_op :: "env \<Rightarrow> nat \<Rightarrow> 'a store_op \<Rightarrow> 'a gw_store" where
  "db_op env n m = (\<lambda>g. case db_call (at_down env n) m (at_others env n (g_db g)) of
     (r, d) \<Rightarrow> (r, g\<lparr>g_db := d\<rparr>))"

definition db_read :: "env \<Rightarrow> nat \<Rightarrow> (database \<Rightarrow> 'a) \<Rightarrow> 'a gw_store" where
  "db_read env n f = db_op env n (reads f)"

text \<open>\<open>.map_err(ApiProblem::internal)\<close>\<close>

definition or_internal :: "'a gw_store \<Rightarrow> 'a gw" where
  "or_internal m = map_err internal m"

definition adapter_call :: "AdapterCall \<Rightarrow> RollbackError + 'a \<Rightarrow> (gstate, 'e, RollbackError + 'a) proc" where
  "adapter_call c r = (\<lambda>g. (Inr r, g\<lparr>g_calls := g_calls g @ [c]\<rparr>))"

subsection \<open>auth\_actor.rs\<close>

definition has_scope :: "AuthActor \<Rightarrow> string \<Rightarrow> bool" where
  "has_scope a scope = list_ex (\<lambda>s. s = ''*'' \<or> s = scope) (aa_scopes a)"

definition enforce_object_owner_guard ::
  "AuthActor option \<Rightarrow> string option \<Rightarrow> AuthMode \<Rightarrow> timestamp option \<Rightarrow> timestamp \<Rightarrow> ApiProblem + unit" where
  "enforce_object_owner_guard actor owner mode allow_until now =
    (if mode = AuthBearer \<or> mode = AuthDisabled then Inr ()
     else (case actor of
             None \<Rightarrow> Inl object_not_found
           | Some a \<Rightarrow>
             (case owner of
                Some owner \<Rightarrow> if aa_actor_id a = owner then Inr () else Inl object_not_found
              | None \<Rightarrow>
                (case allow_until of
                   Some t \<Rightarrow> if now < t then Inr () else Inl object_not_found
                 | None \<Rightarrow> Inl object_not_found))))"

definition owner_guard ::
  "gateway \<Rightarrow> env \<Rightarrow> nat \<Rightarrow> AuthActor option \<Rightarrow> string option \<Rightarrow> unit gw" where
  "owner_guard gw env n actor owner = of_result (enforce_object_owner_guard actor owner
     (gw_auth_mode gw) (gw_legacy_object_compat_allow_until gw) (at_now env n))"

subsection \<open>provenance.rs: appending\<close>

fun event_kind_text :: "ProvenanceEventKind \<Rightarrow> string" where
  "event_kind_text UserGoalReceived = ''UserGoalReceived''"
| "event_kind_text IntentCompiled = ''IntentCompiled''"
| "event_kind_text IntentRevoked = ''IntentRevoked''"
| "event_kind_text ActionProposalSubmitted = ''ActionProposalSubmitted''"
| "event_kind_text PolicyEvaluated = ''PolicyEvaluated''"
| "event_kind_text CapabilityMinted = ''CapabilityMinted''"
| "event_kind_text CapabilityRevoked = ''CapabilityRevoked''"
| "event_kind_text ApprovalRequested = ''ApprovalRequested''"
| "event_kind_text ApprovalGranted = ''ApprovalGranted''"
| "event_kind_text ApprovalDenied = ''ApprovalDenied''"
| "event_kind_text ApprovalTimedOut = ''ApprovalTimedOut''"
| "event_kind_text ToolCallPrepared = ''ToolCallPrepared''"
| "event_kind_text ToolCallIntercepted = ''ToolCallIntercepted''"
| "event_kind_text ToolCallExecuted = ''ToolCallExecuted''"
| "event_kind_text ToolOutputReceived = ''ToolOutputReceived''"
| "event_kind_text ToolOutputSanitized = ''ToolOutputSanitized''"
| "event_kind_text DlpBlocked = ''DlpBlocked''"
| "event_kind_text SideEffectPrepared = ''SideEffectPrepared''"
| "event_kind_text SideEffectVerified = ''SideEffectVerified''"
| "event_kind_text SideEffectCommitted = ''SideEffectCommitted''"
| "event_kind_text SideEffectCompensated = ''SideEffectCompensated''"
| "event_kind_text SideEffectRolledBack = ''SideEffectRolledBack''"
| "event_kind_text Quarantined = ''Quarantined''"
| "event_kind_text QuarantineHoldCreated = ''QuarantineHoldCreated''"
| "event_kind_text QuarantineResolved = ''QuarantineResolved''"
| "event_kind_text QuarantineTimedOut = ''QuarantineTimedOut''"
| "event_kind_text ErrorRaised = ''ErrorRaised''"
| "event_kind_text ExternalEventReceived = ''ExternalEventReceived''"
| "event_kind_text PolicyBundleActivated = ''PolicyBundleActivated''"
| "event_kind_text PolicyBundleDeactivated = ''PolicyBundleDeactivated''"
| "event_kind_text PolicyBundleRolledBack = ''PolicyBundleRolledBack''"

definition agree :: "'a option \<Rightarrow> 'a option \<Rightarrow> bool" where
  "agree x y = (case (x, y) of (Some a, Some b) \<Rightarrow> a = b | _ \<Rightarrow> True)"

definition same_context :: "ProvenanceEvent \<Rightarrow> ProvenanceEvent \<Rightarrow> bool" where
  "same_context child parent =
    (agree (ev_intent_id child) (ev_intent_id parent) \<and>
     agree (ev_proposal_id child) (ev_proposal_id parent) \<and>
     agree (ev_execution_id child) (ev_execution_id parent) \<and>
     agree (ev_capability_id child) (ev_capability_id parent) \<and>
     agree (ev_policy_bundle_id child) (ev_policy_bundle_id parent))"

definition parent_query :: "uuid option \<Rightarrow> ProvenanceEventKind option \<Rightarrow> ProvenanceQueryRequest" where
  "parent_query intent kind =
    \<lparr>pq_intent_id = intent, pq_execution_id = None, pq_capability_id = None, pq_event_kind = kind,
     pq_since = None, pq_until = None, pq_edge_types = []\<rparr>"

definition lineage_parent_optional :: "ProvenanceEvent \<Rightarrow> bool" where
  "lineage_parent_optional e =
     (Option.bind (jm_get (ev_metadata e) ''lineage_parent_optional'') as_bool = Some True)"

definition inferred_edge :: "ProvenanceEdgeType \<Rightarrow> ProvenanceEvent \<Rightarrow> ProvenanceEvent \<Rightarrow> ProvenanceEdge" where
  "inferred_edge ty parent child =
    \<lparr>ed_edge_type = ty, ed_from_event_id = ev_event_id parent,
     ed_to_event_id = Some (ev_event_id child),
     ed_summary = Some (event_kind_text (ev_kind parent) @ '' -> '' @ event_kind_text (ev_kind child))\<rparr>"

text \<open>The event as it is appended: with its inferred edge, with the note that its
  parent is missing, or not at all.\<close>

definition link_event ::
  "ProvenanceEvent \<Rightarrow> ProvenanceEventKind \<Rightarrow> ProvenanceEdgeType \<Rightarrow> ProvenanceEvent list \<Rightarrow>
   StoreError + ProvenanceEvent" where
  "link_event e parent_kind edge_type candidates =
    (case find (same_context e) (rev candidates) of
       Some parent \<Rightarrow>
         Inr (e\<lparr>ev_parent_edges := ev_parent_edges e @ [inferred_edge edge_type parent e]\<rparr>)
     | None \<Rightarrow>
       if lineage_parent_optional e then
         Inr (e\<lparr>ev_metadata := jm_insert ''lineage_parent_missing''
                  (JStr (event_kind_text parent_kind)) (ev_metadata e)\<rparr>)
       else Inl (SE_Other (''lineage parent missing for '' @ event_kind_text (ev_kind e) @
                  '': expected '' @ event_kind_text parent_kind)))"

definition append_governance_event :: "env \<Rightarrow> nat \<Rightarrow> ProvenanceEvent \<Rightarrow> unit gw_store" where
  "append_governance_event env n e =
    andthen (case lineage_parent_spec (ev_kind e) of
               None \<Rightarrow> ret e
             | Some (parent_kind, edge_type) \<Rightarrow>
               andthen (db_read env n (provenance_query (parent_query (ev_intent_id e) (Some parent_kind))))
                 (\<lambda>candidates. of_result (link_event e parent_kind edge_type candidates))) (\<lambda>e'.
    db_op env (n + 1) (event_append_with_edges e' (ev_parent_edges e')))"

subsection \<open>provenance.rs: the lineage gate\<close>

definition decision_from_policy_event :: "ProvenanceEvent \<Rightarrow> Decision option" where
  "decision_from_policy_event e =
    (case Option.bind (jm_get (ev_metadata e) ''decision'') as_str of
       None \<Rightarrow> None
     | Some s \<Rightarrow>
       if s = ''Allow'' then Some Allow
       else if s = ''Deny'' then Some Deny
       else if s = ''Quarantine'' then Some Quarantine
       else if s = ''RequireApproval'' then Some RequireApproval
       else if s = ''AllowDraftOnly'' then Some AllowDraftOnly
       else None)"

definition has_approval_granted_for_policy ::
  "ProvenanceEvent list \<Rightarrow> ExecutionRecord \<Rightarrow> ProvenanceEvent \<Rightarrow> bool" where
  "has_approval_granted_for_policy events x policy =
    list_ex (\<lambda>e. ev_kind e = ApprovalGranted \<and> ev_intent_id e = Some (ex_intent_id x) \<and>
                 ev_proposal_id e = Some (ex_proposal_id x) \<and>
                 ev_occurred_at policy \<le> ev_occurred_at e) events"

definition find_event ::
  "ProvenanceEvent list \<Rightarrow> (ProvenanceEvent \<Rightarrow> bool) \<Rightarrow> ProvenanceEventKind \<Rightarrow> LineageError + ProvenanceEvent" where
  "find_event events pred label =
    (case find pred (rev events) of Some e \<Rightarrow> Inr e | None \<Rightarrow> Inl (PrerequisiteMissing label))"

text \<open>The event an edge comes from, if it has the expected kind and context.\<close>

definition edge_parent ::
  "ProvenanceEvent \<Rightarrow> ProvenanceEvent list \<Rightarrow> ProvenanceEventKind \<Rightarrow> ProvenanceEdge \<Rightarrow> ProvenanceEvent option" where
  "edge_parent child events kind edge =
    (case find (\<lambda>e. ev_event_id e = ed_from_event_id edge) events of
       None \<Rightarrow> None
     | Some e \<Rightarrow> if ev_kind e = kind \<and> same_context child e then Some e else None)"

fun first_parent ::
  "ProvenanceEvent \<Rightarrow> ProvenanceEvent list \<Rightarrow> ProvenanceEventKind \<Rightarrow> ProvenanceEdge list \<Rightarrow> ProvenanceEvent option" where
  "first_parent child events kind [] = None"
| "first_parent child events kind (x # xs) =
    (case edge_parent child events kind x of
       Some e \<Rightarrow> Some e | None \<Rightarrow> first_parent child events kind xs)"

definition require_parent_event ::
  "env \<Rightarrow> nat \<Rightarrow> ProvenanceEvent \<Rightarrow> ProvenanceEvent list \<Rightarrow> ProvenanceEventKind \<Rightarrow> ProvenanceEdgeType \<Rightarrow>
   (gstate, LineageError, ProvenanceEvent) proc" where
  "require_parent_event env n child events kind edge_type =
    andthen (map_err LineageUnreadable (db_read env n (\<lambda>d. get_edges_to d (ev_event_id child)))) (\<lambda>edges.
    some_or (first_parent child events kind
       (filter (\<lambda>x. ed_edge_type x = edge_type \<and>
                    (ed_to_event_id x = None \<or> ed_to_event_id x = Some (ev_event_id child))) edges))
      (EdgeMissing kind (ev_kind child)))"

definition chain_ordered :: "ProvenanceEvent list \<Rightarrow> LineageError + unit" where
  "chain_ordered chain =
    (case find (\<lambda>(a, b). ev_occurred_at b < ev_occurred_at a) (zip chain (tl chain)) of
       Some (a, b) \<Rightarrow> Inl (OrderInvalid (ev_kind a) (ev_kind b))
     | None \<Rightarrow> Inr ())"

definition check_policy_decision ::
  "ProvenanceEvent list \<Rightarrow> ExecutionRecord \<Rightarrow> ProvenanceEvent \<Rightarrow> LineageError + unit" where
  "check_policy_decision events x policy =
    (case decision_from_policy_event policy of
       Some Allow \<Rightarrow> Inr ()
     | Some RequireApproval \<Rightarrow>
         if has_approval_granted_for_policy events x policy then Inr () else Inl GrantMissing
     | Some d \<Rightarrow> Inl (DecisionForbids d)
     | None \<Rightarrow> Inl DecisionMissing)"

definition validate_minimum_lineage_chain ::
  "env \<Rightarrow> nat \<Rightarrow> ExecutionRecord \<Rightarrow> (gstate, LineageError, unit) proc" where
  "validate_minimum_lineage_chain env n x =
    andthen (map_err LineageUnreadable
      (db_read env n (provenance_query (parent_query (Some (ex_intent_id x)) None)))) (\<lambda>events.
    andthen (of_result (find_event events
      (\<lambda>e. ev_kind e = ToolCallPrepared \<and> ev_execution_id e = Some (ex_execution_id x) \<and>
           ev_proposal_id e = Some (ex_proposal_id x)) ToolCallPrepared)) (\<lambda>tool_prepared.
    andthen (require_parent_event env (n + 1) tool_prepared events SideEffectPrepared Caused) (\<lambda>prepared.
    andthen (ensure (ev_execution_id prepared = Some (ex_execution_id x) \<and>
                     ev_proposal_id prepared = Some (ex_proposal_id x))
              (ContextMismatch SideEffectPrepared)) (\<lambda>_.
    andthen (require_parent_event env (n + 2) prepared events ActionProposalSubmitted Caused) (\<lambda>submitted.
    andthen (ensure (ev_execution_id submitted = Some (ex_execution_id x) \<and>
                     ev_proposal_id submitted = Some (ex_proposal_id x))
              (ContextMismatch ActionProposalSubmitted)) (\<lambda>_.
    andthen (require_parent_event env (n + 3) submitted events CapabilityMinted AuthorizedBy) (\<lambda>capability.
    andthen (ensure (ev_proposal_id capability = Some (ex_proposal_id x) \<and>
                     ev_capability_id capability = Some (ex_capability_id x))
              (ContextMismatch CapabilityMinted)) (\<lambda>_.
    andthen (require_parent_event env (n + 4) capability events PolicyEvaluated EvaluatedByPolicy) (\<lambda>policy.
    andthen (ensure (ev_proposal_id policy = Some (ex_proposal_id x))
              (ContextMismatch PolicyEvaluated)) (\<lambda>_.
    andthen (of_result (check_policy_decision events x policy)) (\<lambda>_.
    of_result (chain_ordered [policy, capability, submitted, prepared, tool_prepared]))))))))))))"

subsection \<open>execution/lifecycle\_outbox.rs\<close>

definition lifecycle_idempotency_key ::
  "string \<Rightarrow> ExecutionRecord \<Rightarrow> RollbackContract option \<Rightarrow> string" where
  "lifecycle_idempotency_key name e c =
     name @ '':'' @ ex_execution_id e @ '':'' @ execution_state_text (ex_state e) @ '':'' @
     (case c of Some c \<Rightarrow> rollback_state_text (rc_state c) | None \<Rightarrow> ''none'')"

definition lifecycle_outbox_record ::
  "uuid \<Rightarrow> timestamp \<Rightarrow> string \<Rightarrow> ExecutionRecord \<Rightarrow> ExecutionRecord \<Rightarrow> RollbackContract option \<Rightarrow>
   RollbackContract option \<Rightarrow> ProvenanceEventKind list \<Rightarrow> LifecycleOutboxRecord" where
  "lifecycle_outbox_record new_id now name prev upd prev_c upd_c kinds =
    (let r = pending_with_obligations new_id now (ex_execution_id upd)
               (case upd_c of Some c \<Rightarrow> Some (rc_contract_id c) | None \<Rightarrow> ex_rollback_contract_id upd)
               (Some (ex_state prev)) (ex_state upd) (map_option rc_state prev_c)
               (map_option rc_state upd_c) kinds (lifecycle_idempotency_key name upd upd_c)
     in r\<lparr>lo_metadata := jm_insert ''transition'' (JStr name) (lo_metadata r)\<rparr>)"

definition record_lifecycle_transition_outbox_with_obligations ::
  "env \<Rightarrow> nat \<Rightarrow> string \<Rightarrow> ExecutionRecord \<Rightarrow> ExecutionRecord \<Rightarrow> RollbackContract option \<Rightarrow>
   RollbackContract option \<Rightarrow> ProvenanceEventKind list \<Rightarrow> LifecycleOutboxRecord gw_store" where
  "record_lifecycle_transition_outbox_with_obligations env n name prev upd prev_c upd_c kinds =
    (let r = lifecycle_outbox_record (at_id env n) (at_now env n) name prev upd prev_c upd_c kinds
     in andthen (db_op env n (record_lifecycle_transition upd upd_c r)) (\<lambda>_. ret r))"

definition record_lifecycle_transition_outbox ::
  "env \<Rightarrow> nat \<Rightarrow> string \<Rightarrow> ExecutionRecord \<Rightarrow> ExecutionRecord \<Rightarrow> RollbackContract option \<Rightarrow>
   RollbackContract option \<Rightarrow> ProvenanceEventKind \<Rightarrow> LifecycleOutboxRecord gw_store" where
  "record_lifecycle_transition_outbox env n name prev upd prev_c upd_c kind =
     record_lifecycle_transition_outbox_with_obligations env n name prev upd prev_c upd_c [kind]"

definition lifecycle_event_metadata :: "LifecycleOutboxRecord \<Rightarrow> JsonMap \<Rightarrow> JsonMap" where
  "lifecycle_event_metadata r m =
     jm_insert ''idempotency_key'' (JStr (lo_idempotency_key r))
       (jm_insert ''lifecycle_outbox_id'' (JStr (lo_outbox_id r)) m)"

fun execution_is_cancelable_pre_side_effect :: "ExecutionState \<Rightarrow> bool" where
  "execution_is_cancelable_pre_side_effect s =
     (s \<in> {ES_Proposed, ES_Authorized, ES_Prepared, ES_AwaitingApproval})"

fun execution_is_terminal_for_commit :: "ExecutionState \<Rightarrow> bool" where
  "execution_is_terminal_for_commit s =
     (s \<in> {ES_Committed, ES_Compensated, ES_RolledBack, ES_Denied, ES_Quarantined, ES_Failed, ES_Canceled})"

definition mark_lifecycle_obligation_written ::
  "env \<Rightarrow> nat \<Rightarrow> LifecycleOutboxRecord \<Rightarrow> ProvenanceEventKind \<Rightarrow> uuid \<Rightarrow> unit gw_store" where
  "mark_lifecycle_obligation_written env n r kind e =
    andthen (db_op env n (mark_provenance_obligation_written (at_now env n) (lo_outbox_id r) kind e)) (\<lambda>updated.
    ensure updated (SE_Other ''lifecycle outbox obligation update did not affect any row''))"

definition normal_path :: JsonMap where
  "normal_path = [(''normal_path'', JBool True)]"

definition mark_lifecycle_transition_reconciled ::
  "env \<Rightarrow> nat \<Rightarrow> LifecycleOutboxRecord \<Rightarrow> uuid \<Rightarrow> unit gw_store" where
  "mark_lifecycle_transition_reconciled env n r e =
    andthen (mark_lifecycle_obligation_written env n r (lo_intended_provenance_kind r) e) (\<lambda>_.
    db_op env (n + 1) (mark_reconciled (at_now env (n + 1)) (lo_outbox_id r) normal_path))"

subsection \<open>Events of the gateway\<close>

definition ferrum_gateway_actor :: ActorRef where
  "ferrum_gateway_actor = \<lparr>ar_actor_type = AT_Gateway, ar_actor_id = ''ferrum-gateway'',
     ar_display_name = Some ''FerrumGate Gateway''\<rparr>"

definition empty_hash_chain :: HashChainRef where
  "empty_hash_chain = \<lparr>hc_content_hash = None, hc_manifest_hash = None,
     hc_policy_bundle_hash = None, hc_previous_ledger_hash = None\<rparr>"

text \<open>The literal every handler writes out: an event of the gateway about an
  execution.\<close>

definition object_ref :: "ObjectType \<Rightarrow> string \<Rightarrow> string \<Rightarrow> ObjectRef" where
  "object_ref ty k summary = \<lparr>or_object_type = ty, or_object_id = k, or_summary = Some summary\<rparr>"

definition gateway_event ::
  "uuid \<Rightarrow> timestamp \<Rightarrow> ProvenanceEventKind \<Rightarrow> ObjectRef \<Rightarrow> ExecutionRecord \<Rightarrow> uuid option \<Rightarrow>
   JsonMap \<Rightarrow> ProvenanceEvent" where
  "gateway_event new_id now kind object x contract_id metadata =
    \<lparr>ev_event_id = new_id, ev_kind = kind, ev_occurred_at = now, ev_actor = ferrum_gateway_actor,
     ev_object = object,
     ev_intent_id = Some (ex_intent_id x), ev_proposal_id = Some (ex_proposal_id x),
     ev_execution_id = Some (ex_execution_id x), ev_capability_id = Some (ex_capability_id x),
     ev_rollback_contract_id = contract_id, ev_policy_bundle_id = None, ev_trust_labels = [],
     ev_sensitivity_labels = [], ev_parent_edges = [], ev_hash_chain = empty_hash_chain,
     ev_metadata = metadata, ev_source_runtime_id = None\<rparr>"

text \<open>Looking an object up: absent is the given problem, a failing read an internal
  error.\<close>

definition fetch :: "env \<Rightarrow> nat \<Rightarrow> (database \<Rightarrow> 'a option) \<Rightarrow> ApiProblem \<Rightarrow> 'a gw" where
  "fetch env n f absent = andthen (or_internal (db_read env n f)) (\<lambda>r. some_or r absent)"

definition wrap :: "nat \<Rightarrow> ApiErrorCode \<Rightarrow> ('e \<Rightarrow> ApiMessage) \<Rightarrow> 'e + 'a \<Rightarrow> ApiProblem + 'a" where
  "wrap status code msg r =
    (case r of Inl e \<Rightarrow> Inl \<lparr>pb_status = status, pb_code = code, pb_message = msg e\<rparr> | Inr x \<Rightarrow> Inr x)"

definition parse_execution_id :: "gateway \<Rightarrow> string \<Rightarrow> uuid gw" where
  "parse_execution_id gw s =
    some_or (gw_parse_uuid gw s) (problem 400 ValidationError ''path id is not a valid execution uuid'')"

text \<open>What every handler on an execution does first: parse the identifier of the
  path, load the execution, check its owner.\<close>

definition load_owned_execution ::
  "gateway \<Rightarrow> env \<Rightarrow> AuthActor option \<Rightarrow> string \<Rightarrow> ExecutionRecord gw" where
  "load_owned_execution gw env actor path =
    andthen (parse_execution_id gw path) (\<lambda>k.
    andthen (fetch env 0 (\<lambda>d. get_execution d k) object_not_found) (\<lambda>x.
    andthen (owner_guard gw env 1 actor (ex_owner_actor_id x)) (\<lambda>_.
    ret x)))"

definition load_contract :: "env \<Rightarrow> nat \<Rightarrow> ExecutionRecord \<Rightarrow> RollbackContract gw" where
  "load_contract env n x =
    andthen (some_or (ex_rollback_contract_id x)
      (problem 404 NotFound ''execution has no rollback contract'')) (\<lambda>k.
    fetch env n (\<lambda>d. get_contract d k) (problem 404 NotFound ''rollback contract not found''))"

text \<open>\<open>append_audit_checked\<close> of \<open>audit.rs\<close>: a failing audit append rejects the request in
  fail-closed mode and is ignored otherwise.  The audit table itself is not part
  of the model.\<close>

definition append_audit_checked :: "gateway \<Rightarrow> env \<Rightarrow> nat \<Rightarrow> unit gw" where
  "append_audit_checked gw env n =
    ensure (\<not> (at_down env n \<and> gw_audit_fail_closed gw))
      (problem 503 Internal ''audit append failed: action blocked by fail-closed policy'')"

definition quoted :: "string \<Rightarrow> string" where
  "quoted s = CHR 0x27 # s @ [CHR 0x27]"

definition conflict :: "string \<Rightarrow> ApiProblem" where
  "conflict msg = problem 409 Conflict msg"

text \<open>Appending the event of a transition and settling its obligation.\<close>

definition settle_event :: "env \<Rightarrow> nat \<Rightarrow> LifecycleOutboxRecord \<Rightarrow> ProvenanceEvent \<Rightarrow> unit gw" where
  "settle_event env n outbox e =
    andthen (or_internal (append_governance_event env n e)) (\<lambda>_.
    or_internal (mark_lifecycle_obligation_written env (n + 2) outbox (ev_kind e) (ev_event_id e)))"

definition finish_outbox :: "env \<Rightarrow> nat \<Rightarrow> LifecycleOutboxRecord \<Rightarrow> unit gw" where
  "finish_outbox env n outbox =
     or_internal (db_op env n (mark_reconciled (at_now env n) (lo_outbox_id outbox) normal_path))"

text \<open>The two together for a transition with a single obligation.\<close>

definition settle_transition :: "env \<Rightarrow> nat \<Rightarrow> LifecycleOutboxRecord \<Rightarrow> ProvenanceEvent \<Rightarrow> unit gw" where
  "settle_transition env n outbox e =
    andthen (or_internal (append_governance_event env n e)) (\<lambda>_.
    or_internal (mark_lifecycle_transition_reconciled env (n + 2) outbox (ev_event_id e)))"

subsection \<open>Lemmas\<close>

lemma db_op_Inr [proc_Inr]:
  "db_op env n m g = (Inr x, g') \<longleftrightarrow>
     \<not> at_down env n \<and> (\<exists>d. m (at_others env n (g_db g)) = (Inr x, d) \<and> g' = g\<lparr>g_db := d\<rparr>)"
  by (auto simp: db_op_def db_call_def raise_def split: prod.splits)

lemma db_read_Inr [proc_Inr]:
  "db_read env n f g = (Inr x, g') \<longleftrightarrow>
     \<not> at_down env n \<and> x = f (at_others env n (g_db g)) \<and> g' = g\<lparr>g_db := at_others env n (g_db g)\<rparr>"
  by (auto simp: db_read_def proc_Inr)

lemma or_internal_Inr [proc_Inr]: "or_internal m g = (Inr x, g') \<longleftrightarrow> m g = (Inr x, g')"
  by (simp add: or_internal_def proc_Inr)

lemma adapter_call_Inr [proc_Inr]:
  "adapter_call c r g = (Inr x, g') \<longleftrightarrow> x = r \<and> g' = g\<lparr>g_calls := g_calls g @ [c]\<rparr>"
  by (auto simp: adapter_call_def)

lemma owner_guard_Inr [proc_Inr]:
  "owner_guard gw env n actor owner g = (Inr u, g') \<longleftrightarrow>
     enforce_object_owner_guard actor owner (gw_auth_mode gw)
       (gw_legacy_object_compat_allow_until gw) (at_now env n) = Inr () \<and> g' = g"
  by (auto simp: owner_guard_def proc_Inr)

lemma fetch_Inr [proc_Inr]:
  "fetch env n f absent g = (Inr x, g') \<longleftrightarrow>
     \<not> at_down env n \<and> f (at_others env n (g_db g)) = Some x \<and>
     g' = g\<lparr>g_db := at_others env n (g_db g)\<rparr>"
  by (auto simp: fetch_def proc_Inr)

lemma wrap_Inr [proc_Inr]: "wrap status code msg r = Inr x \<longleftrightarrow> r = Inr x"
  by (auto simp: wrap_def split: sum.splits)

lemma db_op_state: "db_op env n m g = (r, g') \<Longrightarrow>
   g_calls g' = g_calls g \<and>
   (g_db g' = at_others env n (g_db g) \<or> g_db g' = snd (m (at_others env n (g_db g))))"
  by (auto simp: db_op_def db_call_def raise_def split: prod.splits if_splits)

end
