(* ===== verification/Capability.thy ===== *)
theory Capability
  imports Gateway
begin

text \<open>
  The capability services: the in-memory one of
  \<open>crates/ferrum-cap/src/service.rs\<close> and the store-backed one of
  \<open>crates/ferrum-gateway/src/capabilities.rs\<close> (the one \<open>ferrumd\<close> installs), with the
  capability helpers of \<open>execution/durable_capability.rs\<close>.  Both services meet
  the contract \<open>capability_service\<close>: a lease lives at most 300 seconds and is
  used at most once, whatever calls are made in between.
\<close>

definition MAX_TTL_SECS :: "64 word" where
  "MAX_TTL_SECS = 300"

definition new_lease :: "uuid \<Rightarrow> uuid \<Rightarrow> timestamp \<Rightarrow> CapabilityMintRequest \<Rightarrow> CapabilityLease" where
  "new_lease cap_id bundle_id now rq =
    \<lparr>cl_capability_id = cap_id, cl_intent_id = mr_intent_id rq, cl_proposal_id = mr_proposal_id rq,
     cl_tool_binding = mr_tool_binding rq, cl_resource_bindings = mr_resource_bindings rq,
     cl_argument_constraints = mr_argument_constraints rq, cl_taint_budget = mr_taint_budget rq,
     cl_approval_binding = mr_approval_binding rq, cl_issued_by = ''ferrum-cap'',
     cl_policy_bundle_id = bundle_id, cl_tool_manifest_id = None, cl_manifest_hash = None,
     cl_status = CS_Active, cl_issued_at = now,
     cl_expires_at = now + seconds (sint (mr_requested_ttl_secs rq)), cl_revoked_at = None,
     cl_metadata = mr_metadata rq, cl_owner_actor_id = None\<rparr>"

subsection \<open>ferrum-cap: the in-memory service\<close>

type_synonym cap_memory = "uuid \<Rightarrow> CapabilityLease option"

definition mem_mint :: "env \<Rightarrow> nat \<Rightarrow> CapabilityMintRequest \<Rightarrow>
    (cap_memory, CapabilityError, CapabilityMintResponse) proc" where
  "mem_mint env n rq =
    andthen (ensure (\<not> MAX_TTL_SECS < mr_requested_ttl_secs rq) CE_TtlTooLong) (\<lambda>_.
    let lease = new_lease (at_id env n) (at_id env (n + 1)) (at_now env n) rq in
    andthen (modifies (\<lambda>m. m(cl_capability_id lease \<mapsto> lease))) (\<lambda>_.
    ret \<lparr>mp_lease = lease, mp_warnings = []\<rparr>))"

definition mem_get :: "env \<Rightarrow> nat \<Rightarrow> uuid \<Rightarrow> (cap_memory, CapabilityError, CapabilityLease) proc" where
  "mem_get env n k =
    andthen (reads (\<lambda>m. m k)) (\<lambda>l.
    andthen (some_or l CE_NotFound) (\<lambda>lease.
    andthen (ensure (cl_status lease \<noteq> CS_Revoked) CE_Revoked) (\<lambda>_.
    andthen (ensure (\<not> cl_expires_at lease < at_now env n) CE_Expired) (\<lambda>_.
    ret lease))))"

definition mem_mark_used :: "env \<Rightarrow> nat \<Rightarrow> uuid \<Rightarrow> (cap_memory, CapabilityError, CapabilityLease) proc" where
  "mem_mark_used env n k =
    andthen (reads (\<lambda>m. m k)) (\<lambda>l.
    andthen (some_or l CE_NotFound) (\<lambda>lease.
    andthen (ensure (cl_status lease \<noteq> CS_Used) CE_AlreadyUsed) (\<lambda>_.
    andthen (ensure (cl_status lease \<noteq> CS_Revoked) CE_Revoked) (\<lambda>_.
    andthen (ensure (\<not> cl_expires_at lease < at_now env n) CE_Expired) (\<lambda>_.
    let lease' = lease\<lparr>cl_status := CS_Used\<rparr> in
    andthen (modifies (\<lambda>m. m(k \<mapsto> lease'))) (\<lambda>_.
    ret lease'))))))"

definition mem_revoke :: "env \<Rightarrow> nat \<Rightarrow> uuid \<Rightarrow> (cap_memory, CapabilityError, CapabilityLease) proc" where
  "mem_revoke env n k =
    andthen (reads (\<lambda>m. m k)) (\<lambda>l.
    andthen (some_or l CE_NotFound) (\<lambda>lease.
    let lease' = lease\<lparr>cl_status := CS_Revoked, cl_revoked_at := Some (at_now env n)\<rparr> in
    andthen (modifies (\<lambda>m. m(k \<mapsto> lease'))) (\<lambda>_.
    ret lease')))"

subsection \<open>capabilities.rs: the store-backed service\<close>

type_synonym 'a gw_cap = "(gstate, CapabilityError, 'a) proc"

fun map_store_error :: "StoreError \<Rightarrow> CapabilityError" where
  "map_store_error (SE_NotFound _ _) = CE_NotFound"
| "map_store_error _ = CE_Internal"

definition cap_load :: "env \<Rightarrow> nat \<Rightarrow> uuid \<Rightarrow> CapabilityLease gw_cap" where
  "cap_load env n k =
    andthen (map_err map_store_error (db_read env n (\<lambda>d. get_capability d k))) (\<lambda>l.
    some_or l CE_NotFound)"

definition cap_mint :: "env \<Rightarrow> nat \<Rightarrow> CapabilityMintRequest \<Rightarrow> CapabilityMintResponse gw_cap" where
  "cap_mint env n rq =
    andthen (ensure (\<not> MAX_TTL_SECS < mr_requested_ttl_secs rq) CE_TtlTooLong) (\<lambda>_.
    let lease = new_lease (at_id env n) (at_id env (n + 1)) (at_now env n) rq in
    andthen (map_err map_store_error (db_op env n (capability_insert lease))) (\<lambda>_.
    ret \<lparr>mp_lease = lease, mp_warnings = []\<rparr>))"

definition cap_get :: "env \<Rightarrow> nat \<Rightarrow> uuid \<Rightarrow> CapabilityLease gw_cap" where
  "cap_get env n k =
    andthen (cap_load env n k) (\<lambda>lease.
    andthen (ensure (cl_status lease \<noteq> CS_Revoked) CE_Revoked) (\<lambda>_.
    andthen (ensure (\<not> cl_expires_at lease < at_now env n) CE_Expired) (\<lambda>_.
    ret lease)))"

text \<open>The error reported when the conditional update changed no row.\<close>

definition cap_cas_lost :: "env \<Rightarrow> nat \<Rightarrow> uuid \<Rightarrow> CapabilityLease gw_cap" where
  "cap_cas_lost env n k =
    andthen (cap_load env n k) (\<lambda>lease.
    if cl_status lease = CS_Used then raise CE_AlreadyUsed
    else if cl_status lease = CS_Revoked then raise CE_Revoked
    else if cl_expires_at lease < at_now env n then raise CE_Expired
    else raise CE_NotFound)"

definition cap_mark_used :: "env \<Rightarrow> nat \<Rightarrow> uuid \<Rightarrow> CapabilityLease gw_cap" where
  "cap_mark_used env n k =
    andthen (cap_load env n k) (\<lambda>lease.
    andthen (ensure (cl_status lease \<noteq> CS_Used) CE_AlreadyUsed) (\<lambda>_.
    andthen (ensure (cl_status lease \<noteq> CS_Revoked) CE_Revoked) (\<lambda>_.
    andthen (ensure (\<not> cl_expires_at lease < at_now env n) CE_Expired) (\<lambda>_.
    andthen (map_err map_store_error
      (db_op env (n + 1) (capability_update_status_if_active (at_now env (n + 1)) k CS_Used))) (\<lambda>updated.
    if \<not> updated then cap_cas_lost env (n + 2) k else cap_load env (n + 2) k)))))"

definition cap_revoke :: "env \<Rightarrow> nat \<Rightarrow> uuid \<Rightarrow> CapabilityLease gw_cap" where
  "cap_revoke env n k =
    andthen (cap_load env n k) (\<lambda>lease.
    andthen (ensure (cl_status lease \<noteq> CS_Revoked) CE_Revoked) (\<lambda>_.
    andthen (ensure (cl_status lease \<noteq> CS_Used) CE_AlreadyUsed) (\<lambda>_.
    andthen (ensure (\<not> cl_expires_at lease < at_now env n) CE_Expired) (\<lambda>_.
    andthen (map_err map_store_error
      (db_op env (n + 1) (capability_revoke_if_active k (at_now env (n + 1))))) (\<lambda>updated.
    if \<not> updated then cap_cas_lost env (n + 2) k else cap_load env (n + 2) k)))))"

subsection \<open>durable\_capability.rs\<close>

definition get_capability_for_authorize :: "env \<Rightarrow> nat \<Rightarrow> uuid \<Rightarrow> CapabilityLease gw_cap" where
  "get_capability_for_authorize env n k =
    andthen (attempt (cap_get env n k)) (\<lambda>r.
    case r of
      Inr lease \<Rightarrow> ret lease
    | Inl e \<Rightarrow>
      if e \<noteq> CE_NotFound then raise e
      else
        andthen (map_err (\<lambda>_. CE_NotFound) (db_read env (n + 1) (\<lambda>d. get_capability d k))) (\<lambda>l.
        andthen (some_or l CE_NotFound) (\<lambda>lease.
        andthen (ensure (cl_status lease \<noteq> CS_Used) CE_AlreadyUsed) (\<lambda>_.
        andthen (ensure (cl_status lease \<noteq> CS_Revoked) CE_Revoked) (\<lambda>_.
        andthen (ensure (\<not> cl_expires_at lease < at_now env (n + 1)) CE_Expired) (\<lambda>_.
        ret lease))))))"

definition classify_capability_after_cas_loss ::
  "CapabilityLease option \<Rightarrow> timestamp \<Rightarrow> CapabilityError" where
  "classify_capability_after_cas_loss l now =
    (case l of
       None \<Rightarrow> CE_NotFound
     | Some lease \<Rightarrow>
       if cl_status lease = CS_Used then CE_AlreadyUsed
       else if cl_status lease = CS_Revoked then CE_Revoked
       else if cl_expires_at lease \<le> now then CE_Expired
       else CE_AlreadyUsed)"

definition classify_authorization_cas_failure :: "env \<Rightarrow> nat \<Rightarrow> uuid \<Rightarrow> (gstate, 'e, CapabilityError) proc" where
  "classify_authorization_cas_failure env n k =
    andthen (attempt (db_read env n (\<lambda>d. get_capability d k))) (\<lambda>r.
    ret (classify_capability_after_cas_loss (case r of Inr l \<Rightarrow> l | Inl _ \<Rightarrow> None) (at_now env n)))"

definition mark_capability_used_durable :: "env \<Rightarrow> nat \<Rightarrow> uuid \<Rightarrow> CapabilityLease gw_cap" where
  "mark_capability_used_durable env n k =
    andthen (map_err (\<lambda>_. CE_NotFound) (db_read env n (\<lambda>d. get_capability d k))) (\<lambda>l.
    andthen (some_or l CE_NotFound) (\<lambda>lease.
    andthen (ensure (cl_status lease \<noteq> CS_Used) CE_AlreadyUsed) (\<lambda>_.
    andthen (ensure (cl_status lease \<noteq> CS_Revoked) CE_Revoked) (\<lambda>_.
    andthen (ensure (\<not> cl_expires_at lease < at_now env n) CE_Expired) (\<lambda>_.
    andthen (map_err (\<lambda>_. CE_NotFound)
      (db_op env (n + 1) (capability_update_status_if_active (at_now env (n + 1)) k CS_Used))) (\<lambda>updated.
    if \<not> updated then
      andthen (map_err (\<lambda>_. CE_NotFound) (db_read env (n + 2) (\<lambda>d. get_capability d k))) (\<lambda>l'.
      case map_option cl_status l' of
        Some CS_Used \<Rightarrow> raise CE_AlreadyUsed
      | Some CS_Revoked \<Rightarrow> raise CE_Revoked
      | _ \<Rightarrow> raise CE_NotFound)
    else
      andthen (attempt (cap_mark_used env (n + 3) k)) (\<lambda>_.
      ret (lease\<lparr>cl_status := CS_Used\<rparr>))))))))"

end
