(* ===== verification/Authorize.thy ===== *)
theory Authorize
  imports Capability
begin

text \<open>
  \<open>POST /v1/executions/authorize\<close>
  (\<open>crates/ferrum-gateway/src/execution/authorize.rs\<close>) and the approval binding
  check it makes (\<open>approval_binding.rs\<close>).  The sites of the environment are
  numbered in the order the handler reaches them.
\<close>

subsection \<open>approval\_binding.rs\<close>

fun actor_type_text :: "ActorType \<Rightarrow> string" where
  "actor_type_text AT_User = ''User''"
| "actor_type_text AT_Agent = ''Agent''"
| "actor_type_text AT_PolicyEngine = ''PolicyEngine''"
| "actor_type_text AT_Gateway = ''Gateway''"
| "actor_type_text AT_Adapter = ''Adapter''"
| "actor_type_text AT_Operator = ''Operator''"
| "actor_type_text AT_System = ''System''"

definition grant_query :: "ApprovalRequest \<Rightarrow> ProvenanceQueryRequest" where
  "grant_query a =
    \<lparr>pq_intent_id = Some (aq_intent_id a), pq_execution_id = aq_execution_id a,
     pq_capability_id = None, pq_event_kind = Some ApprovalGranted, pq_since = None,
     pq_until = None, pq_edge_types = []\<rparr>"

definition grant_event_relevant :: "ApprovalBinding \<Rightarrow> ApprovalRequest \<Rightarrow> ProvenanceEvent \<Rightarrow> bool" where
  "grant_event_relevant b a e =
    (ev_proposal_id e = Some (aq_proposal_id a) \<and>
     (Option.bind (jm_get (ev_metadata e) ''approval_id'') as_str = Some (ab_approval_id b) \<or>
      or_object_id (ev_object e) = ab_approval_id b))"

definition role_matches :: "ApprovalBinding \<Rightarrow> ProvenanceEvent \<Rightarrow> bool" where
  "role_matches b e =
    (case Option.bind (jm_get (ev_metadata e) ''actor_role'') as_str of
       None \<Rightarrow> False | Some role \<Rightarrow> role \<in> set (ab_approver_roles b))"

definition actor_authenticated :: "ProvenanceEvent \<Rightarrow> bool" where
  "actor_authenticated e =
     (Option.bind (jm_get (ev_metadata e) ''actor_authenticated'') as_bool = Some True)"

definition approved_by_allowed_role ::
  "ApprovalBinding \<Rightarrow> ApprovalRequest \<Rightarrow> ProvenanceEvent list \<Rightarrow> bool" where
  "approved_by_allowed_role b a grant_events =
    (let relevant = filter (grant_event_relevant b a) grant_events;
         has_new_format = list_ex (\<lambda>e. jm_get (ev_metadata e) ''actor_authenticated'' \<noteq> None) relevant
     in if aq_resolver_evidence_version a \<noteq> None \<or> has_new_format
        then list_ex (\<lambda>e. actor_authenticated e \<and> role_matches b e) relevant
        else list_ex (role_matches b) relevant \<or>
             to_lowercase (actor_type_text (ar_actor_type (aq_requested_by a))) \<in> set (ab_approver_roles b))"

definition validate_approval_binding_digest ::
  "gateway \<Rightarrow> env \<Rightarrow> nat \<Rightarrow> ApprovalBinding \<Rightarrow> uuid \<Rightarrow> unit gw" where
  "validate_approval_binding_digest gw env n b proposal_id =
    andthen (fetch env n (\<lambda>d. get_approval d (ab_approval_id b))
      (problem 403 IntegrityMismatch ''approval not found for binding'')) (\<lambda>a.
    andthen (ensure (aq_state a = AS_Granted)
      (problem 403 PolicyDenied (''approval state is '' @ approval_state_text (aq_state a) @
         '', expected Granted''))) (\<lambda>_.
    andthen (ensure (\<not> ab_expires_at b < at_now env n)
      (problem 403 PolicyDenied ''approval binding has expired'')) (\<lambda>_.
    andthen (ensure (\<not> aq_expires_at a < at_now env (n + 1))
      (problem 403 PolicyDenied ''approval has expired'')) (\<lambda>_.
    andthen (ensure (ab_approved_action_digest b = aq_action_digest a)
      (problem 403 IntegrityMismatch ''binding digest does not match approval digest'')) (\<lambda>_.
    andthen (fetch env (n + 1) (\<lambda>d. get_proposal d proposal_id)
      (problem 403 IntegrityMismatch ''proposal not found'')) (\<lambda>p.
    andthen (ensure (canonical_action_digest (gw_hash_json gw) p = ab_approved_action_digest b)
      (problem 403 IntegrityMismatch ''computed proposal digest does not match binding digest'')) (\<lambda>_.
    if ab_approver_roles b = [] then ret ()
    else
      andthen (or_internal (db_read env (n + 2) (provenance_query (grant_query a)))) (\<lambda>grant_events.
      ensure (approved_by_allowed_role b a grant_events)
        (problem 403 PolicyDenied ''approval was not granted by an allowed approver role'')))))))))"

subsection \<open>authorize.rs\<close>

record AuthorizeExecutionRequest =
  aer_proposal_id :: uuid
  aer_capability_id :: uuid
  aer_dry_run :: bool

definition capability_problem :: "CapabilityError \<Rightarrow> ApiProblem" where
  "capability_problem e = (if e = CE_NotFound then object_not_found else from_capability e)"

text \<open>The checks made before anything is written; the lease they were made for.\<close>

definition authorize_checks ::
  "gateway \<Rightarrow> env \<Rightarrow> AuthActor option \<Rightarrow> AuthorizeExecutionRequest \<Rightarrow> CapabilityLease gw" where
  "authorize_checks gw env actor rq =
    andthen (map_err capability_problem (get_capability_for_authorize env 0 (aer_capability_id rq))) (\<lambda>lease.
    andthen (owner_guard gw env 2 actor (cl_owner_actor_id lease)) (\<lambda>_.
    andthen (ensure (aer_proposal_id rq = cl_proposal_id lease)
      (problem 403 IntegrityMismatch
        ''request proposal_id does not match capability lease proposal_id'')) (\<lambda>_.
    andthen (fetch env 3 (\<lambda>d. get_proposal d (aer_proposal_id rq))
      (problem 404 NotFound ''proposal not found for capability'')) (\<lambda>p.
    andthen (of_result (wrap 403 IntegrityMismatch BindingMsg
      (validate_capability_proposal_binding lease p))) (\<lambda>_.
    andthen (fetch env 4 (\<lambda>d. get_intent d (cl_intent_id lease))
      (problem 404 NotFound ''intent not found for capability'')) (\<lambda>i.
    andthen (of_result (wrap 403 PolicyDenied ScopeMsg
      (validate_resource_bindings_subset_of_scope (gw_fs gw) (gw_parse_url gw)
        (cl_resource_bindings lease) (in_resource_scope i)))) (\<lambda>_.
    andthen (case cl_approval_binding lease of
               None \<Rightarrow> ret ()
             | Some b \<Rightarrow> validate_approval_binding_digest gw env 5 b (aer_proposal_id rq)) (\<lambda>_.
    ret lease))))))))"

definition authorized_record ::
  "uuid \<Rightarrow> timestamp \<Rightarrow> AuthorizeExecutionRequest \<Rightarrow> CapabilityLease \<Rightarrow> ExecutionRecord" where
  "authorized_record new_id now rq lease =
    \<lparr>ex_execution_id = new_id, ex_proposal_id = aer_proposal_id rq,
     ex_intent_id = cl_intent_id lease, ex_capability_id = cl_capability_id lease,
     ex_rollback_contract_id = None, ex_decision = Allow,
     ex_state = (if aer_dry_run rq then ES_Authorized else ES_Prepared),
     ex_started_at = now, ex_finished_at = None, ex_result_digest = None, ex_metadata = [],
     ex_owner_actor_id = cl_owner_actor_id lease\<rparr>"

definition authorize_outbox :: "uuid \<Rightarrow> timestamp \<Rightarrow> ExecutionRecord \<Rightarrow> LifecycleOutboxRecord" where
  "authorize_outbox new_id now x =
    (let r = outbox_pending new_id now (ex_execution_id x) None None (ex_state x) None None
               ActionProposalSubmitted (''authorize:'' @ ex_execution_id x)
     in r\<lparr>lo_metadata := jm_insert ''transition'' (JStr ''authorize'') (lo_metadata r)\<rparr>)"

definition authorize_execution ::
  "gateway \<Rightarrow> env \<Rightarrow> AuthActor option \<Rightarrow> AuthorizeExecutionRequest \<Rightarrow> ExecutionRecord gw" where
  "authorize_execution gw env actor rq =
    andthen (authorize_checks gw env actor rq) (\<lambda>lease.
    let x = authorized_record (at_id env 8) (at_now env 8) rq lease;
        outbox = authorize_outbox (at_id env 9) (at_now env 9) x;
        event = gateway_event (at_id env 15) (at_now env 15) ActionProposalSubmitted
          (object_ref OT_SideEffect (ex_execution_id x) ''Execution authorized'') x None
          (lifecycle_event_metadata outbox [])
    in
    andthen (or_internal (db_op env 10 (record_authorization (at_now env 10) lease x outbox))) (\<lambda>recorded.
    andthen (if recorded then ret ()
             else andthen (classify_authorization_cas_failure env 11 (aer_capability_id rq)) (\<lambda>e.
                  raise (capability_problem e))) (\<lambda>_.
    andthen (attempt (cap_mark_used env 12 (aer_capability_id rq))) (\<lambda>_.
    andthen (settle_transition env 15 outbox event) (\<lambda>_.
    ret x)))))"

end
