(* ===== verification/Outbox_Safety.thy ===== *)
theory Outbox_Safety
  imports Outbox
begin

text \<open>
  Safety of the lifecycle outbox under any interleaving of its operations.
  \<open>outbox_step\<close> is one call of any of them, with any arguments; it rewritten rows of
  the outbox table in place, and each row only as \<open>row_evolves\<close> allows: its
  identifier and idempotency key stay, its fencing generation never decreases,
  and it stays \<open>settled\<close> (a reconciled row has its obligations satisfied or was
  closed by an operator; the events it names exist).
\<close>

subsection \<open>Steps\<close>

inductive outbox_step :: "database \<Rightarrow> database \<Rightarrow> bool" where
  Mark: "outbox_step d (snd (mark_provenance_obligation_written now k kind e d))"
| Reconcile: "outbox_step d (snd (mark_reconciled now k result d))"
| Review: "outbox_step d (snd (mark_needs_operator_review now k reason d))"
| Retry: "outbox_step d (snd (reset_for_retry ts now k actor why d))"
| Resolve: "outbox_step d (snd (mark_operator_resolved ts now k actor reason d))"
| Claim: "outbox_step d (snd (claim_pending_reconciliation now limit owner ttl d))"
| Renew: "outbox_step d (snd (renew_reconciliation_lease now1 now2 l ttl d))"
| Mark_claimed: "outbox_step d (snd (mark_provenance_obligation_written_claimed now1 now2 l kind e d))"
| Reconcile_claimed: "outbox_step d (snd (mark_reconciled_claimed now1 now2 now3 l result d))"
| Review_claimed: "outbox_step d (snd (mark_needs_operator_review_claimed now1 now2 l reason d))"
| Failure: "outbox_step d (snd (record_reconciliation_failure now1 now2 l err max_attempts d))"

subsection \<open>Invariant\<close>

definition operator_resolved :: "LifecycleOutboxRecord \<Rightarrow> bool" where
  "operator_resolved r = (jm_get (lo_metadata r) ''operator_resolved'' \<noteq> None)"

definition settled :: "database \<Rightarrow> LifecycleOutboxRecord \<Rightarrow> bool" where
  "settled d r =
    ((lo_status r = Reconciled \<longrightarrow> all_obligations_satisfied r \<or> operator_resolved r) \<and>
     list_all (\<lambda>ob. fk_ok (get_event d) (ob_event_id ob)) (lo_provenance_obligations r) \<and>
     fk_ok (get_event d) (lo_provenance_event_id r))"

abbreviation row_id :: "OutboxRow \<Rightarrow> uuid" where
  "row_id w \<equiv> lo_outbox_id (ow_record w)"

abbreviation row_key :: "OutboxRow \<Rightarrow> string" where
  "row_key w \<equiv> lo_idempotency_key (ow_record w)"

definition row_evolves :: "database \<Rightarrow> OutboxRow \<Rightarrow> OutboxRow \<Rightarrow> bool" where
  "row_evolves d w w' =
    (row_id w' = row_id w \<and> row_key w' = row_key w \<and>
     lo_execution_id (ow_record w') = lo_execution_id (ow_record w) \<and>
     ow_lease_generation w \<le> ow_lease_generation w' \<and>
     (settled d (ow_record w) \<longrightarrow> settled d (ow_record w')))"

definition outbox_evolves :: "database \<Rightarrow> database \<Rightarrow> bool" where
  "outbox_evolves d d' =
    (\<exists>ws. d' = d\<lparr>t_outbox := ws\<rparr> \<and> list_all2 (row_evolves d) (t_outbox d) ws)"

definition outbox_wf :: "database \<Rightarrow> bool" where
  "outbox_wf d =
    (distinct (map row_id (t_outbox d)) \<and> distinct (map row_key (t_outbox d)) \<and>
     list_all (\<lambda>w. settled d (ow_record w)) (t_outbox d))"

subsection \<open>Rows evolve\<close>

lemma row_evolves_refl [simp]: "row_evolves d w w"
  by (simp add: row_evolves_def)

lemma outbox_evolves_refl [simp]: "outbox_evolves d d"
  by (auto simp: outbox_evolves_def intro!: exI[of _ "t_outbox d"] list_all2_refl)

lemma settled_get_event:
  "get_event d = get_event d' \<Longrightarrow> settled d r = settled d' r"
  by (simp add: settled_def)

lemma get_event_outbox [simp]: "get_event (d\<lparr>t_outbox := ws\<rparr>) = get_event d"
  by (simp add: get_event_def fun_eq_iff)

lemma outbox_evolves_trans:
  assumes "outbox_evolves d d1" "outbox_evolves d1 d2"
  shows "outbox_evolves d d2"
proof -
  from assms obtain ws ws' where
    1: "d1 = d\<lparr>t_outbox := ws\<rparr>" "list_all2 (row_evolves d) (t_outbox d) ws" and
    2: "d2 = d1\<lparr>t_outbox := ws'\<rparr>" "list_all2 (row_evolves d1) (t_outbox d1) ws'"
    by (auto simp: outbox_evolves_def)
  have "row_evolves d1 = row_evolves d"
    by (simp add: 1 row_evolves_def fun_eq_iff settled_def)
  then have "list_all2 (row_evolves d) ws ws'"
    using 1 2 by simp
  then have "list_all2 (row_evolves d) (t_outbox d) ws'"
    by (rule list_all2_trans[OF _ 1(2), rotated]) (auto simp: row_evolves_def)
  then show ?thesis
    using 1 2 by (auto simp: outbox_evolves_def intro!: exI[of _ ws'])
qed

lemma tupd_evolves:
  assumes "\<And>w. w \<in> set (t_outbox d) \<Longrightarrow> row_id w = k \<Longrightarrow> row_evolves d w (f w)"
  shows "outbox_evolves d (d\<lparr>t_outbox := tupd row_id k f (t_outbox d)\<rparr>)"
  using assms by (auto simp: outbox_evolves_def tupd_def list_all2_conv_all_nth intro!: exI)

lemma get_outbox_row_unique:
  assumes "distinct (map row_id (t_outbox d))" "w \<in> set (t_outbox d)" "row_id w = k"
  shows "get_outbox_row d k = Some w"
  using assms tget_unique[of row_id "t_outbox d" w] by (simp add: get_outbox_row_def)

text \<open>The record a writer stores keeps the row's identity and stays settled.\<close>

definition rewritten :: "database \<Rightarrow> LifecycleOutboxRecord \<Rightarrow> LifecycleOutboxRecord \<Rightarrow> bool" where
  "rewritten d r r' =
    (lo_outbox_id r' = lo_outbox_id r \<and> lo_idempotency_key r' = lo_idempotency_key r \<and>
     lo_execution_id r' = lo_execution_id r \<and>
     (settled d r \<longrightarrow> fk_ok (get_event d) (lo_provenance_event_id r') \<longrightarrow> settled d r'))"

lemma outbox_write_evolves:
  assumes "distinct (map row_id (t_outbox d))" "get_outbox d k = Some r" "rewritten d r r'"
  shows "outbox_evolves d (snd (outbox_write k guard r' clear d))"
proof -
  from assms(2) obtain w where w: "get_outbox_row d k = Some w" "ow_record w = r"
    by (auto simp: get_outbox_def)
  have *: "row_evolves d w' (write_outbox_row r' clear w')"
    if "fk_ok (get_event d) (lo_provenance_event_id r')" "w' \<in> set (t_outbox d)" "row_id w' = k" for w'
    using assms(3) get_outbox_row_unique[OF assms(1) that(2,3)] w that(1)
    by (auto simp: row_evolves_def write_outbox_row_def rewritten_def)
  show ?thesis
    by (auto simp: outbox_write_def w(1) intro!: tupd_evolves *)
qed

lemma get_outbox_id: "get_outbox d k = Some r \<Longrightarrow> lo_outbox_id r = k"
  by (auto simp: get_outbox_def get_outbox_row_def dest: tget_key)

lemma set_obligation_fk:
  assumes "list_all (\<lambda>ob. fk_ok p (ob_event_id ob)) obs" "fk_ok p (Some e)"
  shows "list_all (\<lambda>ob. fk_ok p (ob_event_id ob)) (set_obligation k e obs)"
  using assms by (induction obs) auto

lemma obligation_pending_fk [simp]: "fk_ok p (ob_event_id (obligation_pending k))"
  by (simp add: obligation_pending_def fk_ok_def split: option.splits prod.splits)

lemma rewritten_mark: "rewritten d r (mark_obligation_written now k e r)"
  by (auto simp: rewritten_def mark_obligation_written_def settled_def Let_def intro!: set_obligation_fk)

lemma rewritten_reconciled:
  "all_obligations_satisfied (reconciled_record now result r) \<Longrightarrow> rewritten d r (reconciled_record now result r)"
  by (auto simp: rewritten_def reconciled_record_def settled_def)

lemma rewritten_review: "rewritten d r (review_record now reason r)"
  by (auto simp: rewritten_def review_record_def settled_def)

lemma rewritten_retry: "rewritten d r (retry_record ts now actor why r)"
  by (auto simp: rewritten_def retry_record_def settled_def)

lemma rewritten_resolved: "rewritten d r (resolved_record ts now actor reason r)"
  by (auto simp: rewritten_def resolved_record_def settled_def operator_resolved_def)

lemma rewritten_failed:
  "rewritten d r (fst (failed_record now err max_attempts r))"
  by (auto simp: rewritten_def failed_record_def settled_def Let_def all_obligations_satisfied_def
      operator_resolved_def)

lemma with_outbox_evolves:
  assumes "\<And>r. get_outbox d k = Some r \<Longrightarrow> outbox_evolves d (snd (f r d))"
    and "outbox_evolves d (snd (absent d))"
  shows "outbox_evolves d (snd (with_outbox k absent f d))"
  using assms by (auto simp: with_outbox_def andthen_def reads_def split: option.splits)

text \<open>What follows the write only inspects its result.\<close>

lemma evolves_then:
  assumes "outbox_evolves d (snd (m d))" and "\<And>x d'. snd (f x d') = d'"
  shows "outbox_evolves d (snd (andthen m f d))"
  using assms by (auto simp: andthen_def split: prod.splits sum.splits)

lemma pure_snd [simp]:
  "snd (ret x d) = d" "snd (raise e d) = d" "snd (ensure b e d) = d" "snd (require_updated u d) = d"
  by (simp_all add: ret_def raise_def ensure_def require_updated_def)

lemma update_outbox_record_evolves:
  assumes "distinct (map row_id (t_outbox d))" "get_outbox d k = Some r" "rewritten d r r'"
  shows "outbox_evolves d (snd (update_outbox_record r' clear ovr d))"
proof -
  have "lo_outbox_id r' = k"
    using assms(3) get_outbox_id[OF assms(2)] by (simp add: rewritten_def)
  then show ?thesis
    unfolding update_outbox_record_def using outbox_write_evolves[OF assms] by simp
qed

lemma update_claimed_evolves:
  assumes "distinct (map row_id (t_outbox d))" "get_outbox d (ls_outbox_id l) = Some r" "rewritten d r r'"
  shows "outbox_evolves d (snd (update_outbox_record_claimed now r' l clear d))"
  unfolding update_outbox_record_claimed_def using assms by (rule outbox_write_evolves)

lemma claim_row_evolves: "outbox_evolves d (snd (claim_row now expires owner k d))"
  by (auto simp: claim_row_def row_evolves_def intro!: tupd_evolves split: option.splits)

lemma claim_rows_evolves: "outbox_evolves d (snd (claim_rows now expires owner ks d))"
proof (induction ks arbitrary: d)
  case (Cons k ks)
  then show ?case
    using outbox_evolves_trans[OF claim_row_evolves[of d now expires owner k]]
    by (auto split: prod.splits) (metis snd_conv)
qed simp

lemma ensure_then: "snd (andthen (ensure b e) f d) = (if b then snd (f () d) else d)"
  by (simp add: ensure_def andthen_def ret_def raise_def)

lemma reads_then: "snd (andthen (reads g) f d) = snd (f (g d) d)"
  by (simp add: reads_def andthen_def)

lemma checked_update_evolves:
  assumes "distinct (map row_id (t_outbox d))" "get_outbox d k = Some r"
    and "all_obligations_satisfied r' \<Longrightarrow> rewritten d r r'"
  shows "outbox_evolves d (snd (andthen (require_all_obligations_satisfied r')
    (\<lambda>_. andthen (update_outbox_record r' clear ovr) require_updated) d))"
proof -
  have "outbox_evolves d (snd (andthen (update_outbox_record r' clear ovr) require_updated d))"
    if "all_obligations_satisfied r'"
    using assms that by (intro evolves_then update_outbox_record_evolves) auto
  then show ?thesis
    by (simp add: require_all_obligations_satisfied_def ensure_then)
qed

lemma outbox_step_evolves:
  assumes "outbox_step d d'" "distinct (map row_id (t_outbox d))"
  shows "outbox_evolves d d'"
  using assms
proof cases
  case Mark
  then show ?thesis
    by (auto simp: mark_provenance_obligation_written_def
        intro!: with_outbox_evolves update_outbox_record_evolves assms(2) rewritten_mark)
next
  case Reconcile
  then show ?thesis
    by (auto simp: mark_reconciled_def Let_def
        intro!: with_outbox_evolves checked_update_evolves assms(2) rewritten_reconciled)
next
  case Review
  then show ?thesis
    by (auto simp: mark_needs_operator_review_def
        intro!: with_outbox_evolves evolves_then update_outbox_record_evolves assms(2) rewritten_review)
next
  case Retry
  then show ?thesis
    by (auto simp: reset_for_retry_def Let_def
        intro!: with_outbox_evolves evolves_then update_outbox_record_evolves assms(2) rewritten_retry)
next
  case Resolve
  then show ?thesis
    by (auto simp: mark_operator_resolved_def Let_def
        intro!: with_outbox_evolves evolves_then update_outbox_record_evolves assms(2) rewritten_resolved)
next
  case (Claim now limit owner ttl)
  then show ?thesis
    using claim_rows_evolves
    by (auto simp: claim_pending_reconciliation_def Let_def split: prod.splits) (metis snd_conv)
next
  case Renew
  then show ?thesis
    by (auto simp: renew_reconciliation_lease_def row_evolves_def intro!: tupd_evolves split: option.splits)
next
  case Mark_claimed
  then show ?thesis
    by (auto simp: mark_provenance_obligation_written_claimed_def
        intro!: with_outbox_evolves update_claimed_evolves assms(2) rewritten_mark)
next
  case Reconcile_claimed
  then show ?thesis
    by (auto simp: mark_reconciled_claimed_def Let_def require_all_obligations_satisfied_def
        ensure_then reads_then
        intro!: with_outbox_evolves update_claimed_evolves assms(2) rewritten_reconciled)
next
  case Review_claimed
  then show ?thesis
    by (auto simp: mark_needs_operator_review_claimed_def
        intro!: with_outbox_evolves update_claimed_evolves assms(2) rewritten_review)
next
  case (Failure now1 now2 l err max_attempts)
  have "outbox_evolves d (snd (update_outbox_record_claimed now2 (fst (failed_record now1 err max_attempts r)) l True d))"
    if "get_outbox d (ls_outbox_id l) = Some r" for r
    using assms(2) that rewritten_failed by (rule update_claimed_evolves)
  then show ?thesis
    using Failure
    by (auto simp: record_reconciliation_failure_def split_beta
        intro!: with_outbox_evolves evolves_then)
qed

lemma list_all2_same_map:
  assumes "list_all2 R xs ys" "\<And>x y. R x y \<Longrightarrow> f y = f x"
  shows "map f ys = map f xs"
  using assms by (induction rule: list_all2_induct) auto

lemma outbox_evolves_wf:
  assumes "outbox_evolves d d'" "outbox_wf d"
  shows "outbox_wf d'"
proof -
  from assms(1) obtain ws where ws: "d' = d\<lparr>t_outbox := ws\<rparr>" "list_all2 (row_evolves d) (t_outbox d) ws"
    by (auto simp: outbox_evolves_def)
  have "map row_id ws = map row_id (t_outbox d)" "map row_key ws = map row_key (t_outbox d)"
    by (rule list_all2_same_map[OF ws(2)]; simp add: row_evolves_def)+
  moreover have "list_all (\<lambda>w. settled d (ow_record w)) ws"
    using ws(2) assms(2)
    by (auto simp: outbox_wf_def list_all_length list_all2_conv_all_nth row_evolves_def)
  ultimately show ?thesis
    using assms(2) by (simp add: outbox_wf_def ws(1) settled_def)
qed

lemma outbox_wf_distinct: "outbox_wf d \<Longrightarrow> distinct (map row_id (t_outbox d))"
  by (simp add: outbox_wf_def)

lemma outbox_steps_wf:
  assumes "outbox_step\<^sup>*\<^sup>* d d'" "outbox_wf d"
  shows "outbox_evolves d d' \<and> outbox_wf d'"
  using assms
proof (induction rule: rtranclp_induct)
  case (step y z)
  then have "outbox_evolves y z"
    using outbox_step_evolves outbox_wf_distinct by blast
  then show ?case
    using step outbox_evolves_trans outbox_evolves_wf by blast
qed simp

subsection \<open>Fencing\<close>

lemma evolves_row:
  assumes "outbox_evolves d d'" "get_outbox_row d k = Some w" "distinct (map row_id (t_outbox d))"
  obtains w' where "get_outbox_row d' k = Some w'" "row_evolves d w w'"
proof -
  from assms(1) obtain ws where ws: "d' = d\<lparr>t_outbox := ws\<rparr>" "list_all2 (row_evolves d) (t_outbox d) ws"
    by (auto simp: outbox_evolves_def)
  from assms(2) have w: "w \<in> set (t_outbox d)" "row_id w = k"
    by (auto simp: get_outbox_row_def dest: tget_in tget_key)
  then obtain i where i: "i < length (t_outbox d)" "t_outbox d ! i = w"
    by (auto simp: in_set_conv_nth)
  have "row_evolves d w (ws ! i)" "ws ! i \<in> set ws"
    using ws(2) i by (auto simp: list_all2_conv_all_nth)
  moreover have "map row_id ws = map row_id (t_outbox d)"
    by (rule list_all2_same_map[OF ws(2)]) (simp add: row_evolves_def)
  ultimately show ?thesis
    using assms(3) w get_outbox_row_unique[of d' "ws ! i" k]
    by (intro that[of "ws ! i"]) (auto simp: ws(1) row_evolves_def)
qed

definition fenced :: "database \<Rightarrow> LifecycleOutboxLease \<Rightarrow> bool" where
  "fenced d l = (case get_outbox_row d (ls_outbox_id l) of
     None \<Rightarrow> False | Some w \<Rightarrow> ls_generation l < ow_lease_generation w)"

lemma fenced_steps:
  assumes "outbox_step\<^sup>*\<^sup>* d d'" "outbox_wf d" "fenced d l"
  shows "fenced d' l"
proof -
  from assms(3) obtain w where w: "get_outbox_row d (ls_outbox_id l) = Some w" "ls_generation l < ow_lease_generation w"
    by (auto simp: fenced_def split: option.splits)
  have "outbox_evolves d d'"
    using outbox_steps_wf assms by blast
  then obtain w' where "get_outbox_row d' (ls_outbox_id l) = Some w'" "row_evolves d w w'"
    using evolves_row w(1) assms(2) outbox_wf_distinct by metis
  then show ?thesis
    using w(2) by (auto simp: fenced_def row_evolves_def)
qed

lemma fenced_not_current: "fenced d l \<Longrightarrow> get_outbox_row d (ls_outbox_id l) = Some w \<Longrightarrow> \<not> lease_current now l w"
  by (auto simp: fenced_def lease_current_def)

lemma fenced_write:
  "fenced d l \<Longrightarrow> update_outbox_record_claimed now r l clear d = (Inr False, d)"
  by (auto simp: update_outbox_record_claimed_def outbox_write_def fenced_not_current split: option.splits)

lemma fenced_lease_lost: "fenced d l \<Longrightarrow> \<not> lease_is_current now l d"
  by (auto simp: lease_is_current_def fenced_not_current split: option.splits)

lemma claim_row_fences:
  assumes "claim_row now expires owner k d = (Some c, d1)"
  obtains w where "get_outbox_row d1 k = Some w" "ow_lease_generation w = ls_generation (lcl_lease c)"
    "ls_outbox_id (lcl_lease c) = k"
proof -
  from assms obtain w where w: "get_outbox_row d k = Some w" "row_id w = k"
    "d1 = d\<lparr>t_outbox := tupd row_id k (\<lambda>w. w\<lparr>ow_lease_owner := Some owner,
        ow_lease_expires_at := Some expires, ow_lease_generation := ow_lease_generation w + 1\<rparr>) (t_outbox d)\<rparr>"
    "ls_generation (lcl_lease c) = ow_lease_generation w + 1" "ls_outbox_id (lcl_lease c) = k"
    by (auto simp: claim_row_def get_outbox_row_def dest: tget_key split: option.splits if_splits)
  then show ?thesis
    by (intro that[of "w\<lparr>ow_lease_owner := Some owner, ow_lease_expires_at := Some expires,
           ow_lease_generation := ow_lease_generation w + 1\<rparr>"])
       (auto simp: get_outbox_row_def tget_tupd)
qed

lemma claim_rows_fence:
  assumes "claim_rows now expires owner ks d = (cs, d1)" "c \<in> set cs" "outbox_wf d"
    and "ls_outbox_id l = ls_outbox_id (lcl_lease c)" "ls_generation l < ls_generation (lcl_lease c)"
  shows "fenced d1 l"
  using assms
proof (induction ks arbitrary: d cs)
  case (Cons k ks)
  obtain c0 d0 where c0: "claim_row now expires owner k d = (c0, d0)" by force
  obtain cs' where cs': "claim_rows now expires owner ks d0 = (cs', d1)"
    using Cons.prems(1) c0 by (auto split: prod.splits)
  have wf: "outbox_wf d0"
    using claim_row_evolves[of d now expires owner k] c0 Cons.prems(3) outbox_evolves_wf by simp
  show ?case
  proof (cases "c \<in> set cs'")
    case True
    then show ?thesis using Cons.IH cs' wf Cons.prems by blast
  next
    case False
    then have "c0 = Some c"
      using Cons.prems(1,2) c0 cs' by (auto split: option.splits)
    then obtain w where w: "get_outbox_row d0 (ls_outbox_id l) = Some w"
        "ow_lease_generation w = ls_generation (lcl_lease c)"
      using claim_row_fences c0 Cons.prems(4) by metis
    have "outbox_evolves d0 d1"
      using claim_rows_evolves[of d0 now expires owner ks] cs' by simp
    then obtain w' where "get_outbox_row d1 (ls_outbox_id l) = Some w'" "row_evolves d0 w w'"
      using evolves_row w(1) wf outbox_wf_distinct by metis
    then show ?thesis
      using w(2) Cons.prems(5) by (auto simp: fenced_def row_evolves_def)
  qed
qed simp

definition sample_outbox_db :: database where
  "sample_outbox_db = empty_database\<lparr>t_outbox :=
     [\<lparr>ow_record = pending_with_obligations ''o1'' 0 ''e1'' None (Some ES_Running) ES_AwaitingVerification
         None None [ToolCallExecuted] ''execute:e1'',
       ow_lease_owner = Some ''A'', ow_lease_expires_at = Some 10, ow_lease_generation = 1\<rparr>]\<rparr>"

definition sample_lease :: LifecycleOutboxLease where
  "sample_lease = \<lparr>ls_outbox_id = ''o1'', ls_owner = ''A'', ls_generation = 1, ls_expires_at = 10\<rparr>"

text \<open>C20: Fencing.  Once a worker has claimed an outbox row, a worker that still
  holds an older lease of that row can no longer write it: in every later state,
  whatever outbox calls happened in between, each of its claimed operations
  leaves the database unchanged and reports the lost lease.\<close>
theorem stale_lease_fenced:
  assumes "outbox_wf d"
    and "claim_pending_reconciliation now limit owner ttl d = (Inr cs, d1)" "c \<in> set cs"
    and "ls_outbox_id l = ls_outbox_id (lcl_lease c)" "ls_generation l < ls_generation (lcl_lease c)"
    and "outbox_step\<^sup>*\<^sup>* d1 d2"
  shows "mark_provenance_obligation_written_claimed n1 n2 l kind e d2 = (Inr False, d2) \<and>
         mark_reconciled_claimed n1 n2 n3 l result d2 = (Inr False, d2) \<and>
         mark_needs_operator_review_claimed n1 n2 l reason d2 = (Inr False, d2) \<and>
         record_reconciliation_failure n1 n2 l err max_attempts d2 = (Inr LeaseLost, d2) \<and>
         renew_reconciliation_lease n1 n2 l ttl' d2 = (Inr False, d2)"
proof -
  have "outbox_step d d1"
    using Claim[of d now limit owner ttl] assms(2) by simp
  then have wf: "outbox_wf d1"
    using outbox_steps_wf assms(1) by blast
  have "fenced d1 l"
    using assms(2-5) claim_rows_fence[OF _ _ assms(1)]
    by (auto simp: claim_pending_reconciliation_def Let_def split: if_splits prod.splits)
  then have f: "fenced d2 l"
    using fenced_steps assms(6) wf by blast
  note simps = with_outbox_def andthen_def reads_def ret_def fenced_write[OF f]
  have "mark_provenance_obligation_written_claimed n1 n2 l kind e d2 = (Inr False, d2)"
    by (simp add: mark_provenance_obligation_written_claimed_def simps split: option.splits)
  moreover have "mark_reconciled_claimed n1 n2 n3 l result d2 = (Inr False, d2)"
    by (simp add: mark_reconciled_claimed_def simps fenced_lease_lost[OF f])
  moreover have "mark_needs_operator_review_claimed n1 n2 l reason d2 = (Inr False, d2)"
    by (simp add: mark_needs_operator_review_claimed_def simps split: option.splits)
  moreover have "record_reconciliation_failure n1 n2 l err max_attempts d2 = (Inr LeaseLost, d2)"
    by (simp add: record_reconciliation_failure_def simps split: option.splits prod.splits)
  moreover have "renew_reconciliation_lease n1 n2 l ttl' d2 = (Inr False, d2)"
    using fenced_not_current[OF f] by (simp add: renew_reconciliation_lease_def split: option.splits)
  ultimately show ?thesis by blast
qed

theorem stale_lease_fenced_witness:
  "mark_reconciled_claimed 5 5 5 sample_lease []
     (snd (claim_pending_reconciliation 20 1 ''B'' 30 sample_outbox_db)) =
   (Inr False, snd (claim_pending_reconciliation 20 1 ''B'' 30 sample_outbox_db))"
proof -
  define d1 where "d1 = snd (claim_pending_reconciliation 20 1 ''B'' 30 sample_outbox_db)"
  define c where "c = \<lparr>lcl_record = ow_record (hd (t_outbox sample_outbox_db)),
    lcl_lease = \<lparr>ls_outbox_id = ''o1'', ls_owner = ''B'', ls_generation = 2, ls_expires_at = 50\<rparr>\<rparr>"
  have "fst (claim_pending_reconciliation 20 1 ''B'' 30 sample_outbox_db) = Inr [c]"
    unfolding c_def by code_simp
  then have "claim_pending_reconciliation 20 1 ''B'' 30 sample_outbox_db = (Inr [c], d1)"
    by (simp add: d1_def prod_eq_iff)
  moreover have "outbox_wf sample_outbox_db" by code_simp
  ultimately have "mark_reconciled_claimed 5 5 5 sample_lease [] d1 = (Inr False, d1)"
    using stale_lease_fenced[of sample_outbox_db 20 1 "''B''" 30 "[c]" d1 c sample_lease d1 5 5 _ _ 5 "[]"]
    by (simp add: c_def sample_lease_def)
  then show ?thesis by (simp add: d1_def)
qed

end
