(* ===== verification/Interleaving.thy ===== *)
theory Interleaving
  imports Outbox_Safety
begin

text \<open>
  The store under concurrent requests.  Every write of the gateway to the
  lifecycle tables is one of the atomic store operations below; \<open>store_step\<close> is one
  such operation, with the arguments the gateway may pass (also computed from
  rows read earlier and changed since).  A request is a sequence of such steps,
  and requests running concurrently an interleaving of them, so what holds
  along \<open>store_step\<^sup>*\<^sup>*\<close> holds for every schedule.

  \<open>history\<close> says what later states keep of earlier ones; \<open>store_wf\<close> is the
  invariant of the reachable states.
\<close>

subsection \<open>Steps\<close>

definition fresh_outbox :: "LifecycleOutboxRecord \<Rightarrow> bool" where
  "fresh_outbox r =
    (lo_status r = PendingProvenance \<and> lo_provenance_event_id r = None \<and>
     list_all (\<lambda>ob. ob_event_id ob = None) (lo_provenance_obligations r))"

text \<open>What never changes in an execution, a contract and a lease.\<close>

definition same_execution :: "ExecutionRecord \<Rightarrow> ExecutionRecord \<Rightarrow> bool" where
  "same_execution e e' =
    (ex_execution_id e' = ex_execution_id e \<and> ex_proposal_id e' = ex_proposal_id e \<and>
     ex_intent_id e' = ex_intent_id e \<and> ex_capability_id e' = ex_capability_id e \<and>
     ex_decision e' = ex_decision e \<and> ex_started_at e' = ex_started_at e \<and>
     ex_owner_actor_id e' = ex_owner_actor_id e)"

definition same_contract :: "RollbackContract \<Rightarrow> RollbackContract \<Rightarrow> bool" where
  "same_contract c c' =
    (rc_contract_id c' = rc_contract_id c \<and> rc_intent_id c' = rc_intent_id c \<and>
     rc_proposal_id c' = rc_proposal_id c \<and> rc_execution_id c' = rc_execution_id c \<and>
     rc_action_type c' = rc_action_type c \<and> rc_rollback_class c' = rc_rollback_class c \<and>
     rc_adapter_key c' = rc_adapter_key c)"

definition lease_core :: "CapabilityLease \<Rightarrow> CapabilityLease" where
  "lease_core c = c\<lparr>cl_status := CS_Active, cl_revoked_at := None\<rparr>"

lemma lease_core_fields:
  "cl_expires_at (lease_core c) = cl_expires_at c" "cl_issued_at (lease_core c) = cl_issued_at c"
  "cl_capability_id (lease_core c) = cl_capability_id c" "cl_proposal_id (lease_core c) = cl_proposal_id c"
  "cl_argument_constraints (lease_core c) = cl_argument_constraints c"
  by (simp_all add: lease_core_def)

definition same_lease :: "CapabilityLease \<Rightarrow> CapabilityLease \<Rightarrow> bool" where
  "same_lease c c' = (lease_core c' = lease_core c)"

definition intent_core :: "IntentEnvelope \<Rightarrow> IntentEnvelope" where
  "intent_core i = i\<lparr>in_status := IS_Active\<rparr>"

definition contract_arg_ok :: "database \<Rightarrow> RollbackContract option \<Rightarrow> RollbackState option \<Rightarrow> bool" where
  "contract_arg_ok d c prev =
    (case c of
       None \<Rightarrow> True
     | Some c \<Rightarrow> (case prev of
         None \<Rightarrow> rc_state c = RS_Prepared
       | Some _ \<Rightarrow> (case get_contract d (rc_contract_id c) of None \<Rightarrow> True | Some c0 \<Rightarrow> same_contract c0 c)))"

definition execution_arg_ok :: "database \<Rightarrow> ExecutionRecord \<Rightarrow> bool" where
  "execution_arg_ok d e =
    (case get_execution d (ex_execution_id e) of None \<Rightarrow> True | Some e0 \<Rightarrow> same_execution e0 e)"

inductive store_step :: "database \<Rightarrow> database \<Rightarrow> bool" where
  Intent_insert: "store_step d (snd (intent_insert i d))"
| Intent_status: "store_step d (snd (intent_update_status k st d))"
| Proposal_insert: "store_step d (snd (proposal_insert p d))"
| Capability_insert: "\<lbrakk>cl_status c = CS_Active; cl_expires_at c \<le> cl_issued_at c + seconds 300\<rbrakk>
    \<Longrightarrow> store_step d (snd (capability_insert c d))"
| Capability_use: "store_step d (snd (capability_update_status_if_active now k CS_Used d))"
| Capability_revoke: "store_step d (snd (capability_revoke_if_active k t d))"
| Capability_force_revoke: "get_capability d k = Some c
    \<Longrightarrow> store_step d (snd (capability_update (c\<lparr>cl_status := CS_Revoked, cl_revoked_at := Some t\<rparr>) d))"
| Authorization: "\<lbrakk>ex_capability_id e = cl_capability_id c; ex_state e \<in> {ES_Authorized, ES_Prepared};
     fresh_outbox ob; lo_execution_id ob = ex_execution_id e\<rbrakk>
    \<Longrightarrow> store_step d (snd (record_authorization now c e ob d))"
| Transition: "\<lbrakk>execution_arg_ok d e; contract_arg_ok d c (lo_previous_rollback_state ob);
     fresh_outbox ob; lo_execution_id ob = ex_execution_id e\<rbrakk>
    \<Longrightarrow> store_step d (snd (record_lifecycle_transition e c ob d))"
| Claim_execution: "list_all (\<lambda>s. is_valid_execution_transition s st) expected
    \<Longrightarrow> store_step d (snd (execution_compare_and_set_state now k expected st d))"
| Approval_insert: "store_step d (snd (approval_insert a d))"
| Approval_resolve: "store_step d (snd (resolve_approval_sqlite k st now d))"
| Approval_expire: "store_step d (snd (expire_stale_approvals now age batch d))"
| Hold_insert: "store_step d (snd (hold_insert h d))"
| Hold_resolve: "store_step d (snd (hold_resolve k allow actor reason t d))"
| Hold_expire: "store_step d (snd (expire_stale_holds now age batch d))"
| Event: "list_all (\<lambda>x. ed_from_event_id x \<noteq> ev_event_id e) edges
    \<Longrightarrow> store_step d (snd (event_append_with_edges e edges d))"
| Outbox: "outbox_step d d' \<Longrightarrow> store_step d d'"

subsection \<open>The two lifecycle transactions\<close>

definition new_outbox_row :: "LifecycleOutboxRecord \<Rightarrow> OutboxRow" where
  "new_outbox_row r =
    \<lparr>ow_record = r, ow_lease_owner = None, ow_lease_expires_at = None, ow_lease_generation = 0\<rparr>"

lemma insert_outbox_record_tx_Inr:
  "insert_outbox_record_tx r d = (Inr u, d') \<longleftrightarrow>
     lo_idempotency_key r \<notin> row_key ` set (t_outbox d) \<and> lo_outbox_id r \<notin> row_id ` set (t_outbox d) \<and>
     get_execution d (lo_execution_id r) \<noteq> None \<and>
     fk_ok (get_contract d) (lo_rollback_contract_id r) \<and> fk_ok (get_event d) (lo_provenance_event_id r) \<and>
     d' = d\<lparr>t_outbox := t_outbox d @ [new_outbox_row r]\<rparr>"
  by (auto simp: insert_outbox_record_tx_def new_outbox_row_def list_ex_iff get_outbox_row_def tget_None_iff
      image_iff eq_commute[of "lo_idempotency_key r"])

lemma transaction_snd:
  obtains "snd (transaction m d) = d" | x where "m d = (Inr x, snd (transaction m d))"
proof (cases "fst (m d)")
  case (Inl e)
  then show ?thesis using that(1) by (cases "m d") (simp add: transaction_def)
next
  case (Inr x)
  then show ?thesis using that(2) by (cases "m d") (simp add: transaction_def)
qed

lemma execution_insert_Inr:
  "execution_insert e d = (Inr u, d') \<longleftrightarrow>
     get_execution d (ex_execution_id e) = None \<and> get_intent d (ex_intent_id e) \<noteq> None \<and>
     get_proposal d (ex_proposal_id e) \<noteq> None \<and> get_capability d (ex_capability_id e) \<noteq> None \<and>
     d' = d\<lparr>t_executions := t_executions d @ [e]\<rparr>"
  by (auto simp: execution_insert_def)

lemma capability_cas_Inr:
  "capability_cas f now k d = (Inr b, d') \<longleftrightarrow>
     (if b then \<exists>c. get_capability d k = Some c \<and> capability_active now c \<and>
                    d' = d\<lparr>t_capabilities := tupd cl_capability_id k f (t_capabilities d)\<rparr>
      else d' = d \<and> (\<forall>c. get_capability d k = Some c \<longrightarrow> \<not> capability_active now c))"
  by (auto simp: capability_cas_def split: option.splits)

text \<open>A recorded authorization: the capability was active and is used up.\<close>

definition authorized :: "timestamp \<Rightarrow> CapabilityLease \<Rightarrow> ExecutionRecord \<Rightarrow> LifecycleOutboxRecord \<Rightarrow>
    database \<Rightarrow> database \<Rightarrow> bool" where
  "authorized now c e ob d d' =
    ((\<exists>c0. get_capability d (cl_capability_id c) = Some c0 \<and> capability_active now c0) \<and>
     get_execution d (ex_execution_id e) = None \<and> get_capability d (ex_capability_id e) \<noteq> None \<and>
     get_intent d (ex_intent_id e) \<noteq> None \<and> get_proposal d (ex_proposal_id e) \<noteq> None \<and>
     lo_idempotency_key ob \<notin> row_key ` set (t_outbox d) \<and> lo_outbox_id ob \<notin> row_id ` set (t_outbox d) \<and>
     d' = d\<lparr>t_capabilities := tupd cl_capability_id (cl_capability_id c) (\<lambda>c. c\<lparr>cl_status := CS_Used\<rparr>)
              (t_capabilities d),
            t_executions := t_executions d @ [e], t_outbox := t_outbox d @ [new_outbox_row ob]\<rparr>)"

lemma get_capability_tupd:
  assumes "\<And>c. cl_capability_id (f c) = cl_capability_id c"
  shows "get_capability (d\<lparr>t_capabilities := tupd cl_capability_id k f (t_capabilities d)\<rparr>) k' =
    (if k' = k then map_option f (get_capability d k) else get_capability d k')"
  using assms by (simp add: get_capability_def tget_tupd)

lemma record_authorization_Inr:
  assumes "record_authorization now c e ob d = (Inr b, d')"
  shows "if b then authorized now c e ob d d' else d' = d"
  using assms
  by (auto simp: record_authorization_def proc_Inr capability_update_status_if_active_def
      capability_cas_Inr execution_insert_Inr insert_outbox_record_tx_Inr authorized_def
      get_execution_def get_intent_def get_proposal_def get_capability_tupd split: if_splits)

lemma record_authorization_snd:
  obtains "snd (record_authorization now c e ob d) = d"
  | "authorized now c e ob d (snd (record_authorization now c e ob d))"
proof (cases "record_authorization now c e ob d")
  case (Pair r d')
  show ?thesis
  proof (cases r)
    case (Inl x)
    then have "d' = d"
      using Pair by (auto simp: record_authorization_def dest: transaction_Inl)
    then show ?thesis using that(1) Pair by simp
  next
    case (Inr b)
    then show ?thesis using that record_authorization_Inr[of now c e ob d b d'] Pair
      by (auto split: if_splits)
  qed
qed

text \<open>A recorded transition: both records were in the expected states, the
  transitions are valid, and the contract is replaced or new.\<close>

definition contract_written :: "RollbackContract option \<Rightarrow> RollbackState option \<Rightarrow> database \<Rightarrow> database \<Rightarrow> bool" where
  "contract_written c prev d d' =
    (case c of
       None \<Rightarrow> d' = d
     | Some c \<Rightarrow> (case prev of
         Some p \<Rightarrow> is_valid_rollback_transition p (rc_state c) \<and>
           (\<exists>c0. get_contract d (rc_contract_id c) = Some c0 \<and> rc_state c0 = p) \<and>
           d' = d\<lparr>t_contracts := tupd rc_contract_id (rc_contract_id c) (\<lambda>_. c) (t_contracts d)\<rparr>
       | None \<Rightarrow> get_contract d (rc_contract_id c) = None \<and> get_intent d (rc_intent_id c) \<noteq> None \<and>
           get_proposal d (rc_proposal_id c) \<noteq> None \<and> get_execution d (rc_execution_id c) \<noteq> None \<and>
           d' = d\<lparr>t_contracts := t_contracts d @ [c]\<rparr>))"

definition transitioned :: "ExecutionRecord \<Rightarrow> RollbackContract option \<Rightarrow> LifecycleOutboxRecord \<Rightarrow>
    database \<Rightarrow> database \<Rightarrow> bool" where
  "transitioned e c ob d d' =
    ((\<exists>e0 p. lo_previous_execution_state ob = Some p \<and> get_execution d (ex_execution_id e) = Some e0 \<and>
       ex_state e0 = p \<and> is_valid_execution_transition p (ex_state e)) \<and>
     lo_idempotency_key ob \<notin> row_key ` set (t_outbox d) \<and> lo_outbox_id ob \<notin> row_id ` set (t_outbox d) \<and>
     (\<exists>d1. contract_written c (lo_previous_rollback_state ob)
            (d\<lparr>t_executions := tupd ex_execution_id (ex_execution_id e) (\<lambda>_. e) (t_executions d)\<rparr>) d1 \<and>
           d' = d1\<lparr>t_outbox := t_outbox d @ [new_outbox_row ob]\<rparr>))"

lemma execution_update_if_state_Inr:
  "execution_update_if_state p e d = (Inr u, d') \<longleftrightarrow>
     (\<exists>e0. get_execution d (ex_execution_id e) = Some e0 \<and> ex_state e0 = p) \<and>
     d' = d\<lparr>t_executions := tupd ex_execution_id (ex_execution_id e) (\<lambda>_. e) (t_executions d)\<rparr>"
  by (auto simp: execution_update_if_state_def execution_update_def modifies_def split: option.splits)

lemma contract_update_if_state_Inr:
  "contract_update_if_state p c d = (Inr u, d') \<longleftrightarrow>
     (\<exists>c0. get_contract d (rc_contract_id c) = Some c0 \<and> rc_state c0 = p) \<and>
     d' = d\<lparr>t_contracts := tupd rc_contract_id (rc_contract_id c) (\<lambda>_. c) (t_contracts d)\<rparr>"
  by (auto simp: contract_update_if_state_def contract_update_def modifies_def split: option.splits)

lemma lifecycle_contract_write_Inr:
  assumes "lifecycle_contract_guard c prev d0 = (Inr u, d1)" "lifecycle_contract_write c prev d = (Inr v, d')"
  shows "contract_written c prev d d'"
  using assms
  by (cases c; cases prev)
     (auto simp: lifecycle_contract_guard_def lifecycle_contract_write_def contract_written_def
       contract_update_if_state_Inr contract_insert_def proc_Inr split: if_splits)

lemma contract_written_outbox:
  "contract_written c prev d d' \<Longrightarrow> t_outbox d' = t_outbox d"
  by (auto simp: contract_written_def split: option.splits)

lemma lifecycle_contract_guard_state: "lifecycle_contract_guard c prev d = (Inr u, d') \<Longrightarrow> d' = d"
  by (auto simp: lifecycle_contract_guard_def proc_Inr split: option.splits)

lemma record_lifecycle_transition_Inr:
  assumes "record_lifecycle_transition e c ob d = (Inr u, d')"
  shows "transitioned e c ob d d'"
proof -
  from assms obtain p d1 d2 where
    p: "lo_previous_execution_state ob = Some p" "is_valid_execution_transition p (ex_state e)" and
    g: "lifecycle_contract_guard c (lo_previous_rollback_state ob) d = (Inr (), d)" and
    x: "execution_update_if_state p e d = (Inr (), d1)" and
    w: "lifecycle_contract_write c (lo_previous_rollback_state ob) d1 = (Inr (), d2)" and
    o: "insert_outbox_record_tx ob d2 = (Inr u, d')"
    by (auto simp: record_lifecycle_transition_def proc_Inr dest: lifecycle_contract_guard_state)
  have cw: "contract_written c (lo_previous_rollback_state ob) d1 d2"
    using g w by (rule lifecycle_contract_write_Inr)
  then have "t_outbox d2 = t_outbox d"
    using x contract_written_outbox by (fastforce simp: execution_update_if_state_Inr)
  then show ?thesis
    using p x o cw by (auto simp: transitioned_def execution_update_if_state_Inr insert_outbox_record_tx_Inr)
qed

lemma record_lifecycle_transition_snd:
  obtains "snd (record_lifecycle_transition e c ob d) = d"
  | "transitioned e c ob d (snd (record_lifecycle_transition e c ob d))"
proof (cases "record_lifecycle_transition e c ob d")
  case (Pair r d')
  show ?thesis
  proof (cases r)
    case (Inl x)
    then have "d' = d"
      using Pair by (auto simp: record_lifecycle_transition_def dest: transaction_Inl)
    then show ?thesis using that(1) Pair by simp
  next
    case (Inr u)
    then show ?thesis using that(2) record_lifecycle_transition_Inr[of e c ob d u d'] Pair by simp
  qed
qed

subsection \<open>What later states keep\<close>

definition execution_history :: "database \<Rightarrow> database \<Rightarrow> bool" where
  "execution_history d d' =
    (\<forall>k e. get_execution d k = Some e \<longrightarrow>
       (\<exists>e'. get_execution d' k = Some e' \<and> same_execution e e' \<and>
             is_valid_execution_transition\<^sup>*\<^sup>* (ex_state e) (ex_state e')))"

definition contract_history :: "database \<Rightarrow> database \<Rightarrow> bool" where
  "contract_history d d' =
    (\<forall>k c. get_contract d k = Some c \<longrightarrow>
       (\<exists>c'. get_contract d' k = Some c' \<and> same_contract c c' \<and>
             is_valid_rollback_transition\<^sup>*\<^sup>* (rc_state c) (rc_state c')))"

definition capability_history :: "database \<Rightarrow> database \<Rightarrow> bool" where
  "capability_history d d' =
    (\<forall>k c. get_capability d k = Some c \<longrightarrow>
       (\<exists>c'. get_capability d' k = Some c' \<and> same_lease c c' \<and>
             (cl_status c' = CS_Active \<longrightarrow> cl_status c = CS_Active)))"

definition entity_history :: "database \<Rightarrow> database \<Rightarrow> bool" where
  "entity_history d d' =
    ((\<forall>k p. get_proposal d k = Some p \<longrightarrow> get_proposal d' k = Some p) \<and>
     (\<forall>k i. get_intent d k = Some i \<longrightarrow>
        (\<exists>i'. get_intent d' k = Some i' \<and> intent_core i' = intent_core i)))"

definition event_history :: "database \<Rightarrow> database \<Rightarrow> bool" where
  "event_history d d' =
    (prefix (t_events d) (t_events d') \<and> prefix (t_edges d) (t_edges d'))"

definition history :: "database \<Rightarrow> database \<Rightarrow> bool" where
  "history d d' =
    (execution_history d d' \<and> contract_history d d' \<and> capability_history d d' \<and>
     entity_history d d' \<and> event_history d d')"

lemmas history_defs = history_def execution_history_def contract_history_def
  capability_history_def entity_history_def event_history_def

lemma same_refl [simp]: "same_execution e e" "same_contract c c" "same_lease l l"
  by (simp_all add: same_execution_def same_contract_def same_lease_def)

lemma same_trans:
  "same_execution e e' \<Longrightarrow> same_execution e' e'' \<Longrightarrow> same_execution e e''"
  "same_contract c c' \<Longrightarrow> same_contract c' c'' \<Longrightarrow> same_contract c c''"
  "same_lease l l' \<Longrightarrow> same_lease l' l'' \<Longrightarrow> same_lease l l''"
  by (simp_all add: same_execution_def same_contract_def same_lease_def)

lemma history_refl [simp]: "history d d"
  by (auto simp: history_defs)

lemma execution_history_trans:
  "execution_history d d' \<Longrightarrow> execution_history d' d'' \<Longrightarrow> execution_history d d''"
  unfolding execution_history_def by (meson same_trans(1) rtranclp_trans)

lemma contract_history_trans:
  "contract_history d d' \<Longrightarrow> contract_history d' d'' \<Longrightarrow> contract_history d d''"
  unfolding contract_history_def by (meson same_trans(2) rtranclp_trans)

lemma capability_history_trans:
  "capability_history d d' \<Longrightarrow> capability_history d' d'' \<Longrightarrow> capability_history d d''"
  unfolding capability_history_def by (meson same_trans(3))

lemma entity_history_trans:
  "entity_history d d' \<Longrightarrow> entity_history d' d'' \<Longrightarrow> entity_history d d''"
  unfolding entity_history_def by metis

lemma event_history_trans:
  "event_history d d' \<Longrightarrow> event_history d' d'' \<Longrightarrow> event_history d d''"
  unfolding event_history_def by (blast intro: prefix_order.trans)

lemma history_trans: "history d d' \<Longrightarrow> history d' d'' \<Longrightarrow> history d d''"
  unfolding history_def
  by (blast intro: execution_history_trans contract_history_trans capability_history_trans
      entity_history_trans event_history_trans)

interpretation hist: state_preorder history
  by unfold_locales (auto intro: history_trans)

lemma history_outbox [simp]: "history d (d\<lparr>t_outbox := ws\<rparr>)"
  by (auto simp: history_defs get_defs)

lemma tget_snoc_Some: "tget key k t = Some r \<Longrightarrow> tget key k (t @ [x]) = Some r"
  by (simp add: tget_snoc)

lemma execution_tupd_history:
  assumes "\<And>e. get_execution d k = Some e \<Longrightarrow>
      same_execution e (f e) \<and> is_valid_execution_transition\<^sup>*\<^sup>* (ex_state e) (ex_state (f e))"
    and "\<And>e. ex_execution_id e = k \<Longrightarrow> ex_execution_id (f e) = k"
  shows "history d (d\<lparr>t_executions := tupd ex_execution_id k f (t_executions d)\<rparr>)"
  using assms by (auto simp: history_defs get_defs tget_tupd)

lemma contract_tupd_history:
  assumes "\<And>c. get_contract d k = Some c \<Longrightarrow>
      same_contract c (f c) \<and> is_valid_rollback_transition\<^sup>*\<^sup>* (rc_state c) (rc_state (f c))"
    and "\<And>c. rc_contract_id c = k \<Longrightarrow> rc_contract_id (f c) = k"
  shows "history d (d\<lparr>t_contracts := tupd rc_contract_id k f (t_contracts d)\<rparr>)"
  using assms by (auto simp: history_defs get_defs tget_tupd)

lemma capability_tupd_history:
  assumes "\<And>c. get_capability d k = Some c \<Longrightarrow> same_lease c (f c) \<and> cl_status (f c) \<noteq> CS_Active"
    and "\<And>c. cl_capability_id c = k \<Longrightarrow> cl_capability_id (f c) = k"
  shows "history d (d\<lparr>t_capabilities := tupd cl_capability_id k f (t_capabilities d)\<rparr>)"
  using assms by (auto simp: history_defs get_defs tget_tupd)

lemma intent_tupd_history:
  assumes "\<And>i. get_intent d k = Some i \<Longrightarrow> intent_core (f i) = intent_core i"
    and "\<And>i. in_intent_id i = k \<Longrightarrow> in_intent_id (f i) = k"
  shows "history d (d\<lparr>t_intents := tupd in_intent_id k f (t_intents d)\<rparr>)"
  using assms by (auto simp: history_defs get_defs tget_tupd)

lemma snoc_history [simp]:
  "history d (d\<lparr>t_intents := t_intents d @ [i]\<rparr>)"
  "history d (d\<lparr>t_proposals := t_proposals d @ [p]\<rparr>)"
  "history d (d\<lparr>t_capabilities := t_capabilities d @ [c]\<rparr>)"
  "history d (d\<lparr>t_executions := t_executions d @ [e]\<rparr>)"
  "history d (d\<lparr>t_contracts := t_contracts d @ [rc]\<rparr>)"
  "history d (d\<lparr>t_events := t_events d @ [ev], t_edges := t_edges d @ es\<rparr>)"
  "history d (d\<lparr>t_approvals := as\<rparr>)" "history d (d\<lparr>t_holds := hs\<rparr>)"
  by (auto simp: history_defs get_defs tget_snoc_Some)

lemma valid_execution_steps: "is_valid_execution_transition s t \<Longrightarrow> is_valid_execution_transition\<^sup>*\<^sup>* s t"
  by (rule r_into_rtranclp)

lemma authorized_history:
  assumes "authorized now c e ob d d'"
  shows "history d d'"
proof -
  let ?f = "\<lambda>c. c\<lparr>cl_status := CS_Used\<rparr> :: CapabilityLease"
  let ?d1 = "d\<lparr>t_capabilities := tupd cl_capability_id (cl_capability_id c) ?f (t_capabilities d)\<rparr>"
  have "history d ?d1"
    by (rule capability_tupd_history) (simp_all add: same_lease_def lease_core_def)
  moreover have "history ?d1 (?d1\<lparr>t_executions := t_executions ?d1 @ [e]\<rparr>)"
    by (rule snoc_history)
  moreover have "history (?d1\<lparr>t_executions := t_executions ?d1 @ [e]\<rparr>)
      (?d1\<lparr>t_executions := t_executions ?d1 @ [e], t_outbox := t_outbox d @ [new_outbox_row ob]\<rparr>)"
    by (rule history_outbox)
  ultimately have "history d (?d1\<lparr>t_executions := t_executions ?d1 @ [e], t_outbox := t_outbox d @ [new_outbox_row ob]\<rparr>)"
    by (blast intro: history_trans)
  then show ?thesis using assms by (simp add: authorized_def)
qed

lemma contract_written_history:
  assumes "contract_written c prev d d'" "contract_arg_ok d c prev"
  shows "history d d'"
proof (cases c)
  case None
  then show ?thesis using assms by (simp add: contract_written_def)
next
  case (Some c1)
  show ?thesis
  proof (cases prev)
    case None
    then show ?thesis using assms Some by (simp add: contract_written_def)
  next
    case (Some p)
    then obtain c0 where c0: "get_contract d (rc_contract_id c1) = Some c0" "rc_state c0 = p"
        "is_valid_rollback_transition p (rc_state c1)"
        "d' = d\<lparr>t_contracts := tupd rc_contract_id (rc_contract_id c1) (\<lambda>_. c1) (t_contracts d)\<rparr>"
      using assms(1) \<open>c = Some c1\<close> by (auto simp: contract_written_def)
    have "same_contract c0 c1"
      using assms(2) \<open>c = Some c1\<close> Some c0(1) by (simp add: contract_arg_ok_def)
    then show ?thesis
      unfolding c0(4) using c0 by (intro contract_tupd_history) (auto intro: r_into_rtranclp)
  qed
qed

lemma contract_arg_ok_executions [simp]:
  "contract_arg_ok (d\<lparr>t_executions := es\<rparr>) c prev = contract_arg_ok d c prev"
  by (simp add: contract_arg_ok_def get_contract_def split: option.splits)

lemma transitioned_history:
  assumes "transitioned e c ob d d'" "execution_arg_ok d e"
    and "contract_arg_ok d c (lo_previous_rollback_state ob)"
  shows "history d d'"
proof -
  let ?d1 = "d\<lparr>t_executions := tupd ex_execution_id (ex_execution_id e) (\<lambda>_. e) (t_executions d)\<rparr>"
  obtain d2 where d2: "contract_written c (lo_previous_rollback_state ob) ?d1 d2"
      "d' = d2\<lparr>t_outbox := t_outbox d @ [new_outbox_row ob]\<rparr>"
    using assms(1) by (auto simp: transitioned_def)
  have "history d ?d1"
    using assms(1,2)
    by (intro execution_tupd_history) (auto simp: transitioned_def execution_arg_ok_def intro: r_into_rtranclp)
  moreover have "history ?d1 d2"
    using d2(1) assms(3) by (intro contract_written_history[OF d2(1)]) simp
  moreover have "history d2 d'"
    unfolding d2(2) by simp
  ultimately show ?thesis
    by (blast intro: history_trans)
qed

lemma capability_cas_history:
  assumes "\<And>c. same_lease c (f c)" "\<And>c. cl_status (f c) \<noteq> CS_Active"
    "\<And>c. cl_capability_id (f c) = cl_capability_id c"
  shows "history d (snd (capability_cas f now k d))"
  using assms by (auto simp: capability_cas_def split: option.splits intro!: capability_tupd_history)

lemma claim_history:
  assumes "list_all (\<lambda>s. is_valid_execution_transition s st) expected"
  shows "history d (snd (execution_compare_and_set_state now k expected st d))"
  using assms
  by (auto simp: execution_compare_and_set_state_def list_all_iff same_execution_def split: option.splits
      intro!: execution_tupd_history r_into_rtranclp)

lemma outbox_evolves_history: "outbox_evolves d d' \<Longrightarrow> history d d'"
  by (auto simp: outbox_evolves_def)

lemma store_step_history:
  assumes "store_step d d'" "outbox_wf d"
  shows "history d d'"
  using assms(1)
proof cases
  case (Intent_status k st)
  show ?thesis
  proof (cases "get_intent d k")
    case None
    then show ?thesis using Intent_status by (simp add: intent_update_status_def proc_defs)
  next
    case (Some i)
    then have "in_intent_id i = k" by (auto simp: get_intent_def dest: tget_key)
    then show ?thesis
      using Intent_status Some
      by (auto simp: intent_update_status_def intent_update_def proc_defs intent_core_def
          intro!: intent_tupd_history)
  qed
next
  case (Capability_force_revoke k c t)
  moreover have "cl_capability_id c = k"
    using Capability_force_revoke by (auto simp: get_capability_def dest: tget_key)
  ultimately show ?thesis
    by (auto simp: capability_update_def modifies_def same_lease_def lease_core_def
        intro!: capability_tupd_history)
next
  case (Authorization e c ob now)
  then show ?thesis
    using record_authorization_snd[of now c e ob d] authorized_history by (metis history_refl)
next
  case (Transition e c ob)
  then show ?thesis
    using record_lifecycle_transition_snd[of e c ob d] transitioned_history by (metis history_refl)
next
  case (Outbox)
  then show ?thesis
    using outbox_evolves_history outbox_step_evolves assms(2) outbox_wf_distinct by blast
qed (auto simp: intent_insert_def proposal_insert_def capability_insert_def approval_insert_def
      resolve_approval_sqlite_def expire_stale_approvals_def Let_def hold_insert_def hold_resolve_def
      expire_stale_holds_def event_append_with_edges_def capability_update_status_if_active_def capability_revoke_if_active_def
      same_lease_def lease_core_def
      split: option.splits intro!: capability_cas_history claim_history)

subsection \<open>The invariant\<close>

definition single_use :: "database \<Rightarrow> bool" where
  "single_use d =
    (distinct (map ex_capability_id (t_executions d)) \<and>
     list_all (\<lambda>e. case get_capability d (ex_capability_id e) of
                     None \<Rightarrow> False | Some c \<Rightarrow> cl_status c \<noteq> CS_Active) (t_executions d))"

definition ttl_bounded :: "database \<Rightarrow> bool" where
  "ttl_bounded d = list_all (\<lambda>c. cl_expires_at c \<le> cl_issued_at c + seconds 300) (t_capabilities d)"

text \<open>The position of an event in the log.  Edges lead from older to newer events.\<close>

definition pos :: "uuid list \<Rightarrow> uuid \<Rightarrow> nat" where
  "pos ks k = length (takeWhile (\<lambda>x. x \<noteq> k) ks)"

definition edge_ok :: "uuid list \<Rightarrow> ProvenanceEdge \<Rightarrow> bool" where
  "edge_ok ks x =
    (case ed_to_event_id x of
       None \<Rightarrow> False
     | Some k \<Rightarrow> ed_from_event_id x \<in> set ks \<and> k \<in> set ks \<and> pos ks (ed_from_event_id x) < pos ks k)"

definition lineage_ok :: "database \<Rightarrow> bool" where
  "lineage_ok d =
    (distinct (map ev_event_id (t_events d)) \<and>
     list_all (edge_ok (map ev_event_id (t_events d))) (t_edges d))"

definition keys_ok :: "database \<Rightarrow> bool" where
  "keys_ok d =
    (distinct (map ex_execution_id (t_executions d)) \<and>
     distinct (map cl_capability_id (t_capabilities d)) \<and>
     distinct (map rc_contract_id (t_contracts d)))"

definition approval_keys :: "database \<Rightarrow> bool" where
  "approval_keys d = distinct (map aq_approval_id (t_approvals d))"

definition store_wf :: "database \<Rightarrow> bool" where
  "store_wf d = (keys_ok d \<and> single_use d \<and> ttl_bounded d \<and> lineage_ok d \<and> outbox_wf d \<and>
     approval_keys d)"

lemma store_wf_empty: "store_wf empty_database"
  by (simp add: store_wf_def keys_ok_def single_use_def ttl_bounded_def lineage_ok_def outbox_wf_def
      approval_keys_def empty_database_def)

text \<open>Tables a step leaves alone.\<close>

lemma intent_insert_frame [simp]:
  "t_executions (snd (intent_insert i d)) = t_executions d"
  "t_outbox (snd (intent_insert i d)) = t_outbox d"
  "t_capabilities (snd (intent_insert i d)) = t_capabilities d"
  "t_contracts (snd (intent_insert i d)) = t_contracts d"
  "t_events (snd (intent_insert i d)) = t_events d"
  "t_edges (snd (intent_insert i d)) = t_edges d"
  by (simp_all add: intent_insert_def)

lemma intent_update_status_frame [simp]:
  "t_executions (snd (intent_update_status k st d)) = t_executions d"
  "t_outbox (snd (intent_update_status k st d)) = t_outbox d"
  "t_capabilities (snd (intent_update_status k st d)) = t_capabilities d"
  "t_contracts (snd (intent_update_status k st d)) = t_contracts d"
  "t_events (snd (intent_update_status k st d)) = t_events d"
  "t_edges (snd (intent_update_status k st d)) = t_edges d"
  by (simp_all add: intent_update_status_def intent_update_def proc_defs split: option.splits)

lemma proposal_insert_frame [simp]:
  "t_executions (snd (proposal_insert p d)) = t_executions d"
  "t_outbox (snd (proposal_insert p d)) = t_outbox d"
  "t_capabilities (snd (proposal_insert p d)) = t_capabilities d"
  "t_contracts (snd (proposal_insert p d)) = t_contracts d"
  "t_events (snd (proposal_insert p d)) = t_events d"
  "t_edges (snd (proposal_insert p d)) = t_edges d"
  by (simp_all add: proposal_insert_def)

lemma capability_insert_frame [simp]:
  "t_executions (snd (capability_insert c d)) = t_executions d"
  "t_outbox (snd (capability_insert c d)) = t_outbox d"
  "t_contracts (snd (capability_insert c d)) = t_contracts d"
  "t_events (snd (capability_insert c d)) = t_events d"
  "t_edges (snd (capability_insert c d)) = t_edges d"
  by (simp_all add: capability_insert_def)

lemma capability_update_frame [simp]:
  "t_executions (snd (capability_update c d)) = t_executions d"
  "t_outbox (snd (capability_update c d)) = t_outbox d"
  "t_contracts (snd (capability_update c d)) = t_contracts d"
  "t_events (snd (capability_update c d)) = t_events d"
  "t_edges (snd (capability_update c d)) = t_edges d"
  by (simp_all add: capability_update_def modifies_def)

lemma capability_cas_frame [simp]:
  "t_executions (snd (capability_cas f now k d)) = t_executions d"
  "t_outbox (snd (capability_cas f now k d)) = t_outbox d"
  "t_contracts (snd (capability_cas f now k d)) = t_contracts d"
  "t_events (snd (capability_cas f now k d)) = t_events d"
  "t_edges (snd (capability_cas f now k d)) = t_edges d"
  by (simp_all add: capability_cas_def split: option.splits)

lemma approval_insert_frame [simp]:
  "t_executions (snd (approval_insert a d)) = t_executions d"
  "t_outbox (snd (approval_insert a d)) = t_outbox d"
  "t_capabilities (snd (approval_insert a d)) = t_capabilities d"
  "t_contracts (snd (approval_insert a d)) = t_contracts d"
  "t_events (snd (approval_insert a d)) = t_events d"
  "t_edges (snd (approval_insert a d)) = t_edges d"
  by (simp_all add: approval_insert_def)

lemma resolve_approval_frame [simp]:
  "t_executions (snd (resolve_approval_sqlite k st now d)) = t_executions d"
  "t_outbox (snd (resolve_approval_sqlite k st now d)) = t_outbox d"
  "t_capabilities (snd (resolve_approval_sqlite k st now d)) = t_capabilities d"
  "t_contracts (snd (resolve_approval_sqlite k st now d)) = t_contracts d"
  "t_events (snd (resolve_approval_sqlite k st now d)) = t_events d"
  "t_edges (snd (resolve_approval_sqlite k st now d)) = t_edges d"
  by (simp_all add: resolve_approval_sqlite_def split: option.splits)

lemma expire_stale_frame [simp]:
  "t_executions (snd (expire_stale_approvals now age batch d)) = t_executions d"
  "t_outbox (snd (expire_stale_approvals now age batch d)) = t_outbox d"
  "t_capabilities (snd (expire_stale_approvals now age batch d)) = t_capabilities d"
  "t_contracts (snd (expire_stale_approvals now age batch d)) = t_contracts d"
  "t_events (snd (expire_stale_approvals now age batch d)) = t_events d"
  "t_edges (snd (expire_stale_approvals now age batch d)) = t_edges d"
  by (simp_all add: expire_stale_approvals_def Let_def)

lemma hold_insert_frame [simp]:
  "t_executions (snd (hold_insert h d)) = t_executions d"
  "t_outbox (snd (hold_insert h d)) = t_outbox d"
  "t_capabilities (snd (hold_insert h d)) = t_capabilities d"
  "t_contracts (snd (hold_insert h d)) = t_contracts d"
  "t_events (snd (hold_insert h d)) = t_events d"
  "t_edges (snd (hold_insert h d)) = t_edges d"
  by (simp_all add: hold_insert_def)

lemma hold_resolve_frame [simp]:
  "t_executions (snd (hold_resolve k allow actor reason t d)) = t_executions d"
  "t_outbox (snd (hold_resolve k allow actor reason t d)) = t_outbox d"
  "t_capabilities (snd (hold_resolve k allow actor reason t d)) = t_capabilities d"
  "t_contracts (snd (hold_resolve k allow actor reason t d)) = t_contracts d"
  "t_events (snd (hold_resolve k allow actor reason t d)) = t_events d"
  "t_edges (snd (hold_resolve k allow actor reason t d)) = t_edges d"
  by (simp_all add: hold_resolve_def split: option.splits)

lemma expire_holds_frame [simp]:
  "t_executions (snd (expire_stale_holds now age batch d)) = t_executions d"
  "t_outbox (snd (expire_stale_holds now age batch d)) = t_outbox d"
  "t_capabilities (snd (expire_stale_holds now age batch d)) = t_capabilities d"
  "t_contracts (snd (expire_stale_holds now age batch d)) = t_contracts d"
  "t_events (snd (expire_stale_holds now age batch d)) = t_events d"
  "t_edges (snd (expire_stale_holds now age batch d)) = t_edges d"
  "t_approvals (snd (expire_stale_holds now age batch d)) = t_approvals d"
  by (simp_all add: expire_stale_holds_def Let_def)

lemma event_append_frame [simp]:
  "t_executions (snd (event_append_with_edges e edges d)) = t_executions d"
  "t_outbox (snd (event_append_with_edges e edges d)) = t_outbox d"
  "t_capabilities (snd (event_append_with_edges e edges d)) = t_capabilities d"
  "t_contracts (snd (event_append_with_edges e edges d)) = t_contracts d"
  by (simp_all add: event_append_with_edges_def)

lemma claim_frame [simp]:
  "t_outbox (snd (execution_compare_and_set_state now k expected st d)) = t_outbox d"
  "t_capabilities (snd (execution_compare_and_set_state now k expected st d)) = t_capabilities d"
  "t_contracts (snd (execution_compare_and_set_state now k expected st d)) = t_contracts d"
  "t_events (snd (execution_compare_and_set_state now k expected st d)) = t_events d"
  "t_edges (snd (execution_compare_and_set_state now k expected st d)) = t_edges d"
  by (simp_all add: execution_compare_and_set_state_def split: option.splits)

lemma outbox_evolves_tables:
  assumes "outbox_evolves d d'"
  shows "t_executions d' = t_executions d" "t_capabilities d' = t_capabilities d"
    "t_contracts d' = t_contracts d" "t_events d' = t_events d" "t_edges d' = t_edges d"
  using assms by (auto simp: outbox_evolves_def)

lemma step_executions:
  assumes "store_step d d'" "outbox_wf d"
  obtains "t_executions d' = t_executions d"
  | now c e ob where "authorized now c e ob d d'" "ex_capability_id e = cl_capability_id c"
      "ex_state e \<in> {ES_Authorized, ES_Prepared}" "fresh_outbox ob" "lo_execution_id ob = ex_execution_id e"
  | e c ob where "transitioned e c ob d d'" "execution_arg_ok d e"
      "contract_arg_ok d c (lo_previous_rollback_state ob)" "fresh_outbox ob"
      "lo_execution_id ob = ex_execution_id e"
  | now k expected st where "list_all (\<lambda>s. is_valid_execution_transition s st) expected"
      "d' = snd (execution_compare_and_set_state now k expected st d)"
  using assms(1)
proof cases
  case (Authorization e c ob now)
  show ?thesis
  proof (rule record_authorization_snd[of now c e ob d])
    assume "snd (record_authorization now c e ob d) = d"
    then show ?thesis using that(1) Authorization by simp
  next
    assume "authorized now c e ob d (snd (record_authorization now c e ob d))"
    then show ?thesis using that(2)[of now c e ob] Authorization by simp
  qed
next
  case (Transition e c ob)
  show ?thesis
  proof (rule record_lifecycle_transition_snd[of e c ob d])
    assume "snd (record_lifecycle_transition e c ob d) = d"
    then show ?thesis using that(1) Transition by simp
  next
    assume "transitioned e c ob d (snd (record_lifecycle_transition e c ob d))"
    then show ?thesis using that(3)[of e c ob] Transition by simp
  qed
next
  case Claim_execution
  then show ?thesis by (intro that(4))
next
  case Outbox
  then have "outbox_evolves d d'"
    using outbox_step_evolves assms(2) outbox_wf_distinct by blast
  then show ?thesis using outbox_evolves_tables that(1) by blast
qed (rule that(1), simp add: capability_update_status_if_active_def capability_revoke_if_active_def)+

lemma step_outbox:
  assumes "store_step d d'" "outbox_wf d"
  obtains "t_outbox d' = t_outbox d"
  | ob where "t_outbox d' = t_outbox d @ [new_outbox_row ob]" "fresh_outbox ob"
      "lo_idempotency_key ob \<notin> row_key ` set (t_outbox d)" "lo_outbox_id ob \<notin> row_id ` set (t_outbox d)"
  | "outbox_evolves d d'"
  using assms(1)
proof cases
  case (Authorization e c ob now)
  show ?thesis
  proof (rule record_authorization_snd[of now c e ob d])
    assume "snd (record_authorization now c e ob d) = d"
    then show ?thesis using that(1) Authorization by simp
  next
    assume "authorized now c e ob d (snd (record_authorization now c e ob d))"
    then show ?thesis using that(2)[of ob] Authorization by (simp add: authorized_def)
  qed
next
  case (Transition e c ob)
  show ?thesis
  proof (rule record_lifecycle_transition_snd[of e c ob d])
    assume "snd (record_lifecycle_transition e c ob d) = d"
    then show ?thesis using that(1) Transition by simp
  next
    assume "transitioned e c ob d (snd (record_lifecycle_transition e c ob d))"
    then show ?thesis using that(2)[of ob] Transition by (auto simp: transitioned_def)
  qed
next
  case Outbox
  then have "outbox_evolves d d'"
    using outbox_step_evolves assms(2) outbox_wf_distinct by blast
  then show ?thesis by (rule that(3))
qed (rule that(1), simp add: capability_update_status_if_active_def capability_revoke_if_active_def)+

lemma contract_written_tables:
  assumes "contract_written c prev d d'"
  shows "t_executions d' = t_executions d" "t_capabilities d' = t_capabilities d"
    "t_events d' = t_events d" "t_edges d' = t_edges d"
  using assms by (auto simp: contract_written_def split: option.splits)

lemma authorized_tables:
  assumes "authorized now c e ob d d'"
  shows "t_executions d' = t_executions d @ [e]"
    "t_capabilities d' = tupd cl_capability_id (cl_capability_id c) (\<lambda>c. c\<lparr>cl_status := CS_Used\<rparr>) (t_capabilities d)"
    "t_contracts d' = t_contracts d" "t_events d' = t_events d" "t_edges d' = t_edges d"
  using assms by (simp_all add: authorized_def)

lemma transitioned_tables:
  assumes "transitioned e c ob d d'"
  shows "t_executions d' = tupd ex_execution_id (ex_execution_id e) (\<lambda>_. e) (t_executions d)"
    "t_capabilities d' = t_capabilities d" "t_events d' = t_events d" "t_edges d' = t_edges d"
  using assms by (auto simp: transitioned_def dest: contract_written_tables)

lemma step_capabilities:
  assumes "store_step d d'" "outbox_wf d"
  obtains "t_capabilities d' = t_capabilities d"
  | c where "t_capabilities d' = t_capabilities d @ [c]" "get_capability d (cl_capability_id c) = None"
      "cl_status c = CS_Active" "cl_expires_at c \<le> cl_issued_at c + seconds 300"
      "get_intent d (cl_intent_id c) \<noteq> None" "get_proposal d (cl_proposal_id c) \<noteq> None"
  | k f where "t_capabilities d' = tupd cl_capability_id k f (t_capabilities d)"
      "\<And>c. get_capability d k = Some c \<Longrightarrow> same_lease c (f c)"
      "\<And>c. cl_capability_id c = k \<Longrightarrow> cl_capability_id (f c) = k"
  using assms(1)
proof cases
  case (Capability_insert c)
  then show ?thesis
    using that(1) that(2)[of c] by (simp add: capability_insert_def split: if_splits)
next
  case (Capability_use now k)
  then show ?thesis
    using that(1) that(3)[of k "\<lambda>c. c\<lparr>cl_status := CS_Used\<rparr>"]
    by (simp add: capability_update_status_if_active_def capability_cas_def same_lease_def lease_core_def
        split: option.splits if_splits)
next
  case (Capability_revoke k t)
  then show ?thesis
    using that(1) that(3)[of k "\<lambda>c. c\<lparr>cl_status := CS_Revoked, cl_revoked_at := Some t\<rparr>"]
    by (simp add: capability_revoke_if_active_def capability_cas_def same_lease_def lease_core_def
        split: option.splits if_splits)
next
  case (Capability_force_revoke k c t)
  moreover from this have "cl_capability_id c = k"
    by (auto simp: get_capability_def dest: tget_key)
  ultimately show ?thesis
    using that(3)[of k "\<lambda>_. c\<lparr>cl_status := CS_Revoked, cl_revoked_at := Some t\<rparr>"]
    by (simp add: capability_update_def modifies_def same_lease_def lease_core_def)
next
  case (Authorization e c ob now)
  show ?thesis
  proof (rule record_authorization_snd[of now c e ob d])
    assume "snd (record_authorization now c e ob d) = d"
    then show ?thesis using that(1) Authorization by simp
  next
    assume "authorized now c e ob d (snd (record_authorization now c e ob d))"
    then show ?thesis
      using that(3)[of "cl_capability_id c" "\<lambda>c. c\<lparr>cl_status := CS_Used\<rparr>"] Authorization authorized_tables
      by (simp add: same_lease_def lease_core_def)
  qed
next
  case (Transition e c ob)
  show ?thesis
  proof (rule record_lifecycle_transition_snd[of e c ob d])
    assume "snd (record_lifecycle_transition e c ob d) = d"
    then show ?thesis using that(1) Transition by simp
  next
    assume "transitioned e c ob d (snd (record_lifecycle_transition e c ob d))"
    then show ?thesis using that(1) Transition transitioned_tables by simp
  qed
next
  case Outbox
  then have "outbox_evolves d d'"
    using outbox_step_evolves assms(2) outbox_wf_distinct by blast
  then show ?thesis using outbox_evolves_tables that(1) by blast
qed (rule that(1), simp)+

lemma step_events:
  assumes "store_step d d'" "outbox_wf d"
  obtains "t_events d' = t_events d" "t_edges d' = t_edges d"
  | e edges where "t_events d' = t_events d @ [e]"
      "t_edges d' = t_edges d @ map (edge_row (ev_event_id e)) edges" "get_event d (ev_event_id e) = None"
      "\<And>x. x \<in> set edges \<Longrightarrow> get_event d (ed_from_event_id x) \<noteq> None"
  using assms(1)
proof cases
  case (Event e edges)
  then show ?thesis
    using that(1) that(2)[of e edges]
    by (auto simp: event_append_with_edges_def list_ex_iff list_all_iff split: if_splits)
next
  case (Authorization e c ob now)
  show ?thesis
  proof (rule record_authorization_snd[of now c e ob d])
    assume "snd (record_authorization now c e ob d) = d"
    then show ?thesis using that(1) Authorization by simp
  next
    assume "authorized now c e ob d (snd (record_authorization now c e ob d))"
    then show ?thesis using that(1) Authorization authorized_tables by simp
  qed
next
  case (Transition e c ob)
  show ?thesis
  proof (rule record_lifecycle_transition_snd[of e c ob d])
    assume "snd (record_lifecycle_transition e c ob d) = d"
    then show ?thesis using that(1) Transition by simp
  next
    assume "transitioned e c ob d (snd (record_lifecycle_transition e c ob d))"
    then show ?thesis using that(1) Transition transitioned_tables by simp
  qed
next
  case Outbox
  then have "outbox_evolves d d'"
    using outbox_step_evolves assms(2) outbox_wf_distinct by blast
  then show ?thesis using outbox_evolves_tables that(1) by blast
qed (rule that(1), simp_all add: capability_update_status_if_active_def capability_revoke_if_active_def)+

subsection \<open>Preservation\<close>

lemma pos_snoc: "k \<in> set ks \<Longrightarrow> pos (ks @ xs) k = pos ks k"
  by (simp add: pos_def takeWhile_append1)

lemma pos_new: "k \<notin> set ks \<Longrightarrow> pos (ks @ [k]) k = length ks"
  by (induction ks) (auto simp: pos_def)

lemma pos_less: "k \<in> set ks \<Longrightarrow> pos ks k < length ks"
  by (induction ks) (auto simp: pos_def)

lemma edge_ok_snoc: "edge_ok ks x \<Longrightarrow> edge_ok (ks @ xs) x"
  by (auto simp: edge_ok_def pos_snoc split: option.splits)

lemma get_event_None_iff: "get_event d k = None \<longleftrightarrow> k \<notin> set (map ev_event_id (t_events d))"
  by (simp add: get_event_def tget_None_iff)

lemma step_lineage:
  assumes "store_step d d'" "outbox_wf d" "lineage_ok d"
  shows "lineage_ok d'"
  using assms(1,2)
proof (cases rule: step_events)
  case 1
  then show ?thesis using assms(3) by (simp add: lineage_ok_def)
next
  case (2 e edges)
  let ?ks = "map ev_event_id (t_events d)"
  have new: "ev_event_id e \<notin> set ?ks"
    using 2(3) by (simp add: get_event_None_iff)
  have "edge_ok (?ks @ [ev_event_id e]) (edge_row (ev_event_id e) x)" if "x \<in> set edges" for x
  proof -
    have "ed_from_event_id x \<in> set ?ks"
      using 2(4)[OF that] by (metis get_event_None_iff)
    then show ?thesis
      using new pos_less[of "ed_from_event_id x" ?ks]
      by (simp add: edge_ok_def edge_row_def pos_snoc pos_new)
  qed
  moreover have "edge_ok (?ks @ [ev_event_id e]) x" if "x \<in> set (t_edges d)" for x
    using assms(3) that by (auto simp: lineage_ok_def list_all_iff intro: edge_ok_snoc)
  ultimately show ?thesis
    using assms(3) new by (auto simp: lineage_ok_def 2 list_all_iff)
qed

lemma settled_mono:
  assumes "history d d'" "settled d r"
  shows "settled d' r"
proof -
  have "get_event d' k \<noteq> None" if "get_event d k \<noteq> None" for k
    using assms(1) that get_event_None_iff[of d k] get_event_None_iff[of d' k]
    by (auto simp: history_def event_history_def prefix_def)
  then have "fk_ok (get_event d') k" if "fk_ok (get_event d) k" for k
    using that by (simp add: fk_ok_def split: option.splits)
  then show ?thesis
    using assms(2) by (auto simp: settled_def list_all_iff)
qed

lemma fresh_outbox_settled: "fresh_outbox r \<Longrightarrow> settled d r"
  by (simp add: fresh_outbox_def settled_def fk_ok_def list_all_iff)

lemma step_outbox_wf:
  assumes "store_step d d'" "outbox_wf d"
  shows "outbox_wf d'"
proof -
  have h: "history d d'" using assms by (rule store_step_history)
  have old: "list_all (\<lambda>w. settled d' (ow_record w)) (t_outbox d)"
    using assms(2) settled_mono[OF h] by (auto simp: outbox_wf_def list_all_iff)
  show ?thesis
    using assms(1,2)
  proof (cases rule: step_outbox)
    case 1
    then show ?thesis using old assms(2) by (simp add: outbox_wf_def)
  next
    case (2 ob)
    then show ?thesis
      using old assms(2) fresh_outbox_settled[of ob d'] by (simp add: outbox_wf_def new_outbox_row_def)
  next
    case 3
    then show ?thesis using assms(2) by (rule outbox_evolves_wf)
  qed
qed

lemma step_keys:
  assumes "store_step d d'" "outbox_wf d" "keys_ok d"
  shows "distinct (map ex_execution_id (t_executions d'))" "distinct (map cl_capability_id (t_capabilities d'))"
proof -
  show "distinct (map ex_execution_id (t_executions d'))"
    using assms(1,2)
  proof (cases rule: step_executions)
    case 1
    then show ?thesis using assms(3) by (simp add: keys_ok_def)
  next
    case (2 now c e ob)
    then have "get_execution d (ex_execution_id e) = None"
      by (simp add: authorized_def)
    then show ?thesis
      using 2 assms(3) authorized_tables(1)[OF 2(1)]
      by (simp add: keys_ok_def get_execution_def tget_None_iff)
  next
    case (3 e c ob)
    then show ?thesis
      using assms(3) transitioned_tables(1)[OF 3(1)] by (simp add: keys_ok_def keys_tupd)
  next
    case (4 now k expected st)
    then show ?thesis
      using assms(3)
      by (simp add: keys_ok_def execution_compare_and_set_state_def keys_tupd split: option.splits)
  qed
  show "distinct (map cl_capability_id (t_capabilities d'))"
    using assms(1,2)
  proof (cases rule: step_capabilities)
    case 1
    then show ?thesis using assms(3) by (simp add: keys_ok_def)
  next
    case (2 c)
    then show ?thesis using assms(3) by (simp add: keys_ok_def get_capability_def tget_None_iff)
  next
    case (3 k f)
    then show ?thesis using assms(3) by (simp add: keys_ok_def keys_tupd)
  qed
qed

lemma step_contracts:
  assumes "store_step d d'" "outbox_wf d" "distinct (map rc_contract_id (t_contracts d))"
  shows "distinct (map rc_contract_id (t_contracts d'))"
  using assms(1)
proof cases
  case (Authorization e c ob now)
  then show ?thesis
    using record_authorization_snd[of now c e ob d] authorized_tables(3) assms(3) by metis
next
  case (Transition e c ob)
  show ?thesis
  proof (rule record_lifecycle_transition_snd[of e c ob d])
    assume "transitioned e c ob d (snd (record_lifecycle_transition e c ob d))"
    then show ?thesis
      using assms(3) Transition
      by (auto simp: transitioned_def contract_written_def get_contract_def tget_None_iff keys_tupd
          split: option.splits)
  qed (use Transition assms(3) in simp)
next
  case Outbox
  then show ?thesis
    using outbox_step_evolves assms(2,3) outbox_wf_distinct outbox_evolves_tables(3) by metis
qed (use assms(3) in \<open>simp_all add: capability_update_status_if_active_def capability_revoke_if_active_def\<close>)

lemma step_ttl:
  assumes "store_step d d'" "outbox_wf d" "keys_ok d" "ttl_bounded d"
  shows "ttl_bounded d'"
  using assms(1,2)
proof (cases rule: step_capabilities)
  case 1
  then show ?thesis using assms(4) by (simp add: ttl_bounded_def)
next
  case (2 c)
  then show ?thesis using assms(4) by (simp add: ttl_bounded_def)
next
  case (3 k f)
  have "cl_expires_at (f c) \<le> cl_issued_at (f c) + seconds 300"
    if c: "c \<in> set (t_capabilities d)" "cl_capability_id c = k" for c
  proof -
    have "get_capability d k = Some c"
      using tget_unique[of cl_capability_id "t_capabilities d" c] c assms(3)
      by (simp add: get_capability_def keys_ok_def)
    then have "lease_core (f c) = lease_core c"
      using 3(2) by (simp add: same_lease_def)
    then have "cl_expires_at (f c) = cl_expires_at c" "cl_issued_at (f c) = cl_issued_at c"
      by (metis lease_core_fields)+
    then show ?thesis
      using assms(4) c(1) by (simp add: ttl_bounded_def list_all_iff)
  qed
  then show ?thesis
    using assms(4) by (auto simp: ttl_bounded_def list_all_iff 3(1) dest: set_tupd)
qed

lemma capability_spent:
  assumes "capability_history d d'"
    and "case get_capability d k of None \<Rightarrow> False | Some c \<Rightarrow> cl_status c \<noteq> CS_Active"
  shows "case get_capability d' k of None \<Rightarrow> False | Some c \<Rightarrow> cl_status c \<noteq> CS_Active"
  using assms by (auto simp: capability_history_def split: option.splits) (metis option.inject)+

lemma step_single_use:
  assumes "store_step d d'" "outbox_wf d" "keys_ok d" "single_use d"
  shows "single_use d'"
proof -
  have h: "capability_history d d'"
    using store_step_history[OF assms(1,2)] by (simp add: history_def)
  have spent: "case get_capability d' (ex_capability_id e) of None \<Rightarrow> False | Some c \<Rightarrow> cl_status c \<noteq> CS_Active"
    if "e \<in> set (t_executions d)" for e
    using capability_spent[OF h] assms(4) that by (auto simp: single_use_def list_all_iff)
  have same: "single_use d'" if "map ex_capability_id (t_executions d') = map ex_capability_id (t_executions d)"
  proof -
    have "\<exists>e0 \<in> set (t_executions d). ex_capability_id e0 = ex_capability_id e" if "e \<in> set (t_executions d')" for e
      using that \<open>map _ _ = map _ _\<close> by (metis (mono_tags, lifting) imageE image_eqI list.set_map)
    then show ?thesis
      using spent assms(4) that by (fastforce simp: single_use_def list_all_iff)
  qed
  show ?thesis
    using assms(1,2)
  proof (cases rule: step_executions)
    case 1
    then show ?thesis using same by simp
  next
    case (2 now c e ob)
    obtain c0 where c0: "get_capability d (ex_capability_id e) = Some c0" "cl_status c0 = CS_Active"
      using 2 by (auto simp: authorized_def capability_active_def)
    then have "ex_capability_id e \<notin> ex_capability_id ` set (t_executions d)"
      using assms(4) by (force simp: single_use_def list_all_iff)
    moreover have "get_capability d' (ex_capability_id e) = Some (c0\<lparr>cl_status := CS_Used\<rparr>)"
      using 2 c0 authorized_tables(2)[OF 2(1)] by (simp add: get_capability_def tget_tupd)
    ultimately show ?thesis
      using assms(4) spent authorized_tables(1)[OF 2(1)] by (simp add: single_use_def list_all_iff)
  next
    case (3 e c ob)
    have "ex_capability_id e = ex_capability_id e0"
      if "e0 \<in> set (t_executions d)" "ex_execution_id e0 = ex_execution_id e" for e0
      using 3(2) tget_unique[of ex_execution_id "t_executions d" e0] assms(3) that
      by (simp add: execution_arg_ok_def get_execution_def keys_ok_def same_execution_def)
    then have "map ex_capability_id (t_executions d') = map ex_capability_id (t_executions d)"
      using transitioned_tables(1)[OF 3(1)] by (simp add: tupd_def)
    then show ?thesis by (rule same)
  next
    case (4 now k expected st)
    then have "map ex_capability_id (t_executions d') = map ex_capability_id (t_executions d)"
      by (simp add: execution_compare_and_set_state_def tupd_def split: option.splits)
    then show ?thesis by (rule same)
  qed
qed

text \<open>Approvals: a decided approval never changes again.\<close>

definition approval_core :: "ApprovalRequest \<Rightarrow> ApprovalRequest" where
  "approval_core a = a\<lparr>aq_state := AS_Pending, aq_resolver_evidence_version := None\<rparr>"

definition approval_history :: "database \<Rightarrow> database \<Rightarrow> bool" where
  "approval_history d d' =
    (\<forall>k a. get_approval d k = Some a \<longrightarrow>
       (\<exists>a'. get_approval d' k = Some a' \<and> approval_core a' = approval_core a \<and>
             (aq_state a \<noteq> AS_Pending \<longrightarrow> a' = a)))"

lemma approvals_frame [simp]:
  "t_approvals (snd (intent_insert i d)) = t_approvals d"
  "t_approvals (snd (intent_update_status k st d)) = t_approvals d"
  "t_approvals (snd (proposal_insert p d)) = t_approvals d"
  "t_approvals (snd (capability_insert c d)) = t_approvals d"
  "t_approvals (snd (capability_update c d)) = t_approvals d"
  "t_approvals (snd (capability_cas f now k d)) = t_approvals d"
  "t_approvals (snd (hold_insert h d)) = t_approvals d"
  "t_approvals (snd (hold_resolve k allow actor reason t d)) = t_approvals d"
  "t_approvals (snd (event_append_with_edges e edges d)) = t_approvals d"
  "t_approvals (snd (execution_compare_and_set_state now k expected es d)) = t_approvals d"
  by (simp_all add: intent_insert_def intent_update_status_def intent_update_def proposal_insert_def
      capability_insert_def capability_update_def capability_cas_def hold_insert_def hold_resolve_def
      event_append_with_edges_def execution_compare_and_set_state_def proc_defs split: option.splits)

lemma lifecycle_approvals_frame [simp]:
  "t_approvals (snd (record_authorization now c e ob d)) = t_approvals d"
  "t_approvals (snd (record_lifecycle_transition e co ob d)) = t_approvals d"
proof -
  show "t_approvals (snd (record_authorization now c e ob d)) = t_approvals d"
    by (rule record_authorization_snd[of now c e ob d]) (simp_all add: authorized_def)
  show "t_approvals (snd (record_lifecycle_transition e co ob d)) = t_approvals d"
    by (rule record_lifecycle_transition_snd[of e co ob d])
       (auto simp: transitioned_def contract_written_def split: option.splits)
qed

lemma step_approvals:
  assumes "store_step d d'" "outbox_wf d"
  obtains "t_approvals d' = t_approvals d"
  | a where "t_approvals d' = t_approvals d @ [a]" "get_approval d (aq_approval_id a) = None"
      "get_intent d (aq_intent_id a) \<noteq> None" "get_proposal d (aq_proposal_id a) \<noteq> None"
  | k a st v where "get_approval d k = Some a" "aq_state a = AS_Pending"
      "t_approvals d' = tupd aq_approval_id k (\<lambda>_. a\<lparr>aq_state := st, aq_resolver_evidence_version := v\<rparr>) (t_approvals d)"
  | ids where "t_approvals d' =
        map (\<lambda>a. if aq_approval_id a \<in> ids then a\<lparr>aq_state := AS_Expired\<rparr> else a) (t_approvals d)"
      "\<And>i. i \<in> ids \<Longrightarrow> \<exists>a \<in> set (t_approvals d). aq_approval_id a = i \<and> aq_state a = AS_Pending"
  using assms(1)
proof cases
  case (Approval_insert a)
  then show ?thesis using that(1) that(2)[of a] by (simp add: approval_insert_def split: if_splits)
next
  case (Approval_resolve k st now)
  then show ?thesis
    using that(1) that(3)[of k] by (simp add: resolve_approval_sqlite_def split: option.splits if_splits)
next
  case (Approval_expire now age batch)
  have "\<exists>a \<in> set (t_approvals d). aq_approval_id a = i \<and> aq_state a = AS_Pending"
    if "i \<in> set (map aq_approval_id (stale_approvals now age batch d))" for i
    using that by (auto simp: stale_approvals_def dest!: in_set_takeD)
  then show ?thesis
    using that(4)[of "set (map aq_approval_id (stale_approvals now age batch d))"] Approval_expire
    by (simp add: expire_stale_approvals_def Let_def)
next
  case Outbox
  then have "outbox_evolves d d'"
    using outbox_step_evolves assms(2) outbox_wf_distinct by blast
  then show ?thesis using that(1) by (auto simp: outbox_evolves_def)
qed (rule that(1), simp add: capability_update_status_if_active_def capability_revoke_if_active_def)+

lemma map_key_id: "(\<And>x. key (f x) = key x) \<Longrightarrow> tget key k (map f xs) = map_option f (tget key k xs)"
  by (induction xs) (auto simp: tget_def)

lemma get_approval_id: "get_approval d k = Some a \<Longrightarrow> aq_approval_id a = k"
  by (auto simp: get_approval_def dest: tget_key)

lemma step_approval_keys:
  assumes "store_step d d'" "outbox_wf d" "approval_keys d"
  shows "approval_keys d'"
  using assms(1,2)
proof (cases rule: step_approvals)
  case (3 k a st v)
  then show ?thesis
    using assms(3) get_approval_id[OF 3(1)] by (simp add: approval_keys_def keys_tupd)
next
  case (4 ids)
  have "map aq_approval_id (t_approvals d') = map aq_approval_id (t_approvals d)"
    by (simp add: 4(1))
  then show ?thesis using assms(3) by (simp add: approval_keys_def)
qed (use assms(3) in \<open>auto simp: approval_keys_def get_approval_def tget_None_iff\<close>)

lemma step_approval_history:
  assumes "store_step d d'" "outbox_wf d" "approval_keys d"
  shows "approval_history d d'"
  using assms(1,2)
proof (cases rule: step_approvals)
  case 1
  then show ?thesis by (simp add: approval_history_def get_approval_def)
next
  case (2 a)
  then show ?thesis by (auto simp: approval_history_def get_approval_def tget_snoc)
next
  case (3 k a st v)
  then show ?thesis
    using get_approval_id[OF 3(1)]
    by (auto simp: approval_history_def get_approval_def tget_tupd approval_core_def)
next
  case (4 ids)
  have "aq_approval_id a \<notin> ids" if "get_approval d k = Some a" "aq_state a \<noteq> AS_Pending" for k a
  proof
    assume "aq_approval_id a \<in> ids"
    then obtain b where "b \<in> set (t_approvals d)" "aq_approval_id b = aq_approval_id a" "aq_state b = AS_Pending"
      using 4(2) by blast
    moreover have "a \<in> set (t_approvals d)"
      using that(1) by (auto simp: get_approval_def dest: tget_in)
    ultimately show False
      using assms(3) that(2) by (auto simp: approval_keys_def distinct_map inj_on_def)
  qed
  then show ?thesis
    by (auto simp: approval_history_def get_approval_def 4(1) map_key_id approval_core_def)
qed

lemma approval_history_refl [simp]: "approval_history d d"
  by (simp add: approval_history_def)

lemma approval_history_trans:
  "approval_history d d' \<Longrightarrow> approval_history d' d'' \<Longrightarrow> approval_history d d''"
  unfolding approval_history_def by (metis (no_types, lifting))

lemma store_step_wf: "store_step d d' \<Longrightarrow> store_wf d \<Longrightarrow> store_wf d'"
  using step_keys step_contracts step_ttl step_single_use step_lineage step_outbox_wf step_approval_keys
  by (auto simp: store_wf_def keys_ok_def)

lemma store_steps:
  assumes "store_step\<^sup>*\<^sup>* d d'" "store_wf d"
  shows "history d d' \<and> store_wf d'"
  using assms
proof (induction rule: rtranclp_induct)
  case (step y z)
  then have "history y z" by (auto intro: store_step_history simp: store_wf_def)
  then show ?case using step store_step_wf history_trans by blast
qed simp

lemma store_steps_approvals:
  assumes "store_step\<^sup>*\<^sup>* d d'" "store_wf d"
  shows "approval_history d d'"
  using assms
proof (induction rule: rtranclp_induct)
  case (step y z)
  then have "store_wf y" using store_steps by blast
  then have "approval_history y z" using step.hyps(2) by (auto intro: step_approval_history simp: store_wf_def)
  then show ?case using step approval_history_trans by blast
qed simp

text \<open>Quarantine holds: a decided hold stays in the table as it is.\<close>

definition hold_history :: "database \<Rightarrow> database \<Rightarrow> bool" where
  "hold_history d d' = (\<forall>h \<in> set (t_holds d). qh_state h \<noteq> QS_Pending \<longrightarrow> h \<in> set (t_holds d'))"

lemma holds_frame [simp]:
  "t_holds (snd (intent_insert i d)) = t_holds d"
  "t_holds (snd (intent_update_status k st d)) = t_holds d"
  "t_holds (snd (proposal_insert p d)) = t_holds d"
  "t_holds (snd (capability_insert c d)) = t_holds d"
  "t_holds (snd (capability_update c d)) = t_holds d"
  "t_holds (snd (capability_cas f now k d)) = t_holds d"
  "t_holds (snd (approval_insert a d)) = t_holds d"
  "t_holds (snd (resolve_approval_sqlite k ast now d)) = t_holds d"
  "t_holds (snd (expire_stale_approvals now age batch d)) = t_holds d"
  "t_holds (snd (event_append_with_edges e edges d)) = t_holds d"
  "t_holds (snd (execution_compare_and_set_state now k expected es d)) = t_holds d"
  by (simp_all add: intent_insert_def intent_update_status_def intent_update_def proposal_insert_def
      capability_insert_def capability_update_def capability_cas_def approval_insert_def
      resolve_approval_sqlite_def expire_stale_approvals_def Let_def
      event_append_with_edges_def execution_compare_and_set_state_def proc_defs split: option.splits)

lemma lifecycle_holds_frame [simp]:
  "t_holds (snd (record_authorization now c e ob d)) = t_holds d"
  "t_holds (snd (record_lifecycle_transition e co ob d)) = t_holds d"
proof -
  show "t_holds (snd (record_authorization now c e ob d)) = t_holds d"
    by (rule record_authorization_snd[of now c e ob d]) (simp_all add: authorized_def)
  show "t_holds (snd (record_lifecycle_transition e co ob d)) = t_holds d"
    by (rule record_lifecycle_transition_snd[of e co ob d])
       (auto simp: transitioned_def contract_written_def split: option.splits)
qed

lemma step_hold_history:
  assumes "store_step d d'" "outbox_wf d"
  shows "hold_history d d'"
  using assms(1)
proof cases
  case (Hold_insert h)
  then show ?thesis by (auto simp: hold_history_def hold_insert_def)
next
  case (Hold_resolve k allow actor reason t)
  then show ?thesis
    by (force simp: hold_history_def hold_resolve_def tupd_def image_iff split: option.splits)
next
  case (Hold_expire now age batch)
  then show ?thesis by (force simp: hold_history_def expire_stale_holds_def Let_def image_iff)
next
  case Outbox
  then have "outbox_evolves d d'"
    using outbox_step_evolves assms(2) outbox_wf_distinct by blast
  then show ?thesis by (auto simp: hold_history_def outbox_evolves_def)
qed (simp add: hold_history_def capability_update_status_if_active_def capability_revoke_if_active_def)+

lemma store_steps_holds:
  assumes "store_step\<^sup>*\<^sup>* d d'" "store_wf d"
  shows "hold_history d d'"
  using assms
proof (induction rule: rtranclp_induct)
  case base
  then show ?case by (simp add: hold_history_def)
next
  case (step y z)
  then have "store_wf y" using store_steps by blast
  then have "hold_history y z" using step.hyps(2) by (auto intro: step_hold_history simp: store_wf_def)
  then show ?case using step unfolding hold_history_def by blast
qed

lemma reachable_wf: "store_step\<^sup>*\<^sup>* empty_database d \<Longrightarrow> store_wf d"
  using store_steps store_wf_empty by blast

subsection \<open>A reachable state\<close>

definition sample_capability :: CapabilityLease where
  "sample_capability =
    \<lparr>cl_capability_id = ''c1'', cl_intent_id = ''i1'', cl_proposal_id = ''p1'',
     cl_tool_binding = mr_tool_binding sample_mint_request,
     cl_resource_bindings = mr_resource_bindings sample_mint_request, cl_argument_constraints = [],
     cl_taint_budget = mr_taint_budget sample_mint_request, cl_approval_binding = None,
     cl_issued_by = ''ferrum-cap'', cl_policy_bundle_id = ''b1'', cl_tool_manifest_id = None,
     cl_manifest_hash = None, cl_status = CS_Active, cl_issued_at = 0, cl_expires_at = seconds 60,
     cl_revoked_at = None, cl_metadata = [], cl_owner_actor_id = None\<rparr>"

definition sample_execution :: ExecutionRecord where
  "sample_execution =
    \<lparr>ex_execution_id = ''x1'', ex_proposal_id = ''p1'', ex_intent_id = ''i1'', ex_capability_id = ''c1'',
     ex_rollback_contract_id = None, ex_decision = Allow, ex_state = ES_Prepared, ex_started_at = 1,
     ex_finished_at = None, ex_result_digest = None, ex_metadata = [], ex_owner_actor_id = None\<rparr>"

definition sample_outbox :: LifecycleOutboxRecord where
  "sample_outbox = outbox_pending ''o1'' 1 ''x1'' None None ES_Prepared None None
     ActionProposalSubmitted ''authorize:x1''"

definition minted_db :: database where
  "minted_db = snd (capability_insert sample_capability (snd (proposal_insert sample_proposal
     (snd (intent_insert sample_intent empty_database)))))"

definition authorized_db :: database where
  "authorized_db = snd (record_authorization 1 sample_capability sample_execution sample_outbox minted_db)"

lemma minted_db_reachable: "store_step\<^sup>*\<^sup>* empty_database minted_db"
proof -
  have "store_step\<^sup>*\<^sup>* empty_database (snd (proposal_insert sample_proposal (snd (intent_insert sample_intent empty_database))))"
    by (rule rtranclp.rtrancl_into_rtrancl[OF r_into_rtranclp[of store_step]]) (rule Intent_insert Proposal_insert)+
  then show ?thesis
    unfolding minted_db_def
    by (rule rtranclp.rtrancl_into_rtrancl) (rule Capability_insert; simp add: sample_capability_def seconds_def)
qed

lemma authorized_db_reachable: "store_step\<^sup>*\<^sup>* empty_database authorized_db"
  unfolding authorized_db_def
  by (rule rtranclp.rtrancl_into_rtrancl[OF minted_db_reachable], rule Authorization)
     (simp_all add: sample_capability_def sample_execution_def sample_outbox_def outbox_pending_def
       pending_with_obligations_def fresh_outbox_def obligation_pending_def)

subsection \<open>Properties of every schedule\<close>

text \<open>C3: Single use.  In every state the gateway can reach, under any schedule of
  concurrent requests, no two executions were authorized by the same capability,
  and the capability of an execution is no longer active.\<close>
theorem capability_consumed_once:
  assumes "store_step\<^sup>*\<^sup>* empty_database d"
  shows "distinct (map ex_capability_id (t_executions d)) \<and>
    list_all (\<lambda>e. case get_capability d (ex_capability_id e) of
                    None \<Rightarrow> False | Some c \<Rightarrow> cl_status c \<noteq> CS_Active) (t_executions d)"
  using reachable_wf[OF assms] by (simp add: store_wf_def single_use_def)

theorem capability_consumed_once_witness:
  "map ex_capability_id (t_executions authorized_db) = [''c1''] \<and>
   map_option cl_status (get_capability authorized_db ''c1'') \<noteq> Some CS_Active"
proof -
  have "map ex_capability_id (t_executions authorized_db) = [''c1'']" by code_simp
  then show ?thesis
    using capability_consumed_once[OF authorized_db_reachable] by (auto split: option.splits)
qed

text \<open>C25: The lifecycle of an execution.  From any reachable state on, an execution
  is never removed, never changes the proposal, intent, capability or owner it is
  bound to, moves only along the transition matrix, and stays for ever in a
  terminal state it has entered.\<close>
theorem execution_lifecycle:
  assumes "store_step\<^sup>*\<^sup>* empty_database d" "store_step\<^sup>*\<^sup>* d d'" "get_execution d k = Some e"
  shows "\<exists>e'. get_execution d' k = Some e' \<and> same_execution e e' \<and>
    is_valid_execution_transition\<^sup>*\<^sup>* (ex_state e) (ex_state e') \<and>
    execution_phase (ex_state e) \<le> execution_phase (ex_state e') \<and>
    (execution_state_is_terminal (ex_state e) \<longrightarrow> ex_state e' = ex_state e)"
proof -
  from store_steps[OF assms(2) reachable_wf[OF assms(1)]] assms(3)
  obtain e' where "get_execution d' k = Some e'" "same_execution e e'"
    "is_valid_execution_transition\<^sup>*\<^sup>* (ex_state e) (ex_state e')"
    by (auto simp: history_def execution_history_def)
  then show ?thesis
    using execution_phase_reach exec_tm.terminal_reach by (intro exI[of _ e']) auto
qed

definition running_db :: database where
  "running_db = snd (execution_compare_and_set_state 2 ''x1'' [ES_Prepared] ES_Running authorized_db)"

lemma running_db_step: "store_step\<^sup>*\<^sup>* authorized_db running_db"
  unfolding running_db_def
  by (rule r_into_rtranclp, rule Claim_execution) (simp add: is_valid_execution_transition_def)

theorem execution_lifecycle_witness:
  "map_option ex_state (get_execution authorized_db ''x1'') = Some ES_Prepared \<and>
   map_option ex_state (get_execution running_db ''x1'') = Some ES_Running \<and>
   execution_phase ES_Prepared \<le> execution_phase ES_Running"
proof -
  have a: "get_execution authorized_db ''x1'' = Some sample_execution" by code_simp
  have b: "map_option ex_state (get_execution running_db ''x1'') = Some ES_Running" by code_simp
  from execution_lifecycle[OF authorized_db_reachable running_db_step a] b
  have "execution_phase (ex_state sample_execution) \<le> execution_phase ES_Running" by auto
  then show ?thesis using a b by (simp add: sample_execution_def)
qed

text \<open>C26: The lifecycle of a rollback contract.  From any reachable state on, a
  contract is never removed, stays bound to its execution, proposal, intent,
  adapter, action and rollback class, moves only along the transition matrix, and
  stays for ever in a terminal state it has entered.\<close>
theorem contract_lifecycle:
  assumes "store_step\<^sup>*\<^sup>* empty_database d" "store_step\<^sup>*\<^sup>* d d'" "get_contract d k = Some c"
  shows "\<exists>c'. get_contract d' k = Some c' \<and> same_contract c c' \<and>
    is_valid_rollback_transition\<^sup>*\<^sup>* (rc_state c) (rc_state c') \<and>
    (rollback_state_is_terminal (rc_state c) \<longrightarrow> rc_state c' = rc_state c)"
proof -
  from store_steps[OF assms(2) reachable_wf[OF assms(1)]] assms(3)
  obtain c' where "get_contract d' k = Some c'" "same_contract c c'"
    "is_valid_rollback_transition\<^sup>*\<^sup>* (rc_state c) (rc_state c')"
    by (auto simp: history_def contract_history_def)
  then show ?thesis
    using rb_tm.terminal_reach by (intro exI[of _ c']) auto
qed

definition sample_contract :: RollbackContract where
  "sample_contract =
    \<lparr>rc_contract_id = ''k1'', rc_intent_id = ''i1'', rc_proposal_id = ''p1'', rc_execution_id = ''x1'',
     rc_action_type = FileWrite, rc_rollback_class = R1SnapshotRecoverable, rc_adapter_key = ''fs'',
     rc_target = RTgt_FilePath ''/data/a'' None None, rc_prepare_checks = [], rc_verify_checks = [],
     rc_compensation_plan = [], rc_auto_commit = True, rc_state = RS_Prepared, rc_created_at = 1,
     rc_expires_at = None, rc_metadata = []\<rparr>"

definition sample_prepare_outbox :: LifecycleOutboxRecord where
  "sample_prepare_outbox = pending_with_obligations ''o2'' 1 ''x1'' (Some ''k1'') (Some ES_Prepared)
     ES_Prepared None (Some RS_Prepared) [SideEffectPrepared, ToolCallPrepared] ''prepare:x1:Prepared:Prepared''"

definition prepared_db :: database where
  "prepared_db = snd (record_lifecycle_transition (sample_execution\<lparr>ex_rollback_contract_id := Some ''k1''\<rparr>)
     (Some sample_contract) sample_prepare_outbox authorized_db)"

lemma prepared_db_step: "store_step\<^sup>*\<^sup>* authorized_db prepared_db"
proof -
  have a: "get_execution authorized_db ''x1'' = Some sample_execution" by code_simp
  show ?thesis
    unfolding prepared_db_def using a
    by (intro r_into_rtranclp Transition)
       (simp_all add: execution_arg_ok_def contract_arg_ok_def sample_prepare_outbox_def
         pending_with_obligations_def fresh_outbox_def obligation_pending_def same_execution_def
         sample_contract_def sample_execution_def)
qed

theorem contract_lifecycle_witness:
  "map_option rc_state (get_contract prepared_db ''k1'') = Some RS_Prepared \<and>
   is_valid_rollback_transition\<^sup>*\<^sup>* RS_Prepared RS_Prepared"
proof -
  have a: "get_contract prepared_db ''k1'' = Some sample_contract" by code_simp
  have r: "store_step\<^sup>*\<^sup>* empty_database prepared_db"
    using authorized_db_reachable prepared_db_step by (rule rtranclp_trans)
  from contract_lifecycle[OF r rtranclp.rtrancl_refl a] a
  show ?thesis by (auto simp: sample_contract_def)
qed


definition sample_event :: ProvenanceEvent where
  "sample_event =
    \<lparr>ev_event_id = ''v1'', ev_kind = ActionProposalSubmitted, ev_occurred_at = 2,
     ev_actor = \<lparr>ar_actor_type = AT_Gateway, ar_actor_id = ''ferrum-gateway'', ar_display_name = None\<rparr>,
     ev_object = \<lparr>or_object_type = OT_SideEffect, or_object_id = ''x1'', or_summary = None\<rparr>,
     ev_intent_id = Some ''i1'', ev_proposal_id = Some ''p1'', ev_execution_id = Some ''x1'',
     ev_capability_id = Some ''c1'', ev_rollback_contract_id = None, ev_policy_bundle_id = None,
     ev_trust_labels = [], ev_sensitivity_labels = [], ev_parent_edges = [],
     ev_hash_chain = \<lparr>hc_content_hash = None, hc_manifest_hash = None, hc_policy_bundle_hash = None,
       hc_previous_ledger_hash = None\<rparr>, ev_metadata = [], ev_source_runtime_id = None\<rparr>"

definition child_event :: ProvenanceEvent where
  "child_event = sample_event\<lparr>ev_event_id := ''v2'', ev_kind := SideEffectPrepared\<rparr>"

definition child_edge :: ProvenanceEdge where
  "child_edge = \<lparr>ed_edge_type = Caused, ed_from_event_id = ''v1'', ed_to_event_id = None, ed_summary = None\<rparr>"

definition event_db :: database where
  "event_db = snd (event_append_with_edges child_event [child_edge]
     (snd (event_append_with_edges sample_event [] authorized_db)))"

definition reconciled_db :: database where
  "reconciled_db = snd (mark_reconciled 3 ''o1'' [] (snd (mark_provenance_obligation_written 3 ''o1''
     ActionProposalSubmitted ''v1'' event_db)))"

lemma event_db_reachable: "store_step\<^sup>*\<^sup>* empty_database event_db"
  unfolding event_db_def
  by (rule rtranclp.rtrancl_into_rtrancl[OF rtranclp.rtrancl_into_rtrancl[OF authorized_db_reachable]]; rule Event)
     (simp_all add: child_edge_def child_event_def)

lemma reconciled_db_reachable: "store_step\<^sup>*\<^sup>* empty_database reconciled_db"
  unfolding reconciled_db_def
  by (rule rtranclp.rtrancl_into_rtrancl[OF rtranclp.rtrancl_into_rtrancl[OF event_db_reachable]]; rule Outbox)
     (rule Mark Reconcile)+







definition sample_approval :: ApprovalRequest where
  "sample_approval = \<lparr>aq_approval_id = ''a1'', aq_intent_id = ''i1'', aq_proposal_id = ''p1'',
     aq_execution_id = None, aq_requested_by = \<lparr>ar_actor_type = AT_Agent, ar_actor_id = ''agent'', ar_display_name = None\<rparr>,
     aq_reason = ''r'', aq_action_digest = ''d'', aq_expires_at = 100, aq_state = AS_Pending,
     aq_created_at = 0, aq_resolver_evidence_version = None, aq_owner_actor_id = None\<rparr>"

definition granted_db :: database where
  "granted_db = snd (resolve_approval_sqlite ''a1'' AS_Granted 5 (snd (approval_insert sample_approval minted_db)))"

lemma granted_db_reachable: "store_step\<^sup>*\<^sup>* empty_database granted_db"
  unfolding granted_db_def
  by (rule rtranclp.rtrancl_into_rtrancl[OF rtranclp.rtrancl_into_rtrancl[OF minted_db_reachable
        Approval_insert] Approval_resolve])


end
