(* ===== verification/Guarantee.thy ===== *)
theory Guarantee
  imports Gateway Interleaving
begin

text \<open>
  Reasoning about request handlers under interference.  \<open>others_ok env\<close> is what a
  handler relies on: between two of its database calls the other requests only
  make store steps.  \<open>spec P m Q E\<close> is what it guarantees: started in a
  well-formed state satisfying \<open>P\<close>, the handler \<open>m\<close> itself only makes store steps
  and ends in a state satisfying \<open>Q x\<close> when it returns \<open>x\<close> and \<open>E\<close> when it leaves
  with an error.  Facts that the steps of others cannot falsify are \<open>lasting\<close>;
  what a handler has read from the store is remembered as such facts.
\<close>

definition others_ok :: "env \<Rightarrow> bool" where
  "others_ok env = (\<forall>n d. store_step\<^sup>*\<^sup>* d (at_others env n d))"

definition lasting :: "(gstate \<Rightarrow> bool) \<Rightarrow> bool" where
  "lasting P = (\<forall>g d. store_wf (g_db g) \<longrightarrow> P g \<longrightarrow> store_step\<^sup>*\<^sup>* (g_db g) d \<longrightarrow> P (g\<lparr>g_db := d\<rparr>))"

definition spec ::
  "(gstate \<Rightarrow> bool) \<Rightarrow> (gstate, 'e, 'a) proc \<Rightarrow> ('a \<Rightarrow> gstate \<Rightarrow> bool) \<Rightarrow> (gstate \<Rightarrow> bool) \<Rightarrow> bool" where
  "spec P m Q E =
    (\<forall>g. store_wf (g_db g) \<longrightarrow> P g \<longrightarrow>
       store_step\<^sup>*\<^sup>* (g_db g) (g_db (snd (m g))) \<and>
       (case m g of (Inr x, g') \<Rightarrow> Q x g' | (Inl e, g') \<Rightarrow> E g'))"

subsection \<open>Rules\<close>

lemma spec_conseq:
  assumes "spec P m Q E" "\<And>g. store_wf (g_db g) \<Longrightarrow> P' g \<Longrightarrow> P g"
    "\<And>x g. store_wf (g_db g) \<Longrightarrow> Q x g \<Longrightarrow> Q' x g" "\<And>g. store_wf (g_db g) \<Longrightarrow> E g \<Longrightarrow> E' g"
  shows "spec P' m Q' E'"
  unfolding spec_def
proof (intro allI impI)
  fix g assume g: "store_wf (g_db g)" "P' g"
  then have s: "store_step\<^sup>*\<^sup>* (g_db g) (g_db (snd (m g)))"
      "case m g of (Inr x, g') \<Rightarrow> Q x g' | (Inl e, g') \<Rightarrow> E g'"
    using assms(1,2) by (auto simp: spec_def)
  then have "store_wf (g_db (snd (m g)))"
    using store_steps g(1) by blast
  then show "store_step\<^sup>*\<^sup>* (g_db g) (g_db (snd (m g))) \<and>
      (case m g of (Inr x, g') \<Rightarrow> Q' x g' | (Inl e, g') \<Rightarrow> E' g')"
    using s assms(3,4) by (auto split: prod.splits sum.splits)
qed

lemma spec_andthen:
  assumes "spec P m Q E" "\<And>x. spec (Q x) (f x) R E"
  shows "spec P (andthen m f) R E"
  unfolding spec_def
proof (intro allI impI)
  fix g assume g: "store_wf (g_db g)" "P g"
  then have s: "store_step\<^sup>*\<^sup>* (g_db g) (g_db (snd (m g)))"
      "case m g of (Inr x, g') \<Rightarrow> Q x g' | (Inl e, g') \<Rightarrow> E g'"
    using assms(1) by (auto simp: spec_def)
  show "store_step\<^sup>*\<^sup>* (g_db g) (g_db (snd (andthen m f g))) \<and>
      (case andthen m f g of (Inr x, g') \<Rightarrow> R x g' | (Inl e, g') \<Rightarrow> E g')"
  proof (cases "m g")
    case (Pair r g')
    have wf: "store_wf (g_db g')"
      using store_steps[OF s(1) g(1)] Pair by simp
    show ?thesis
    proof (cases r)
      case (Inl e)
      then show ?thesis using s Pair by (simp add: andthen_def)
    next
      case (Inr x)
      then have "store_step\<^sup>*\<^sup>* (g_db g') (g_db (snd (f x g'))) \<and>
          (case f x g' of (Inr y, g'') \<Rightarrow> R y g'' | (Inl e, g'') \<Rightarrow> E g'')"
        using assms(2)[of x] wf s Pair by (simp add: spec_def)
      then show ?thesis
        using s(1) Pair Inr by (auto simp: andthen_def intro: rtranclp_trans)
    qed
  qed
qed

lemma spec_ret: "(\<And>g. P g \<Longrightarrow> Q x g) \<Longrightarrow> spec P (ret x) Q E"
  by (simp add: spec_def ret_def)

lemma spec_raise: "(\<And>g. P g \<Longrightarrow> E g) \<Longrightarrow> spec P (raise e) Q E"
  by (simp add: spec_def raise_def)

lemma spec_ensure: "(\<And>g. P g \<Longrightarrow> E g) \<Longrightarrow> spec P (ensure b e) (\<lambda>_ g. P g \<and> b) E"
  by (simp add: spec_def ensure_def ret_def raise_def)

lemma spec_of_result: "(\<And>g. P g \<Longrightarrow> E g) \<Longrightarrow> spec P (of_result r) (\<lambda>x g. P g \<and> r = Inr x) E"
  by (simp add: spec_def of_result_def split: sum.splits)

lemma spec_some_or: "(\<And>g. P g \<Longrightarrow> E g) \<Longrightarrow> spec P (some_or r e) (\<lambda>x g. P g \<and> r = Some x) E"
  by (simp add: spec_def some_or_def ret_def raise_def split: option.splits)

lemma spec_map_err: "spec P m Q E \<Longrightarrow> spec P (map_err h m) Q E"
  by (fastforce simp: spec_def map_err_def split: prod.splits sum.splits)

lemma spec_or_internal: "spec P m Q E \<Longrightarrow> spec P (or_internal m) Q E"
  by (simp add: or_internal_def spec_map_err)

lemma spec_attempt: "spec P m (\<lambda>_ g. R g) R \<Longrightarrow> spec P (attempt m) (\<lambda>_ g. R g) E"
  by (fastforce simp: spec_def attempt_def split: prod.splits sum.splits)

lemma spec_owner_guard:
  "(\<And>g. P g \<Longrightarrow> E g) \<Longrightarrow> spec P (owner_guard gw env n actor owner)
     (\<lambda>_ g. P g \<and> enforce_object_owner_guard actor owner (gw_auth_mode gw)
        (gw_legacy_object_compat_allow_until gw) (at_now env n) = Inr ()) E"
  unfolding owner_guard_def by (rule spec_conseq[OF spec_of_result]) auto

lemma spec_adapter_call:
  "(\<And>g. P g \<Longrightarrow> Q r (g\<lparr>g_calls := g_calls g @ [c]\<rparr>)) \<Longrightarrow> spec P (adapter_call c r) Q E"
  by (simp add: spec_def adapter_call_def)

text \<open>A database call: the interference comes first.\<close>

lemma spec_db_op:
  assumes "others_ok env" "lasting P"
    and "\<And>g. store_wf (g_db g) \<Longrightarrow> P g \<Longrightarrow> store_step\<^sup>*\<^sup>* (g_db g) (snd (m (g_db g)))"
    and "\<And>g x d. store_wf (g_db g) \<Longrightarrow> P g \<Longrightarrow> m (g_db g) = (Inr x, d) \<Longrightarrow> Q x (g\<lparr>g_db := d\<rparr>)"
    and "\<And>g e d. store_wf (g_db g) \<Longrightarrow> P g \<Longrightarrow> m (g_db g) = (Inl e, d) \<Longrightarrow> E (g\<lparr>g_db := d\<rparr>)"
    and "\<And>g. P g \<Longrightarrow> E g"
  shows "spec P (db_op env n m) Q E"
  unfolding spec_def
proof (intro allI impI)
  fix g assume g: "store_wf (g_db g)" "P g"
  let ?d = "at_others env n (g_db g)"
  have os: "store_step\<^sup>*\<^sup>* (g_db g) ?d"
    using assms(1) by (simp add: others_ok_def)
  have P: "store_wf ?d" "P (g\<lparr>g_db := ?d\<rparr>)"
    using store_steps[OF os g(1)] assms(2) g os by (auto simp: lasting_def)
  show "store_step\<^sup>*\<^sup>* (g_db g) (g_db (snd (db_op env n m g))) \<and>
      (case db_op env n m g of (Inr x, g') \<Rightarrow> Q x g' | (Inl e, g') \<Rightarrow> E g')"
  proof (cases "at_down env n")
    case True
    then show ?thesis
      using os P assms(6) by (simp add: db_op_def db_call_def raise_def)
  next
    case False
    then show ?thesis
      using os P assms(3-5)[of "g\<lparr>g_db := ?d\<rparr>"]
      by (auto simp: db_op_def db_call_def split: prod.splits sum.splits intro: rtranclp_trans)
  qed
qed

lemma spec_db_read:
  assumes "others_ok env" "lasting P" "\<And>g. P g \<Longrightarrow> E g"
  shows "spec P (db_read env n f) (\<lambda>x g. P g \<and> x = f (g_db g)) E"
  unfolding db_read_def using assms by (intro spec_db_op) (auto simp: reads_def)

lemma spec_fetch:
  assumes "others_ok env" "lasting P" "\<And>g. P g \<Longrightarrow> E g"
  shows "spec P (fetch env n f absent) (\<lambda>x g. P g \<and> f (g_db g) = Some x) E"
  unfolding fetch_def
proof (rule spec_andthen)
  show "spec P (or_internal (db_read env n f)) (\<lambda>x g. P g \<and> x = f (g_db g)) E"
    by (rule spec_or_internal, rule spec_db_read) (fact assms)+
  show "spec (\<lambda>g. P g \<and> r = f (g_db g)) (some_or r absent) (\<lambda>x g. P g \<and> f (g_db g) = Some x) E" for r
    by (rule spec_conseq[OF spec_some_or[where P = "\<lambda>g. P g \<and> r = f (g_db g)" and E = E]])
       (auto simp: assms(3))
qed

subsection \<open>Lasting facts\<close>

definition has_execution :: "ExecutionRecord \<Rightarrow> gstate \<Rightarrow> bool" where
  "has_execution x g = (\<exists>e. get_execution (g_db g) (ex_execution_id x) = Some e \<and> same_execution x e)"

definition has_contract :: "RollbackContract \<Rightarrow> gstate \<Rightarrow> bool" where
  "has_contract c g = (\<exists>c'. get_contract (g_db g) (rc_contract_id c) = Some c' \<and> same_contract c c')"

definition has_lease :: "CapabilityLease \<Rightarrow> gstate \<Rightarrow> bool" where
  "has_lease c g = (\<exists>c'. get_capability (g_db g) (cl_capability_id c) = Some c' \<and> same_lease c c')"

definition has_proposal :: "ActionProposal \<Rightarrow> gstate \<Rightarrow> bool" where
  "has_proposal p g = (get_proposal (g_db g) (ap_proposal_id p) = Some p)"

definition has_intent :: "IntentEnvelope \<Rightarrow> gstate \<Rightarrow> bool" where
  "has_intent i g = (\<exists>i'. get_intent (g_db g) (in_intent_id i) = Some i' \<and> intent_core i' = intent_core i)"

definition spent :: "uuid \<Rightarrow> gstate \<Rightarrow> bool" where
  "spent k g = (\<exists>c. get_capability (g_db g) k = Some c \<and> cl_status c \<noteq> CS_Active)"

lemma lasting_history:
  assumes "\<And>g d. P g \<Longrightarrow> history (g_db g) d \<Longrightarrow> P (g\<lparr>g_db := d\<rparr>)"
  shows "lasting P"
  using assms store_steps by (auto simp: lasting_def)

lemma lasting_has_execution [simp]: "lasting (has_execution x)"
proof (rule lasting_history)
  fix g d assume "has_execution x g" "history (g_db g) d"
  then obtain e e' where "same_execution x e" "get_execution d (ex_execution_id x) = Some e'" "same_execution e e'"
    unfolding has_execution_def history_def execution_history_def by blast
  then show "has_execution x (g\<lparr>g_db := d\<rparr>)"
    using same_trans(1) by (simp add: has_execution_def)
qed

lemma lasting_has_contract [simp]: "lasting (has_contract c)"
proof (rule lasting_history)
  fix g d assume "has_contract c g" "history (g_db g) d"
  then obtain c1 c2 where "same_contract c c1" "get_contract d (rc_contract_id c) = Some c2" "same_contract c1 c2"
    unfolding has_contract_def history_def contract_history_def by blast
  then show "has_contract c (g\<lparr>g_db := d\<rparr>)"
    using same_trans(2) by (simp add: has_contract_def)
qed

lemma lasting_has_lease [simp]: "lasting (has_lease c)"
proof (rule lasting_history)
  fix g d assume "has_lease c g" "history (g_db g) d"
  then obtain c1 c2 where "same_lease c c1" "get_capability d (cl_capability_id c) = Some c2" "same_lease c1 c2"
    unfolding has_lease_def history_def capability_history_def by blast
  then show "has_lease c (g\<lparr>g_db := d\<rparr>)"
    using same_trans(3) by (simp add: has_lease_def)
qed

lemma lasting_spent [simp]: "lasting (spent k)"
proof (rule lasting_history)
  fix g d assume "spent k g" "history (g_db g) d"
  then show "spent k (g\<lparr>g_db := d\<rparr>)"
    unfolding spent_def history_def capability_history_def by fastforce
qed

lemma lasting_has_proposal [simp]: "lasting (has_proposal p)"
  by (rule lasting_history) (simp add: has_proposal_def history_def entity_history_def)

lemma lasting_has_intent [simp]: "lasting (has_intent i)"
proof (rule lasting_history)
  fix g d assume "has_intent i g" "history (g_db g) d"
  then obtain i1 i2 where "intent_core i1 = intent_core i" "get_intent d (in_intent_id i) = Some i2" "intent_core i2 = intent_core i1"
    unfolding has_intent_def history_def entity_history_def by blast
  then show "has_intent i (g\<lparr>g_db := d\<rparr>)"
    by (simp add: has_intent_def)
qed

lemma lasting_const [simp]: "lasting (\<lambda>g. b)"
  by (simp add: lasting_def)

lemma lasting_calls [simp]: "lasting (\<lambda>g. Q (g_calls g))"
  by (simp add: lasting_def)

lemma lasting_conj [simp]: "lasting P \<Longrightarrow> lasting Q \<Longrightarrow> lasting (\<lambda>g. P g \<and> Q g)"
  by (simp add: lasting_def)

lemma lasting_wf [simp]: "lasting (\<lambda>g. store_wf (g_db g))"
  using store_steps by (auto simp: lasting_def)

definition has_event :: "uuid \<Rightarrow> gstate \<Rightarrow> bool" where
  "has_event k g = (get_event (g_db g) k \<noteq> None)"

lemma lasting_has_event [simp]: "lasting (has_event k)"
proof (rule lasting_history)
  fix g d assume "has_event k g" "history (g_db g) d"
  then show "has_event k (g\<lparr>g_db := d\<rparr>)"
    using get_event_None_iff[of "g_db g" k] get_event_None_iff[of d k]
    by (auto simp: has_event_def history_def event_history_def prefix_def)
qed

text \<open>An approval that has been granted.\<close>

definition approved :: "ApprovalRequest \<Rightarrow> gstate \<Rightarrow> bool" where
  "approved a g = (get_approval (g_db g) (aq_approval_id a) = Some a \<and> aq_state a = AS_Granted)"

lemma lasting_approved [simp]: "lasting (approved a)"
  using store_steps_approvals by (fastforce simp: lasting_def approved_def approval_history_def)

subsection \<open>The shared operations of the handlers\<close>

text \<open>An operation that makes a store step keeps every lasting fact.\<close>

lemma spec_keep:
  assumes "others_ok env" "lasting P" "\<And>g. P g \<Longrightarrow> E g"
    and "\<And>g. store_wf (g_db g) \<Longrightarrow> P g \<Longrightarrow> store_step\<^sup>*\<^sup>* (g_db g) (snd (m (g_db g)))"
  shows "spec P (db_op env n m) (\<lambda>_ g. P g) E"
proof -
  have "P (g\<lparr>g_db := d\<rparr>)" if "store_wf (g_db g)" "P g" "m (g_db g) = (r, d)" for g r d
    using assms(2) assms(4)[OF that(1,2)] that by (simp add: lasting_def)
  then show ?thesis
    using assms by (intro spec_db_op) blast+
qed

lemma event_append_steps:
  assumes "list_all (\<lambda>x. ed_from_event_id x = ev_event_id e \<longrightarrow> get_event d (ev_event_id e) \<noteq> None) edges"
  shows "store_step\<^sup>*\<^sup>* d (snd (event_append_with_edges e edges d))"
proof (cases "get_event d (ev_event_id e) = None")
  case True
  then have "list_all (\<lambda>x. ed_from_event_id x \<noteq> ev_event_id e) edges"
    using assms by (simp add: list_all_iff)
  then show ?thesis by (intro r_into_rtranclp Event)
next
  case False
  then show ?thesis by (simp add: event_append_with_edges_def)
qed

lemma provenance_query_in: "e \<in> set (provenance_query q d) \<Longrightarrow> e \<in> set (t_events d)"
  by (simp add: provenance_query_def)

lemma has_event_in: "e \<in> set (t_events (g_db g)) \<Longrightarrow> has_event (ev_event_id e) g"
  unfolding has_event_def by (metis get_event_None_iff image_eqI list.set_map)

definition linked :: "ProvenanceEvent \<Rightarrow> ProvenanceEvent \<Rightarrow> gstate \<Rightarrow> bool" where
  "linked e e' g = (ev_event_id e' = ev_event_id e \<and>
     list_all (\<lambda>x. has_event (ed_from_event_id x) g) (ev_parent_edges e'))"

lemma lasting_linked [simp]: "lasting (linked e e')"
  using lasting_has_event unfolding lasting_def linked_def list_all_iff by blast

lemma link_event_linked:
  assumes "link_event e parent_kind edge_type (provenance_query q (g_db g)) = Inr e'" "ev_parent_edges e = []"
  shows "linked e e' g"
  using assms
  by (auto simp: link_event_def linked_def inferred_edge_def split: option.splits if_splits
      dest!: find_mem intro!: has_event_in provenance_query_in)

lemma spec_append:
  assumes "others_ok env" "lasting P" "\<And>g. P g \<Longrightarrow> E g" "ev_parent_edges e = []"
  shows "spec P (append_governance_event env n e) (\<lambda>_ g. P g) E"
  unfolding append_governance_event_def
proof (rule spec_andthen)
  show "spec P (case lineage_parent_spec (ev_kind e) of
               None \<Rightarrow> ret e
             | Some (parent_kind, edge_type) \<Rightarrow>
               andthen (db_read env n (provenance_query (parent_query (ev_intent_id e) (Some parent_kind))))
                 (\<lambda>candidates. of_result (link_event e parent_kind edge_type candidates)))
          (\<lambda>e' g. P g \<and> linked e e' g) E"
  proof (cases "lineage_parent_spec (ev_kind e)")
    case None
    then show ?thesis using assms(4) by (auto intro!: spec_ret simp: linked_def)
  next
    case (Some kt)
    obtain k t where kt: "kt = (k, t)" by force
    have "spec (\<lambda>g. P g \<and> c = provenance_query (parent_query (ev_intent_id e) (Some k)) (g_db g))
        (of_result (link_event e k t c)) (\<lambda>e' g. P g \<and> linked e e' g) E" for c
      by (rule spec_conseq[OF spec_of_result[where E = E and
            P = "\<lambda>g. P g \<and> c = provenance_query (parent_query (ev_intent_id e) (Some k)) (g_db g)"]])
         (auto simp: assms(3) intro: link_event_linked[OF _ assms(4)])
    then show ?thesis
      using Some kt by (auto intro: spec_andthen[OF spec_db_read[OF assms(1,2,3)]])
  qed
  show "spec (\<lambda>g. P g \<and> linked e e' g) (db_op env (n + 1) (event_append_with_edges e' (ev_parent_edges e')))
      (\<lambda>_ g. P g) E" for e'
  proof (rule spec_conseq[OF spec_keep[where P = "\<lambda>g. P g \<and> linked e e' g" and E = E]])
    fix g assume "P g \<and> linked e e' g"
    then show "store_step\<^sup>*\<^sup>* (g_db g) (snd (event_append_with_edges e' (ev_parent_edges e') (g_db g)))"
      by (intro event_append_steps) (auto simp: linked_def list_all_iff has_event_def)
  qed (use assms in auto)
qed

lemma outbox_call_steps: "outbox_step d d' \<Longrightarrow> store_step\<^sup>*\<^sup>* d d'"
  by (rule r_into_rtranclp) (rule Outbox)

lemma spec_mark_obligation:
  assumes "others_ok env" "lasting P" "\<And>g. P g \<Longrightarrow> E g"
  shows "spec P (mark_lifecycle_obligation_written env n r kind e) (\<lambda>_ g. P g) E"
  unfolding mark_lifecycle_obligation_written_def
proof (rule spec_andthen)
  show "spec P (db_op env n (mark_provenance_obligation_written (at_now env n) (lo_outbox_id r) kind e)) (\<lambda>_ g. P g) E"
    using assms by (intro spec_keep outbox_call_steps Mark) auto
  show "spec P (ensure b err) (\<lambda>_ g. P g) E" for b err
    by (rule spec_conseq[OF spec_ensure[where P = P and E = E]]) (auto simp: assms(3))
qed

lemma spec_reconcile:
  assumes "others_ok env" "lasting P" "\<And>g. P g \<Longrightarrow> E g"
  shows "spec P (db_op env n (mark_reconciled now k result)) (\<lambda>_ g. P g) E"
  using assms by (intro spec_keep outbox_call_steps Reconcile) auto

lemma spec_finish_outbox:
  assumes "others_ok env" "lasting P" "\<And>g. P g \<Longrightarrow> E g"
  shows "spec P (finish_outbox env n r) (\<lambda>_ g. P g) E"
  unfolding finish_outbox_def using assms by (intro spec_or_internal spec_reconcile) auto

lemma spec_settle_event:
  assumes "others_ok env" "lasting P" "\<And>g. P g \<Longrightarrow> E g" "ev_parent_edges e = []"
  shows "spec P (settle_event env n r e) (\<lambda>_ g. P g) E"
  unfolding settle_event_def
  using assms by (intro spec_andthen[OF spec_or_internal[OF spec_append]] spec_or_internal spec_mark_obligation) auto

lemma spec_settle_transition:
  assumes "others_ok env" "lasting P" "\<And>g. P g \<Longrightarrow> E g" "ev_parent_edges e = []"
  shows "spec P (settle_transition env n r e) (\<lambda>_ g. P g) E"
  unfolding settle_transition_def mark_lifecycle_transition_reconciled_def
  using assms
  by (intro spec_andthen[OF spec_or_internal[OF spec_append]] spec_or_internal
      spec_andthen[OF spec_mark_obligation] spec_reconcile) auto

lemma gateway_event_edges [simp]: "ev_parent_edges (gateway_event i t k ob x c m) = []"
  by (simp add: gateway_event_def)

lemma fresh_lifecycle_record [simp]:
  "fresh_outbox (lifecycle_outbox_record i t name prev upd pc uc kinds)"
  "lo_execution_id (lifecycle_outbox_record i t name prev upd pc uc kinds) = ex_execution_id upd"
  "lo_previous_rollback_state (lifecycle_outbox_record i t name prev upd pc uc kinds) = map_option rc_state pc"
  "lo_previous_execution_state (lifecycle_outbox_record i t name prev upd pc uc kinds) = Some (ex_state prev)"
  by (auto simp: lifecycle_outbox_record_def pending_with_obligations_def fresh_outbox_def Let_def
      list_all_iff obligation_pending_def split: option.splits)

lemma same_sym:
  "same_execution e e' \<Longrightarrow> same_execution e' e" "same_contract c c' \<Longrightarrow> same_contract c' c"
  "same_lease l l' \<Longrightarrow> same_lease l' l"
  by (simp_all add: same_execution_def same_contract_def same_lease_def)

text \<open>What the caller must remember of the records it passes to a transition.\<close>

definition transition_args ::
  "ExecutionRecord \<Rightarrow> RollbackContract option \<Rightarrow> RollbackContract option \<Rightarrow> gstate \<Rightarrow> bool" where
  "transition_args upd pc uc g =
    (has_execution upd g \<and>
     (case uc of
        None \<Rightarrow> True
      | Some c \<Rightarrow> (case pc of None \<Rightarrow> rc_state c = RS_Prepared | Some _ \<Rightarrow> has_contract c g)))"

lemma transition_args_ok:
  assumes "transition_args upd pc uc g"
  shows "execution_arg_ok (g_db g) upd" "contract_arg_ok (g_db g) uc (map_option rc_state pc)"
proof -
  show "execution_arg_ok (g_db g) upd"
    using assms by (auto simp: transition_args_def has_execution_def execution_arg_ok_def dest: same_sym)
  show "contract_arg_ok (g_db g) uc (map_option rc_state pc)"
    using assms
    by (auto simp: transition_args_def has_contract_def contract_arg_ok_def dest: same_sym split: option.splits)
qed

lemma spec_transition:
  assumes "others_ok env" "lasting P" "\<And>g. P g \<Longrightarrow> E g" "\<And>g. P g \<Longrightarrow> transition_args upd pc uc g"
  shows "spec P (record_lifecycle_transition_outbox_with_obligations env n name prev upd pc uc kinds) (\<lambda>_ g. P g) E"
  unfolding record_lifecycle_transition_outbox_with_obligations_def Let_def
proof (rule spec_andthen)
  let ?r = "lifecycle_outbox_record (at_id env n) (at_now env n) name prev upd pc uc kinds"
  show "spec P (db_op env n (record_lifecycle_transition upd uc ?r)) (\<lambda>_ g. P g) E"
  proof (rule spec_keep[OF assms(1-3)])
    fix g assume "P g"
    then show "store_step\<^sup>*\<^sup>* (g_db g) (snd (record_lifecycle_transition upd uc ?r (g_db g)))"
      using transition_args_ok[OF assms(4)] by (intro r_into_rtranclp Transition) auto
  qed
  show "spec P (ret ?r) (\<lambda>_ g. P g) E" by (rule spec_ret)
qed

lemma spec_transition1:
  assumes "others_ok env" "lasting P" "\<And>g. P g \<Longrightarrow> E g" "\<And>g. P g \<Longrightarrow> transition_args upd pc uc g"
  shows "spec P (record_lifecycle_transition_outbox env n name prev upd pc uc kind) (\<lambda>_ g. P g) E"
  unfolding record_lifecycle_transition_outbox_def using assms by (rule spec_transition)

text \<open>Loading the execution and its contract.\<close>

lemma spec_load_execution:
  assumes "others_ok env" "lasting P" "\<And>g. P g \<Longrightarrow> E g"
  shows "spec P (load_owned_execution gw env actor path)
    (\<lambda>x g. P g \<and> has_execution x g \<and> gw_parse_uuid gw path = Some (ex_execution_id x) \<and>
       enforce_object_owner_guard actor (ex_owner_actor_id x) (gw_auth_mode gw)
         (gw_legacy_object_compat_allow_until gw) (at_now env 1) = Inr ()) E"
  unfolding load_owned_execution_def parse_execution_id_def
proof (rule spec_andthen, rule spec_some_or, fact assms(3), rule spec_andthen)
  fix k
  let ?P = "\<lambda>g. P g \<and> gw_parse_uuid gw path = Some k"
  show "spec ?P (fetch env 0 (\<lambda>d. get_execution d k) object_not_found)
      (\<lambda>x g. P g \<and> has_execution x g \<and> gw_parse_uuid gw path = Some (ex_execution_id x)) E"
  proof (rule spec_conseq[OF spec_fetch[where P = ?P and E = E]])
    fix x g assume "?P g \<and> get_execution (g_db g) k = Some x"
    moreover from this have "ex_execution_id x = k"
      by (auto simp: get_execution_def dest: tget_key)
    ultimately show "P g \<and> has_execution x g \<and> gw_parse_uuid gw path = Some (ex_execution_id x)"
      by (auto simp: has_execution_def)
  qed (use assms in auto)
  fix x
  let ?Q = "\<lambda>g. P g \<and> has_execution x g \<and> gw_parse_uuid gw path = Some (ex_execution_id x)"
  show "spec ?Q (andthen (owner_guard gw env 1 actor (ex_owner_actor_id x)) (\<lambda>_. ret x))
    (\<lambda>x g. P g \<and> has_execution x g \<and> gw_parse_uuid gw path = Some (ex_execution_id x) \<and>
       enforce_object_owner_guard actor (ex_owner_actor_id x) (gw_auth_mode gw)
         (gw_legacy_object_compat_allow_until gw) (at_now env 1) = Inr ()) E"
    by (rule spec_andthen[OF spec_owner_guard[where P = ?Q and E = E]]) (use assms(3) in \<open>auto intro: spec_ret\<close>)
qed

lemma spec_load_contract:
  assumes "others_ok env" "lasting P" "\<And>g. P g \<Longrightarrow> E g"
  shows "spec P (load_contract env n x)
    (\<lambda>c g. P g \<and> has_contract c g \<and> ex_rollback_contract_id x = Some (rc_contract_id c)) E"
  unfolding load_contract_def
proof (rule spec_andthen, rule spec_some_or, fact assms(3))
  fix k
  let ?P = "\<lambda>g. P g \<and> ex_rollback_contract_id x = Some k"
  show "spec ?P (fetch env n (\<lambda>d. get_contract d k) (problem 404 NotFound ''rollback contract not found''))
      (\<lambda>c g. P g \<and> has_contract c g \<and> ex_rollback_contract_id x = Some (rc_contract_id c)) E"
  proof (rule spec_conseq[OF spec_fetch[where P = ?P and E = E]])
    fix c g assume "?P g \<and> get_contract (g_db g) k = Some c"
    moreover from this have "rc_contract_id c = k"
      by (auto simp: get_contract_def dest: tget_key)
    ultimately show "P g \<and> has_contract c g \<and> ex_rollback_contract_id x = Some (rc_contract_id c)"
      by (auto simp: has_contract_def)
  qed (use assms in auto)
qed

subsection \<open>Rules for a handler's next statement\<close>

text \<open>Facts about values only become hypotheses; facts about the store are added
  to the precondition.\<close>

named_theorems spec_then \<open>rules for the first statement of a handler\<close>

lemma then_ensure [spec_then]:
  assumes "\<And>g. P g \<Longrightarrow> E g" "b \<Longrightarrow> spec P (f ()) R E"
  shows "spec P (andthen (ensure b e) f) R E"
  using assms by (auto simp: ensure_def intro: spec_raise)

lemma then_some_or [spec_then]:
  assumes "\<And>g. P g \<Longrightarrow> E g" "\<And>x. r = Some x \<Longrightarrow> spec P (f x) R E"
  shows "spec P (andthen (some_or r e) f) R E"
  using assms by (auto simp: some_or_def split: option.splits intro: spec_raise)

lemma andthen_of_result: "andthen (of_result r) f = (case r of Inl e \<Rightarrow> raise e | Inr x \<Rightarrow> f x)"
  by (auto simp: andthen_def of_result_def raise_def fun_eq_iff split: sum.splits)

lemma then_of_result [spec_then]:
  assumes "\<And>g. P g \<Longrightarrow> E g" "\<And>x. r = Inr x \<Longrightarrow> spec P (f x) R E"
  shows "spec P (andthen (of_result r) f) R E"
  using assms by (auto simp: andthen_of_result split: sum.splits intro: spec_raise)

lemma then_owner_guard [spec_then]:
  assumes "\<And>g. P g \<Longrightarrow> E g"
    and "enforce_object_owner_guard actor owner (gw_auth_mode gw)
        (gw_legacy_object_compat_allow_until gw) (at_now env n) = Inr () \<Longrightarrow> spec P (f ()) R E"
  shows "spec P (andthen (owner_guard gw env n actor owner) f) R E"
  unfolding owner_guard_def using assms by (intro then_of_result) auto

lemma then_adapter_call [spec_then]:
  assumes "spec Q (f r) R E" "\<And>g. P g \<Longrightarrow> Q (g\<lparr>g_calls := g_calls g @ [c]\<rparr>)"
  shows "spec P (andthen (adapter_call c r) f) R E"
proof (rule spec_andthen[OF spec_adapter_call[where Q = "\<lambda>x g. Q g \<and> x = r"]])
  show "spec (\<lambda>g. Q g \<and> x = r) (f x) R E" for x
    using assms(1) by (cases "x = r") (auto simp: spec_def)
qed (use assms in auto)

lemma then_fetch:
  assumes "others_ok env" "lasting P" "\<And>g. P g \<Longrightarrow> E g"
    and "\<And>x. spec (\<lambda>g. P g \<and> get (g_db g) = Some x) (f x) R E"
  shows "spec P (andthen (fetch env n get absent) f) R E"
  using assms by (intro spec_andthen[OF spec_fetch])

lemma then_fetch_proposal [spec_then]:
  assumes "others_ok env" "lasting P" "\<And>g. P g \<Longrightarrow> E g"
    and "\<And>p. ap_proposal_id p = k \<Longrightarrow> spec (\<lambda>g. P g \<and> has_proposal p g) (f p) R E"
  shows "spec P (andthen (fetch env n (\<lambda>d. get_proposal d k) absent) f) R E"
proof (rule then_fetch[OF assms(1-3)])
  fix p
  show "spec (\<lambda>g. P g \<and> get_proposal (g_db g) k = Some p) (f p) R E"
  proof (cases "ap_proposal_id p = k")
    case True
    show ?thesis
      by (rule spec_conseq[OF assms(4)[OF True]]) (use True in \<open>auto simp: has_proposal_def\<close>)
  next
    case False
    then show ?thesis by (auto simp: spec_def get_proposal_def dest: tget_key)
  qed
qed

lemma then_fetch_intent [spec_then]:
  assumes "others_ok env" "lasting P" "\<And>g. P g \<Longrightarrow> E g"
    and "\<And>i. in_intent_id i = k \<Longrightarrow> spec (\<lambda>g. P g \<and> has_intent i g) (f i) R E"
  shows "spec P (andthen (fetch env n (\<lambda>d. get_intent d k) absent) f) R E"
proof (rule then_fetch[OF assms(1-3)])
  fix i
  show "spec (\<lambda>g. P g \<and> get_intent (g_db g) k = Some i) (f i) R E"
  proof (cases "in_intent_id i = k")
    case True
    show ?thesis
      by (rule spec_conseq[OF assms(4)[OF True]]) (use True in \<open>auto simp: has_intent_def\<close>)
  next
    case False
    then show ?thesis by (auto simp: spec_def get_intent_def dest: tget_key)
  qed
qed

lemma then_fetch_capability [spec_then]:
  assumes "others_ok env" "lasting P" "\<And>g. P g \<Longrightarrow> E g"
    and "\<And>c. cl_capability_id c = k \<Longrightarrow> spec (\<lambda>g. P g \<and> has_lease c g) (f c) R E"
  shows "spec P (andthen (fetch env n (\<lambda>d. get_capability d k) absent) f) R E"
proof (rule then_fetch[OF assms(1-3)])
  fix c
  show "spec (\<lambda>g. P g \<and> get_capability (g_db g) k = Some c) (f c) R E"
  proof (cases "cl_capability_id c = k")
    case True
    show ?thesis
      by (rule spec_conseq[OF assms(4)[OF True]]) (use True in \<open>auto simp: has_lease_def\<close>)
  next
    case False
    then show ?thesis by (auto simp: spec_def get_capability_def dest: tget_key)
  qed
qed

lemma then_load_execution [spec_then]:
  assumes "others_ok env" "lasting P" "\<And>g. P g \<Longrightarrow> E g"
    and "\<And>x. \<lbrakk>gw_parse_uuid gw path = Some (ex_execution_id x);
        enforce_object_owner_guard actor (ex_owner_actor_id x) (gw_auth_mode gw)
          (gw_legacy_object_compat_allow_until gw) (at_now env 1) = Inr ()\<rbrakk>
      \<Longrightarrow> spec (\<lambda>g. P g \<and> has_execution x g) (f x) R E"
  shows "spec P (andthen (load_owned_execution gw env actor path) f) R E"
proof (rule spec_andthen[OF spec_load_execution[OF assms(1-3)]])
  fix x :: ExecutionRecord
  let ?o = "enforce_object_owner_guard actor (ex_owner_actor_id x) (gw_auth_mode gw)
          (gw_legacy_object_compat_allow_until gw) (at_now env 1) = Inr ()"
  let ?i = "gw_parse_uuid gw path = Some (ex_execution_id x)"
  show "spec (\<lambda>g. P g \<and> has_execution x g \<and> ?i \<and> ?o) (f x) R E"
  proof (cases "?i \<and> ?o")
    case True
    then show ?thesis by (intro spec_conseq[OF assms(4)]) auto
  next
    case False
    then have "spec (\<lambda>_. False) (f x) R E" by (simp add: spec_def)
    then show ?thesis by (rule spec_conseq) (use False in auto)
  qed
qed

lemma then_load_contract [spec_then]:
  assumes "others_ok env" "lasting P" "\<And>g. P g \<Longrightarrow> E g"
    and "\<And>c. ex_rollback_contract_id x = Some (rc_contract_id c) \<Longrightarrow>
      spec (\<lambda>g. P g \<and> has_contract c g) (f c) R E"
  shows "spec P (andthen (load_contract env n x) f) R E"
proof (rule spec_andthen[OF spec_load_contract[OF assms(1-3)]])
  fix c :: RollbackContract
  show "spec (\<lambda>g. P g \<and> has_contract c g \<and> ex_rollback_contract_id x = Some (rc_contract_id c)) (f c) R E"
  proof (cases "ex_rollback_contract_id x = Some (rc_contract_id c)")
    case True
    then show ?thesis by (intro spec_conseq[OF assms(4)]) auto
  next
    case False
    then have "spec (\<lambda>_. False) (f c) R E" by (simp add: spec_def)
    then show ?thesis by (rule spec_conseq) (use False in auto)
  qed
qed

lemma last_of_result:
  assumes "\<And>g. P g \<Longrightarrow> E g" "\<And>x g. \<lbrakk>P g; r = Inr x\<rbrakk> \<Longrightarrow> R x g"
  shows "spec P (of_result r) R E"
  by (rule spec_conseq[OF spec_of_result[where P = P and E = E]]) (use assms in auto)

lemma spec_False [simp]: "spec (\<lambda>_. False) m R E"
  by (simp add: spec_def)

lemma last_ret: "(\<And>g. P g \<Longrightarrow> R x g) \<Longrightarrow> spec P (ret x) R E"
  by (rule spec_ret)

lemma then_keep:
  assumes "spec P m (\<lambda>_ g. P g) E" "\<And>x. spec P (f x) R E"
  shows "spec P (andthen m f) R E"
  using assms by (rule spec_andthen)

lemma lasting_log [simp]: "lasting (\<lambda>g. g_calls g = calls)"
  by (simp add: lasting_def)

lemma lasting_ex: "(\<And>x. lasting (P x)) \<Longrightarrow> lasting (\<lambda>g. \<exists>x. P x g)"
  by (auto simp: lasting_def)

lemma has_execution_same: "\<lbrakk>has_execution x g; same_execution x x'\<rbrakk> \<Longrightarrow> has_execution x' g"
  unfolding has_execution_def by (metis same_execution_def same_sym(1) same_trans(1))

lemma has_contract_same: "\<lbrakk>has_contract c g; same_contract c c'\<rbrakk> \<Longrightarrow> has_contract c' g"
  unfolding has_contract_def by (metis same_contract_def same_sym(2) same_trans(2))

lemma transition_args_same:
  assumes "has_execution x g" "same_execution x x'" "has_contract c g" "same_contract c c'"
  shows "transition_args x' (Some c0) (Some c') g"
  using assms has_execution_same has_contract_same by (auto simp: transition_args_def)

lemma spec_run:
  assumes "spec P m (\<lambda>_. R) R" "store_wf (g_db g)" "P g"
  shows "store_step\<^sup>*\<^sup>* (g_db g) (g_db (snd (m g))) \<and> R (snd (m g))"
  using assms unfolding spec_def by (cases "m g"; cases "fst (m g)") fastforce+

lemma spec_result:
  assumes "spec P m Q E" "store_wf (g_db g)" "P g" "m g = (Inr x, g')"
  shows "store_step\<^sup>*\<^sup>* (g_db g) (g_db g') \<and> Q x g'"
  using assms unfolding spec_def by fastforce

lemma spec_if:
  assumes "b \<Longrightarrow> spec P m Q E" "\<not> b \<Longrightarrow> spec P m' Q E"
  shows "spec P (if b then m else m') Q E"
  using assms by simp

lemma last_ensure:
  assumes "\<And>g. P g \<Longrightarrow> E g" "\<And>g. \<lbrakk>P g; b\<rbrakk> \<Longrightarrow> R () g"
  shows "spec P (ensure b e) R E"
  using assms by (auto simp: ensure_def intro: spec_ret spec_raise)

lemma then_fetch_granted:
  assumes "others_ok env" "lasting P" "\<And>g. P g \<Longrightarrow> E g"
    and "\<And>a. \<lbrakk>aq_approval_id a = k; aq_state a = AS_Granted\<rbrakk> \<Longrightarrow> spec (\<lambda>g. P g \<and> approved a g) (f a ()) R E"
  shows "spec P (andthen (fetch env n (\<lambda>d. get_approval d k) absent)
    (\<lambda>a. andthen (ensure (aq_state a = AS_Granted) (e a)) (f a))) R E"
proof (rule then_fetch[OF assms(1-3)])
  fix a
  show "spec (\<lambda>g. P g \<and> get_approval (g_db g) k = Some a)
      (andthen (ensure (aq_state a = AS_Granted) (e a)) (f a)) R E"
  proof (rule then_ensure, blast intro: assms(3))
    assume a: "aq_state a = AS_Granted"
    show "spec (\<lambda>g. P g \<and> get_approval (g_db g) k = Some a) (f a ()) R E"
    proof (cases "aq_approval_id a = k")
      case True
      show ?thesis by (rule spec_conseq[OF assms(4)[OF True a]]) (use True a in \<open>auto simp: approved_def\<close>)
    next
      case False
      then show ?thesis by (auto simp: spec_def dest: get_approval_id)
    qed
  qed
qed

end
