(* ===== verification/Capability_Safety.thy ===== *)
theory Capability_Safety
  imports Capability Guarantee
begin

text \<open>
  The contract of a capability service (the trait \<open>CapabilityService\<close> of
  \<open>crates/ferrum-cap/src/service.rs\<close>) as a locale, and its two implementations as
  interpretations: the in-memory service, whose calls are atomic under its lock,
  and the store-backed one, whose database calls interleave with other requests.
\<close>

locale capability_service =
  fixes inv :: "'s \<Rightarrow> bool" and step :: "'s \<Rightarrow> 's \<Rightarrow> bool" and legal :: "env \<Rightarrow> bool"
    and spent :: "uuid \<Rightarrow> 's \<Rightarrow> bool"
    and mint :: "env \<Rightarrow> nat \<Rightarrow> CapabilityMintRequest \<Rightarrow> ('s, CapabilityError, CapabilityMintResponse) proc"
    and mark_used revoke :: "env \<Rightarrow> nat \<Rightarrow> uuid \<Rightarrow> ('s, CapabilityError, CapabilityLease) proc"
  assumes step_inv: "\<lbrakk>inv s; step s s'\<rbrakk> \<Longrightarrow> inv s'"
    and step_spent: "\<lbrakk>inv s; step s s'; spent k s\<rbrakk> \<Longrightarrow> spent k s'"
    and mark_used_steps: "\<lbrakk>inv s; legal env\<rbrakk> \<Longrightarrow> step\<^sup>*\<^sup>* s (snd (mark_used env n k s))"
    and revoke_steps: "\<lbrakk>inv s; legal env\<rbrakk> \<Longrightarrow> step\<^sup>*\<^sup>* s (snd (revoke env n k s))"
    and mark_used_spends: "\<lbrakk>inv s; legal env; mark_used env n k s = (Inr l, s')\<rbrakk>
      \<Longrightarrow> \<not> spent k s \<and> spent k s'"
    and revoke_spends: "\<lbrakk>inv s; legal env; revoke env n k s = (Inr l, s')\<rbrakk> \<Longrightarrow> spent k s'"
    and mint_bounded: "mint env n rq s = (Inr resp, s')
      \<Longrightarrow> cl_status (mp_lease resp) = CS_Active \<and>
          cl_issued_at (mp_lease resp) \<le> cl_expires_at (mp_lease resp) \<and>
          cl_expires_at (mp_lease resp) \<le> cl_issued_at (mp_lease resp) + seconds 300"
begin

lemma steps_spent:
  assumes "step\<^sup>*\<^sup>* s s'" "inv s" "spent k s"
  shows "inv s' \<and> spent k s'"
  using assms by (induction rule: rtranclp_induct) (auto intro: step_inv step_spent)

lemma steps_inv: "\<lbrakk>step\<^sup>*\<^sup>* s s'; inv s\<rbrakk> \<Longrightarrow> inv s'"
  by (induction rule: rtranclp_induct) (auto intro: step_inv)

lemma spent_never_used:
  assumes "inv s" "spent k s" "step\<^sup>*\<^sup>* s s'" "legal env"
  shows "\<exists>e. fst (mark_used env n k s') = Inl e"
proof (cases "mark_used env n k s'")
  case (Pair r s'')
  then show ?thesis
    using steps_spent[OF assms(3,1,2)] mark_used_spends[of s' env n k _ s''] assms(4) by (cases r) auto
qed

lemma used_once:
  assumes "inv s" "legal env" "mark_used env n k s = (Inr l, s1)" "step\<^sup>*\<^sup>* s1 s2" "legal env'"
  shows "\<exists>e. fst (mark_used env' n' k s2) = Inl e"
  using spent_never_used[OF _ _ assms(4,5)] mark_used_spends[OF assms(1-3)]
    steps_inv[OF mark_used_steps[OF assms(1,2), of n k]] assms(1,3) by simp

lemma revoked_never_used:
  assumes "inv s" "legal env" "revoke env n k s = (Inr l, s1)" "step\<^sup>*\<^sup>* s1 s2" "legal env'"
  shows "\<exists>e. fst (mark_used env' n' k s2) = Inl e"
  using spent_never_used[OF _ _ assms(4,5)] revoke_spends[OF assms(1-3)]
    steps_inv[OF revoke_steps[OF assms(1,2), of n k]] assms(1,3) by simp

end

lemma new_lease_bounded:
  assumes "\<not> MAX_TTL_SECS < mr_requested_ttl_secs rq"
  shows "now \<le> cl_expires_at (new_lease i j now rq) \<and> cl_expires_at (new_lease i j now rq) \<le> now + seconds 300"
proof -
  let ?t = "mr_requested_ttl_secs rq"
  have "?t \<le> 300" using assms by (simp add: MAX_TTL_SECS_def not_less)
  then have u: "0 \<le> uint ?t" "uint ?t \<le> 300" by (simp_all add: word_le_def)
  then have "sint ?t = uint ?t"
    using signed_take_bit_int_eq_self[of 63 "uint ?t", OF order_trans[OF _ u(1)]] by (simp add: sint_uint)
  then show ?thesis using u by (simp add: new_lease_def seconds_def)
qed

subsection \<open>The in-memory service\<close>

definition mem_spent :: "uuid \<Rightarrow> cap_memory \<Rightarrow> bool" where
  "mem_spent k m = (\<exists>l. m k = Some l \<and> cl_status l \<in> {CS_Used, CS_Revoked})"

text \<open>One call on the map; a new lease gets a fresh identifier.\<close>

inductive mem_step :: "cap_memory \<Rightarrow> cap_memory \<Rightarrow> bool" where
  "m (at_id env n) = None \<Longrightarrow> mem_step m (snd (mem_mint env n rq m))"
| "mem_step m (snd (mem_mark_used env n k m))"
| "mem_step m (snd (mem_revoke env n k m))"

lemma proc_run:
  "andthen (ensure b e) f s = (if b then f () s else (Inl e, s))"
  "andthen (reads r) h s = h (r s) s"
  "andthen (modifies u) f s = f () (u s)"
  "andthen (some_or x e) h s = (case x of None \<Rightarrow> (Inl e, s) | Some y \<Rightarrow> h y s)"
  by (simp_all add: ensure_def reads_def modifies_def some_or_def andthen_def ret_def raise_def split: option.splits)

lemma mem_mint_snd:
  "snd (mem_mint env n rq m) = m \<or>
   snd (mem_mint env n rq m) = m(at_id env n \<mapsto> new_lease (at_id env n) (at_id env (n + 1)) (at_now env n) rq)"
  by (simp add: mem_mint_def proc_run ret_def new_lease_def Let_def)

lemma mem_mark_used_cases:
  obtains e where "mem_mark_used env n k m = (Inl e, m)"
  | l where "m k = Some l" "cl_status l \<notin> {CS_Used, CS_Revoked}"
      "mem_mark_used env n k m = (Inr (l\<lparr>cl_status := CS_Used\<rparr>), m(k \<mapsto> l\<lparr>cl_status := CS_Used\<rparr>))"
proof (cases "m k")
  case None
  then show ?thesis using that(1) by (simp add: mem_mark_used_def proc_run)
next
  case (Some l)
  then show ?thesis
    using that(1) that(2)[OF Some]
    by (cases "cl_status l = CS_Used"; cases "cl_status l = CS_Revoked"; cases "cl_expires_at l < at_now env n")
       (simp_all add: mem_mark_used_def proc_run ret_def Let_def)
qed

lemma mem_revoke_cases:
  obtains "mem_revoke env n k m = (Inl CE_NotFound, m)"
  | l l' where "m k = Some l" "cl_status l' = CS_Revoked" "mem_revoke env n k m = (Inr l', m(k \<mapsto> l'))"
  by (cases "m k") (auto simp: mem_revoke_def proc_run ret_def Let_def)

lemma mem_step_spent:
  assumes "mem_step m m'" "mem_spent k m"
  shows "mem_spent k m'"
  using assms
proof (induction rule: mem_step.induct)
  case (1 m env n rq)
  then show ?case using mem_mint_snd[of env n rq m] by (auto simp: mem_spent_def)
next
  case (2 m env n k')
  then show ?case
    by (cases rule: mem_mark_used_cases[of env n k' m]) (auto simp: mem_spent_def)
next
  case (3 m env n k')
  then show ?case
    by (cases rule: mem_revoke_cases[of env n k' m]) (auto simp: mem_spent_def)
qed

interpretation mem: capability_service "\<lambda>_. True" mem_step "\<lambda>_. True" mem_spent mem_mint mem_mark_used mem_revoke
proof unfold_locales
  fix env n k m l m' assume "mem_mark_used env n k m = (Inr l, m')"
  then show "\<not> mem_spent k m \<and> mem_spent k m'"
    by (cases rule: mem_mark_used_cases[of env n k m]) (auto simp: mem_spent_def)
next
  fix env n k m l m' assume "mem_revoke env n k m = (Inr l, m')"
  then show "mem_spent k m'"
    by (cases rule: mem_revoke_cases[of env n k m]) (auto simp: mem_spent_def)
next
  fix env n rq m resp m' assume "mem_mint env n rq m = (Inr resp, m')"
  then have "\<not> MAX_TTL_SECS < mr_requested_ttl_secs rq"
    and "mp_lease resp = new_lease (at_id env n) (at_id env (n + 1)) (at_now env n) rq"
    by (auto simp: mem_mint_def proc_Inr Let_def)
  then show "cl_status (mp_lease resp) = CS_Active \<and> cl_issued_at (mp_lease resp) \<le> cl_expires_at (mp_lease resp) \<and>
      cl_expires_at (mp_lease resp) \<le> cl_issued_at (mp_lease resp) + seconds 300"
    using new_lease_bounded[of rq "at_now env n"] by (simp add: new_lease_def)
qed (auto intro: mem_step_spent mem_step.intros)

subsection \<open>The store-backed service\<close>

definition db_step :: "gstate \<Rightarrow> gstate \<Rightarrow> bool" where
  "db_step g g' = (\<exists>d. store_step (g_db g) d \<and> g' = g\<lparr>g_db := d\<rparr>)"

lemma db_steps_lift: "store_step\<^sup>*\<^sup>* d d' \<Longrightarrow> g_db g = d \<Longrightarrow> db_step\<^sup>*\<^sup>* g (g\<lparr>g_db := d'\<rparr>)"
proof (induction rule: rtranclp_induct)
  case (step d1 d2)
  then have "db_step (g\<lparr>g_db := d1\<rparr>) (g\<lparr>g_db := d2\<rparr>)" by (auto simp: db_step_def)
  then show ?case using step by (meson rtranclp.rtrancl_into_rtrancl)
qed auto

lemma db_steps_of_spec:
  assumes "spec (\<lambda>g. g_calls g = cs) m (\<lambda>_ g. g_calls g = cs) (\<lambda>g. g_calls g = cs)" "store_wf (g_db g)" "g_calls g = cs"
  shows "db_step\<^sup>*\<^sup>* g (snd (m g))"
proof -
  have "snd (m g) = g\<lparr>g_db := g_db (snd (m g))\<rparr>"
    using spec_run[OF assms] assms(3) by (cases "snd (m g)"; cases g) simp
  then show ?thesis using db_steps_lift[of "g_db g" "g_db (snd (m g))" g] spec_run[OF assms] by simp
qed

lemma stored_lease:
  assumes "get_capability (g_db g) k = Some l"
  shows "cl_capability_id l = k \<and> has_lease l g"
proof -
  have "cl_capability_id l = k" using assms by (auto simp: get_capability_def dest: tget_key)
  then show ?thesis using assms by (simp add: has_lease_def)
qed

lemma spec_cap_load:
  assumes "others_ok env" "lasting P" "\<And>g. P g \<Longrightarrow> E g"
  shows "spec P (cap_load env n k) (\<lambda>l g. P g \<and> cl_capability_id l = k \<and> has_lease l g \<and> get_capability (g_db g) k = Some l) E"
  unfolding cap_load_def
proof (rule spec_andthen[OF spec_map_err[OF spec_db_read[OF assms]]])
  fix r
  show "spec (\<lambda>g. P g \<and> r = get_capability (g_db g) k) (some_or r CE_NotFound)
      (\<lambda>l g. P g \<and> cl_capability_id l = k \<and> has_lease l g \<and> get_capability (g_db g) k = Some l) E"
    by (rule spec_conseq[OF spec_some_or[where P = "\<lambda>g. P g \<and> r = get_capability (g_db g) k" and E = E]])
       (auto simp: assms(3) dest: stored_lease)
qed

lemma spec_cap_cas_lost:
  assumes "others_ok env" "lasting P" "\<And>g. P g \<Longrightarrow> E g"
  shows "spec P (cap_cas_lost env n k) Q E"
  unfolding cap_cas_lost_def
  by (rule spec_andthen[OF spec_cap_load[OF assms]]) (auto intro!: spec_if spec_raise simp: assms(3))

text \<open>The conditional update of a lease: it wins only on an active one.\<close>

lemma spec_cas:
  assumes "others_ok env" "lasting P" "\<And>g. P g \<Longrightarrow> E g"
    and step: "\<And>d. store_step\<^sup>*\<^sup>* d (snd (m d))"
    and won: "\<And>d d'. m d = (Inr True, d') \<Longrightarrow>
      (\<exists>c. get_capability d k = Some c \<and> cl_status c = CS_Active) \<and>
      (\<exists>c. get_capability d' k = Some c \<and> cl_status c \<noteq> CS_Active)"
  shows "spec P (map_err h (db_op env n m))
    (\<lambda>won g. P g \<and> (won \<longrightarrow> spent k g)) E"
proof (rule spec_map_err, rule spec_db_op[OF assms(1,2)])
  have keep: "P (g\<lparr>g_db := d\<rparr>)" if "store_wf (g_db g)" "P g" "m (g_db g) = (r, d)" for g r d
    using assms(2) step[of "g_db g"] that by (simp add: lasting_def)
  show "P (g\<lparr>g_db := d\<rparr>) \<and> (b \<longrightarrow> spent k (g\<lparr>g_db := d\<rparr>))"
    if "store_wf (g_db g)" "P g" "m (g_db g) = (Inr b, d)" for g b d
    using keep[OF that] won[of "g_db g" d] that(3) by (cases b) (auto simp: spent_def)
  show "E (g\<lparr>g_db := d\<rparr>)" if "store_wf (g_db g)" "P g" "m (g_db g) = (Inl e, d)" for g e d
    using keep[OF that] assms(3) by blast
qed (use step assms(3) in auto)

lemma cas_use_won:
  "capability_update_status_if_active now k CS_Used d = (Inr True, d') \<Longrightarrow>
     (\<exists>c. get_capability d k = Some c \<and> cl_status c = CS_Active) \<and>
     (\<exists>c. get_capability d' k = Some c \<and> cl_status c \<noteq> CS_Active)"
  by (auto simp: capability_update_status_if_active_def capability_cas_Inr get_capability_tupd capability_active_def)

lemma cas_revoke_won:
  "capability_revoke_if_active k t d = (Inr True, d') \<Longrightarrow>
     (\<exists>c. get_capability d k = Some c \<and> cl_status c = CS_Active) \<and>
     (\<exists>c. get_capability d' k = Some c \<and> cl_status c \<noteq> CS_Active)"
  by (auto simp: capability_revoke_if_active_def capability_cas_Inr get_capability_tupd capability_active_def)

lemma spec_cap_mark_used:
  assumes ok: "others_ok env" and P: "lasting P" "\<And>g. P g \<Longrightarrow> E g"
  shows "spec P (cap_mark_used env n k) (\<lambda>_ g. P g \<and> spent k g) E"
  unfolding cap_mark_used_def
  apply (rule spec_andthen[OF spec_conseq[OF spec_cap_load[OF ok P], where Q' = "\<lambda>_. P" and E' = E and P' = P]])
       apply (simp_all add: P)
  apply (rule then_ensure, erule P)+
  apply (rule spec_andthen[OF spec_cas[OF ok P]], assumption)
    apply (rule r_into_rtranclp, rule Capability_use)
   apply (erule cas_use_won)
  apply (rule spec_if)
   apply (rule spec_conseq[OF spec_cap_cas_lost[OF ok P, where Q = "\<lambda>_ _. False"]], simp_all)
  apply (rule spec_conseq[OF spec_cap_load[OF ok, where P = "\<lambda>g. P g \<and> spent k g" and E = E]])
      apply (simp_all add: P)
  done

lemma spec_cap_revoke:
  assumes ok: "others_ok env" and P: "lasting P" "\<And>g. P g \<Longrightarrow> E g"
  shows "spec P (cap_revoke env n k) (\<lambda>_ g. P g \<and> spent k g) E"
  unfolding cap_revoke_def
  apply (rule spec_andthen[OF spec_conseq[OF spec_cap_load[OF ok P], where Q' = "\<lambda>_. P" and E' = E and P' = P]])
       apply (simp_all add: P)
  apply (rule then_ensure, erule P)+
  apply (rule spec_andthen[OF spec_cas[OF ok P]], assumption)
    apply (rule r_into_rtranclp, rule Capability_revoke)
   apply (erule cas_revoke_won)
  apply (rule spec_if)
   apply (rule spec_conseq[OF spec_cap_cas_lost[OF ok P, where Q = "\<lambda>_ _. False"]], simp_all)
  apply (rule spec_conseq[OF spec_cap_load[OF ok, where P = "\<lambda>g. P g \<and> spent k g" and E = E]])
      apply (simp_all add: P)
  done

text \<open>A spent lease is never used again, also under interference.\<close>

lemma spec_cap_mark_used_spent:
  assumes ok: "others_ok env"
  shows "spec (spent k) (cap_mark_used env n k) (\<lambda>_ _. False) (\<lambda>_. True)"
  unfolding cap_mark_used_def
  apply (rule spec_andthen[OF spec_conseq[OF spec_cap_load[OF ok, where P = "spent k" and E = "\<lambda>_. True"],
        where Q' = "\<lambda>_. spent k" and E' = "\<lambda>_. True" and P' = "spent k"]])
       apply simp_all
  apply (rule then_ensure, simp)+
  apply (rule spec_andthen[OF spec_map_err[OF spec_db_op[OF ok, where P = "spent k" and Q = "\<lambda>won g. spent k g \<and> \<not> won"]]])
        apply simp
       apply (rule r_into_rtranclp, rule Capability_use)
      apply (auto simp: spent_def capability_update_status_if_active_def capability_cas_def capability_active_def)[1]
     apply simp_all
  apply (intro impI, rule spec_conseq[OF spec_cap_cas_lost[OF ok, where P = "spent k" and E = "\<lambda>_. True" and Q = "\<lambda>_ _. False"]], simp_all)
  done

lemma cap_mint_Inr:
  assumes "cap_mint env n rq g = (Inr resp, g')"
  shows "\<not> MAX_TTL_SECS < mr_requested_ttl_secs rq \<and>
    mp_lease resp = new_lease (at_id env n) (at_id env (n + 1)) (at_now env n) rq"
  using assms by (auto simp: cap_mint_def proc_Inr Let_def)

lemma db_steps_history:
  "\<lbrakk>db_step\<^sup>*\<^sup>* g g'\<rbrakk> \<Longrightarrow> store_step\<^sup>*\<^sup>* (g_db g) (g_db g')"
  by (induction rule: rtranclp_induct) (auto simp: db_step_def intro: rtranclp.rtrancl_into_rtrancl)

interpretation cap: capability_service "\<lambda>g. store_wf (g_db g)" db_step others_ok spent cap_mint cap_mark_used cap_revoke
proof unfold_locales
  fix g g' :: gstate assume "store_wf (g_db g)" "db_step g g'"
  then show "store_wf (g_db g')" using store_step_wf by (auto simp: db_step_def)
next
  fix g g' k assume "store_wf (g_db g)" "db_step g g'" "spent k g"
  then show "spent k g'"
    using lasting_spent[of k] unfolding lasting_def db_step_def by (auto intro: r_into_rtranclp)
next
  fix g :: gstate and env n k assume g: "store_wf (g_db g)" "others_ok env"
  show "db_step\<^sup>*\<^sup>* g (snd (cap_mark_used env n k g))"
    by (rule db_steps_of_spec[OF spec_conseq[OF spec_cap_mark_used[OF g(2), where
          P = "\<lambda>h. g_calls h = g_calls g" and E = "\<lambda>h. g_calls h = g_calls g"]]]) (auto simp: g)
  show "db_step\<^sup>*\<^sup>* g (snd (cap_revoke env n k g))"
    by (rule db_steps_of_spec[OF spec_conseq[OF spec_cap_revoke[OF g(2), where
          P = "\<lambda>h. g_calls h = g_calls g" and E = "\<lambda>h. g_calls h = g_calls g"]]]) (auto simp: g)
next
  fix g env n k l g' assume g: "store_wf (g_db g)" "others_ok env" "cap_mark_used env n k g = (Inr l, g')"
  show "\<not> spent k g \<and> spent k g'"
    using spec_result[OF spec_cap_mark_used_spent[OF g(2)] g(1) _ g(3)]
      spec_result[OF spec_cap_mark_used[OF g(2), where P = "\<lambda>_. True" and E = "\<lambda>_. True"] g(1) _ g(3)] by auto
next
  fix g env n k l g' assume g: "store_wf (g_db g)" "others_ok env" "cap_revoke env n k g = (Inr l, g')"
  show "spent k g'"
    using spec_result[OF spec_cap_revoke[OF g(2), where P = "\<lambda>_. True" and E = "\<lambda>_. True"] g(1) _ g(3)] by auto
next
  fix env n rq g resp g' assume "cap_mint env n rq g = (Inr resp, g')"
  then show "cl_status (mp_lease resp) = CS_Active \<and> cl_issued_at (mp_lease resp) \<le> cl_expires_at (mp_lease resp) \<and>
      cl_expires_at (mp_lease resp) \<le> cl_issued_at (mp_lease resp) + seconds 300"
    using cap_mint_Inr new_lease_bounded[of rq "at_now env n"] by (auto simp: new_lease_def)
qed

subsection \<open>Properties\<close>

text \<open>The store-backed service uses a lease at most once.  After a successful
  \<open>mark_used\<close>, every later \<open>mark_used\<close> of the same lease fails, whatever other
  requests do during and between the two calls.\<close>
theorem store_mark_used_once:
  assumes "store_step\<^sup>*\<^sup>* empty_database (g_db g)" "others_ok env1" "others_ok env2"
    and "cap_mark_used env1 n1 k g = (Inr l, g1)" "store_step\<^sup>*\<^sup>* (g_db g1) d"
  shows "\<exists>e. fst (cap_mark_used env2 n2 k (g1\<lparr>g_db := d\<rparr>)) = Inl e"
  using cap.used_once[OF reachable_wf[OF assms(1)] assms(2,4) db_steps_lift[OF assms(5) refl] assms(3)] .

text \<open>The in-memory service uses a lease at most once, also when other
  calls, revocations and mints with fresh identifiers, come in between.\<close>
theorem memory_mark_used_once:
  assumes "mem_mark_used env1 n1 k m = (Inr l, m1)" "mem_step\<^sup>*\<^sup>* m1 m2"
  shows "\<exists>e. fst (mem_mark_used env2 n2 k m2) = Inl e"
  using mem.used_once[OF _ _ assms] by simp

end
