(* ===== verification/Prepare.thy ===== *)
theory Prepare
  imports Gateway
begin

text \<open>
  \<open>POST /v1/executions/{execution_id}/prepare\<close>
  (\<open>crates/ferrum-gateway/src/execution/prepare.rs\<close>): the rollback service
  prepares a contract for the execution's proposal, the contract is stored and
  linked to the execution, and the two preparation events are appended.
\<close>

record PrepareExecutionResponse =
  per_execution_id :: uuid
  per_prepared :: bool
  per_rollback_contract :: RollbackContract
  per_warnings :: "string list"

text \<open>The guards before the adapter is called; the result is the execution and
  the request for the rollback service.\<close>

definition prepare_checks ::
  "gateway \<Rightarrow> env \<Rightarrow> AuthActor option \<Rightarrow> string \<Rightarrow> (ExecutionRecord \<times> RollbackPrepareRequest) gw" where
  "prepare_checks gw env actor path =
    andthen (load_owned_execution gw env actor path) (\<lambda>x.
    andthen (ensure (ex_state x \<in> {ES_Authorized, ES_Prepared})
      (conflict (''execution in state '' @ quoted (execution_state_text (ex_state x)) @
         '' cannot be prepared; only '' @ quoted (execution_state_text ES_Authorized) @ '' or '' @
         quoted (execution_state_text ES_Prepared) @ '' are preparable''))) (\<lambda>_.
    andthen (fetch env 2 (\<lambda>d. get_proposal d (ex_proposal_id x))
      (problem 404 NotFound ''proposal not found'')) (\<lambda>p.
    andthen (fetch env 3 (\<lambda>d. get_intent d (ex_intent_id x))
      (problem 404 NotFound ''intent not found'')) (\<lambda>i.
    andthen (ensure (in_approval_mode i \<noteq> AM_DraftOnly)
      (problem 403 PolicyDenied ''draft-only intent cannot proceed to prepare'')) (\<lambda>_.
    andthen (of_result (wrap 400 ValidationError InferenceMsg
      (build_prepare_request_for_proposal (at_id env 4) (ex_intent_id x) (ex_execution_id x)
         (ap_requested_rollback_class p) p (in_resource_scope i)))) (\<lambda>rq.
    ret (x, rq)))))))"

definition prepare_event ::
  "env \<Rightarrow> LifecycleOutboxRecord \<Rightarrow> ExecutionRecord \<Rightarrow> RollbackContract \<Rightarrow> ProvenanceEvent" where
  "prepare_event env outbox x c =
    gateway_event (at_id env 7) (at_now env 7) SideEffectPrepared
      (object_ref OT_RollbackContract (rc_contract_id c) ''Execution prepared with rollback contract'')
      x (Some (rc_contract_id c)) (lifecycle_event_metadata outbox [])"

definition tool_prepared_event ::
  "env \<Rightarrow> LifecycleOutboxRecord \<Rightarrow> ExecutionRecord \<Rightarrow> RollbackContract \<Rightarrow> ProvenanceEvent" where
  "tool_prepared_event env outbox x c =
    gateway_event (at_id env 10) (at_now env 10) ToolCallPrepared
      (object_ref OT_SideEffect (ex_execution_id x) ''Tool call prepared for execution'')
      x (Some (rc_contract_id c)) (lifecycle_event_metadata outbox [])"

definition prepare_execution ::
  "gateway \<Rightarrow> env \<Rightarrow> AuthActor option \<Rightarrow> string \<Rightarrow> PrepareExecutionResponse gw" where
  "prepare_execution gw env actor path =
    andthen (prepare_checks gw env actor path) (\<lambda>(x, rq).
    andthen (adapter_call (PrepareCall rq)
      (rollback_prepare (gw_rollback gw) (at_id env 5) (at_now env 5) rq)) (\<lambda>r.
    andthen (of_result (wrap 500 Internal RollbackMsg r)) (\<lambda>response.
    let c = rs_contract response;
        x' = x\<lparr>ex_rollback_contract_id := Some (rc_contract_id c)\<rparr> in
    andthen (or_internal (record_lifecycle_transition_outbox_with_obligations env 6 ''prepare''
      x x' None (Some c) [SideEffectPrepared, ToolCallPrepared])) (\<lambda>outbox.
    andthen (settle_event env 7 outbox (prepare_event env outbox x c)) (\<lambda>_.
    andthen (settle_event env 10 outbox (tool_prepared_event env outbox x c)) (\<lambda>_.
    andthen (finish_outbox env 13 outbox) (\<lambda>_.
    ret \<lparr>per_execution_id = ex_execution_id x, per_prepared = rs_accepted response,
         per_rollback_contract = c, per_warnings = rs_warnings response\<rparr>)))))))"

end
