(* ===== verification/Verify.thy ===== *)
theory Verify
  imports Gateway
begin

text \<open>
  \<open>POST /v1/executions/{execution_id}/verify\<close>
  (\<open>crates/ferrum-gateway/src/execution/verify.rs\<close>): the adapter reports whether the
  side effect was applied.  A verified execution is committed at once when its
  contract has \<open>auto_commit\<close>, which an irreversible (R3) contract never has here;
  an indeterminate outcome leads both records to \<open>RecoveryRequired\<close>.
\<close>

record VerifyExecutionResponse =
  ver_execution_id :: uuid
  ver_verified :: bool
  ver_recovery_required :: bool
  ver_rollback_contract :: RollbackContract
  ver_warnings :: "string list"

definition verify_state_ok :: "RollbackContract \<Rightarrow> ExecutionRecord \<Rightarrow> bool" where
  "verify_state_ok c x =
     (rc_state c = RS_ExecutedAwaitingVerify \<and> ex_state x \<in> {ES_Running, ES_AwaitingVerification})"

definition expect_hash :: "string \<Rightarrow> CheckSpec \<Rightarrow> CheckSpec" where
  "expect_hash digest ck =
    (if ck_check_type ck = FileHashMatches
     then ck\<lparr>ck_config := jm_insert ''expected_hash'' (JStr digest) (ck_config ck)\<rparr> else ck)"

fun with_after_hash :: "string \<Rightarrow> RollbackTarget \<Rightarrow> RollbackTarget" where
  "with_after_hash digest (RTgt_FilePath path before after) = RTgt_FilePath path before (Some digest)"
| "with_after_hash digest t = t"

text \<open>The contract handed to the adapter.\<close>

definition verify_contract :: "ExecutionRecord \<Rightarrow> RollbackContract \<Rightarrow> RollbackContract" where
  "verify_contract x c =
    (let c1 = (if rc_rollback_class c = R3IrreversibleHighConsequence
               then c\<lparr>rc_auto_commit := False\<rparr> else c)
     in (case ex_result_digest x of
           None \<Rightarrow> c1
         | Some digest \<Rightarrow>
           c1\<lparr>rc_verify_checks := map (expect_hash digest) (rc_verify_checks c1),
              rc_target := with_after_hash digest (rc_target c1)\<rparr>))"

definition verify_reason :: string where
  "verify_reason = ''verification outcome is indeterminate; execution requires manual review''"

definition verify_indeterminate ::
  "env \<Rightarrow> ExecutionRecord \<Rightarrow> RollbackContract \<Rightarrow> RollbackContract \<Rightarrow> (nat \<times> VerifyExecutionResponse) gw" where
  "verify_indeterminate env x c cv =
    (let c' = cv\<lparr>rc_state := RS_RecoveryRequired,
                rc_metadata := jm_insert ''verify_outcome'' (JStr ''indeterminate'')
                  (jm_insert ''recovery_required'' (JBool True) (rc_metadata cv))\<rparr>;
         x' = x\<lparr>ex_state := ES_RecoveryRequired\<rparr> in
    andthen (or_internal (record_lifecycle_transition_outbox_with_obligations env 4 ''verify-recovery''
      x x' (Some c) (Some c') [ErrorRaised])) (\<lambda>outbox.
    andthen (settle_event env 5 outbox
      (gateway_event (at_id env 5) (at_now env 5) ErrorRaised
        (object_ref OT_RollbackContract (rc_contract_id c') ''Verify outcome indeterminate; recovery required'')
        x' (Some (rc_contract_id c')) (lifecycle_event_metadata outbox
          [(''recovery_required'', JBool True), (''bounded_reason'', JStr verify_reason)]))) (\<lambda>_.
    ret (202, \<lparr>ver_execution_id = ex_execution_id x, ver_verified = False,
               ver_recovery_required = True, ver_rollback_contract = c',
               ver_warnings = [verify_reason]\<rparr>))))"

definition verified_execution :: "bool \<Rightarrow> bool \<Rightarrow> ExecutionRecord \<Rightarrow> ExecutionRecord" where
  "verified_execution verified auto_commit x =
    (if verified then (if auto_commit then x\<lparr>ex_state := ES_Committed\<rparr> else x)
     else x\<lparr>ex_state := ES_Failed\<rparr>)"

definition verify_committed_event ::
  "env \<Rightarrow> LifecycleOutboxRecord \<Rightarrow> ExecutionRecord \<Rightarrow> RollbackContract \<Rightarrow> ProvenanceEvent" where
  "verify_committed_event env outbox x c =
    gateway_event (at_id env 9) (at_now env 9) SideEffectCommitted
      (object_ref OT_RollbackContract (rc_contract_id c) ''Side effect committed'')
      x (Some (rc_contract_id c)) (lifecycle_event_metadata outbox [])"

definition verify_conclusive ::
  "env \<Rightarrow> bool \<Rightarrow> ExecutionRecord \<Rightarrow> RollbackContract \<Rightarrow> RollbackContract \<Rightarrow> (nat \<times> VerifyExecutionResponse) gw" where
  "verify_conclusive env verified x c cv =
    (let c' = cv\<lparr>rc_state := (if verified then RS_Verified else RS_Failed)\<rparr>;
         commits = (verified \<and> rc_auto_commit c');
         x' = verified_execution verified (rc_auto_commit c') x in
    andthen (or_internal (record_lifecycle_transition_outbox_with_obligations env 4 ''verify''
      x x' (Some c) (Some c')
      (if commits then [SideEffectVerified, SideEffectCommitted] else [SideEffectVerified]))) (\<lambda>outbox.
    andthen (settle_event env 5 outbox
      (gateway_event (at_id env 5) (at_now env 5) SideEffectVerified
        (object_ref OT_RollbackContract (rc_contract_id c') ''Side effect verified'')
        x' (Some (rc_contract_id c')) (lifecycle_event_metadata outbox
          [(''verified'', JBool verified)]))) (\<lambda>_.
    andthen (if commits then settle_event env 9 outbox (verify_committed_event env outbox x' c')
             else ret ()) (\<lambda>_.
    andthen (finish_outbox env 12 outbox) (\<lambda>_.
    ret (200, \<lparr>ver_execution_id = ex_execution_id x, ver_verified = verified,
               ver_recovery_required = False, ver_rollback_contract = c', ver_warnings = []\<rparr>))))))"

definition verify_execution ::
  "gateway \<Rightarrow> env \<Rightarrow> AuthActor option \<Rightarrow> string \<Rightarrow> (nat \<times> VerifyExecutionResponse) gw" where
  "verify_execution gw env actor path =
    andthen (load_owned_execution gw env actor path) (\<lambda>x.
    andthen (load_contract env 2 x) (\<lambda>c.
    andthen (ensure (verify_state_ok c x)
      (conflict (''verify not allowed in current state: contract='' @ rollback_state_text (rc_state c) @
         '', execution='' @ execution_state_text (ex_state x)))) (\<lambda>_.
    let vc = verify_contract x c in
    andthen (adapter_call (VerifyCall vc) (rollback_verify_with_outcome (gw_rollback gw) vc)) (\<lambda>r.
    andthen (of_result (wrap 500 Internal RollbackMsg r)) (\<lambda>receipt.
    let cv = vc\<lparr>rc_metadata := jm_insert ''verify_outcome_receipt''
                 (JObj (vo_adapter_metadata receipt)) (rc_metadata vc)\<rparr> in
    case vo_outcome receipt of
      Indeterminate \<Rightarrow> verify_indeterminate env x c cv
    | Applied \<Rightarrow> verify_conclusive env True x c cv
    | NotApplied \<Rightarrow> verify_conclusive env False x c cv)))))"

end
