(* ===== verification/Finish.thy ===== *)
theory Finish
  imports Gateway
begin

text \<open>
  The handlers that end an execution: the explicit commit (\<open>commit.rs\<close>), the
  cancellation before any side effect (\<open>cancel.rs\<close>) and the compensation
  (\<open>compensate.rs\<close>), of \<open>crates/ferrum-gateway/src/execution\<close>.
\<close>

subsection \<open>commit.rs\<close>

record CommitExecutionResponse =
  cer_execution_id :: uuid
  cer_committed :: bool
  cer_rollback_contract :: RollbackContract
  cer_warnings :: "string list"

definition verified_query :: "uuid \<Rightarrow> ProvenanceQueryRequest" where
  "verified_query k =
    \<lparr>pq_intent_id = None, pq_execution_id = Some k, pq_capability_id = None,
     pq_event_kind = Some SideEffectVerified, pq_since = None, pq_until = None, pq_edge_types = []\<rparr>"

definition commit_checks ::
  "gateway \<Rightarrow> env \<Rightarrow> AuthActor option \<Rightarrow> string \<Rightarrow> (ExecutionRecord \<times> RollbackContract) gw" where
  "commit_checks gw env actor path =
    andthen (load_owned_execution gw env actor path) (\<lambda>x.
    andthen (ensure (\<not> execution_is_terminal_for_commit (ex_state x))
      (conflict (''commit not allowed: execution is already in terminal state '' @
         execution_state_text (ex_state x)))) (\<lambda>_.
    andthen (load_contract env 2 x) (\<lambda>c.
    andthen (ensure (rc_state c = RS_Verified)
      (conflict (''commit not allowed: rollback contract is in state '' @
         rollback_state_text (rc_state c) @ '', expected Verified''))) (\<lambda>_.
    andthen (ensure (\<not> rc_auto_commit c)
      (conflict (''commit not allowed: contract was prepared with auto_commit=true '' @
         ''(execution was already auto-committed by verify)''))) (\<lambda>_.
    andthen (or_internal (db_read env 3 (provenance_query (verified_query (ex_execution_id x))))) (\<lambda>events.
    andthen (ensure (events \<noteq> [])
      (conflict ''commit not allowed: no SideEffectVerified provenance event found'')) (\<lambda>_.
    ret (x, c))))))))"

definition commit_execution ::
  "gateway \<Rightarrow> env \<Rightarrow> AuthActor option \<Rightarrow> string \<Rightarrow> CommitExecutionResponse gw" where
  "commit_execution gw env actor path =
    andthen (commit_checks gw env actor path) (\<lambda>(x, c).
    let c' = c\<lparr>rc_state := RS_Committed\<rparr>; x' = x\<lparr>ex_state := ES_Committed\<rparr> in
    andthen (or_internal (record_lifecycle_transition_outbox env 4 ''commit''
      x x' (Some c) (Some c') SideEffectCommitted)) (\<lambda>outbox.
    andthen (settle_transition env 5 outbox
      (gateway_event (at_id env 5) (at_now env 5) SideEffectCommitted
        (object_ref OT_RollbackContract (rc_contract_id c') ''Side effect committed'')
        x' (Some (rc_contract_id c')) (lifecycle_event_metadata outbox []))) (\<lambda>_.
    ret \<lparr>cer_execution_id = ex_execution_id x, cer_committed = True,
         cer_rollback_contract = c', cer_warnings = []\<rparr>)))"

subsection \<open>cancel.rs\<close>

definition cancel_event :: "env \<Rightarrow> ExecutionState \<Rightarrow> ExecutionRecord \<Rightarrow> ProvenanceEvent" where
  "cancel_event env prev x =
    gateway_event (at_id env 5) (at_now env 5) SideEffectRolledBack
      (object_ref OT_SideEffect (ex_execution_id x) ''Execution canceled'')
      x (ex_rollback_contract_id x)
      [(''previous_state'', JStr (execution_state_text prev)), (''lineage_parent_optional'', JBool True)]"

definition cancel_execution ::
  "gateway \<Rightarrow> env \<Rightarrow> AuthActor option \<Rightarrow> string \<Rightarrow> CancelExecutionResponse gw" where
  "cancel_execution gw env actor path =
    andthen (load_owned_execution gw env actor path) (\<lambda>x.
    andthen (ensure (execution_is_cancelable_pre_side_effect (ex_state x))
      (conflict ''cancel not allowed: execution is not in a cancelable pre-side-effect state'')) (\<lambda>_.
    let x' = x\<lparr>ex_state := ES_Canceled, ex_finished_at := Some (at_now env 2)\<rparr> in
    andthen (or_internal (record_lifecycle_transition_outbox env 3 ''cancel''
      x x' None None SideEffectRolledBack)) (\<lambda>outbox.
    andthen (append_audit_checked gw env 4) (\<lambda>_.
    andthen (settle_transition env 5 outbox (cancel_event env (ex_state x) x')) (\<lambda>_.
    ret \<lparr>cr_execution_id = ex_execution_id x, cr_previous_state = ex_state x,
         cr_current_state = ES_Canceled, cr_canceled_at = at_now env 9\<rparr>)))))"

subsection \<open>compensate.rs\<close>

record CompensateExecutionResponse =
  coer_execution_id :: uuid
  coer_compensated :: bool
  coer_recovery_required :: bool
  coer_rollback_contract :: RollbackContract
  coer_warnings :: "string list"

definition compensate_state_ok :: "RollbackContract \<Rightarrow> ExecutionRecord \<Rightarrow> bool" where
  "compensate_state_ok c x =
     ((rc_state c = RS_ExecutedAwaitingVerify \<and> ex_state x \<in> {ES_Running, ES_AwaitingVerification}) \<or>
      (rc_state c = RS_RecoveryRequired \<and> ex_state x = ES_RecoveryRequired))"

definition from_recovery :: "RollbackContract \<Rightarrow> ExecutionRecord \<Rightarrow> bool" where
  "from_recovery c x = (rc_state c = RS_RecoveryRequired \<and> ex_state x = ES_RecoveryRequired)"

definition insert_if :: "bool \<Rightarrow> string \<Rightarrow> json \<Rightarrow> JsonMap \<Rightarrow> JsonMap" where
  "insert_if b k v m = (if b then jm_insert k v m else m)"

definition compensated_contract ::
  "RecoveryReceipt \<Rightarrow> ExecutionRecord \<Rightarrow> RollbackContract \<Rightarrow> RollbackContract" where
  "compensated_contract receipt x c =
    (let incomplete = \<not> rr_recovered receipt; recov = from_recovery c x in
     c\<lparr>rc_state := (if incomplete then (if recov then RS_RecoveryRequired else RS_Failed)
                    else RS_Compensated),
       rc_metadata :=
         insert_if (rr_adapter_metadata receipt \<noteq> []) ''recovery_adapter_metadata''
           (JObj (rr_adapter_metadata receipt))
        (insert_if (incomplete \<and> recov) ''recovery_required'' (JBool True)
        (insert_if incomplete ''recovery_incomplete'' (JBool True)
        (jm_insert ''recovery_action'' (JStr ''compensate'')
        (jm_insert ''recovered'' (JBool (rr_recovered receipt)) (rc_metadata c)))))\<rparr>)"

definition compensated_execution ::
  "timestamp \<Rightarrow> RecoveryReceipt \<Rightarrow> RollbackContract \<Rightarrow> ExecutionRecord \<Rightarrow> ExecutionRecord" where
  "compensated_execution now receipt c x =
     x\<lparr>ex_state := (if \<not> rr_recovered receipt
                    then (if from_recovery c x then ES_RecoveryRequired else ES_Failed)
                    else ES_Compensated),
       ex_finished_at := Some now\<rparr>"

definition compensate_metadata :: "RecoveryReceipt \<Rightarrow> bool \<Rightarrow> JsonMap" where
  "compensate_metadata receipt recov =
    (let incomplete = \<not> rr_recovered receipt in
     insert_if (rr_adapter_metadata receipt \<noteq> []) ''recovery_adapter_metadata''
       (JObj (rr_adapter_metadata receipt))
    (insert_if (\<not> incomplete \<and> recov) ''lineage_parent_optional'' (JBool True)
    (insert_if incomplete ''recovery_state'' (JStr ''incomplete'')
    (insert_if incomplete ''recovery_incomplete'' (JBool True)
     [(''recovered'', JBool (rr_recovered receipt)), (''recovery_action'', JStr ''compensate'')]))))"

definition compensate_finish ::
  "env \<Rightarrow> ExecutionRecord \<Rightarrow> RollbackContract \<Rightarrow> RecoveryReceipt \<Rightarrow> (nat \<times> CompensateExecutionResponse) gw" where
  "compensate_finish env x c receipt =
    (let incomplete = \<not> rr_recovered receipt; recov = from_recovery c x;
         kind = (if incomplete then ErrorRaised else SideEffectCompensated);
         c' = compensated_contract receipt x c;
         x' = compensated_execution (at_now env 3) receipt c x in
    andthen (or_internal (record_lifecycle_transition_outbox env 4 ''compensate''
      x x' (Some c) (Some c') kind)) (\<lambda>outbox.
    andthen (settle_transition env 5 outbox
      (gateway_event (at_id env 5) (at_now env 5) kind
        (object_ref OT_RollbackContract (rc_contract_id c')
          (if incomplete then ''Recovery incomplete after compensation'' else ''Execution compensated''))
        x' (Some (rc_contract_id c')) (compensate_metadata receipt recov))) (\<lambda>_.
    ret (if incomplete \<and> recov then 202 else 200,
         \<lparr>coer_execution_id = ex_execution_id x, coer_compensated = (\<not> incomplete),
          coer_recovery_required = (incomplete \<and> recov), coer_rollback_contract = c',
          coer_warnings =
            (if incomplete then
               (if recov
                then [''recovery-required: compensation adapter did not report recovered=true; execution remains in recovery'']
                else [''recovery-incomplete: compensation adapter did not report recovered=true''])
             else [])\<rparr>))))"

definition compensate_execution ::
  "gateway \<Rightarrow> env \<Rightarrow> AuthActor option \<Rightarrow> string \<Rightarrow> (nat \<times> CompensateExecutionResponse) gw" where
  "compensate_execution gw env actor path =
    andthen (load_owned_execution gw env actor path) (\<lambda>x.
    andthen (load_contract env 2 x) (\<lambda>c0.
    andthen (ensure (compensate_state_ok c0 x)
      (conflict (''compensate not allowed in current state: contract='' @ rollback_state_text (rc_state c0) @
         '', execution='' @ execution_state_text (ex_state x)))) (\<lambda>_.
    let c = enrich_http_compensation_if_needed c0 in
    andthen (adapter_call (CompensateCall c) (rollback_compensate (gw_rollback gw) c)) (\<lambda>r.
    andthen (of_result (wrap 500 Internal RollbackMsg r)) (\<lambda>receipt.
    compensate_finish env x c receipt)))))"

end
