(* ===== verification/Execute.thy ===== *)
theory Execute
  imports Gateway
begin

text \<open>
  \<open>POST /v1/executions/{execution_id}/execute\<close>
  (\<open>crates/ferrum-gateway/src/execution/execute.rs\<close>): the last gate before a side
  effect.  The execution is claimed by a compare-and-set to \<open>Running\<close> before the
  adapter runs; an adapter error leads both records to \<open>RecoveryRequired\<close>.
\<close>

record ExecuteExecutionResponse =
  eer_execution_id :: uuid
  eer_executed :: bool
  eer_recovery_required :: bool
  eer_result_digest :: "string option"
  eer_rollback_contract :: RollbackContract
  eer_warnings :: "string list"

definition execute_state_ok :: "RollbackContract \<Rightarrow> ExecutionRecord \<Rightarrow> bool" where
  "execute_state_ok c x =
     (rc_state c = RS_Prepared \<and> ex_state x \<in> {ES_Prepared, ES_Authorized, ES_Proposed})"

definition contract_bound :: "RollbackContract \<Rightarrow> ExecutionRecord \<Rightarrow> bool" where
  "contract_bound c x =
     (rc_execution_id c = ex_execution_id x \<and> rc_intent_id c = ex_intent_id x \<and>
      rc_proposal_id c = ex_proposal_id x)"

definition unsafe_r2 :: "RollbackContract \<Rightarrow> bool" where
  "unsafe_r2 c = (rc_rollback_class c = R2Compensatable \<and> rc_action_type c \<in> {HttpMutation, SqlMutation})"

text \<open>The execution, its contract, and the guards on their states.\<close>

definition execute_load ::
  "gateway \<Rightarrow> env \<Rightarrow> AuthActor option \<Rightarrow> string \<Rightarrow> (ExecutionRecord \<times> RollbackContract) gw" where
  "execute_load gw env actor path =
    andthen (load_owned_execution gw env actor path) (\<lambda>x.
    andthen (fetch env 2 (\<lambda>d. get_intent d (ex_intent_id x))
      (problem 404 NotFound ''intent not found'')) (\<lambda>i.
    andthen (ensure (in_approval_mode i \<noteq> AM_DraftOnly)
      (problem 403 PolicyDenied ''draft-only intent cannot proceed to execute'')) (\<lambda>_.
    andthen (load_contract env 3 x) (\<lambda>c.
    andthen (ensure (execute_state_ok c x)
      (conflict (''execute not allowed in current state: contract='' @ rollback_state_text (rc_state c) @
         '', execution='' @ execution_state_text (ex_state x)))) (\<lambda>_.
    andthen (ensure (contract_bound c x)
      (problem 403 IntegrityMismatch ''rollback contract binding does not match execution'')) (\<lambda>_.
    andthen (ensure (\<not> unsafe_r2 c)
      (conflict ''R2Compensatable executions for HTTP/SQLite mutations are not supported'')) (\<lambda>_.
    ret (x, c))))))))"

definition adapter_payload :: "json \<Rightarrow> ActionProposal \<Rightarrow> ApiProblem + json" where
  "adapter_payload payload p =
    (if payload = JNull then Inr (ap_raw_arguments p)
     else if json_eq payload (ap_raw_arguments p) then Inr payload
     else Inl (problem 403 PolicyDenied
       ''execute payload must exactly match approved proposal arguments''))"

text \<open>The guards on the capability, the arguments and the lineage; the result is
  the payload for the adapter.\<close>

definition execute_authority ::
  "gateway \<Rightarrow> env \<Rightarrow> json \<Rightarrow> ExecutionRecord \<Rightarrow> json gw" where
  "execute_authority gw env payload x =
    andthen (fetch env 4 (\<lambda>d. get_capability d (ex_capability_id x))
      (problem 404 NotFound ''capability not found for execution'')) (\<lambda>cap.
    andthen (fetch env 5 (\<lambda>d. get_proposal d (ex_proposal_id x))
      (problem 404 NotFound ''proposal not found for execution'')) (\<lambda>p.
    andthen (of_result (wrap 403 IntegrityMismatch BindingMsg
      (validate_capability_proposal_binding cap p))) (\<lambda>_.
    andthen (of_result (adapter_payload payload p)) (\<lambda>args.
    andthen (of_result (wrap 403 PolicyDenied ConstraintMsg
      (validate_argument_constraints (gw_regex gw) args (cl_argument_constraints cap)))) (\<lambda>_.
    andthen (map_err (\<lambda>e. \<lparr>pb_status = 409, pb_code = Conflict, pb_message = LineageMsg e\<rparr>)
      (validate_minimum_lineage_chain env 6 x)) (\<lambda>_.
    ret args))))))"

definition claim_states :: "ExecutionState list" where
  "claim_states = [ES_Prepared, ES_Authorized, ES_Proposed]"

definition claim_running :: "env \<Rightarrow> ExecutionRecord \<Rightarrow> unit gw" where
  "claim_running env x =
    andthen (or_internal (db_op env 11
      (execution_compare_and_set_state (at_now env 11) (ex_execution_id x) claim_states ES_Running))) (\<lambda>won.
    ensure won (conflict ''execute not allowed: execution was already claimed or state changed''))"

definition recovery_reason :: string where
  "recovery_reason = ''adapter reported a recoverable error; execution requires manual review''"

definition execute_recovery ::
  "env \<Rightarrow> ExecutionRecord \<Rightarrow> RollbackContract \<Rightarrow> json \<Rightarrow> (nat \<times> ExecuteExecutionResponse) gw" where
  "execute_recovery env x c args =
    (let c' = c\<lparr>rc_state := RS_RecoveryRequired,
               rc_metadata := jm_insert ''execute_payload'' args
                 (jm_insert ''recovery_required'' (JBool True) (rc_metadata c))\<rparr>;
         x' = x\<lparr>ex_state := ES_RecoveryRequired\<rparr> in
    andthen (or_internal (record_lifecycle_transition_outbox_with_obligations env 13 ''execute-recovery''
      (x\<lparr>ex_state := ES_Running\<rparr>) x' (Some c) (Some c') [ErrorRaised])) (\<lambda>outbox.
    andthen (settle_transition env 14 outbox
      (gateway_event (at_id env 14) (at_now env 14) ErrorRaised
        (object_ref OT_SideEffect (ex_execution_id x) ''Adapter error after Running; recovery required'')
        x' (ex_rollback_contract_id x') (lifecycle_event_metadata outbox
          [(''recovery_required'', JBool True), (''bounded_reason'', JStr recovery_reason)]))) (\<lambda>_.
    ret (202, \<lparr>eer_execution_id = ex_execution_id x, eer_executed = False,
               eer_recovery_required = True, eer_result_digest = None,
               eer_rollback_contract = c', eer_warnings = [recovery_reason]\<rparr>))))"

fun executed_target :: "ExecuteReceipt \<Rightarrow> RollbackTarget \<Rightarrow> RollbackTarget" where
  "executed_target receipt (RTgt_FilePath path before after) =
     RTgt_FilePath path before (xr_result_digest receipt)"
| "executed_target receipt (RTgt_HttpRequest meth url digest) =
     RTgt_HttpRequest meth url
       (unwrap_or (Option.bind (jm_get (xr_adapter_metadata receipt) ''request_digest'') as_str) digest)"
| "executed_target receipt t = t"

definition executed_contract :: "ExecuteReceipt \<Rightarrow> json \<Rightarrow> RollbackContract \<Rightarrow> RollbackContract" where
  "executed_contract receipt args c =
    c\<lparr>rc_state := RS_ExecutedAwaitingVerify, rc_target := executed_target receipt (rc_target c),
      rc_metadata := jm_insert ''execute_payload'' args
        (merge_metadata (rc_metadata c) (xr_adapter_metadata receipt))\<rparr>"

definition execute_success ::
  "env \<Rightarrow> ExecutionRecord \<Rightarrow> RollbackContract \<Rightarrow> json \<Rightarrow> ExecuteReceipt \<Rightarrow> (nat \<times> ExecuteExecutionResponse) gw" where
  "execute_success env x c args receipt =
    (let c' = executed_contract receipt args c;
         x' = x\<lparr>ex_state := ES_AwaitingVerification, ex_result_digest := xr_result_digest receipt\<rparr> in
    andthen (or_internal (record_lifecycle_transition_outbox env 13 ''execute''
      (x\<lparr>ex_state := ES_Running\<rparr>) x' (Some c) (Some c') ToolCallExecuted)) (\<lambda>outbox.
    andthen (settle_transition env 14 outbox
      (gateway_event (at_id env 14) (at_now env 14) ToolCallExecuted
        (object_ref OT_SideEffect (ex_execution_id x) ''Tool call executed'')
        x' (ex_rollback_contract_id x') (lifecycle_event_metadata outbox []))) (\<lambda>_.
    ret (200, \<lparr>eer_execution_id = ex_execution_id x, eer_executed = True,
               eer_recovery_required = False, eer_result_digest = xr_result_digest receipt,
               eer_rollback_contract = c', eer_warnings = []\<rparr>))))"

definition execute_execution ::
  "gateway \<Rightarrow> env \<Rightarrow> AuthActor option \<Rightarrow> string \<Rightarrow> json \<Rightarrow> (nat \<times> ExecuteExecutionResponse) gw" where
  "execute_execution gw env actor path payload =
    andthen (execute_load gw env actor path) (\<lambda>(x, c).
    andthen (execute_authority gw env payload x) (\<lambda>args.
    andthen (claim_running env x) (\<lambda>_.
    andthen (adapter_call (ExecuteCall c args) (rollback_execute (gw_rollback gw) c args)) (\<lambda>r.
    case r of
      Inl _ \<Rightarrow> execute_recovery env x c args
    | Inr receipt \<Rightarrow> execute_success env x c args receipt))))"

end
