(* ===== verification/Lineage_Gate.thy ===== *)
theory Lineage_Gate
  imports Guarantee
begin

text \<open>
  What \<open>validate_minimum_lineage_chain\<close> (\<open>crates/ferrum-gateway/src/provenance.rs\<close>)
  establishes.  \<open>governed x\<close> states it of the database alone: the log holds a chain
  of events from the policy decision over the minted capability and the
  submitted proposal to the prepared tool call, linked by edges of the expected
  types, ordered in time, all of them about the execution \<open>x\<close>; and the decision
  was to allow, or to require an approval that was granted.
\<close>

definition has_edge :: "gstate \<Rightarrow> ProvenanceEdgeType \<Rightarrow> ProvenanceEvent \<Rightarrow> ProvenanceEvent \<Rightarrow> bool" where
  "has_edge g ty parent child =
    list_ex (\<lambda>x. ed_edge_type x = ty \<and> ed_from_event_id x = ev_event_id parent \<and>
                 ed_to_event_id x = Some (ev_event_id child)) (t_edges (g_db g))"

definition granted_after :: "gstate \<Rightarrow> ExecutionRecord \<Rightarrow> ProvenanceEvent \<Rightarrow> bool" where
  "granted_after g x policy =
    list_ex (\<lambda>e. ev_kind e = ApprovalGranted \<and> ev_intent_id e = Some (ex_intent_id x) \<and>
                 ev_proposal_id e = Some (ex_proposal_id x) \<and>
                 ev_occurred_at policy \<le> ev_occurred_at e) (t_events (g_db g))"

definition in_log :: "ProvenanceEvent \<Rightarrow> gstate \<Rightarrow> bool" where
  "in_log e g = (e \<in> set (t_events (g_db g)))"

definition permits :: "gstate \<Rightarrow> ExecutionRecord \<Rightarrow> ProvenanceEvent \<Rightarrow> bool" where
  "permits g x policy =
    (decision_from_policy_event policy = Some Allow \<or>
     (decision_from_policy_event policy = Some RequireApproval \<and> granted_after g x policy))"

definition governed :: "ExecutionRecord \<Rightarrow> gstate \<Rightarrow> bool" where
  "governed x g =
    (\<exists>policy cap submitted prepared tool.
      in_log policy g \<and> ev_kind policy = PolicyEvaluated \<and> ev_proposal_id policy = Some (ex_proposal_id x) \<and>
      permits g x policy \<and>
      in_log cap g \<and> ev_kind cap = CapabilityMinted \<and> ev_proposal_id cap = Some (ex_proposal_id x) \<and>
      ev_capability_id cap = Some (ex_capability_id x) \<and> has_edge g EvaluatedByPolicy policy cap \<and>
      in_log submitted g \<and> ev_kind submitted = ActionProposalSubmitted \<and>
      ev_execution_id submitted = Some (ex_execution_id x) \<and> has_edge g AuthorizedBy cap submitted \<and>
      in_log prepared g \<and> ev_kind prepared = SideEffectPrepared \<and>
      ev_execution_id prepared = Some (ex_execution_id x) \<and> has_edge g Caused submitted prepared \<and>
      in_log tool g \<and> ev_kind tool = ToolCallPrepared \<and>
      ev_execution_id tool = Some (ex_execution_id x) \<and> has_edge g Caused prepared tool \<and>
      ev_occurred_at policy \<le> ev_occurred_at cap \<and> ev_occurred_at cap \<le> ev_occurred_at submitted \<and>
      ev_occurred_at submitted \<le> ev_occurred_at prepared \<and>
      ev_occurred_at prepared \<le> ev_occurred_at tool)"

lemma governedI:
  assumes "in_log policy g" "ev_kind policy = PolicyEvaluated"
    "ev_proposal_id policy = Some (ex_proposal_id x)" "permits g x policy"
    "in_log cap g" "ev_kind cap = CapabilityMinted" "ev_proposal_id cap = Some (ex_proposal_id x)"
    "ev_capability_id cap = Some (ex_capability_id x)" "has_edge g EvaluatedByPolicy policy cap"
    "in_log submitted g" "ev_kind submitted = ActionProposalSubmitted"
    "ev_execution_id submitted = Some (ex_execution_id x)" "has_edge g AuthorizedBy cap submitted"
    "in_log prepared g" "ev_kind prepared = SideEffectPrepared"
    "ev_execution_id prepared = Some (ex_execution_id x)" "has_edge g Caused submitted prepared"
    "in_log tool g" "ev_kind tool = ToolCallPrepared"
    "ev_execution_id tool = Some (ex_execution_id x)" "has_edge g Caused prepared tool"
    "ev_occurred_at policy \<le> ev_occurred_at cap" "ev_occurred_at cap \<le> ev_occurred_at submitted"
    "ev_occurred_at submitted \<le> ev_occurred_at prepared"
    "ev_occurred_at prepared \<le> ev_occurred_at tool"
  shows "governed x g"
  unfolding governed_def using assms by (intro exI conjI)

subsection \<open>The facts last\<close>

lemma lasting_in_log [simp]: "lasting (in_log e)"
  by (rule lasting_history) (auto simp: in_log_def history_def event_history_def prefix_def)

lemma lasting_has_edge [simp]: "lasting (\<lambda>g. has_edge g ty a b)"
  by (rule lasting_history) (auto simp: has_edge_def history_def event_history_def prefix_def)

lemma lasting_granted [simp]: "lasting (\<lambda>g. granted_after g x e)"
  by (rule lasting_history) (auto simp: granted_after_def history_def event_history_def prefix_def)

lemma lasting_permits [simp]: "lasting (\<lambda>g. permits g x e)"
  by (rule lasting_history)
     (auto simp: permits_def granted_after_def history_def event_history_def prefix_def)

lemma lasting_in_logs [simp]: "lasting (\<lambda>g. list_all (\<lambda>e. in_log e g) es)"
  using lasting_in_log unfolding lasting_def list_all_iff by blast

lemma lasting_governed [simp]: "lasting (governed x)"
proof (rule lasting_history)
  fix g d assume h: "history (g_db g) d" and gov: "governed x g"
  let ?g = "g\<lparr>g_db := d\<rparr>"
  have mono: "in_log e g \<Longrightarrow> in_log e ?g" "permits g x e \<Longrightarrow> permits ?g x e"
    "has_edge g ty a b \<Longrightarrow> has_edge ?g ty a b" for e ty a b
    using h by (auto simp: in_log_def has_edge_def permits_def granted_after_def history_def
        event_history_def prefix_def)
  show "governed x ?g"
    using gov unfolding governed_def[of x g]
    by (elim exE conjE) (rule governedI; (assumption | rule mono)+)
qed

subsection \<open>The gate establishes them\<close>

lemma first_parent_Some:
  assumes "first_parent child events kind xs = Some p"
  shows "p \<in> set events \<and> ev_kind p = kind \<and> (\<exists>x \<in> set xs. ed_from_event_id x = ev_event_id p)"
  using assms
  by (induction xs) (auto simp: edge_parent_def split: option.splits if_splits dest!: find_mem)

lemma spec_require_parent:
  assumes "others_ok env" "lasting P" "\<And>g. P g \<Longrightarrow> E g"
    and "\<And>g. P g \<Longrightarrow> list_all (\<lambda>e. in_log e g) events"
    and "\<And>p. \<lbrakk>ev_kind p = kind\<rbrakk> \<Longrightarrow> spec (\<lambda>g. P g \<and> in_log p g \<and> has_edge g ty p child) (f p) R E"
  shows "spec P (andthen (require_parent_event env n child events kind ty) f) R E"
proof (rule spec_andthen)
  show "spec P (require_parent_event env n child events kind ty)
      (\<lambda>p g. P g \<and> in_log p g \<and> has_edge g ty p child \<and> ev_kind p = kind) E"
    unfolding require_parent_event_def
  proof (rule spec_andthen[OF spec_map_err[OF spec_db_read[OF assms(1-3)]]])
    fix edges
    let ?P = "\<lambda>g. P g \<and> edges = get_edges_to (g_db g) (ev_event_id child)"
    show "spec ?P (some_or (first_parent child events kind
         (filter (\<lambda>x. ed_edge_type x = ty \<and> (ed_to_event_id x = None \<or>
            ed_to_event_id x = Some (ev_event_id child))) edges)) (EdgeMissing kind (ev_kind child)))
      (\<lambda>p g. P g \<and> in_log p g \<and> has_edge g ty p child \<and> ev_kind p = kind) E"
    proof (rule spec_conseq[OF spec_some_or[where P = ?P and E = E]])
      fix p g
      assume a: "?P g \<and> first_parent child events kind (filter (\<lambda>x. ed_edge_type x = ty \<and>
          (ed_to_event_id x = None \<or> ed_to_event_id x = Some (ev_event_id child))) edges) = Some p"
      then show "P g \<and> in_log p g \<and> has_edge g ty p child \<and> ev_kind p = kind"
        using first_parent_Some[of child events kind _ p] assms(4)[of g]
        by (force simp: has_edge_def list_ex_iff list_all_iff get_edges_to_def)
    qed (auto simp: assms(3))
  qed
  show "spec (\<lambda>g. P g \<and> in_log p g \<and> has_edge g ty p child \<and> ev_kind p = kind) (f p) R E" for p
  proof (cases "ev_kind p = kind")
    case True
    show ?thesis by (rule spec_conseq[OF assms(5)[OF True]]) auto
  next
    case False
    then have "spec (\<lambda>_. False) (f p) R E" by (simp add: spec_def)
    then show ?thesis by (rule spec_conseq) (use False in auto)
  qed
qed

lemma check_policy_permits:
  assumes "check_policy_decision events x policy = Inr ()" "list_all (\<lambda>e. in_log e g) events"
  shows "permits g x policy"
  using assms
  by (auto simp: check_policy_decision_def permits_def granted_after_def has_approval_granted_for_policy_def
      in_log_def list_ex_iff list_all_iff split: option.splits Decision.splits if_splits)

lemma chain_ordered_Inr:
  "chain_ordered [a, b, c, d, e] = Inr () \<longleftrightarrow>
     ev_occurred_at a \<le> ev_occurred_at b \<and> ev_occurred_at b \<le> ev_occurred_at c \<and>
     ev_occurred_at c \<le> ev_occurred_at d \<and> ev_occurred_at d \<le> ev_occurred_at e"
  by (auto simp: chain_ordered_def)

lemma find_event_Inr:
  "find_event events p label = Inr e \<Longrightarrow> e \<in> set events \<and> p e"
  by (auto simp: find_event_def split: option.splits dest: find_mem)

lemma spec_lineage:
  assumes "others_ok env" "lasting P" "\<And>g. P g \<Longrightarrow> E g"
  shows "spec P (validate_minimum_lineage_chain env n x) (\<lambda>_ g. P g \<and> governed x g) E"
  unfolding validate_minimum_lineage_chain_def
proof (rule spec_andthen[OF spec_conseq[OF spec_map_err[OF spec_db_read[OF assms]]]])
  fix events g assume "P g \<and> events = provenance_query (parent_query (Some (ex_intent_id x)) None) (g_db g)"
  then show "P g \<and> list_all (\<lambda>e. in_log e g) events"
    by (auto simp: list_all_iff in_log_def dest: provenance_query_in)
next
  fix events
  let ?P = "\<lambda>g. P g \<and> list_all (\<lambda>e. in_log e g) events"
  have E: "?P g \<Longrightarrow> E g" for g using assms(3) by blast
  show "spec ?P (andthen (of_result (find_event events
      (\<lambda>e. ev_kind e = ToolCallPrepared \<and> ev_execution_id e = Some (ex_execution_id x) \<and>
           ev_proposal_id e = Some (ex_proposal_id x)) ToolCallPrepared)) (\<lambda>tool_prepared.
    andthen (require_parent_event env (n + 1) tool_prepared events SideEffectPrepared Caused) (\<lambda>prepared.
    andthen (ensure (ev_execution_id prepared = Some (ex_execution_id x) \<and>
                     ev_proposal_id prepared = Some (ex_proposal_id x))
              (ContextMismatch SideEffectPrepared)) (\<lambda>_.
    andthen (require_parent_event env (n + 2) prepared events ActionProposalSubmitted Caused) (\<lambda>submitted.
    andthen (ensure (ev_execution_id submitted = Some (ex_execution_id x) \<and>
                     ev_proposal_id submitted = Some (ex_proposal_id x))
              (ContextMismatch ActionProposalSubmitted)) (\<lambda>_.
    andthen (require_parent_event env (n + 3) submitted events CapabilityMinted AuthorizedBy) (\<lambda>capability.
    andthen (ensure (ev_proposal_id capability = Some (ex_proposal_id x) \<and>
                     ev_capability_id capability = Some (ex_capability_id x))
              (ContextMismatch CapabilityMinted)) (\<lambda>_.
    andthen (require_parent_event env (n + 4) capability events PolicyEvaluated EvaluatedByPolicy) (\<lambda>policy.
    andthen (ensure (ev_proposal_id policy = Some (ex_proposal_id x))
              (ContextMismatch PolicyEvaluated)) (\<lambda>_.
    andthen (of_result (check_policy_decision events x policy)) (\<lambda>_.
    of_result (chain_ordered [policy, capability, submitted, prepared, tool_prepared])))))))))))
    ) (\<lambda>_ g. P g \<and> governed x g) E"
    apply (rule then_of_result, blast intro: E)
    apply (drule find_event_Inr)
    apply (rule spec_require_parent[OF assms(1)], simp add: assms(2), blast intro: E, simp)
    apply (rule then_ensure, blast intro: E)
    apply (rule spec_require_parent[OF assms(1)], simp add: assms(2), blast intro: E, simp)
    apply (rule then_ensure, blast intro: E)
    apply (rule spec_require_parent[OF assms(1)], simp add: assms(2), blast intro: E, simp)
    apply (rule then_ensure, blast intro: E)
    apply (rule spec_require_parent[OF assms(1)], simp add: assms(2), blast intro: E, simp)
    apply (rule then_ensure, blast intro: E)
    apply (rule then_of_result, blast intro: E)
    apply (rule last_of_result, blast intro: E)
    subgoal for tool prepared submitted capability policy _ _ g
      using governedI[of policy g x capability submitted prepared tool]
        check_policy_permits[of events x policy g]
      by (simp add: chain_ordered_Inr list_all_iff)
    done
qed auto

end
