(* ===== verification/Execute_Gate.thy ===== *)
theory Execute_Gate
  imports Execute Lineage_Gate
begin

text \<open>
  What stands between a request and a side effect.  \<open>execute_execution\<close> is the only
  handler that calls the \<open>execute\<close> function of an adapter; the theorems say what
  holds of every such call, for any interleaving with other requests, and that
  an execution is started at most once.
\<close>

definition claimed :: "uuid \<Rightarrow> gstate \<Rightarrow> bool" where
  "claimed k g = (\<exists>e. get_execution (g_db g) k = Some e \<and> 2 \<le> execution_phase (ex_state e))"

lemma lasting_claimed [simp]: "lasting (claimed k)"
proof (rule lasting_history)
  fix g d assume "claimed k g" "history (g_db g) d"
  then obtain e e' :: ExecutionRecord where "2 \<le> execution_phase (ex_state e)" "get_execution d k = Some e'"
      "is_valid_execution_transition\<^sup>*\<^sup>* (ex_state e) (ex_state e')"
    unfolding claimed_def history_def execution_history_def by blast
  then show "claimed k (g\<lparr>g_db := d\<rparr>)"
    using execution_phase_reach by (fastforce simp: claimed_def)
qed

lemma claim_claimed:
  assumes "execution_compare_and_set_state now k expected ES_Running d = (Inr True, d')"
  shows "claimed k \<lparr>g_db = d', g_calls = calls\<rparr>"
  using assms
  by (auto simp: execution_compare_and_set_state_def claimed_def get_execution_def tget_tupd
      split: option.splits if_splits)

lemma claimed_db: "claimed k g \<longleftrightarrow> claimed k \<lparr>g_db = g_db g, g_calls = []\<rparr>"
  by (simp add: claimed_def)

lemma then_claim [spec_then]:
  assumes "others_ok env" "lasting P" "\<And>g. P g \<Longrightarrow> E g"
    and "spec (\<lambda>g. P g \<and> claimed (ex_execution_id x) g) (f ()) R E"
  shows "spec P (andthen (claim_running env x) f) R E"
proof (rule spec_andthen)
  let ?cas = "execution_compare_and_set_state (at_now env 11) (ex_execution_id x) claim_states ES_Running"
  have keep: "P (g\<lparr>g_db := d\<rparr>) \<and> store_step\<^sup>*\<^sup>* (g_db g) d"
    if "store_wf (g_db g)" "P g" "?cas (g_db g) = (r, d)" for g r d
  proof -
    have "store_step\<^sup>*\<^sup>* (g_db g) (snd (?cas (g_db g)))"
      by (rule r_into_rtranclp, rule Claim_execution)
         (simp add: claim_states_def is_valid_execution_transition_def)
    then show ?thesis using assms(2) that by (simp add: lasting_def)
  qed
  show "spec P (claim_running env x) (\<lambda>_ g. P g \<and> claimed (ex_execution_id x) g) E"
    unfolding claim_running_def
  proof (rule spec_andthen[OF spec_or_internal[OF spec_db_op[OF assms(1,2)]]])
    show "store_step\<^sup>*\<^sup>* (g_db g) (snd (?cas (g_db g)))" if "store_wf (g_db g)" "P g" for g
      using keep[OF that, of "fst (?cas (g_db g))" "snd (?cas (g_db g))"] by simp
    show "P (g\<lparr>g_db := d\<rparr>) \<and> (won \<longrightarrow> claimed (ex_execution_id x) (g\<lparr>g_db := d\<rparr>))"
      if "store_wf (g_db g)" "P g" "?cas (g_db g) = (Inr won, d)" for g won d
      using keep[OF that] that(3) claim_claimed[of _ "ex_execution_id x" claim_states "g_db g" d "g_calls g"]
      by (cases won) (auto simp: claimed_def)
    show "E (g\<lparr>g_db := d\<rparr>)" if "store_wf (g_db g)" "P g" "?cas (g_db g) = (Inl e, d)" for g e d
      using keep[OF that] assms(3) by blast
    show "spec (\<lambda>g. P g \<and> (won \<longrightarrow> claimed (ex_execution_id x) g)) (ensure won e)
        (\<lambda>_ g. P g \<and> claimed (ex_execution_id x) g) E" for won e
      by (rule spec_conseq[OF spec_ensure[where E = E and
            P = "\<lambda>g. P g \<and> (won \<longrightarrow> claimed (ex_execution_id x) g)"]]) (auto simp: assms(3))
  qed (use assms(3) in auto)
  show "spec (\<lambda>g. P g \<and> claimed (ex_execution_id x) g) (f u) R E" for u
    using assms(4) by simp
qed

subsection \<open>Every call of an adapter\<close>

text \<open>What the gateway must know before it starts a side effect of the execution \<open>x\<close>
  under the contract \<open>c\<close> with the arguments \<open>args\<close>.\<close>

definition may_execute ::
  "gateway \<Rightarrow> ExecutionRecord \<Rightarrow> RollbackContract \<Rightarrow> json \<Rightarrow> gstate \<Rightarrow> bool" where
  "may_execute gw x c args g =
    (\<exists>cap p i.
      has_execution x g \<and> claimed (ex_execution_id x) g \<and> governed x g \<and>
      has_contract c g \<and> rc_state c = RS_Prepared \<and> contract_bound c x \<and> \<not> unsafe_r2 c \<and>
      has_intent i g \<and> in_intent_id i = ex_intent_id x \<and> in_approval_mode i \<noteq> AM_DraftOnly \<and>
      has_proposal p g \<and> ap_proposal_id p = ex_proposal_id x \<and>
      (args = ap_raw_arguments p \<or> json_eq args (ap_raw_arguments p)) \<and>
      has_lease cap g \<and> cl_capability_id cap = ex_capability_id x \<and>
      validate_capability_proposal_binding cap p = Inr () \<and>
      validate_argument_constraints (gw_regex gw) args (cl_argument_constraints cap) = Inr ())"

lemma lasting_may_execute [simp]: "lasting (may_execute gw x c args)"
  unfolding may_execute_def by (intro lasting_ex lasting_conj) simp_all

text \<open>The execution is the one the path names, and the caller may act on it.\<close>

definition addressed :: "gateway \<Rightarrow> env \<Rightarrow> AuthActor option \<Rightarrow> string \<Rightarrow> ExecutionRecord \<Rightarrow> bool" where
  "addressed gw env actor path x =
    (gw_parse_uuid gw path = Some (ex_execution_id x) \<and>
     enforce_object_owner_guard actor (ex_owner_actor_id x) (gw_auth_mode gw)
       (gw_legacy_object_compat_allow_until gw) (at_now env 1) = Inr ())"

definition execute_log ::
  "gateway \<Rightarrow> env \<Rightarrow> AuthActor option \<Rightarrow> string \<Rightarrow> AdapterCall list \<Rightarrow> gstate \<Rightarrow> bool" where
  "execute_log gw env actor path before g =
    (g_calls g = before \<or>
     (\<exists>x c args. g_calls g = before @ [ExecuteCall c args] \<and> addressed gw env actor path x \<and>
        may_execute gw x c args g))"

text \<open>The facts of the two loading phases, and the state after the call.\<close>

definition loaded :: "ExecutionRecord \<Rightarrow> RollbackContract \<Rightarrow> gstate \<Rightarrow> bool" where
  "loaded x c g =
    (has_execution x g \<and> has_contract c g \<and> rc_state c = RS_Prepared \<and> contract_bound c x \<and> \<not> unsafe_r2 c \<and>
     (\<exists>i. has_intent i g \<and> in_intent_id i = ex_intent_id x \<and> in_approval_mode i \<noteq> AM_DraftOnly))"

definition empowered :: "gateway \<Rightarrow> ExecutionRecord \<Rightarrow> json \<Rightarrow> gstate \<Rightarrow> bool" where
  "empowered gw x args g =
    (governed x g \<and>
     (\<exists>cap p. has_proposal p g \<and> ap_proposal_id p = ex_proposal_id x \<and>
        (args = ap_raw_arguments p \<or> json_eq args (ap_raw_arguments p)) \<and>
        has_lease cap g \<and> cl_capability_id cap = ex_capability_id x \<and>
        validate_capability_proposal_binding cap p = Inr () \<and>
        validate_argument_constraints (gw_regex gw) args (cl_argument_constraints cap) = Inr ()))"

lemma lasting_loaded [simp]: "lasting (loaded x c)"
  unfolding loaded_def by (intro lasting_ex lasting_conj) simp_all

lemma lasting_empowered [simp]: "lasting (empowered gw x args)"
  unfolding empowered_def by (intro lasting_ex lasting_conj) simp_all

lemma spec_execute_load:
  assumes ok: "others_ok env" and P: "lasting P" "\<And>g. P g \<Longrightarrow> E g"
  shows "spec P (execute_load gw env actor path)
    (\<lambda>xc g. P g \<and> addressed gw env actor path (fst xc) \<and> loaded (fst xc) (snd xc) g) E"
  unfolding execute_load_def
  apply (rule then_load_execution[OF ok P], assumption)
  apply (rule then_fetch_intent[OF ok], simp add: P, blast intro: P)
  apply (rule then_ensure, blast intro: P)
  apply (rule then_load_contract[OF ok], simp add: P, blast intro: P)
  apply (rule then_ensure, blast intro: P)+
  apply (rule last_ret)
  apply (auto simp: execute_state_ok_def loaded_def addressed_def)
  done

lemma adapter_payload_Inr:
  "adapter_payload payload p = Inr args \<Longrightarrow> args = ap_raw_arguments p \<or> json_eq args (ap_raw_arguments p)"
  by (auto simp: adapter_payload_def split: if_splits)

lemma spec_execute_authority:
  assumes ok: "others_ok env" and P: "lasting P" "\<And>g. P g \<Longrightarrow> E g"
  shows "spec P (execute_authority gw env payload x)
    (\<lambda>args g. P g \<and> empowered gw x args g) E"
  unfolding execute_authority_def
  apply (rule then_fetch_capability[OF ok P], assumption)
  apply (rule then_fetch_proposal[OF ok], simp add: P, blast intro: P)
  apply (rule then_of_result, blast intro: P)+
  apply (rule spec_andthen[OF spec_map_err[OF spec_lineage[OF ok]]], simp add: P, blast intro: P)
  apply (rule last_ret)
  apply (auto simp: wrap_Inr empowered_def dest!: adapter_payload_Inr)
  done

lemma executed_contract_same: "same_contract c (executed_contract receipt args c)"
  by (simp add: executed_contract_def same_contract_def)

lemma spec_execute_recovery:
  assumes ok: "others_ok env" and P: "lasting P" "\<And>g. P g \<Longrightarrow> E g"
    and args: "\<And>g. P g \<Longrightarrow> has_execution x g \<and> has_contract c g"
  shows "spec P (execute_recovery env x c args) (\<lambda>_ g. P g) E"
  unfolding execute_recovery_def Let_def
  apply (rule then_keep[OF spec_or_internal[OF spec_transition[OF ok P]]], assumption)
   apply (drule args, rule transition_args_same[where x = x and c = c];
          simp add: same_execution_def same_contract_def)
  apply (rule then_keep[OF spec_settle_transition[OF ok P]], assumption, simp)
  apply (rule last_ret, assumption)
  done

lemma spec_execute_success:
  assumes ok: "others_ok env" and P: "lasting P" "\<And>g. P g \<Longrightarrow> E g"
    and args: "\<And>g. P g \<Longrightarrow> has_execution x g \<and> has_contract c g"
  shows "spec P (execute_success env x c args receipt) (\<lambda>_ g. P g) E"
  unfolding execute_success_def Let_def
  apply (rule then_keep[OF spec_or_internal[OF spec_transition1[OF ok P]]], assumption)
   apply (drule args, rule transition_args_same[where x = x and c = c];
          simp add: same_execution_def executed_contract_same)
  apply (rule then_keep[OF spec_settle_transition[OF ok P]], assumption, simp)
  apply (rule last_ret, assumption)
  done

lemma loaded_records: "loaded x c g \<Longrightarrow> has_execution x g \<and> has_contract c g"
  by (simp add: loaded_def)

lemma may_executeI:
  "\<lbrakk>loaded x c g; empowered gw x args g; claimed (ex_execution_id x) g\<rbrakk> \<Longrightarrow> may_execute gw x c args g"
  unfolding loaded_def empowered_def may_execute_def by blast

lemma loaded_calls [simp]:
  "loaded x c (g\<lparr>g_calls := l\<rparr>) = loaded x c g" "empowered gw x args (g\<lparr>g_calls := l\<rparr>) = empowered gw x args g"
  "claimed k (g\<lparr>g_calls := l\<rparr>) = claimed k g"
  by (simp_all add: loaded_def empowered_def claimed_def has_execution_def has_contract_def has_intent_def
      has_lease_def has_proposal_def governed_def in_log_def has_edge_def permits_def granted_after_def)

lemma spec_execute_outcome:
  assumes ok: "others_ok env" and x: "addressed gw env actor path x"
  shows "spec (\<lambda>g. g_calls g = before @ [ExecuteCall c args] \<and> loaded x c g \<and> may_execute gw x c args g)
    (case r of Inl _ \<Rightarrow> execute_recovery env x c args | Inr receipt \<Rightarrow> execute_success env x c args receipt)
    (\<lambda>_. execute_log gw env actor path before) (execute_log gw env actor path before)"
proof -
  let ?C = "\<lambda>g. g_calls g = before @ [ExecuteCall c args] \<and> loaded x c g \<and> may_execute gw x c args g"
  have C: "lasting ?C" by simp
  have "spec ?C (case r of Inl _ \<Rightarrow> execute_recovery env x c args
                 | Inr receipt \<Rightarrow> execute_success env x c args receipt) (\<lambda>_. ?C) ?C"
    by (cases r) (auto intro!: spec_execute_recovery[OF ok C] spec_execute_success[OF ok C] dest: loaded_records)
  then show ?thesis by (rule spec_conseq) (use x in \<open>auto simp: execute_log_def\<close>)
qed

lemma spec_execute:
  assumes ok: "others_ok env"
  shows "spec (\<lambda>g. g_calls g = before) (execute_execution gw env actor path payload)
    (\<lambda>_. execute_log gw env actor path before) (execute_log gw env actor path before)"
  unfolding execute_execution_def
proof (rule spec_andthen[OF spec_execute_load[OF ok]])
  show log: "execute_log gw env actor path before g" if "g_calls g = before" for g
    using that by (simp add: execute_log_def)
  have "spec (\<lambda>g. g_calls g = before \<and> loaded x c g)
     (andthen (execute_authority gw env payload x) (\<lambda>args.
      andthen (claim_running env x) (\<lambda>_.
      andthen (adapter_call (ExecuteCall c args) (rollback_execute (gw_rollback gw) c args)) (\<lambda>r.
      case r of
        Inl _ \<Rightarrow> execute_recovery env x c args
      | Inr receipt \<Rightarrow> execute_success env x c args receipt))))
     (\<lambda>_. execute_log gw env actor path before) (execute_log gw env actor path before)" if "addressed gw env actor path x" for x c
    apply (rule spec_andthen[OF spec_execute_authority[OF ok]])
    apply simp
     apply (simp add: log)
    apply (rule then_claim[OF ok], simp, simp add: log)
    apply (rule then_adapter_call, rule spec_execute_outcome[OF ok that])
    apply (auto simp: intro: may_executeI)
    done
  then show "spec (\<lambda>g. g_calls g = before \<and> addressed gw env actor path (fst xc) \<and> loaded (fst xc) (snd xc) g)
     (case xc of (x, c) \<Rightarrow> andthen (execute_authority gw env payload x) (\<lambda>args.
      andthen (claim_running env x) (\<lambda>_.
      andthen (adapter_call (ExecuteCall c args) (rollback_execute (gw_rollback gw) c args)) (\<lambda>r.
      case r of
        Inl _ \<Rightarrow> execute_recovery env x c args
      | Inr receipt \<Rightarrow> execute_success env x c args receipt))))
     (\<lambda>_. execute_log gw env actor path before) (execute_log gw env actor path before)" for xc
    by (cases "addressed gw env actor path (fst xc)"; cases xc) (simp_all add: spec_False)
qed simp


subsection \<open>At most one start\<close>

lemma claimed_cas:
  assumes "claimed k g"
  shows "execution_compare_and_set_state now k claim_states ES_Running (g_db g) = (Inr False, g_db g)"
  using assms by (auto simp: claimed_def execution_compare_and_set_state_def claim_states_def)

lemma claim_refused:
  assumes "others_ok env" "lasting P" "\<And>g. P g \<Longrightarrow> E g" "\<And>g. P g \<Longrightarrow> claimed (ex_execution_id x) g"
  shows "spec P (andthen (claim_running env x) f) R E"
proof (rule spec_andthen[where Q = "\<lambda>_ _. False"])
  show "spec P (claim_running env x) (\<lambda>_ _. False) E"
    unfolding claim_running_def
  proof (rule spec_andthen[OF spec_or_internal[OF spec_db_op[OF assms(1,2), where Q = "\<lambda>won g. P g \<and> \<not> won"]]])
    show "spec (\<lambda>g. P g \<and> \<not> won) (ensure won e) (\<lambda>_ _. False) E" for won e
      by (rule spec_conseq[OF spec_ensure[where P = "\<lambda>g. P g \<and> \<not> won" and E = E]]) (auto simp: assms(3))
  qed (use assms claimed_cas[OF assms(4)] in auto)
qed simp

lemma spec_execute_claimed:
  assumes ok: "others_ok env" and k: "gw_parse_uuid gw path = Some k"
  shows "spec (\<lambda>g. g_calls g = before \<and> claimed k g) (execute_execution gw env actor path payload)
    (\<lambda>_ g. g_calls g = before) (\<lambda>g. g_calls g = before)"
  unfolding execute_execution_def
proof (rule spec_andthen[OF spec_execute_load[OF ok]])
  fix xc :: "ExecutionRecord \<times> RollbackContract"
  let ?P = "\<lambda>g. (g_calls g = before \<and> claimed k g) \<and>
    addressed gw env actor path (fst xc) \<and> loaded (fst xc) (snd xc) g"
  show "spec ?P
     (case xc of (x, c) \<Rightarrow> andthen (execute_authority gw env payload x) (\<lambda>args.
      andthen (claim_running env x) (\<lambda>_.
      andthen (adapter_call (ExecuteCall c args) (rollback_execute (gw_rollback gw) c args)) (\<lambda>r.
      case r of
        Inl _ \<Rightarrow> execute_recovery env x c args
      | Inr receipt \<Rightarrow> execute_success env x c args receipt))))
     (\<lambda>_ g. g_calls g = before) (\<lambda>g. g_calls g = before)"
    apply (cases xc, simp only: prod.case)
    apply (rule spec_andthen[OF spec_execute_authority[OF ok]], simp, simp)
    apply (rule claim_refused[OF ok], simp, simp)
    using k apply (auto simp: addressed_def)
    done
qed simp_all

lemma executed_stays_claimed:
  assumes "store_step\<^sup>*\<^sup>* empty_database (g_db g)" "others_ok env"
    and "g1 = snd (execute_execution gw env actor path payload g)" "g_calls g1 \<noteq> g_calls g"
    and "store_step\<^sup>*\<^sup>* (g_db g1) (g_db g2)"
  obtains k where "gw_parse_uuid gw path = Some k" "claimed k g2" "store_wf (g_db g2)"
proof -
  have wf: "store_wf (g_db g)" by (rule reachable_wf[OF assms(1)])
  have s: "store_step\<^sup>*\<^sup>* (g_db g) (g_db g1)" and log: "execute_log gw env actor path (g_calls g) g1"
    using spec_run[OF spec_execute[OF assms(2)] wf refl, of gw actor path payload] assms(3) by simp_all
  from log assms(4) obtain x where x: "addressed gw env actor path x" "claimed (ex_execution_id x) g1"
    by (auto simp: execute_log_def may_execute_def)
  have wf1: "store_wf (g_db g1)" using store_steps[OF s wf] by simp
  have wf2: "store_wf (g_db g2)" using store_steps[OF assms(5) wf1] by simp
  have "claimed (ex_execution_id x) g2"
    using lasting_claimed[unfolded lasting_def, rule_format, OF wf1 x(2) assms(5)]
    by (simp add: claimed_def)
  then show ?thesis using that x(1) wf2 by (simp add: addressed_def)
qed

text \<open>C2: An execution is started at most once.  If a request to execute has
  called an adapter, then no later request for the same execution calls one,
  whoever sends it, with whatever payload, and whatever requests, cancellations,
  recoveries and reconciliations have run in between.\<close>
theorem executed_at_most_once:
  assumes "store_step\<^sup>*\<^sup>* empty_database (g_db g)" "others_ok env1" "others_ok env2"
    and "g1 = snd (execute_execution gw env1 actor1 path payload1 g)" "g_calls g1 \<noteq> g_calls g"
    and "store_step\<^sup>*\<^sup>* (g_db g1) (g_db g2)"
  shows "g_calls (snd (execute_execution gw env2 actor2 path payload2 g2)) = g_calls g2"
proof -
  obtain k where "gw_parse_uuid gw path = Some k" "claimed k g2" "store_wf (g_db g2)"
    using executed_stays_claimed[OF assms(1,2,4-6)] .
  then show ?thesis
    using spec_run[OF spec_execute_claimed[OF assms(3)]] by blast
qed

end
