(* ===== verification/Requests.thy ===== *)
theory Requests
  imports Prepare Verify Finish Execute_Gate
begin

text \<open>
  The other requests of the execution lifecycle under interference: what
  \<open>prepare\<close>, \<open>verify\<close>, \<open>commit\<close>, \<open>cancel\<close> and \<open>compensate\<close> establish, and which adapter
  calls each of them can make.
\<close>

subsection \<open>States that were reached\<close>

text \<open>The record was stored as \<open>x\<close> and has moved only along the matrix since.\<close>

definition reached :: "ExecutionRecord \<Rightarrow> gstate \<Rightarrow> bool" where
  "reached x g = (\<exists>e. get_execution (g_db g) (ex_execution_id x) = Some e \<and> same_execution x e \<and>
     is_valid_execution_transition\<^sup>*\<^sup>* (ex_state x) (ex_state e))"

definition contract_reached :: "RollbackContract \<Rightarrow> gstate \<Rightarrow> bool" where
  "contract_reached c g = (\<exists>c'. get_contract (g_db g) (rc_contract_id c) = Some c' \<and> same_contract c c' \<and>
     is_valid_rollback_transition\<^sup>*\<^sup>* (rc_state c) (rc_state c'))"

lemma lasting_reached [simp]: "lasting (reached x)"
proof (rule lasting_history)
  fix g d assume "reached x g" "history (g_db g) d"
  then obtain e e' :: ExecutionRecord where "same_execution x e" "is_valid_execution_transition\<^sup>*\<^sup>* (ex_state x) (ex_state e)"
      "get_execution d (ex_execution_id x) = Some e'" "same_execution e e'"
      "is_valid_execution_transition\<^sup>*\<^sup>* (ex_state e) (ex_state e')"
    unfolding reached_def history_def execution_history_def by blast
  then show "reached x (g\<lparr>g_db := d\<rparr>)"
    using same_trans(1) rtranclp_trans by (fastforce simp: reached_def)
qed

lemma lasting_contract_reached [simp]: "lasting (contract_reached c)"
proof (rule lasting_history)
  fix g d assume "contract_reached c g" "history (g_db g) d"
  then obtain c1 c2 :: RollbackContract where "same_contract c c1" "is_valid_rollback_transition\<^sup>*\<^sup>* (rc_state c) (rc_state c1)"
      "get_contract d (rc_contract_id c) = Some c2" "same_contract c1 c2"
      "is_valid_rollback_transition\<^sup>*\<^sup>* (rc_state c1) (rc_state c2)"
    unfolding contract_reached_def history_def contract_history_def by blast
  then show "contract_reached c (g\<lparr>g_db := d\<rparr>)"
    using same_trans(2) rtranclp_trans by (fastforce simp: contract_reached_def)
qed

lemma reached_terminal:
  assumes "reached x g" "execution_state_is_terminal (ex_state x)"
  shows "\<exists>e. get_execution (g_db g) (ex_execution_id x) = Some e \<and> same_execution x e \<and> ex_state e = ex_state x"
  using assms exec_tm.terminal_reach unfolding reached_def by metis

lemma contract_reached_terminal:
  assumes "contract_reached c g" "rollback_state_is_terminal (rc_state c)"
  shows "\<exists>c'. get_contract (g_db g) (rc_contract_id c) = Some c' \<and> same_contract c c' \<and> rc_state c' = rc_state c"
  using assms rb_tm.terminal_reach unfolding contract_reached_def by metis

lemma reached_claimed:
  "\<lbrakk>reached x g; 2 \<le> execution_phase (ex_state x)\<rbrakk> \<Longrightarrow> claimed (ex_execution_id x) g"
  unfolding reached_def claimed_def by (metis execution_phase_reach order_trans)

subsection \<open>Stored transitions\<close>

definition stored :: "ExecutionRecord \<Rightarrow> RollbackContract option \<Rightarrow> gstate \<Rightarrow> bool" where
  "stored x co g = (reached x g \<and> (case co of None \<Rightarrow> True | Some c \<Rightarrow> has_contract c g \<and> contract_reached c g))"

lemma lasting_stored [simp]: "lasting (stored x co)"
  unfolding stored_def by (cases co) simp_all

lemma contract_written_executions:
  "contract_written co prev d d' \<Longrightarrow> t_executions d' = t_executions d"
  by (auto simp: contract_written_def split: option.splits)

lemma transitioned_stored:
  assumes "transitioned e co ob d d'"
  shows "stored e co (g\<lparr>g_db := d'\<rparr>)"
proof -
  from assms obtain e0 d1 where e0: "get_execution d (ex_execution_id e) = Some e0"
    and cw: "contract_written co (lo_previous_rollback_state ob)
      (d\<lparr>t_executions := tupd ex_execution_id (ex_execution_id e) (\<lambda>_. e) (t_executions d)\<rparr>) d1"
    and d': "d' = d1\<lparr>t_outbox := t_outbox d @ [new_outbox_row ob]\<rparr>"
    by (auto simp: transitioned_def)
  have "get_execution d' (ex_execution_id e) = Some e"
    using e0 contract_written_executions[OF cw] d' by (simp add: get_execution_def tget_tupd)
  moreover have "get_contract d' (rc_contract_id c) = Some c" if "co = Some c" for c
    using cw d' that
    by (auto simp: contract_written_def get_contract_def tget_tupd tget_snoc split: option.splits)
  ultimately show ?thesis
    by (auto simp: stored_def reached_def contract_reached_def has_contract_def split: option.splits)
qed

lemma spec_transition_stored:
  assumes "others_ok env" "lasting P" "\<And>g. P g \<Longrightarrow> E g" "\<And>g. P g \<Longrightarrow> transition_args upd pc co g"
  shows "spec P (record_lifecycle_transition_outbox_with_obligations env n name prev upd pc co kinds)
    (\<lambda>_ g. P g \<and> stored upd co g) E"
  unfolding record_lifecycle_transition_outbox_with_obligations_def Let_def
proof (rule spec_andthen)
  let ?r = "lifecycle_outbox_record (at_id env n) (at_now env n) name prev upd pc co kinds"
  have step: "store_step\<^sup>*\<^sup>* (g_db g) (snd (record_lifecycle_transition upd co ?r (g_db g)))" if "P g" for g
    using transition_args_ok[OF assms(4)[OF that]] by (intro r_into_rtranclp Transition) auto
  have keep: "P (g\<lparr>g_db := d\<rparr>)" if "store_wf (g_db g)" "P g"
      "record_lifecycle_transition upd co ?r (g_db g) = (res, d)" for g res d
    using assms(2) step[OF that(2)] that by (simp add: lasting_def)
  show "spec P (db_op env n (record_lifecycle_transition upd co ?r)) (\<lambda>_ g. P g \<and> stored upd co g) E"
  proof (rule spec_db_op[OF assms(1,2)])
    show "P (g\<lparr>g_db := d\<rparr>) \<and> stored upd co (g\<lparr>g_db := d\<rparr>)"
      if "store_wf (g_db g)" "P g" "record_lifecycle_transition upd co ?r (g_db g) = (Inr x, d)" for g x d
      using keep[OF that] transitioned_stored[OF record_lifecycle_transition_Inr[OF that(3)]] by simp
  qed (use assms(3) step keep in blast)+
  show "spec (\<lambda>g. P g \<and> stored upd co g) (ret ?r) (\<lambda>_ g. P g \<and> stored upd co g) E"
    by (rule spec_ret)
qed

lemma spec_transition1_stored:
  assumes "others_ok env" "lasting P" "\<And>g. P g \<Longrightarrow> E g" "\<And>g. P g \<Longrightarrow> transition_args upd pc co g"
  shows "spec P (record_lifecycle_transition_outbox env n name prev upd pc co kind)
    (\<lambda>_ g. P g \<and> stored upd co g) E"
  unfolding record_lifecycle_transition_outbox_def using assms by (rule spec_transition_stored)

subsection \<open>Prepare\<close>

text \<open>What the gateway knows when it asks the rollback service to prepare.\<close>

definition may_prepare ::
  "gateway \<Rightarrow> env \<Rightarrow> AuthActor option \<Rightarrow> string \<Rightarrow> ExecutionRecord \<Rightarrow> RollbackPrepareRequest \<Rightarrow> gstate \<Rightarrow> bool" where
  "may_prepare gw env actor path x rq g =
    (addressed gw env actor path x \<and> has_execution x g \<and> ex_state x \<in> {ES_Authorized, ES_Prepared} \<and>
     (\<exists>p i. has_proposal p g \<and> ap_proposal_id p = ex_proposal_id x \<and>
        has_intent i g \<and> in_intent_id i = ex_intent_id x \<and> in_approval_mode i \<noteq> AM_DraftOnly \<and>
        rq_intent_id rq = ex_intent_id x \<and> rq_proposal_id rq = ex_proposal_id x \<and>
        rq_execution_id rq = ex_execution_id x \<and> rq_rollback_class rq = ap_requested_rollback_class p \<and>
        infer_action_type_and_adapter (ap_tool_name p) (ap_metadata p) =
          Inr (rq_action_type rq, rq_adapter_key rq)))"

lemma lasting_may_prepare [simp]: "lasting (may_prepare gw env actor path x rq)"
  unfolding may_prepare_def by (intro lasting_ex lasting_conj) simp_all

lemma may_prepare_calls [simp]:
  "may_prepare gw env actor path x rq (g\<lparr>g_calls := l\<rparr>) = may_prepare gw env actor path x rq g"
  by (simp add: may_prepare_def has_execution_def has_intent_def has_proposal_def)

lemma spec_prepare_checks:
  assumes ok: "others_ok env" and P: "lasting P" "\<And>g. P g \<Longrightarrow> E g"
  shows "spec P (prepare_checks gw env actor path)
    (\<lambda>xr g. P g \<and> may_prepare gw env actor path (fst xr) (snd xr) g) E"
  unfolding prepare_checks_def
  apply (rule then_load_execution[OF ok P], assumption)
  apply (rule then_ensure, blast intro: P)
  apply (rule then_fetch_proposal[OF ok], simp add: P, blast intro: P)
  apply (rule then_fetch_intent[OF ok], simp add: P, blast intro: P)
  apply (rule then_ensure, blast intro: P)
  apply (rule then_of_result, blast intro: P)
  apply (rule last_ret)
  subgoal for x p i rq g
    using build_prepare_request_for_proposal_Inr[of "at_id env 4" "ex_intent_id x" "ex_execution_id x"
        "ap_requested_rollback_class p" p "in_resource_scope i" rq]
    unfolding may_prepare_def addressed_def wrap_Inr by auto
  done

definition prepare_log ::
  "gateway \<Rightarrow> env \<Rightarrow> AuthActor option \<Rightarrow> string \<Rightarrow> AdapterCall list \<Rightarrow> gstate \<Rightarrow> bool" where
  "prepare_log gw env actor path before g =
    (g_calls g = before \<or>
     (\<exists>x rq. g_calls g = before @ [PrepareCall rq] \<and> may_prepare gw env actor path x rq g))"

text \<open>What a caller can rely on after a successful preparation.\<close>

definition prepared_ok ::
  "gateway \<Rightarrow> env \<Rightarrow> AuthActor option \<Rightarrow> string \<Rightarrow> AdapterCall list \<Rightarrow> PrepareExecutionResponse \<Rightarrow> gstate \<Rightarrow> bool" where
  "prepared_ok gw env actor path before resp g =
    (\<exists>x rq. g_calls g = before @ [PrepareCall rq] \<and> may_prepare gw env actor path x rq g \<and>
       (let c = per_rollback_contract resp in
        has_contract c g \<and> contract_bound c x \<and> rc_state c = RS_Prepared \<and>
        rc_rollback_class c = rq_rollback_class rq \<and> rc_action_type c = rq_action_type rq \<and>
        rc_adapter_key c = rq_adapter_key rq \<and> \<not> unsafe_r2 c \<and>
        (rc_rollback_class c = R3IrreversibleHighConsequence \<longrightarrow> \<not> rc_auto_commit c)))"

lemma prepared_contract_ok:
  assumes "rollback_prepare sv new_id now rq = Inr resp" "may_prepare gw env actor path x rq g"
  shows "contract_bound (rs_contract resp) x \<and> rc_state (rs_contract resp) = RS_Prepared \<and>
    rc_rollback_class (rs_contract resp) = rq_rollback_class rq \<and>
    rc_action_type (rs_contract resp) = rq_action_type rq \<and>
    rc_adapter_key (rs_contract resp) = rq_adapter_key rq \<and> \<not> unsafe_r2 (rs_contract resp) \<and>
    (rc_rollback_class (rs_contract resp) = R3IrreversibleHighConsequence \<longrightarrow>
       \<not> rc_auto_commit (rs_contract resp))"
  using rollback_prepare_Inr[OF assms(1)] assms(2)
  by (auto simp: contract_bound_def may_prepare_def unsafe_r2_def r2_unsupported_def)

lemma spec_prepare:
  assumes ok: "others_ok env"
  shows "spec (\<lambda>g. g_calls g = before) (prepare_execution gw env actor path)
    (prepared_ok gw env actor path before) (prepare_log gw env actor path before)"
  unfolding prepare_execution_def
proof (rule spec_andthen[OF spec_prepare_checks[OF ok]])
  show log: "prepare_log gw env actor path before g" if "g_calls g = before" for g
    using that by (simp add: prepare_log_def)
  fix xr :: "ExecutionRecord \<times> RollbackPrepareRequest"
  obtain x rq where xr: "xr = (x, rq)" by force
  let ?P = "\<lambda>g. g_calls g = before @ [PrepareCall rq] \<and> may_prepare gw env actor path x rq g"
  have P: "lasting ?P" "?P g \<Longrightarrow> prepare_log gw env actor path before g" for g :: gstate
    by (auto simp: prepare_log_def)
  show "spec (\<lambda>g. g_calls g = before \<and> may_prepare gw env actor path (fst xr) (snd xr) g)
    (case xr of (x, rq) \<Rightarrow>
     andthen (adapter_call (PrepareCall rq)
       (rollback_prepare (gw_rollback gw) (at_id env 5) (at_now env 5) rq)) (\<lambda>r.
     andthen (of_result (wrap 500 Internal RollbackMsg r)) (\<lambda>response.
     let c = rs_contract response;
         x' = x\<lparr>ex_rollback_contract_id := Some (rc_contract_id c)\<rparr> in
     andthen (or_internal (record_lifecycle_transition_outbox_with_obligations env 6 ''prepare''
       x x' None (Some c) [SideEffectPrepared, ToolCallPrepared])) (\<lambda>outbox.
     andthen (settle_event env 7 outbox (prepare_event env outbox x c)) (\<lambda>_.
     andthen (settle_event env 10 outbox (tool_prepared_event env outbox x c)) (\<lambda>_.
     andthen (finish_outbox env 13 outbox) (\<lambda>_.
     ret \<lparr>per_execution_id = ex_execution_id x, per_prepared = rs_accepted response,
         per_rollback_contract = c, per_warnings = rs_warnings response\<rparr>)))))))
    (prepared_ok gw env actor path before) (prepare_log gw env actor path before)"
    unfolding xr prod.case Let_def
    apply (rule then_adapter_call[where Q = ?P])
     apply (rule then_of_result, erule P)
     apply (simp only: wrap_Inr)
     apply (rule spec_andthen[OF spec_or_internal[OF spec_transition_stored[OF ok P(1)]]], erule P)
      apply (simp add: transition_args_def rollback_prepare_Inr(11))
      apply (rule has_execution_same[where x = x]; simp add: may_prepare_def same_execution_def)
     apply (rule then_keep[OF spec_settle_event[OF ok]], simp, simp add: P, simp add: prepare_event_def)
     apply (rule then_keep[OF spec_settle_event[OF ok]], simp, simp add: P, simp add: tool_prepared_event_def)
     apply (rule then_keep[OF spec_finish_outbox[OF ok]], simp, simp add: P)
     apply (rule last_ret)
    subgoal for response outbox _ _ _ g
      using prepared_contract_ok[of "gw_rollback gw" _ _ rq response gw env actor path x g]
      by (auto simp: prepared_ok_def Let_def stored_def)
    apply (simp add: xr)
    done
qed simp

text \<open>C30: Preparation.  Whatever the adapter answers and however other requests
  interleave, a request to prepare makes at most one adapter call, and only for
  an authorized or prepared execution the caller may act on and whose intent is
  not draft-only, with a request bound to the execution's intent and proposal
  and with action type, adapter and rollback class inferred from the proposal.
  When it succeeds, the stored contract is prepared, bound to the execution,
  of the requested class, and an irreversible one never auto-commits.\<close>
theorem prepare_gate:
  assumes "store_step\<^sup>*\<^sup>* empty_database (g_db g)" "others_ok env"
    and "prepare_execution gw env actor path g = (r, g')"
  shows "store_step\<^sup>*\<^sup>* (g_db g) (g_db g') \<and>
    (case r of
       Inl _ \<Rightarrow> prepare_log gw env actor path (g_calls g) g'
     | Inr resp \<Rightarrow> prepared_ok gw env actor path (g_calls g) resp g')"
  using spec_prepare[OF assms(2), of "g_calls g" gw actor path] reachable_wf[OF assms(1)] assms(3)
  unfolding spec_def by (cases r) force+

subsection \<open>Commit\<close>

lemma verified_event_found:
  assumes "provenance_query (verified_query k) (g_db g) \<noteq> []"
  shows "\<exists>e. in_log e g \<and> ev_kind e = SideEffectVerified \<and> ev_execution_id e = Some k"
proof -
  from assms obtain e where "e \<in> set (provenance_query (verified_query k) (g_db g))"
    by (cases "provenance_query (verified_query k) (g_db g)") auto
  then show ?thesis
    by (auto simp: provenance_query_def event_matches_def verified_query_def in_log_def)
qed

lemma spec_commit_checks:
  assumes ok: "others_ok env" and P: "lasting P" "\<And>g. P g \<Longrightarrow> E g"
  shows "spec P (commit_checks gw env actor path)
    (\<lambda>xc g. P g \<and> addressed gw env actor path (fst xc) \<and> has_execution (fst xc) g \<and> has_contract (snd xc) g \<and>
       ex_rollback_contract_id (fst xc) = Some (rc_contract_id (snd xc)) \<and>
       rc_state (snd xc) = RS_Verified \<and> \<not> rc_auto_commit (snd xc) \<and>
       (\<exists>e. in_log e g \<and> ev_kind e = SideEffectVerified \<and>
          ev_execution_id e = Some (ex_execution_id (fst xc)))) E"
  unfolding commit_checks_def
  apply (rule then_load_execution[OF ok P], assumption)
  apply (rule then_ensure, blast intro: P)
  apply (rule then_load_contract[OF ok], simp add: P, blast intro: P)
  apply (rule then_ensure, blast intro: P)+
  apply (rule spec_andthen[OF spec_or_internal[OF spec_db_read[OF ok]]], simp add: P, blast intro: P)
  apply (rule then_ensure, blast intro: P)
  apply (rule last_ret)
  subgoal for x c events g
    using verified_event_found[of "ex_execution_id x" g] by (auto simp: addressed_def)
  done

definition committed_ok ::
  "gateway \<Rightarrow> env \<Rightarrow> AuthActor option \<Rightarrow> string \<Rightarrow> gstate \<Rightarrow> bool" where
  "committed_ok gw env actor path g =
    (\<exists>x c. addressed gw env actor path x \<and> rc_state c = RS_Verified \<and> \<not> rc_auto_commit c \<and>
       ex_rollback_contract_id x = Some (rc_contract_id c) \<and>
       stored (x\<lparr>ex_state := ES_Committed\<rparr>) (Some (c\<lparr>rc_state := RS_Committed\<rparr>)) g \<and>
       (\<exists>e. in_log e g \<and> ev_kind e = SideEffectVerified \<and> ev_execution_id e = Some (ex_execution_id x)))"

lemma spec_commit:
  assumes ok: "others_ok env"
  shows "spec (\<lambda>g. g_calls g = before) (commit_execution gw env actor path)
    (\<lambda>_ g. g_calls g = before \<and> committed_ok gw env actor path g) (\<lambda>g. g_calls g = before)"
  unfolding commit_execution_def split_def Let_def
  apply (rule spec_andthen[OF spec_commit_checks[OF ok]], simp, simp)
  subgoal for xc
    apply (rule spec_andthen[OF spec_or_internal[OF spec_transition1_stored[OF ok]]])
       apply (intro lasting_conj lasting_ex; simp)
      apply blast
     apply (rule transition_args_same[where x = "fst xc" and c = "snd xc"];
            simp add: same_execution_def same_contract_def)
    apply (rule then_keep[OF spec_settle_transition[OF ok]], intro lasting_conj lasting_ex; simp?)
    apply (rule last_ret)
    apply (auto simp: committed_ok_def)
    done
  done


subsection \<open>Cancel\<close>

lemma spec_append_audit:
  assumes "\<And>g. P g \<Longrightarrow> E g"
  shows "spec P (append_audit_checked gw env n) (\<lambda>_ g. P g) E"
  unfolding append_audit_checked_def using assms by (auto simp: spec_def ret_def raise_def ensure_def)

lemma spec_cancel:
  assumes ok: "others_ok env"
  shows "spec (\<lambda>g. g_calls g = before) (cancel_execution gw env actor path)
    (\<lambda>_ g. g_calls g = before \<and> (\<exists>x. addressed gw env actor path x \<and>
       execution_is_cancelable_pre_side_effect (ex_state x) \<and>
       reached (x\<lparr>ex_state := ES_Canceled, ex_finished_at := Some (at_now env 2)\<rparr>) g))
    (\<lambda>g. g_calls g = before)"
  unfolding cancel_execution_def Let_def
  apply (rule then_load_execution[OF ok], simp, simp)
  apply (rule then_ensure, simp)
  apply (rule spec_andthen[OF spec_or_internal[OF spec_transition1_stored[OF ok]]], simp, simp)
   apply (auto simp: transition_args_def same_execution_def intro: has_execution_same)[1]
  apply (rule then_keep[OF spec_append_audit], simp)
  apply (rule then_keep[OF spec_settle_transition[OF ok]], simp, simp, simp add: cancel_event_def)
  apply (rule last_ret)
  apply (auto simp: stored_def addressed_def)
  done

lemma then_load_claimed:
  assumes ok: "others_ok env" and P: "lasting P" "\<And>g. P g \<Longrightarrow> E g"
    and k: "gw_parse_uuid gw path = Some k" "\<And>g. P g \<Longrightarrow> claimed k g"
    and f: "\<And>x. 2 \<le> execution_phase (ex_state x) \<Longrightarrow> spec (\<lambda>g. P g \<and> has_execution x g) (f x) R E"
  shows "spec P (andthen (load_owned_execution gw env actor path) f) R E"
proof -
  have "spec P (load_owned_execution gw env actor path)
      (\<lambda>x g. P g \<and> has_execution x g \<and> 2 \<le> execution_phase (ex_state x)) E"
    unfolding load_owned_execution_def parse_execution_id_def
    apply (rule then_some_or, erule P)
    apply (rule then_fetch[OF ok P], assumption)
    apply (rule then_owner_guard, blast intro: P)
    apply (rule last_ret)
    using k by (fastforce simp: claimed_def has_execution_def get_execution_def dest: tget_key)
  then show ?thesis
  proof (rule spec_andthen)
    fix x :: ExecutionRecord
    show "spec (\<lambda>g. P g \<and> has_execution x g \<and> 2 \<le> execution_phase (ex_state x)) (f x) R E"
      by (cases "2 \<le> execution_phase (ex_state x)") (simp_all add: f)
  qed
qed

lemma spec_cancel_claimed:
  assumes ok: "others_ok env" and k: "gw_parse_uuid gw path = Some k"
  shows "spec (claimed k) (cancel_execution gw env actor path) (\<lambda>_ _. False) (\<lambda>_. True)"
  unfolding cancel_execution_def Let_def
  apply (rule then_load_claimed[OF ok _ _ k], simp, simp, simp)
  subgoal for x
    by (cases "ex_state x")
       (auto simp: ensure_def intro: spec_raise)
  done

text \<open>C34: A cancelled execution is never executed.  After a successful
  cancellation no request for the execution calls an adapter, whatever happens in
  between.\<close>
theorem canceled_never_executed:
  assumes "store_step\<^sup>*\<^sup>* empty_database (g_db g)" "others_ok env1" "others_ok env2"
    and "cancel_execution gw env1 actor1 path g = (Inr resp, g1)" "store_step\<^sup>*\<^sup>* (g_db g1) (g_db g2)"
  shows "g_calls (snd (execute_execution gw env2 actor2 path payload g2)) = g_calls g2"
proof -
  note wf = reachable_wf[OF assms(1)]
  from spec_result[OF spec_cancel[OF assms(2)] wf refl assms(4)] obtain x where
    s: "store_step\<^sup>*\<^sup>* (g_db g) (g_db g1)" and x: "addressed gw env1 actor1 path x"
    and r: "reached (x\<lparr>ex_state := ES_Canceled, ex_finished_at := Some (at_now env1 2)\<rparr>) g1" by auto
  have wf1: "store_wf (g_db g1)" using store_steps[OF s wf] by simp
  have wf2: "store_wf (g_db g2)" using store_steps[OF assms(5) wf1] by simp
  have "claimed (ex_execution_id x) g1" using reached_claimed[OF r] by simp
  then have "claimed (ex_execution_id x) g2"
    using lasting_claimed[unfolded lasting_def, rule_format, OF wf1 _ assms(5)]
    by (simp add: claimed_def)
  then show ?thesis
    using spec_run[OF spec_execute_claimed[OF assms(3)] wf2] x unfolding addressed_def by blast
qed

text \<open>C35: An execution whose side effect was started is never cancelled: every
  later request to cancel it fails.\<close>
theorem executed_never_canceled:
  assumes "store_step\<^sup>*\<^sup>* empty_database (g_db g)" "others_ok env1" "others_ok env2"
    and "g1 = snd (execute_execution gw env1 actor1 path payload g)" "g_calls g1 \<noteq> g_calls g"
    and "store_step\<^sup>*\<^sup>* (g_db g1) (g_db g2)"
  shows "\<exists>e. fst (cancel_execution gw env2 actor2 path g2) = Inl e"
proof -
  obtain k where k: "gw_parse_uuid gw path = Some k" "claimed k g2" "store_wf (g_db g2)"
    using executed_stays_claimed[OF assms(1,2,4-6)] .
  then show ?thesis
    using spec_cancel_claimed[OF assms(3) k(1), of actor2]
    by (cases "cancel_execution gw env2 actor2 path g2"; cases "fst (cancel_execution gw env2 actor2 path g2)")
       (fastforce simp: spec_def)+
qed

subsection \<open>Verify\<close>

definition outcome_ok :: "VerifyOutcome \<Rightarrow> ExecutionRecord \<Rightarrow> nat \<times> VerifyExecutionResponse \<Rightarrow> gstate \<Rightarrow> bool" where
  "outcome_ok out x r g =
    (let c' = ver_rollback_contract (snd r) in
     ver_execution_id (snd r) = ex_execution_id x \<and> contract_reached c' g \<and>
     (case out of
        Applied \<Rightarrow> fst r = 200 \<and> ver_verified (snd r) \<and> \<not> ver_recovery_required (snd r) \<and>
          rc_state c' = RS_Verified \<and> reached (verified_execution True (rc_auto_commit c') x) g
      | NotApplied \<Rightarrow> fst r = 200 \<and> \<not> ver_verified (snd r) \<and> \<not> ver_recovery_required (snd r) \<and>
          rc_state c' = RS_Failed \<and> reached (x\<lparr>ex_state := ES_Failed\<rparr>) g
      | Indeterminate \<Rightarrow> fst r = 202 \<and> \<not> ver_verified (snd r) \<and> ver_recovery_required (snd r) \<and>
          rc_state c' = RS_RecoveryRequired \<and> reached (x\<lparr>ex_state := ES_RecoveryRequired\<rparr>) g))"

lemma verified_same: "same_execution x (verified_execution v a x)"
  by (simp add: verified_execution_def same_execution_def)

lemma verify_contract_same: "same_contract c (verify_contract x c)"
  by (simp add: verify_contract_def same_contract_def Let_def split: option.splits)

lemma verify_contract_R3:
  "rc_rollback_class c = R3IrreversibleHighConsequence \<Longrightarrow> \<not> rc_auto_commit (verify_contract x c)"
  by (simp add: verify_contract_def Let_def split: option.splits)

lemma spec_verify_indeterminate:
  assumes ok: "others_ok env" and P: "lasting P" "\<And>g. P g \<Longrightarrow> E g"
    and args: "\<And>g. P g \<Longrightarrow> has_execution x g \<and> has_contract c g" and cv: "same_contract c cv"
  shows "spec P (verify_indeterminate env x c cv)
    (\<lambda>r g. P g \<and> rc_auto_commit (ver_rollback_contract (snd r)) = rc_auto_commit cv \<and>
       outcome_ok Indeterminate x r g) E"
  unfolding verify_indeterminate_def Let_def
  apply (rule spec_andthen[OF spec_or_internal[OF spec_transition_stored[OF ok P]]], assumption)
   apply (drule args, rule transition_args_same[where x = x and c = c];
          use cv in \<open>simp add: same_execution_def same_contract_def\<close>)
  apply (rule then_keep[OF spec_settle_event[OF ok]], simp add: P, simp add: P, simp)
  apply (rule last_ret)
  apply (simp add: outcome_ok_def stored_def Let_def)
  done

lemma spec_verify_conclusive:
  assumes ok: "others_ok env" and P: "lasting P" "\<And>g. P g \<Longrightarrow> E g"
    and args: "\<And>g. P g \<Longrightarrow> has_execution x g \<and> has_contract c g" and cv: "same_contract c cv"
  shows "spec P (verify_conclusive env v x c cv)
    (\<lambda>r g. P g \<and> rc_auto_commit (ver_rollback_contract (snd r)) = rc_auto_commit cv \<and>
       outcome_ok (if v then Applied else NotApplied) x r g) E"
  unfolding verify_conclusive_def Let_def
  apply (rule spec_andthen[OF spec_or_internal[OF spec_transition_stored[OF ok P]]], assumption)
   apply (drule args, rule transition_args_same[where x = x and c = c];
          use cv in \<open>simp add: verified_same same_contract_def\<close>)
  apply (rule then_keep[OF spec_settle_event[OF ok]], simp add: P, simp add: P, simp)
  apply (rule then_keep)
   apply (rule spec_if)
    apply (rule spec_settle_event[OF ok], simp add: P, simp add: P, simp add: verify_committed_event_def)
   apply (rule last_ret, assumption)
  apply (rule then_keep[OF spec_finish_outbox[OF ok]], simp add: P, simp add: P)
  apply (rule last_ret)
  apply (cases v; auto simp: outcome_ok_def stored_def Let_def verified_execution_def)
  done

definition may_verify ::
  "gateway \<Rightarrow> env \<Rightarrow> AuthActor option \<Rightarrow> string \<Rightarrow> ExecutionRecord \<Rightarrow> RollbackContract \<Rightarrow> gstate \<Rightarrow> bool" where
  "may_verify gw env actor path x c g =
    (addressed gw env actor path x \<and> has_execution x g \<and> has_contract c g \<and>
     ex_rollback_contract_id x = Some (rc_contract_id c) \<and> verify_state_ok c x)"

lemma lasting_may_verify [simp]: "lasting (may_verify gw env actor path x c)"
  unfolding may_verify_def by (intro lasting_conj) simp_all

lemma may_verify_calls [simp]:
  "may_verify gw env actor path x c (g\<lparr>g_calls := l\<rparr>) = may_verify gw env actor path x c g"
  by (simp add: may_verify_def has_execution_def has_contract_def)

definition verify_log ::
  "gateway \<Rightarrow> env \<Rightarrow> AuthActor option \<Rightarrow> string \<Rightarrow> AdapterCall list \<Rightarrow> gstate \<Rightarrow> bool" where
  "verify_log gw env actor path before g =
    (g_calls g = before \<or>
     (\<exists>x c. g_calls g = before @ [VerifyCall (verify_contract x c)] \<and> may_verify gw env actor path x c g))"

definition verify_result ::
  "gateway \<Rightarrow> env \<Rightarrow> AuthActor option \<Rightarrow> string \<Rightarrow> AdapterCall list \<Rightarrow>
   nat \<times> VerifyExecutionResponse \<Rightarrow> gstate \<Rightarrow> bool" where
  "verify_result gw env actor path before r g =
    (\<exists>x c receipt. g_calls g = before @ [VerifyCall (verify_contract x c)] \<and>
       may_verify gw env actor path x c g \<and>
       rollback_verify_with_outcome (gw_rollback gw) (verify_contract x c) = Inr receipt \<and>
       outcome_ok (vo_outcome receipt) x r g \<and>
       (rc_rollback_class c = R3IrreversibleHighConsequence \<longrightarrow>
          \<not> rc_auto_commit (ver_rollback_contract (snd r))))"

lemma spec_verify_outcome:
  assumes ok: "others_ok env"
  defines "cv x c receipt \<equiv> (verify_contract x c)\<lparr>rc_metadata := jm_insert ''verify_outcome_receipt''
                 (JObj (vo_adapter_metadata receipt)) (rc_metadata (verify_contract x c))\<rparr>"
  assumes r: "rollback_verify_with_outcome (gw_rollback gw) (verify_contract x c) = Inr receipt"
  shows "spec (\<lambda>g. g_calls g = before @ [VerifyCall (verify_contract x c)] \<and> may_verify gw env actor path x c g)
    (case vo_outcome receipt of
       Indeterminate \<Rightarrow> verify_indeterminate env x c (cv x c receipt)
     | Applied \<Rightarrow> verify_conclusive env True x c (cv x c receipt)
     | NotApplied \<Rightarrow> verify_conclusive env False x c (cv x c receipt))
    (verify_result gw env actor path before) (verify_log gw env actor path before)"
proof -
  let ?P = "\<lambda>g. g_calls g = before @ [VerifyCall (verify_contract x c)] \<and> may_verify gw env actor path x c g"
  let ?E = "verify_log gw env actor path before"
  have P: "lasting ?P" "?P g \<Longrightarrow> ?E g" "?P g \<Longrightarrow> has_execution x g \<and> has_contract c g" for g :: gstate
    by (auto simp: verify_log_def may_verify_def)
  have cv: "same_contract c (cv x c receipt)"
    using verify_contract_same[of c x] by (simp add: cv_def same_contract_def)
  have a: "rc_auto_commit (cv x c receipt) = rc_auto_commit (verify_contract x c)"
    by (simp add: cv_def)
  have res: "verify_result gw env actor path before rr g"
    if "?P g" "rc_auto_commit (ver_rollback_contract (snd rr)) = rc_auto_commit (cv x c receipt)"
      "outcome_ok (vo_outcome receipt) x rr g" for rr g
    using that r a verify_contract_R3[of c x] by (auto simp: verify_result_def)
  note ind = spec_verify_indeterminate[OF ok P cv] and con = spec_verify_conclusive[OF ok P cv]
  show ?thesis
    by (cases "vo_outcome receipt")
       (auto intro!: spec_conseq[OF ind] spec_conseq[OF con] intro: res)
qed

lemma spec_verify:
  assumes ok: "others_ok env"
  shows "spec (\<lambda>g. g_calls g = before) (verify_execution gw env actor path)
    (verify_result gw env actor path before) (verify_log gw env actor path before)"
  unfolding verify_execution_def Let_def
  apply (rule then_load_execution[OF ok], simp, simp add: verify_log_def)
  apply (rule then_load_contract[OF ok], simp, simp add: verify_log_def)
  apply (rule then_ensure, simp add: verify_log_def)
  subgoal for x c
    apply (rule then_adapter_call[where Q = "\<lambda>g. g_calls g = before @ [VerifyCall (verify_contract x c)] \<and>
        may_verify gw env actor path x c g"])
     apply (rule then_of_result, auto simp: verify_log_def)[1]
     apply (simp only: wrap_Inr)
     apply (rule spec_verify_outcome[OF ok], assumption)
    apply (simp add: may_verify_def addressed_def has_execution_def has_contract_def)
    done
  done


subsection \<open>Compensate\<close>

definition may_compensate ::
  "gateway \<Rightarrow> env \<Rightarrow> AuthActor option \<Rightarrow> string \<Rightarrow> ExecutionRecord \<Rightarrow> RollbackContract \<Rightarrow> gstate \<Rightarrow> bool" where
  "may_compensate gw env actor path x c g =
    (addressed gw env actor path x \<and> has_execution x g \<and> has_contract c g \<and>
     ex_rollback_contract_id x = Some (rc_contract_id c) \<and> compensate_state_ok c x)"

lemma lasting_may_compensate [simp]: "lasting (may_compensate gw env actor path x c)"
  unfolding may_compensate_def by (intro lasting_conj) simp_all

definition compensate_log ::
  "gateway \<Rightarrow> env \<Rightarrow> AuthActor option \<Rightarrow> string \<Rightarrow> AdapterCall list \<Rightarrow> gstate \<Rightarrow> bool" where
  "compensate_log gw env actor path before g =
    (g_calls g = before \<or>
     (\<exists>x c. g_calls g = before @ [CompensateCall c] \<and> may_compensate gw env actor path x c g))"

definition compensate_result ::
  "gateway \<Rightarrow> env \<Rightarrow> AuthActor option \<Rightarrow> string \<Rightarrow> AdapterCall list \<Rightarrow>
   nat \<times> CompensateExecutionResponse \<Rightarrow> gstate \<Rightarrow> bool" where
  "compensate_result gw env actor path before r g =
    (\<exists>x c receipt. g_calls g = before @ [CompensateCall c] \<and> may_compensate gw env actor path x c g \<and>
       rollback_compensate (gw_rollback gw) c = Inr receipt \<and>
       (coer_compensated (snd r) \<longleftrightarrow> rr_recovered receipt) \<and>
       (coer_recovery_required (snd r) \<longleftrightarrow> \<not> rr_recovered receipt \<and> from_recovery c x) \<and>
       contract_reached (compensated_contract receipt x c) g \<and>
       (\<exists>t. reached (compensated_execution t receipt c x) g))"

lemma enrich_same:
  "same_contract c (enrich_http_compensation_if_needed c) \<and>
   rc_state (enrich_http_compensation_if_needed c) = rc_state c"
  by (auto simp: enrich_http_compensation_if_needed_def same_contract_def Let_def
      split: list.splits option.splits prod.splits if_splits RollbackTarget.splits)

lemma compensated_same:
  "same_execution x (compensated_execution t receipt c x)" "same_contract c (compensated_contract receipt x c)"
  by (simp_all add: compensated_execution_def compensated_contract_def same_execution_def same_contract_def Let_def)

lemma spec_compensate_finish:
  assumes ok: "others_ok env" and r: "rollback_compensate (gw_rollback gw) c = Inr receipt"
  shows "spec (\<lambda>g. g_calls g = before @ [CompensateCall c] \<and> may_compensate gw env actor path x c g)
    (compensate_finish env x c receipt)
    (compensate_result gw env actor path before) (compensate_log gw env actor path before)"
  unfolding compensate_finish_def Let_def
  apply (rule spec_andthen[OF spec_or_internal[OF spec_transition1_stored[OF ok]]], simp)
    apply (auto simp: compensate_log_def)[1]
   apply (rule transition_args_same[where x = x and c = c]; simp add: may_compensate_def compensated_same)
  apply (rule then_keep[OF spec_settle_transition[OF ok]], simp)
    apply (auto simp: compensate_log_def)[1]
   apply simp
  apply (rule last_ret)
  apply (use r in \<open>auto simp: compensate_result_def stored_def\<close>)
  done

lemma spec_compensate:
  assumes ok: "others_ok env"
  shows "spec (\<lambda>g. g_calls g = before) (compensate_execution gw env actor path)
    (compensate_result gw env actor path before) (compensate_log gw env actor path before)"
  unfolding compensate_execution_def Let_def
  apply (rule then_load_execution[OF ok], simp, simp add: compensate_log_def)
  apply (rule then_load_contract[OF ok], simp, simp add: compensate_log_def)
  apply (rule then_ensure, simp add: compensate_log_def)
  subgoal for x c
    apply (rule then_adapter_call[where Q = "\<lambda>g.
        g_calls g = before @ [CompensateCall (enrich_http_compensation_if_needed c)] \<and>
        may_compensate gw env actor path x (enrich_http_compensation_if_needed c) g"])
     apply (rule then_of_result, auto simp: compensate_log_def)[1]
     apply (simp only: wrap_Inr)
     apply (rule spec_compensate_finish[OF ok], assumption)
    using enrich_same[of c]
    apply (auto simp: may_compensate_def addressed_def compensate_state_ok_def same_contract_def
        has_execution_def has_contract_def)
    done
  done


end
