(* ===== verification/Authorize_Gate.thy ===== *)
theory Authorize_Gate
  imports Authorize Capability_Safety Requests
begin

text \<open>
  What an authorization establishes, for any interleaving with other requests:
  the lease it consumed, the checks it made against proposal, intent scope and
  approval, and the execution it recorded.
\<close>

definition bound_approval :: "gateway \<Rightarrow> env \<Rightarrow> nat \<Rightarrow> ActionProposal \<Rightarrow> ApprovalBinding \<Rightarrow> gstate \<Rightarrow> bool" where
  "bound_approval gw env n p b g =
    (\<exists>a. approved a g \<and> aq_approval_id a = ab_approval_id b \<and>
       aq_action_digest a = ab_approved_action_digest b \<and>
       canonical_action_digest (gw_hash_json gw) p = ab_approved_action_digest b \<and>
       at_now env n \<le> ab_expires_at b \<and> at_now env (n + 1) \<le> aq_expires_at a)"

text \<open>The checks on a lease for the requested proposal.\<close>

definition authorizable ::
  "gateway \<Rightarrow> env \<Rightarrow> AuthActor option \<Rightarrow> AuthorizeExecutionRequest \<Rightarrow> CapabilityLease \<Rightarrow> gstate \<Rightarrow> bool" where
  "authorizable gw env actor rq l g =
    (has_lease l g \<and> cl_capability_id l = aer_capability_id rq \<and> cl_proposal_id l = aer_proposal_id rq \<and>
     enforce_object_owner_guard actor (cl_owner_actor_id l) (gw_auth_mode gw)
       (gw_legacy_object_compat_allow_until gw) (at_now env 2) = Inr () \<and>
     (\<exists>p i. has_proposal p g \<and> ap_proposal_id p = aer_proposal_id rq \<and>
        validate_capability_proposal_binding l p = Inr () \<and>
        has_intent i g \<and> in_intent_id i = cl_intent_id l \<and>
        validate_resource_bindings_subset_of_scope (gw_fs gw) (gw_parse_url gw)
          (cl_resource_bindings l) (in_resource_scope i) = Inr () \<and>
        (case cl_approval_binding l of None \<Rightarrow> True | Some b \<Rightarrow> bound_approval gw env 5 p b g)))"

lemma lasting_bound_approval [simp]: "lasting (bound_approval gw env n p b)"
  unfolding bound_approval_def by (intro lasting_ex lasting_conj) simp_all

lemma lasting_authorizable [simp]: "lasting (authorizable gw env actor rq l)"
  unfolding authorizable_def
  by (cases "cl_approval_binding l") (intro lasting_ex lasting_conj, simp_all)+

lemma spec_attempt_result:
  assumes "spec P m Q F"
  shows "spec P (attempt m) (\<lambda>r g. case r of Inr x \<Rightarrow> Q x g | Inl _ \<Rightarrow> F g) E"
  unfolding spec_def
proof (intro allI impI)
  fix g assume "store_wf (g_db g)" "P g"
  then have "store_step\<^sup>*\<^sup>* (g_db g) (g_db (snd (m g))) \<and>
      (case m g of (Inr x, g') \<Rightarrow> Q x g' | (Inl e, g') \<Rightarrow> F g')"
    using assms by (simp add: spec_def)
  then show "store_step\<^sup>*\<^sup>* (g_db g) (g_db (snd (attempt m g))) \<and>
      (case attempt m g of (Inr r, g') \<Rightarrow> (case r of Inr x \<Rightarrow> Q x g' | Inl _ \<Rightarrow> F g') | (Inl e, g') \<Rightarrow> E g')"
    by (cases "m g"; cases "fst (m g)") (simp_all add: attempt_def)
qed

lemma spec_get_for_authorize:
  assumes ok: "others_ok env" and P: "lasting P" "\<And>g. P g \<Longrightarrow> E g"
  shows "spec P (get_capability_for_authorize env n k)
    (\<lambda>l g. P g \<and> has_lease l g \<and> cl_capability_id l = k) E"
  unfolding get_capability_for_authorize_def
proof (rule spec_andthen)
  let ?Q = "\<lambda>r g. P g \<and> (case r of Inr l \<Rightarrow> has_lease l g \<and> cl_capability_id l = k | Inl _ \<Rightarrow> True)"
  have get: "spec P (cap_get env n k) (\<lambda>l g. P g \<and> has_lease l g \<and> cl_capability_id l = k) P"
    unfolding cap_get_def
    apply (rule spec_andthen[OF spec_cap_load[OF ok P(1)]], assumption)
    apply (rule then_ensure, blast)+
    apply (rule last_ret, blast)
    done
  show "spec P (attempt (cap_get env n k)) ?Q E"
    by (rule spec_conseq[OF spec_attempt_result[OF get]]) (auto split: sum.splits)
  show "spec (?Q r) (case r of Inr lease \<Rightarrow> ret lease
    | Inl e \<Rightarrow>
      if e \<noteq> CE_NotFound then raise e
      else
        andthen (map_err (\<lambda>_. CE_NotFound) (db_read env (n + 1) (\<lambda>d. get_capability d k))) (\<lambda>l.
        andthen (some_or l CE_NotFound) (\<lambda>lease.
        andthen (ensure (cl_status lease \<noteq> CS_Used) CE_AlreadyUsed) (\<lambda>_.
        andthen (ensure (cl_status lease \<noteq> CS_Revoked) CE_Revoked) (\<lambda>_.
        andthen (ensure (\<not> cl_expires_at lease < at_now env (n + 1)) CE_Expired) (\<lambda>_.
        ret lease)))))) (\<lambda>l g. P g \<and> has_lease l g \<and> cl_capability_id l = k) E" for r
  proof (cases r)
    case (Inl e)
    show ?thesis
      unfolding Inl sum.case
      apply (rule spec_if, rule spec_raise, blast intro: P)
      apply (rule spec_andthen[OF spec_map_err[OF spec_db_read[OF ok]]], simp add: P, blast intro: P)
      apply (rule then_some_or, blast intro: P)
      apply (rule then_ensure, blast intro: P)+
      apply (rule last_ret)
      apply (auto dest: stored_lease)
      done
  next
    case (Inr l)
    show ?thesis unfolding Inr sum.case by (rule last_ret) blast
  qed
qed

lemma spec_approval_binding:
  assumes ok: "others_ok env" and P: "lasting P" "\<And>g. P g \<Longrightarrow> E g"
    and p: "\<And>g. P g \<Longrightarrow> has_proposal p g" "ap_proposal_id p = k"
  shows "spec P (validate_approval_binding_digest gw env n b k) (\<lambda>_ g. P g \<and> bound_approval gw env n p b g) E"
  unfolding validate_approval_binding_digest_def
  apply (rule then_fetch_granted[OF ok P], assumption)
  apply (rule then_ensure, simp add: P)+
  apply (rule then_fetch_proposal[OF ok], simp add: P, simp add: P)
  apply (rule then_ensure, simp add: P)
  apply (rule spec_if)
   apply (rule last_ret)
  subgoal for a p' g
    using p(1)[of g] p(2) by (auto simp: bound_approval_def has_proposal_def)
  apply (rule spec_andthen[OF spec_or_internal[OF spec_db_read[OF ok]]], simp add: P, simp add: P)
  apply (rule last_ensure, simp add: P)
  subgoal for a p' _ g
    using p(1)[of g] p(2) by (auto simp: bound_approval_def has_proposal_def)
  done

lemma spec_authorize_checks:
  assumes ok: "others_ok env" and P: "lasting P" "\<And>g. P g \<Longrightarrow> E g"
  shows "spec P (authorize_checks gw env actor rq) (\<lambda>l g. P g \<and> authorizable gw env actor rq l g) E"
  unfolding authorize_checks_def
  apply (rule spec_andthen[OF spec_map_err[OF spec_get_for_authorize[OF ok P]]], assumption)
  apply (rule then_owner_guard, simp add: P)
  apply (rule then_ensure, simp add: P)
  apply (rule then_fetch_proposal[OF ok], simp add: P, simp add: P)
  apply (rule then_of_result, simp add: P)
  apply (rule then_fetch_intent[OF ok], simp add: P, simp add: P)
  apply (rule then_of_result, simp add: P)
  subgoal for l p _ i
    apply (cases "cl_approval_binding l")
     apply (simp, rule last_ret, auto simp: authorizable_def wrap_Inr)[1]
    apply simp
    apply (rule spec_andthen[OF spec_approval_binding[OF ok, where p = p]], simp add: P, simp add: P, simp, simp)
    apply (rule last_ret, auto simp: authorizable_def wrap_Inr)
    done
  done

lemma fresh_authorize_outbox:
  "fresh_outbox (authorize_outbox i t x)" "lo_execution_id (authorize_outbox i t x) = ex_execution_id x"
  by (simp_all add: authorize_outbox_def outbox_pending_def pending_with_obligations_def fresh_outbox_def Let_def
      obligation_pending_def)

lemma authorized_stored:
  assumes "authorized now l x ob d d'"
  shows "reached x (g\<lparr>g_db := d'\<rparr>) \<and> spent (cl_capability_id l) (g\<lparr>g_db := d'\<rparr>)"
proof -
  from assms obtain c where c: "get_capability d (cl_capability_id l) = Some c" by (auto simp: authorized_def)
  have "get_execution d' (ex_execution_id x) = Some x"
    using assms by (auto simp: authorized_def get_execution_def tget_snoc)
  moreover have "get_capability d' (cl_capability_id l) = Some (c\<lparr>cl_status := CS_Used\<rparr>)"
    using assms c by (simp add: authorized_def get_capability_def tget_tupd)
  ultimately show ?thesis by (auto simp: reached_def spent_def)
qed

lemma spec_record_authorization:
  assumes ok: "others_ok env" and P: "lasting P" "\<And>g. P g \<Longrightarrow> E g"
    and x: "x = authorized_record i t rq l" and ob: "ob = authorize_outbox j u x"
  shows "spec P (db_op env n (record_authorization now l x ob))
    (\<lambda>won g. P g \<and> (won \<longrightarrow> reached x g \<and> spent (cl_capability_id l) g)) E"
proof (rule spec_db_op[OF ok P(1)])
  let ?m = "record_authorization now l x ob"
  have step: "store_step\<^sup>*\<^sup>* d (snd (?m d))" for d
    by (rule r_into_rtranclp, rule Authorization)
       (simp_all add: x ob fresh_authorize_outbox, simp_all add: authorized_record_def)
  have keep: "P (g\<lparr>g_db := d\<rparr>)" if "store_wf (g_db g)" "P g" "?m (g_db g) = (r, d)" for g r d
    using P(1) step[of "g_db g"] that by (simp add: lasting_def)
  show "store_step\<^sup>*\<^sup>* (g_db g) (snd (?m (g_db g)))" if "store_wf (g_db g)" "P g" for g :: gstate
    by (rule step)
  show "P (g\<lparr>g_db := d\<rparr>) \<and> (b \<longrightarrow> reached x (g\<lparr>g_db := d\<rparr>) \<and> spent (cl_capability_id l) (g\<lparr>g_db := d\<rparr>))"
    if "store_wf (g_db g)" "P g" "?m (g_db g) = (Inr b, d)" for g b d
    using keep[OF that] record_authorization_Inr[OF that(3)] authorized_stored by (cases b) auto
  show "E (g\<lparr>g_db := d\<rparr>)" if "store_wf (g_db g)" "P g" "?m (g_db g) = (Inl e, d)" for g e d
    using keep[OF that] P(2) by blast
qed (rule P(2))

lemma spec_classify:
  assumes ok: "others_ok env" and P: "lasting P"
  shows "spec P (classify_authorization_cas_failure env n k) (\<lambda>_ g. P g) E"
  unfolding classify_authorization_cas_failure_def
  apply (rule then_keep[OF spec_attempt])
   apply (rule spec_conseq[OF spec_db_read[OF ok P, where E = P]], simp_all)
  apply (rule last_ret, assumption)
  done

lemma spec_authorize_tail:
  fixes gw :: gateway and actor :: "AuthActor option" and before :: "AdapterCall list"
  assumes ok: "others_ok env" and x: "x = authorized_record i t rq l" and ob: "ob = authorize_outbox j u x"
    and ev: "ev_parent_edges event = []"
  defines "P g \<equiv> g_calls g = before \<and> authorizable gw env actor rq l g"
  shows "spec P
    (andthen (or_internal (db_op env 10 (record_authorization now l x ob))) (\<lambda>recorded.
     andthen (if recorded then ret ()
              else andthen (classify_authorization_cas_failure env 11 k) (\<lambda>e. raise (capability_problem e))) (\<lambda>_.
     andthen (attempt (cap_mark_used env 12 k)) (\<lambda>_.
     andthen (settle_transition env 15 ob event) (\<lambda>_.
     ret x)))))
    (\<lambda>x' g. x' = x \<and> P g \<and> reached x g \<and> spent (cl_capability_id l) g) (\<lambda>g. g_calls g = before)"
proof -
  let ?Q = "\<lambda>g. P g \<and> reached x g \<and> spent (cl_capability_id l) g"
  have P: "lasting P" "\<And>g. P g \<Longrightarrow> g_calls g = before" unfolding P_def by simp_all
  have Q: "lasting ?Q" "?Q g \<Longrightarrow> g_calls g = before" for g by (auto simp: P)
  have won: "spec (\<lambda>g. P g \<and> (b \<longrightarrow> reached x g \<and> spent (cl_capability_id l) g))
      (if b then ret () else andthen (classify_authorization_cas_failure env 11 k)
         (\<lambda>e. raise (capability_problem e))) (\<lambda>_. ?Q) (\<lambda>g. g_calls g = before)" for b
    by (cases b)
       (auto intro!: last_ret spec_raise then_keep[OF spec_classify[OF ok P(1)]] simp: P(2))
  show ?thesis
    apply (rule spec_andthen[OF spec_or_internal[OF spec_record_authorization[OF ok P x ob]]], assumption)
    apply (rule spec_andthen[OF won])
    apply (rule then_keep[OF spec_attempt])
     apply (rule spec_conseq[OF spec_cap_mark_used[OF ok Q(1), where E = ?Q]], simp_all)
    apply (rule then_keep[OF spec_settle_transition[OF ok Q(1) _ ev]], simp add: P)
    apply (rule last_ret, simp)
    done
qed

lemma spec_authorize:
  assumes ok: "others_ok env"
  shows "spec (\<lambda>g. g_calls g = before) (authorize_execution gw env actor rq)
    (\<lambda>x g. g_calls g = before \<and> reached x g \<and>
       (\<exists>l i t. x = authorized_record i t rq l \<and> authorizable gw env actor rq l g \<and> spent (cl_capability_id l) g))
    (\<lambda>g. g_calls g = before)"
  unfolding authorize_execution_def Let_def
  apply (rule spec_andthen[OF spec_authorize_checks[OF ok]], simp, simp)
  apply (rule spec_conseq[OF spec_authorize_tail[OF ok refl refl]], simp, assumption)
   apply blast
  apply assumption
  done


end
