(* ===== verification/Scenario.thy ===== *)
theory Scenario
  imports Authorize_Gate
begin

text \<open>
  A complete run of the lifecycle on concrete data: authorize, prepare, execute,
  verify and commit one file mutation, with a registered adapter.  Its states are
  reachable, and the properties of the handlers are applied along it.
\<close>

definition demo_env :: "nat \<Rightarrow> env" where
  "demo_env k = \<lparr>at_now = (\<lambda>n. int (100 * k + n)),
     at_id = (\<lambda>n. CHR ''r'' # replicate k (CHR ''q'') @ replicate n (CHR ''n'')),
     at_down = (\<lambda>_. False), at_others = (\<lambda>_ d. d)\<rparr>"

lemma demo_env_ok: "others_ok (demo_env k)"
  by (simp add: others_ok_def demo_env_def)

definition demo_planner :: PlannableAdapter where
  "demo_planner ty tgt = Inr (Some \<lparr>pl_prepare_checks = [], pl_verify_checks = [], pl_compensation_plan = [],
     pl_auto_commit = False, pl_plan_description = ''manual commit''\<rparr>)"

definition demo_gw :: gateway where
  "demo_gw = \<lparr>gw_auth_mode = AuthDisabled, gw_legacy_object_compat_allow_until = None,
     gw_rollback = \<lparr>sv_registry = [''fs'' \<mapsto> NoopRollbackAdapter ''fs''], sv_planners = [demo_planner]\<rparr>,
     gw_hash_json = (\<lambda>_. ''h''), gw_regex = (\<lambda>_. None),
     gw_fs = \<lparr>fs_exists = (\<lambda>_. False), fs_canonicalize = (\<lambda>_. None)\<rparr>, gw_parse_url = (\<lambda>_. None),
     gw_parse_uuid = Some, gw_audit_fail_closed = True\<rparr>"

definition demo_policy_event :: ProvenanceEvent where
  "demo_policy_event = \<lparr>ev_event_id = ''e1'', ev_kind = PolicyEvaluated, ev_occurred_at = 0,
     ev_actor = ferrum_gateway_actor, ev_object = object_ref OT_Proposal ''p1'' ''evaluated'',
     ev_intent_id = Some ''i1'', ev_proposal_id = Some ''p1'', ev_execution_id = None,
     ev_capability_id = None, ev_rollback_contract_id = None, ev_policy_bundle_id = None,
     ev_trust_labels = [], ev_sensitivity_labels = [], ev_parent_edges = [],
     ev_hash_chain = empty_hash_chain, ev_metadata = [(''decision'', JStr ''Allow'')],
     ev_source_runtime_id = None\<rparr>"

definition demo_capability_event :: ProvenanceEvent where
  "demo_capability_event = demo_policy_event\<lparr>ev_event_id := ''e2'', ev_kind := CapabilityMinted,
     ev_capability_id := Some ''c1'', ev_metadata := []\<rparr>"

definition demo_start :: gstate where
  "demo_start = snd (append_governance_event (demo_env 1) 0 demo_capability_event
     (snd (append_governance_event (demo_env 0) 0 demo_policy_event \<lparr>g_db = minted_db, g_calls = []\<rparr>)))"

definition demo_authorized :: "(ApiProblem + ExecutionRecord) \<times> gstate" where
  "demo_authorized = authorize_execution demo_gw (demo_env 2) None
     \<lparr>aer_proposal_id = ''p1'', aer_capability_id = ''c1'', aer_dry_run = False\<rparr> demo_start"

definition demo_path :: string where
  "demo_path = ''rqqnnnnnnnn''"

definition demo_prepared :: "(ApiProblem + PrepareExecutionResponse) \<times> gstate" where
  "demo_prepared = prepare_execution demo_gw (demo_env 3) None demo_path (snd demo_authorized)"

definition demo_executed :: "(ApiProblem + nat \<times> ExecuteExecutionResponse) \<times> gstate" where
  "demo_executed = execute_execution demo_gw (demo_env 4) None demo_path JNull (snd demo_prepared)"

definition demo_verified :: "(ApiProblem + nat \<times> VerifyExecutionResponse) \<times> gstate" where
  "demo_verified = verify_execution demo_gw (demo_env 5) None demo_path (snd demo_executed)"

definition demo_committed :: "(ApiProblem + CommitExecutionResponse) \<times> gstate" where
  "demo_committed = commit_execution demo_gw (demo_env 6) None demo_path (snd demo_verified)"

definition demo_canceled :: "(ApiProblem + CancelExecutionResponse) \<times> gstate" where
  "demo_canceled = cancel_execution demo_gw (demo_env 7) None demo_path (snd demo_authorized)"

definition demo_compensated :: "(ApiProblem + nat \<times> CompensateExecutionResponse) \<times> gstate" where
  "demo_compensated = compensate_execution demo_gw (demo_env 8) None demo_path (snd demo_executed)"

subsection \<open>The run, evaluated\<close>

definition demo_outcome :: "bool list \<times> nat list" where
  "demo_outcome =
    (let a = demo_authorized;
         p = prepare_execution demo_gw (demo_env 3) None demo_path (snd a);
         x = execute_execution demo_gw (demo_env 4) None demo_path JNull (snd p);
         v = verify_execution demo_gw (demo_env 5) None demo_path (snd x);
         c = commit_execution demo_gw (demo_env 6) None demo_path (snd v);
         n = cancel_execution demo_gw (demo_env 7) None demo_path (snd a);
         u = compensate_execution demo_gw (demo_env 8) None demo_path (snd x)
     in ([isl (fst a), isl (fst p), isl (fst x), isl (fst v), isl (fst c), isl (fst n), isl (fst u)],
         [length (g_calls (snd a)), length (g_calls (snd p)), length (g_calls (snd x))]))"

lemma demo_outcome: "demo_outcome = (replicate 7 False, [0, 1, 2])"
  by code_simp

lemma demo_succeeds:
  "\<not> isl (fst demo_authorized)" "\<not> isl (fst demo_prepared)" "\<not> isl (fst demo_executed)"
  "\<not> isl (fst demo_verified)" "\<not> isl (fst demo_committed)" "\<not> isl (fst demo_canceled)"
  "\<not> isl (fst demo_compensated)"
  "length (g_calls (snd demo_prepared)) = 1" "length (g_calls (snd demo_executed)) = 2"
  using demo_outcome
  unfolding demo_outcome_def Let_def demo_prepared_def[symmetric] demo_executed_def[symmetric]
    demo_verified_def[symmetric] demo_committed_def[symmetric] demo_canceled_def[symmetric]
    demo_compensated_def[symmetric]
  by (simp_all add: eval_nat_numeral)

lemma not_isl_Inr: "\<not> isl r \<Longrightarrow> \<exists>x. r = Inr x"
  by (cases r) auto

subsection \<open>Its states are reachable\<close>

lemma spec_reach:
  assumes "spec P m Q E" "store_step\<^sup>*\<^sup>* empty_database (g_db g)" "P g"
  shows "store_step\<^sup>*\<^sup>* empty_database (g_db (snd (m g)))"
  using assms reachable_wf[OF assms(2)] unfolding spec_def by (blast intro: rtranclp_trans)

lemma demo_start_reachable: "store_step\<^sup>*\<^sup>* empty_database (g_db demo_start)"
  unfolding demo_start_def
  by (intro spec_reach[OF spec_append[where P = "\<lambda>_. True" and E = "\<lambda>_. True"]])
     (simp_all add: demo_env_ok demo_capability_event_def demo_policy_event_def minted_db_reachable)

lemma demo_authorized_reachable: "store_step\<^sup>*\<^sup>* empty_database (g_db (snd demo_authorized))"
  unfolding demo_authorized_def by (rule spec_reach[OF spec_authorize[OF demo_env_ok] demo_start_reachable refl])

lemma demo_prepared_reachable: "store_step\<^sup>*\<^sup>* empty_database (g_db (snd demo_prepared))"
  unfolding demo_prepared_def by (rule spec_reach[OF spec_prepare[OF demo_env_ok] demo_authorized_reachable refl])

lemma demo_executed_reachable: "store_step\<^sup>*\<^sup>* empty_database (g_db (snd demo_executed))"
  unfolding demo_executed_def by (rule spec_reach[OF spec_execute[OF demo_env_ok] demo_prepared_reachable refl])

lemma demo_verified_reachable: "store_step\<^sup>*\<^sup>* empty_database (g_db (snd demo_verified))"
  unfolding demo_verified_def by (rule spec_reach[OF spec_verify[OF demo_env_ok] demo_executed_reachable refl])

subsection \<open>Witnesses\<close>


theorem prepare_gate_witness:
  "\<exists>resp. prepared_ok demo_gw (demo_env 3) None demo_path (g_calls (snd demo_authorized)) resp (snd demo_prepared)"
proof -
  obtain r where "fst demo_prepared = Inr r" using not_isl_Inr demo_succeeds(2) by blast
  then have "prepare_execution demo_gw (demo_env 3) None demo_path (snd demo_authorized) = (Inr r, snd demo_prepared)"
    unfolding demo_prepared_def by (metis prod.collapse)
  from prepare_gate[OF demo_authorized_reachable demo_env_ok this] show ?thesis by auto
qed


theorem executed_at_most_once_witness:
  "g_calls (snd demo_executed) \<noteq> g_calls (snd demo_prepared) \<and>
   g_calls (snd (execute_execution demo_gw (demo_env 9) None demo_path JNull (snd demo_executed))) =
   g_calls (snd demo_executed)"
proof -
  have "g_calls (snd demo_executed) \<noteq> g_calls (snd demo_prepared)"
    using demo_succeeds(8,9) by auto
  then show ?thesis
    using executed_at_most_once[OF demo_prepared_reachable demo_env_ok demo_env_ok demo_executed_def[THEN arg_cong[of _ _ snd]]]
    by blast
qed




theorem canceled_never_executed_witness:
  "g_calls (snd (execute_execution demo_gw (demo_env 9) None demo_path JNull (snd demo_canceled))) =
   g_calls (snd demo_canceled)"
proof -
  obtain r where "fst demo_canceled = Inr r" using not_isl_Inr demo_succeeds(6) by blast
  then have "cancel_execution demo_gw (demo_env 7) None demo_path (snd demo_authorized) = (Inr r, snd demo_canceled)"
    unfolding demo_canceled_def by (metis prod.collapse)
  from canceled_never_executed[OF demo_authorized_reachable demo_env_ok demo_env_ok this] show ?thesis
    by blast
qed

theorem executed_never_canceled_witness:
  "\<exists>e. fst (cancel_execution demo_gw (demo_env 9) None demo_path (snd demo_executed)) = Inl e"
proof -
  have "g_calls (snd demo_executed) \<noteq> g_calls (snd demo_prepared)"
    using demo_succeeds(8,9) by auto
  then show ?thesis
    using executed_never_canceled[OF demo_prepared_reachable demo_env_ok demo_env_ok
        demo_executed_def[THEN arg_cong[of _ _ snd]]] by blast
qed

theorem store_mark_used_once_witness:
  "\<exists>e. fst (cap_mark_used (demo_env 4) 0 ''c1'' (snd (cap_mark_used (demo_env 3) 0 ''c1'' demo_start))) = Inl e"
proof -
  have "\<not> isl (fst (cap_mark_used (demo_env 3) 0 ''c1'' demo_start))" by code_simp
  then obtain l where l: "fst (cap_mark_used (demo_env 3) 0 ''c1'' demo_start) = Inr l" using not_isl_Inr by blast
  let ?g = "snd (cap_mark_used (demo_env 3) 0 ''c1'' demo_start)"
  have "cap_mark_used (demo_env 3) 0 ''c1'' demo_start = (Inr l, ?g)" using l by (metis prod.collapse)
  from store_mark_used_once[OF demo_start_reachable demo_env_ok demo_env_ok this rtranclp.rtrancl_refl, of 4 0]
  show ?thesis by simp
qed

theorem memory_mark_used_once_witness:
  "\<exists>e. fst (mem_mark_used (demo_env 4) 0 ''c1''
      (snd (mem_mark_used (demo_env 3) 0 ''c1'' [''c1'' \<mapsto> sample_capability]))) = Inl e"
proof -
  have m: "mem_mark_used (demo_env 3) 0 ''c1'' [''c1'' \<mapsto> sample_capability] =
      (Inr (sample_capability\<lparr>cl_status := CS_Used\<rparr>), [''c1'' \<mapsto> sample_capability\<lparr>cl_status := CS_Used\<rparr>])"
    by (simp add: mem_mark_used_def proc_run ret_def sample_capability_def demo_env_def seconds_def Let_def)
  from memory_mark_used_once[OF m rtranclp.rtrancl_refl, of "demo_env 4" 0] show ?thesis
    by (simp only: m snd_conv)
qed

end
