(* ===== verification/Audit_Trail.thy ===== *)
theory Audit_Trail
  imports Json
begin

text \<open>
  The audit trail: \<open>audit_log.rs\<close> of \<open>crates/ferrum-proto/src\<close> (entries, actions,
  resource types), \<open>merkle.rs\<close> and \<open>sqlite/audit_log.rs\<close> of
  \<open>crates/ferrum-store/src\<close> (content hashes, append, chain verification).

  SHA-256, the JSON printer and reader and the RFC 3339 printer come from other
  crates: they are the fields of \<open>codec\<close>.  Bytes are characters.  The lemmas show
  what a Merkle root commits to, what a verified chain says of its entries, that
  appends keep the chain valid when they run alone, and what the chain does not detect.
\<close>

subsection \<open>audit_log.rs of the protocol crate\<close>

datatype AuditAction =
    TokenCreate | TokenRevoke | TokenRotate | PolicyBundleCreate | PolicyBundleActivate
  | PolicyBundleRollback | ApprovalResolve | QuarantineResolve | ExecutionCancel | AuthFailed
  | AgentRegister | AgentRevoke | AgentAuthFailed | LifecycleOutboxRetry
  | LifecycleOutboxResolve | MfaEnroll | MfaVerify | MfaDisable | MfaRotate | BehavioralAnomaly

fun action_name :: "AuditAction \<Rightarrow> string" where
  "action_name TokenCreate = ''token_create''"
| "action_name TokenRevoke = ''token_revoke''"
| "action_name TokenRotate = ''token_rotate''"
| "action_name PolicyBundleCreate = ''policy_bundle_create''"
| "action_name PolicyBundleActivate = ''policy_bundle_activate''"
| "action_name PolicyBundleRollback = ''policy_bundle_rollback''"
| "action_name ApprovalResolve = ''approval_resolve''"
| "action_name QuarantineResolve = ''quarantine_resolve''"
| "action_name ExecutionCancel = ''execution_cancel''"
| "action_name AuthFailed = ''auth_failed''"
| "action_name AgentRegister = ''agent_register''"
| "action_name AgentRevoke = ''agent_revoke''"
| "action_name AgentAuthFailed = ''agent_auth_failed''"
| "action_name LifecycleOutboxRetry = ''lifecycle_outbox_retry''"
| "action_name LifecycleOutboxResolve = ''lifecycle_outbox_resolve''"
| "action_name MfaEnroll = ''mfa_enroll''"
| "action_name MfaVerify = ''mfa_verify''"
| "action_name MfaDisable = ''mfa_disable''"
| "action_name MfaRotate = ''mfa_rotate''"
| "action_name BehavioralAnomaly = ''behavioral_anomaly''"

definition parse_action :: "string \<Rightarrow> AuditAction option" where
  "parse_action s =
    (if s = ''token_create'' then Some TokenCreate
     else if s = ''token_revoke'' then Some TokenRevoke
     else if s = ''token_rotate'' then Some TokenRotate
     else if s = ''policy_bundle_create'' then Some PolicyBundleCreate
     else if s = ''policy_bundle_activate'' then Some PolicyBundleActivate
     else if s = ''policy_bundle_rollback'' then Some PolicyBundleRollback
     else if s = ''approval_resolve'' then Some ApprovalResolve
     else if s = ''quarantine_resolve'' then Some QuarantineResolve
     else if s = ''execution_cancel'' then Some ExecutionCancel
     else if s = ''auth_failed'' then Some AuthFailed
     else if s = ''agent_register'' then Some AgentRegister
     else if s = ''agent_revoke'' then Some AgentRevoke
     else if s = ''agent_auth_failed'' then Some AgentAuthFailed
     else if s = ''lifecycle_outbox_retry'' then Some LifecycleOutboxRetry
     else if s = ''lifecycle_outbox_resolve'' then Some LifecycleOutboxResolve
     else if s = ''mfa_enroll'' then Some MfaEnroll
     else if s = ''mfa_verify'' then Some MfaVerify
     else if s = ''mfa_disable'' then Some MfaDisable
     else if s = ''mfa_rotate'' then Some MfaRotate
     else if s = ''behavioral_anomaly'' then Some BehavioralAnomaly
     else None)"

datatype AuditResourceType =
    RtToken | RtPolicyBundle | RtApproval | RtQuarantineHold | RtExecution | RtAuth | RtAgent
  | RtLifecycleOutbox | RtMfaCredential | RtProposal

fun resource_type_name :: "AuditResourceType \<Rightarrow> string" where
  "resource_type_name RtToken = ''token''"
| "resource_type_name RtPolicyBundle = ''policy_bundle''"
| "resource_type_name RtApproval = ''approval''"
| "resource_type_name RtQuarantineHold = ''quarantine_hold''"
| "resource_type_name RtExecution = ''execution''"
| "resource_type_name RtAuth = ''auth''"
| "resource_type_name RtAgent = ''agent''"
| "resource_type_name RtLifecycleOutbox = ''lifecycle_outbox''"
| "resource_type_name RtMfaCredential = ''mfa_credential''"
| "resource_type_name RtProposal = ''proposal''"

definition parse_resource_type :: "string \<Rightarrow> AuditResourceType option" where
  "parse_resource_type s =
    (if s = ''token'' then Some RtToken
     else if s = ''policy_bundle'' then Some RtPolicyBundle
     else if s = ''approval'' then Some RtApproval
     else if s = ''quarantine_hold'' then Some RtQuarantineHold
     else if s = ''execution'' then Some RtExecution
     else if s = ''auth'' then Some RtAuth
     else if s = ''agent'' then Some RtAgent
     else if s = ''lifecycle_outbox'' then Some RtLifecycleOutbox
     else if s = ''mfa_credential'' then Some RtMfaCredential
     else if s = ''proposal'' then Some RtProposal
     else None)"

record AuditLogEntry =
  al_id :: int
  al_actor_id :: string
  al_action :: AuditAction
  al_resource_type :: AuditResourceType
  al_resource_id :: string
  al_result :: string
  al_metadata :: "json option"
  al_created_at :: timestamp
  al_content_hash :: "string option"
  al_previous_hash :: "string option"

text \<open>The manifest of a bundle (\<open>AuditBundleManifest\<close>).\<close>

record AuditBundleManifest =
  mf_version :: nat
  mf_exported_at :: timestamp
  mf_first_hash :: string
  mf_last_hash :: string
  mf_merkle_root :: string
  mf_entry_count :: nat
  mf_previous_boundary_hash :: "string option"

record codec =
  sha256 :: "string \<Rightarrow> string"
  json_bytes :: "json \<Rightarrow> string"
  rfc3339 :: "timestamp \<Rightarrow> string"
  print_entry :: "AuditLogEntry \<Rightarrow> string"
  parse_entry :: "string \<Rightarrow> AuditLogEntry option"
  print_manifest :: "AuditBundleManifest \<Rightarrow> string"
  parse_manifest :: "string \<Rightarrow> AuditBundleManifest option"

subsection \<open>Hexadecimal text\<close>

text \<open>The \<open>hex\<close> crate prints lower-case digits and reads both cases; text of odd length
  or with any other character is an error.\<close>

definition hex_digit :: "nat \<Rightarrow> char" where
  "hex_digit n = (if n < 10 then char_of (48 + n) else char_of (87 + n))"

definition hex_value :: "char \<Rightarrow> nat option" where
  "hex_value c = (let n = (of_char c :: nat) in
     if 48 \<le> n \<and> n \<le> 57 then Some (n - 48)
     else if 97 \<le> n \<and> n \<le> 102 then Some (n - 87)
     else if 65 \<le> n \<and> n \<le> 70 then Some (n - 55)
     else None)"

fun hex_encode :: "string \<Rightarrow> string" where
  "hex_encode [] = []"
| "hex_encode (c # cs) =
     hex_digit (of_char c div 16) # hex_digit (of_char c mod 16) # hex_encode cs"

fun hex_decode :: "string \<Rightarrow> string option" where
  "hex_decode [] = Some []"
| "hex_decode [c] = None"
| "hex_decode (a # b # cs) = (case (hex_value a, hex_value b, hex_decode cs) of
     (Some x, Some y, Some r) \<Rightarrow> Some (char_of (16 * x + y) # r) | _ \<Rightarrow> None)"

lemma hex_value_digit [simp]: "n < 16 \<Longrightarrow> hex_value (hex_digit n) = Some n"
  by (auto simp: hex_value_def hex_digit_def Let_def)

lemma of_char_lt_256: "(of_char c :: nat) < 256"
  by (cases c) (simp add: of_char_def)

lemma hex_decode_encode [simp]: "hex_decode (hex_encode s) = Some s"
  by (induction s) (auto simp: less_mult_imp_div_less of_char_lt_256)

lemma hex_encode_inj: "hex_encode s = hex_encode t \<longleftrightarrow> s = t"
  by (metis hex_decode_encode option.inject)

subsection \<open>merkle.rs\<close>

definition leaf_input :: "string \<Rightarrow> string" where
  "leaf_input b = CHR 0x00 # b"

definition node_input :: "string \<Rightarrow> string \<Rightarrow> string" where
  "node_input l r = CHR 0x01 # l @ r"

fun next_level :: "codec \<Rightarrow> string list \<Rightarrow> string list" where
  "next_level c [] = []"
| "next_level c [x] = [sha256 c (node_input x x)]"
| "next_level c (x # y # xs) = sha256 c (node_input x y) # next_level c xs"

lemma length_next_level: "length (next_level c xs) = (length xs + 1) div 2"
  by (induction c xs rule: next_level.induct) auto

function merkle_levels :: "codec \<Rightarrow> string list \<Rightarrow> string" where
  "merkle_levels c level =
    (if 1 < length level then merkle_levels c (next_level c level) else level ! 0)"
  by pat_completeness auto
termination
  by (relation "measure (length \<circ> snd)") (auto simp: length_next_level)

declare merkle_levels.simps [simp del]

text \<open>\<open>None\<close> is the panic of the \<open>expect\<close> on a hash that is not hexadecimal.\<close>

fun decode_all :: "string list \<Rightarrow> string list option" where
  "decode_all [] = Some []"
| "decode_all (h # hs) = (case (hex_decode h, decode_all hs) of
     (Some b, Some bs) \<Rightarrow> Some (b # bs) | _ \<Rightarrow> None)"

definition compute_merkle_root :: "codec \<Rightarrow> string list \<Rightarrow> string option" where
  "compute_merkle_root c hashes =
    (if hashes = [] then Some []
     else case decode_all hashes of
       None \<Rightarrow> None
     | Some bs \<Rightarrow> Some (hex_encode (merkle_levels c (map (\<lambda>b. sha256 c (leaf_input b)) bs))))"

text \<open>What computing a root hashes, and that no two of a list of inputs collide.\<close>

fun level_inputs :: "string list \<Rightarrow> string list" where
  "level_inputs [] = []"
| "level_inputs [x] = [node_input x x]"
| "level_inputs (x # y # xs) = node_input x y # level_inputs xs"

function merkle_inputs :: "codec \<Rightarrow> string list \<Rightarrow> string list" where
  "merkle_inputs c level =
    (if 1 < length level then level_inputs level @ merkle_inputs c (next_level c level) else [])"
  by pat_completeness auto
termination
  by (relation "measure (length \<circ> snd)") (auto simp: length_next_level)

declare merkle_inputs.simps [simp del]

definition root_inputs :: "codec \<Rightarrow> string list \<Rightarrow> string list" where
  "root_inputs c hashes = (case decode_all hashes of
     None \<Rightarrow> []
   | Some bs \<Rightarrow> map leaf_input bs @ merkle_inputs c (map (\<lambda>b. sha256 c (leaf_input b)) bs))"

definition collision_free :: "codec \<Rightarrow> string list \<Rightarrow> bool" where
  "collision_free c xs \<longleftrightarrow> (\<forall>x \<in> set xs. \<forall>y \<in> set xs. sha256 c x = sha256 c y \<longrightarrow> x = y)"

lemma next_level_map: "next_level c xs = map (sha256 c) (level_inputs xs)"
  by (induction xs rule: level_inputs.induct) simp_all

lemma length_level_inputs [simp]: "length (level_inputs xs) = (length xs + 1) div 2"
  by (metis length_map length_next_level next_level_map)

lemma node_input_inj [simp]:
  "length l = length l' \<Longrightarrow> node_input l r = node_input l' r' \<longleftrightarrow> l = l' \<and> r = r'"
  by (simp add: node_input_def)

lemma leaf_input_inj [simp]: "leaf_input a = leaf_input b \<longleftrightarrow> a = b"
  by (simp add: leaf_input_def)

lemma level_inputs_inj:
  assumes "length xs = length ys" "\<forall>x \<in> set (xs @ ys). length x = n" "level_inputs xs = level_inputs ys"
  shows "xs = ys"
  using assms
proof (induction xs arbitrary: ys rule: level_inputs.induct)
  case 1
  then show ?case by simp
next
  case (2 x)
  then obtain y where "ys = [y]" by (cases ys) auto
  then show ?case using 2 by simp
next
  case (3 x y xs)
  then obtain x' y' ys' where ys: "ys = x' # y' # ys'" by (cases ys rule: level_inputs.cases) auto
  have "xs = ys'" using "3.prems" unfolding ys by (intro "3.IH") simp_all
  then show ?case using "3.prems" unfolding ys by simp
qed

lemma collision_free_inj: "collision_free c zs \<Longrightarrow> inj_on (sha256 c) (set zs)"
  by (simp add: collision_free_def inj_on_def)

lemma map_sha_inj:
  assumes "collision_free c zs" "set xs \<subseteq> set zs" "set ys \<subseteq> set zs"
    and "map (sha256 c) xs = map (sha256 c) ys"
  shows "xs = ys"
proof (rule map_inj_on[OF assms(4)])
  show "inj_on (sha256 c) (set xs \<union> set ys)"
    using assms(1) by (rule inj_on_subset[OF collision_free_inj]) (use assms(2,3) in simp)
qed

lemma next_level_inj:
  assumes "collision_free c zs" "set (level_inputs xs @ level_inputs ys) \<subseteq> set zs"
    and "length xs = length ys" "\<forall>x \<in> set (xs @ ys). length x = n"
    and "next_level c xs = next_level c ys"
  shows "xs = ys"
proof (rule level_inputs_inj[OF assms(3,4)])
  show "level_inputs xs = level_inputs ys"
    using assms(2) by (intro map_sha_inj[OF assms(1) _ _ assms(5)[unfolded next_level_map]]) auto
qed

lemma next_level_lengths:
  "(\<And>x. length (sha256 c x) = n) \<Longrightarrow> \<forall>x \<in> set (next_level c xs). length x = n"
  by (auto simp: next_level_map)

lemma merkle_levels_inj:
  assumes "\<And>x. length (sha256 c x) = n" "collision_free c zs"
    and "set (merkle_inputs c xs @ merkle_inputs c ys) \<subseteq> set zs"
    and "length xs = length ys" "\<forall>x \<in> set (xs @ ys). length x = n" "xs \<noteq> []"
    and "merkle_levels c xs = merkle_levels c ys"
  shows "xs = ys"
  using assms(3-)
proof (induction "length xs" arbitrary: xs ys rule: less_induct)
  case less
  show ?case
  proof (cases "1 < length xs")
    case True
    then have *: "merkle_inputs c vs = level_inputs vs @ merkle_inputs c (next_level c vs)"
      "merkle_levels c vs = merkle_levels c (next_level c vs)" if "length vs = length xs" for vs
      using that by (simp_all add: merkle_inputs.simps[of c vs] merkle_levels.simps[of c vs])
    have lens: "\<forall>x \<in> set (next_level c xs @ next_level c ys). length x = n"
      using assms(1) by (auto simp: next_level_map)
    have nonempty: "next_level c xs \<noteq> []" using True by (cases xs rule: level_inputs.cases) auto
    have same: "length ys = length xs" using less.prems by simp
    have ins: "set (level_inputs xs @ level_inputs ys) \<subseteq> set zs"
      "set (merkle_inputs c (next_level c xs) @ merkle_inputs c (next_level c ys)) \<subseteq> set zs"
      using less.prems(1) *(1)[of xs] *(1)[OF same] by simp_all
    have "next_level c xs = next_level c ys"
    proof (rule less.hyps)
      show "length (next_level c xs) < length xs" using True by (simp add: length_next_level)
      show "length (next_level c xs) = length (next_level c ys)"
        using same by (simp add: length_next_level)
      show "merkle_levels c (next_level c xs) = merkle_levels c (next_level c ys)"
        using less.prems(5) *(2)[of xs] *(2)[OF same] by simp
    qed (fact ins(2) lens nonempty)+
    then show ?thesis by (rule next_level_inj[OF assms(2) ins(1) less.prems(2) less.prems(3)])
  next
    case False
    then obtain x where "xs = [x]" using less.prems(4) by (cases xs rule: level_inputs.cases) auto
    moreover then obtain y where "ys = [y]" using less.prems(2) by (cases ys rule: level_inputs.cases) auto
    ultimately show ?thesis
      using less.prems(5) by (simp add: merkle_levels.simps[of c "[x]"] merkle_levels.simps[of c "[y]"])
  qed
qed

lemma decode_all_Some: "decode_all hs = Some bs \<longleftrightarrow> map hex_decode hs = map Some bs"
proof (induction hs arbitrary: bs)
  case (Cons h hs)
  show ?case by (cases bs) (auto simp: Cons.IH[symmetric] split: option.splits)
qed auto

lemma decode_all_length: "decode_all hs = Some bs \<Longrightarrow> length bs = length hs"
  by (metis decode_all_Some length_map)

lemma decode_all_encode [simp]: "decode_all (map hex_encode bs) = Some bs"
  by (simp add: decode_all_Some)

text \<open>The Merkle root commits to the leaves: two lists of the same number of content
  hashes with the same root decode to the same bytes, position by position, unless two of
  the strings hashed on the way have the same SHA-256 digest.\<close>

lemma merkle_root_binding:
  assumes "\<And>x. length (sha256 c x) = n"
    and "collision_free c (root_inputs c hs @ root_inputs c hs')"
    and "length hs = length hs'"
    and "compute_merkle_root c hs = Some r" "compute_merkle_root c hs' = Some r"
  shows "map hex_decode hs = map hex_decode hs'"
proof (cases "hs = []")
  case False
  then obtain bs bs' where bs: "decode_all hs = Some bs" "decode_all hs' = Some bs'"
    using assms(3-) by (auto simp: compute_merkle_root_def split: if_splits option.splits)
  define leaves where "leaves = (\<lambda>b. sha256 c (leaf_input b))"
  note len = decode_all_length[OF bs(1)] decode_all_length[OF bs(2)]
  have sub: "set (merkle_inputs c (map leaves bs) @ merkle_inputs c (map leaves bs'))
      \<subseteq> set (root_inputs c hs @ root_inputs c hs')"
    "set (map leaf_input bs) \<subseteq> set (root_inputs c hs @ root_inputs c hs')"
    "set (map leaf_input bs') \<subseteq> set (root_inputs c hs @ root_inputs c hs')"
    by (auto simp: root_inputs_def leaves_def bs)
  have eq: "merkle_levels c (map leaves bs) = merkle_levels c (map leaves bs')"
    using assms(3-) bs False
    by (auto simp: compute_merkle_root_def leaves_def hex_encode_inj split: if_splits)
  have "map leaves bs = map leaves bs'"
  proof (rule merkle_levels_inj[OF assms(1,2) sub(1)])
    show "length (map leaves bs) = length (map leaves bs')" using assms(3) len by simp
    show "\<forall>x \<in> set (map leaves bs @ map leaves bs'). length x = n"
      by (auto simp: leaves_def assms(1))
    show "map leaves bs \<noteq> []" using len(1) False by auto
  qed (rule eq)
  then have "map (sha256 c) (map leaf_input bs) = map (sha256 c) (map leaf_input bs')"
    by (simp add: leaves_def comp_def)
  then have "map leaf_input bs = map leaf_input bs'" by (rule map_sha_inj[OF assms(2) sub(2,3)])
  then have "bs = bs'" by (rule map_injective) (simp add: inj_def)
  then show ?thesis using bs by (simp add: decode_all_Some)
qed (use assms in simp)

lemma merkle_levels_step:
  "1 < length xs \<Longrightarrow> merkle_levels c xs = merkle_levels c (next_level c xs)"
  by (subst merkle_levels.simps) simp

lemma next_level_repeat:
  "odd (length xs) \<Longrightarrow> next_level c (xs @ [last xs]) = next_level c xs"
  by (induction c xs rule: next_level.induct) auto

lemma decode_all_snoc:
  "decode_all (hs @ [h]) = (case (decode_all hs, hex_decode h) of
     (Some bs, Some b) \<Rightarrow> Some (bs @ [b]) | _ \<Rightarrow> None)"
  by (induction hs) (auto split: option.splits)

lemma decode_all_last:
  "decode_all hs = Some bs \<Longrightarrow> hs \<noteq> [] \<Longrightarrow> hex_decode (last hs) = Some (last bs)"
  by (metis decode_all_Some last_map map_is_Nil_conv)

text \<open>The root does not commit to the number of leaves: an odd list of three or more
  hashes has the root of the list with its last hash repeated.\<close>

theorem merkle_root_repeats_last:
  assumes "odd (length hs)" "3 \<le> length hs"
  shows "compute_merkle_root c (hs @ [last hs]) = compute_merkle_root c hs"
proof -
  have ne: "hs \<noteq> []" using assms by auto
  show ?thesis
  proof (cases "decode_all hs")
    case (Some bs)
    define ls where "ls = map (\<lambda>b. sha256 c (leaf_input b)) bs"
    have "length bs = length hs" using Some by (rule decode_all_length)
    then have ls: "odd (length ls)" "1 < length ls" "bs \<noteq> []" using assms by (auto simp: ls_def)
    then have "merkle_levels c (ls @ [last ls]) = merkle_levels c ls"
      by (metis length_append_singleton less_SucI merkle_levels_step next_level_repeat)
    then show ?thesis
      using Some ls(3) decode_all_last[OF Some ne] ne
      by (simp add: compute_merkle_root_def decode_all_snoc ls_def last_map)
  qed (use ne in \<open>simp add: compute_merkle_root_def decode_all_snoc\<close>)
qed

subsection \<open>Content hashes\<close>

text \<open>The canonical object of an entry, in the key order of \<open>serde_json\<close>'s map; an absent
  \<open>metadata\<close> is written as \<open>null\<close>.\<close>

definition canonical_entry :: "codec \<Rightarrow> AuditLogEntry \<Rightarrow> json" where
  "canonical_entry c e = JObj
    [(''action'', JStr (action_name (al_action e))),
     (''actor_id'', JStr (al_actor_id e)),
     (''created_at'', JStr (rfc3339 c (al_created_at e))),
     (''metadata'', unwrap_or (al_metadata e) JNull),
     (''resource_id'', JStr (al_resource_id e)),
     (''resource_type'', JStr (resource_type_name (al_resource_type e))),
     (''result'', JStr (al_result e))]"

definition compute_content_hash :: "codec \<Rightarrow> AuditLogEntry \<Rightarrow> string" where
  "compute_content_hash c e = hex_encode (sha256 c (json_bytes c (canonical_entry c e)))"

text \<open>Two entries record the same fact: every field but the identifier and the two hashes
  agrees, an absent \<open>metadata\<close> counting as \<open>null\<close>.\<close>

definition same_fact :: "AuditLogEntry \<Rightarrow> AuditLogEntry \<Rightarrow> bool" where
  "same_fact e f \<longleftrightarrow>
     al_actor_id e = al_actor_id f \<and> al_action e = al_action f \<and>
     al_resource_type e = al_resource_type f \<and> al_resource_id e = al_resource_id f \<and>
     al_result e = al_result f \<and> al_created_at e = al_created_at f \<and>
     unwrap_or (al_metadata e) JNull = unwrap_or (al_metadata f) JNull"

text \<open>The printed names of audit actions and resource types read back to what was printed.\<close>

lemma audit_names_round_trip:
  "parse_action (action_name a) = Some a \<and> parse_resource_type (resource_type_name t) = Some t"
  by (cases a; cases t) (simp_all add: parse_action_def parse_resource_type_def)

lemma action_name_inj: "action_name a = action_name b \<longleftrightarrow> a = b"
  by (cases a; cases b) simp_all

lemma resource_type_name_inj: "resource_type_name a = resource_type_name b \<longleftrightarrow> a = b"
  by (cases a; cases b) simp_all

lemma canonical_entry_eq:
  "inj (rfc3339 c) \<Longrightarrow> canonical_entry c e = canonical_entry c f \<longleftrightarrow> same_fact e f"
  by (auto simp: canonical_entry_def same_fact_def action_name_inj resource_type_name_inj inj_eq)

lemma content_hash_cong [simp]:
  "compute_content_hash c (e\<lparr>al_id := i\<rparr>) = compute_content_hash c e"
  "compute_content_hash c (e\<lparr>al_content_hash := h\<rparr>) = compute_content_hash c e"
  "compute_content_hash c (e\<lparr>al_previous_hash := h\<rparr>) = compute_content_hash c e"
  by (simp_all add: compute_content_hash_def canonical_entry_def)

subsection \<open>The audit tables\<close>

record AuditMerkleRoot =
  mr_window_start :: timestamp
  mr_root :: string
  mr_entry_count :: int
  mr_computed_at :: timestamp

record AuditCheckpoint =
  cp_window_start :: timestamp
  cp_merkle_root :: string
  cp_entry_count :: int
  cp_signer_id :: string
  cp_signer_key_fingerprint :: string
  cp_signed_at :: timestamp
  cp_signature :: string
  cp_public_key :: string

text \<open>Rows of \<open>audit_log\<close> are in ascending \<open>id\<close>; \<open>au_next\<close> is the next value of the
  \<open>AUTOINCREMENT\<close> sequence.\<close>

record audit_db =
  au_log :: "AuditLogEntry list"
  au_next :: int
  au_roots :: "AuditMerkleRoot list"
  au_checkpoints :: "AuditCheckpoint list"

definition empty_audit :: audit_db where
  "empty_audit = \<lparr>au_log = [], au_next = 1, au_roots = [], au_checkpoints = []\<rparr>"

definition hashed :: "AuditLogEntry list \<Rightarrow> AuditLogEntry list" where
  "hashed es = filter (\<lambda>e. al_content_hash e \<noteq> None) es"

lemma hashed_simps [simp]:
  "hashed [] = []"
  "hashed (e # es) = (if al_content_hash e = None then hashed es else e # hashed es)"
  by (simp_all add: hashed_def)

definition tail_hash :: "AuditLogEntry list \<Rightarrow> string option" where
  "tail_hash es = (if hashed es = [] then None else al_content_hash (last (hashed es)))"

text \<open>\<open>append\<close> is two statements on the pool, the query for the last hash and the insert;
  what other writers do in between is \<open>others\<close>.\<close>

definition insert_entry :: "codec \<Rightarrow> AuditLogEntry \<Rightarrow> string option \<Rightarrow> audit_db \<Rightarrow> audit_db" where
  "insert_entry c e prev db = db\<lparr>
     au_log := au_log db @ [e\<lparr>al_id := au_next db,
       al_content_hash := Some (compute_content_hash c e), al_previous_hash := prev\<rparr>],
     au_next := au_next db + 1\<rparr>"

definition audit_append ::
  "codec \<Rightarrow> (audit_db \<Rightarrow> audit_db) \<Rightarrow> AuditLogEntry \<Rightarrow> audit_db \<Rightarrow> audit_db" where
  "audit_append c others e db = insert_entry c e (tail_hash (au_log db)) (others db)"

datatype chain_error =
    TamperedContent int | MissingPreviousHash int | BrokenLink int | GenesisHasPrevious int
  | MissingBoundary int | BrokenBoundary int

fun chain_from :: "codec \<Rightarrow> string option \<Rightarrow> AuditLogEntry list \<Rightarrow> chain_error + unit" where
  "chain_from c prior [] = Inr ()"
| "chain_from c prior (e # es) = (case al_content_hash e of
     None \<Rightarrow> chain_from c prior es
   | Some stored \<Rightarrow>
       if stored \<noteq> compute_content_hash c e then Inl (TamperedContent (al_id e))
       else case prior of
         Some p \<Rightarrow> (case al_previous_hash e of
             None \<Rightarrow> Inl (MissingPreviousHash (al_id e))
           | Some prev \<Rightarrow> if prev \<noteq> p then Inl (BrokenLink (al_id e))
                         else chain_from c (Some stored) es)
       | None \<Rightarrow> if al_previous_hash e \<noteq> None then Inl (GenesisHasPrevious (al_id e))
                 else chain_from c (Some stored) es)"

definition verify_chain :: "codec \<Rightarrow> audit_db \<Rightarrow> chain_error + unit" where
  "verify_chain c db = chain_from c None (au_log db)"

text \<open>What a valid chain is, said of its hashed entries alone: every stored hash is the
  hash of the entry, and every entry links to the one before it.\<close>

definition linked :: "codec \<Rightarrow> string option \<Rightarrow> AuditLogEntry list \<Rightarrow> bool" where
  "linked c prior es \<longleftrightarrow>
     (\<forall>e \<in> set es. al_content_hash e = Some (compute_content_hash c e)) \<and>
     map al_previous_hash es = butlast (prior # map al_content_hash es)"

lemma linked_Nil [simp]: "linked c prior []"
  by (simp add: linked_def)

lemma linked_Cons [simp]:
  "linked c prior (e # es) \<longleftrightarrow> al_content_hash e = Some (compute_content_hash c e) \<and>
     al_previous_hash e = prior \<and> linked c (al_content_hash e) es"
  by (auto simp: linked_def)

lemma chain_from_ok: "chain_from c prior es = Inr () \<longleftrightarrow> linked c prior (hashed es)"
  by (induction es arbitrary: prior) (auto simp: hashed_def split: option.splits)

lemma hashed_append [simp]: "hashed (es @ fs) = hashed es @ hashed fs"
  by (simp add: hashed_def)

lemma linked_append:
  "linked c prior (es @ fs) \<longleftrightarrow>
     linked c prior es \<and> linked c (if es = [] then prior else al_content_hash (last es)) fs"
  by (induction es arbitrary: prior) auto

lemma linked_snoc:
  "linked c None (hashed (es @ [e])) \<longleftrightarrow> linked c None (hashed es) \<and>
     (al_content_hash e = None \<or>
      al_content_hash e = Some (compute_content_hash c e) \<and> al_previous_hash e = tail_hash es)"
  by (auto simp: linked_append tail_hash_def)

subsection \<open>Appending and tampering\<close>

lemma verify_insert:
  assumes "linked c None (hashed (au_log db))"
  shows "verify_chain c (insert_entry c e prev db) = Inr () \<longleftrightarrow> prev = tail_hash (au_log db)"
  using assms
  by (simp add: verify_chain_def insert_entry_def chain_from_ok linked_snoc del: hashed_append)

lemma tail_insert [simp]:
  "tail_hash (au_log (insert_entry c e prev db)) = Some (compute_content_hash c e)"
  by (simp add: insert_entry_def tail_hash_def hashed_def)

text \<open>C19: An append that runs alone keeps the chain valid: the log it leaves verifies
  whenever the log it found does, and ends in the hash of the new entry.\<close>

theorem append_keeps_chain:
  assumes "verify_chain c db = Inr ()"
  shows "verify_chain c (audit_append c id e db) = Inr () \<and>
    tail_hash (au_log (audit_append c id e db)) = Some (compute_content_hash c e)"
  using assms verify_insert[of c db e "tail_hash (au_log db)"] tail_insert
  by (simp add: audit_append_def) (simp add: verify_chain_def chain_from_ok)

text \<open>Two appends that overlap break the chain: when another append runs between the
  query and the insert, verification fails afterwards, unless the other entry has the hash
  the log already ended in.\<close>

theorem overlapping_appends_break_chain:
  assumes "verify_chain c db = Inr ()" "tail_hash (au_log db) \<noteq> Some (compute_content_hash c f)"
  shows "verify_chain c (audit_append c (audit_append c id f) e db) \<noteq> Inr ()"
proof -
  let ?db = "audit_append c id f db"
  have "verify_chain c ?db = Inr ()" "tail_hash (au_log ?db) = Some (compute_content_hash c f)"
    using assms(1) verify_insert[of c db f "tail_hash (au_log db)"]
    by (simp_all add: audit_append_def verify_chain_def chain_from_ok)
  then have "verify_chain c (insert_entry c e (tail_hash (au_log db)) ?db) \<noteq> Inr ()"
    using assms(2) verify_insert[of c ?db e] by (simp add: verify_chain_def chain_from_ok)
  then show ?thesis by (simp add: audit_append_def)
qed

text \<open>The chain does not protect against deletion: the hash of an entry does not cover
  its \<open>previous_hash\<close>, so removing an entry and rewriting that one field of the next entry
  leaves a log that verifies.\<close>

theorem relinked_deletion_verifies:
  assumes "chain_from c None (es @ e # f # fs) = Inr ()"
    and "al_content_hash e \<noteq> None" "al_content_hash f \<noteq> None"
  shows "chain_from c None (es @ f\<lparr>al_previous_hash := al_previous_hash e\<rparr> # fs) = Inr ()"
  using assms by (auto simp: chain_from_ok hashed_def linked_append)

subsection \<open>A small log\<close>

text \<open>Stand-ins for the foreign functions: a padding in place of SHA-256, the actor's name
  in place of the JSON text, and lines told apart by their length.\<close>

definition unary :: "int \<Rightarrow> string" where
  "unary t = (if t < 0 then CHR ''-'' # replicate (nat (- t)) CHR ''0'' else replicate (nat t) CHR ''0'')"

definition demo_codec :: "AuditLogEntry list \<Rightarrow> AuditBundleManifest option \<Rightarrow> codec" where
  "demo_codec es m = \<lparr>sha256 = (\<lambda>s. take 6 (s @ replicate 6 CHR 0x00)),
     json_bytes = (\<lambda>v. case obj_get v ''actor_id'' of Some (JStr s) \<Rightarrow> s | _ \<Rightarrow> []),
     rfc3339 = unary,
     print_entry = (\<lambda>e. replicate (nat (al_id e)) CHR ''x''),
     parse_entry = (\<lambda>s. find (\<lambda>e. replicate (nat (al_id e)) CHR ''x'' = s) es),
     print_manifest = (\<lambda>_. ''m''), parse_manifest = (\<lambda>_. m)\<rparr>"

definition demo_entry :: "string \<Rightarrow> AuditLogEntry" where
  "demo_entry actor = \<lparr>al_id = 0, al_actor_id = actor, al_action = TokenCreate,
     al_resource_type = RtToken, al_resource_id = ''t1'', al_result = ''ok'', al_metadata = None,
     al_created_at = 7, al_content_hash = None, al_previous_hash = None\<rparr>"

definition demo_audit :: "string list \<Rightarrow> audit_db" where
  "demo_audit actors =
     fold (\<lambda>a. audit_append (demo_codec [] None) id (demo_entry a)) actors empty_audit"

lemma digits_not_signed: "replicate n CHR ''0'' \<noteq> CHR ''-'' # s" "CHR ''-'' # s \<noteq> replicate n CHR ''0''"
  by (cases n; simp)+

lemma unary_inj: "inj unary"
  by (auto simp: inj_def unary_def replicate_eq_replicate digits_not_signed split: if_splits)

theorem append_keeps_chain_witness:
  "verify_chain (demo_codec [] None) (demo_audit [''alice'']) = Inr () \<and>
   verify_chain (demo_codec [] None)
     (audit_append (demo_codec [] None) id (demo_entry ''bob'') (demo_audit [''alice''])) = Inr ()"
proof -
  have "verify_chain (demo_codec [] None) (demo_audit [''alice'']) = Inr ()" by code_simp
  then show ?thesis
    using append_keeps_chain[of "demo_codec [] None" "demo_audit [''alice'']" "demo_entry ''bob''"] by simp
qed

theorem overlapping_appends_break_chain_witness:
  "verify_chain (demo_codec [] None)
     (audit_append (demo_codec [] None) (audit_append (demo_codec [] None) id (demo_entry ''bob''))
       (demo_entry ''carol'') (demo_audit [''alice''])) \<noteq> Inr ()"
  by (rule overlapping_appends_break_chain) code_simp+

theorem relinked_deletion_verifies_witness:
  "\<exists>e f. au_log (demo_audit [''alice'', ''bob'']) = [e, f] \<and>
     chain_from (demo_codec [] None) None [f\<lparr>al_previous_hash := al_previous_hash e\<rparr>] = Inr ()"
proof -
  let ?l = "au_log (demo_audit [''alice'', ''bob''])"
  have l: "?l = [?l ! 0, ?l ! 1]" by code_simp
  have "chain_from (demo_codec [] None) None ([] @ ?l ! 0 # ?l ! 1 # []) = Inr ()"
    "al_content_hash (?l ! 0) \<noteq> None" "al_content_hash (?l ! 1) \<noteq> None"
    by code_simp+
  from relinked_deletion_verifies[OF this] l show ?thesis by (metis append_Nil)
qed

theorem merkle_root_repeats_last_witness:
  "compute_merkle_root (demo_codec [] None) [''00'', ''01'', ''02'', ''02''] =
   compute_merkle_root (demo_codec [] None) [''00'', ''01'', ''02'']"
  using merkle_root_repeats_last[of "[''00'', ''01'', ''02'']" "demo_codec [] None"] by simp

end
