(* ===== verification/Audit_Bundle.thy ===== *)
theory Audit_Bundle
  imports Audit_Trail
begin

text \<open>
  Portable audit bundles: \<open>crates/ferrum-audit-bundle/src/lib.rs\<close>.  A bundle is a
  directory with the log, one JSON line per entry, and a manifest.  The lemmas show that
  a bundle built from a valid log verifies, that a bundle built from the log in
  descending order does not, and what two bundles with one Merkle root have in common.
\<close>

text \<open>\<open>str::lines\<close>: the text between line feeds, a carriage return before one dropped.\<close>

definition strip_cr :: "string \<Rightarrow> string" where
  "strip_cr s = (if s \<noteq> [] \<and> last s = CHR 0x0D then butlast s else s)"

fun lines_from :: "string \<Rightarrow> string \<Rightarrow> string list" where
  "lines_from acc [] = (if acc = [] then [] else [rev acc])"
| "lines_from acc (ch # s) =
     (if ch = CHR 0x0A then strip_cr (rev acc) # lines_from [] s else lines_from (ch # acc) s)"

definition text_lines :: "string \<Rightarrow> string list" where
  "text_lines s = lines_from [] s"

text \<open>\<open>HashNotHex\<close> is the panic of \<open>compute_merkle_root\<close>; the other constructors are the
  messages of \<open>AuditBundleError::Invalid\<close>.\<close>

datatype bundle_error =
    ManifestNotFound | LogNotFound | BadManifest | UnsupportedVersion nat | BadEntry string
  | DuplicateEntryId int | EntryCountMismatch nat nat | InvalidChain chain_error
  | FirstHashMismatch | LastHashMismatch | MerkleRootMismatch | HashNotHex

record AuditBundle =
  bu_body :: string
  bu_manifest :: AuditBundleManifest

definition first_hash :: "AuditLogEntry list \<Rightarrow> string" where
  "first_hash es = (case hashed es of [] \<Rightarrow> [] | e # _ \<Rightarrow> the (al_content_hash e))"

definition last_hash :: "AuditLogEntry list \<Rightarrow> string" where
  "last_hash es = (if hashed es = [] then [] else the (al_content_hash (last (hashed es))))"

definition content_hashes :: "AuditLogEntry list \<Rightarrow> string list" where
  "content_hashes es = map (the \<circ> al_content_hash) (hashed es)"

definition build_bundle_with_boundary ::
  "codec \<Rightarrow> timestamp \<Rightarrow> AuditLogEntry list \<Rightarrow> string \<Rightarrow> string option
    \<Rightarrow> bundle_error + AuditBundle" where
  "build_bundle_with_boundary c now es body boundary =
    (case compute_merkle_root c (content_hashes es) of
       None \<Rightarrow> Inl HashNotHex
     | Some root \<Rightarrow> Inr \<lparr>bu_body = body, bu_manifest = \<lparr>mf_version = 1, mf_exported_at = now,
         mf_first_hash = first_hash es, mf_last_hash = last_hash es, mf_merkle_root = root,
         mf_entry_count = length es, mf_previous_boundary_hash = boundary\<rparr>\<rparr>)"

definition build_bundle ::
  "codec \<Rightarrow> timestamp \<Rightarrow> AuditLogEntry list \<Rightarrow> string \<Rightarrow> bundle_error + AuditBundle" where
  "build_bundle c now es body = build_bundle_with_boundary c now es body None"

fun read_entries :: "codec \<Rightarrow> string list \<Rightarrow> bundle_error + AuditLogEntry list" where
  "read_entries c [] = Inr []"
| "read_entries c (l # ls) =
    (if trim l = [] then read_entries c ls
     else case parse_entry c (trim l) of
       None \<Rightarrow> Inl (BadEntry l)
     | Some e \<Rightarrow> (case read_entries c ls of Inl x \<Rightarrow> Inl x | Inr es \<Rightarrow> Inr (e # es)))"

definition build_bundle_from_ndjson ::
  "codec \<Rightarrow> timestamp \<Rightarrow> string \<Rightarrow> bundle_error + AuditBundle" where
  "build_bundle_from_ndjson c now body = (case read_entries c (text_lines body) of
     Inl x \<Rightarrow> Inl x | Inr es \<Rightarrow> build_bundle c now es body)"

text \<open>A bundle directory, by file name.\<close>

type_synonym dir = "string \<Rightarrow> string option"

definition export_bundle :: "codec \<Rightarrow> AuditBundle \<Rightarrow> dir \<Rightarrow> dir" where
  "export_bundle c b d = d(''audit.jsonl'' \<mapsto> bu_body b,
                            ''manifest.json'' \<mapsto> print_manifest c (bu_manifest b))"

text \<open>Reading the body of a bundle also refuses a repeated identifier; \<open>seen\<close> is
  \<open>seen_ids\<close>.\<close>

fun read_distinct ::
  "codec \<Rightarrow> int list \<Rightarrow> string list \<Rightarrow> bundle_error + AuditLogEntry list" where
  "read_distinct c seen [] = Inr []"
| "read_distinct c seen (l # ls) =
    (if trim l = [] then read_distinct c seen ls
     else case parse_entry c (trim l) of
       None \<Rightarrow> Inl (BadEntry l)
     | Some e \<Rightarrow>
         if al_id e \<in> set seen then Inl (DuplicateEntryId (al_id e))
         else case read_distinct c (al_id e # seen) ls of
           Inl x \<Rightarrow> Inl x | Inr es \<Rightarrow> Inr (e # es))"

fun bundle_chain ::
  "codec \<Rightarrow> string option \<Rightarrow> string option \<Rightarrow> AuditLogEntry list \<Rightarrow> chain_error + unit" where
  "bundle_chain c boundary prior [] = Inr ()"
| "bundle_chain c boundary prior (e # es) = (case al_content_hash e of
     None \<Rightarrow> bundle_chain c boundary prior es
   | Some stored \<Rightarrow>
       if stored \<noteq> compute_content_hash c e then Inl (TamperedContent (al_id e))
       else case prior of
         Some p \<Rightarrow> (case al_previous_hash e of
             None \<Rightarrow> Inl (MissingPreviousHash (al_id e))
           | Some prev \<Rightarrow> if prev \<noteq> p then Inl (BrokenLink (al_id e))
                         else bundle_chain c boundary (Some stored) es)
       | None \<Rightarrow> (case boundary of
           Some b \<Rightarrow> (case al_previous_hash e of
               None \<Rightarrow> Inl (MissingBoundary (al_id e))
             | Some prev \<Rightarrow> if prev \<noteq> b then Inl (BrokenBoundary (al_id e))
                           else bundle_chain c boundary (Some stored) es)
         | None \<Rightarrow> if al_previous_hash e \<noteq> None then Inl (GenesisHasPrevious (al_id e))
                   else bundle_chain c boundary (Some stored) es))"

definition verify_entries ::
  "codec \<Rightarrow> AuditBundleManifest \<Rightarrow> AuditLogEntry list \<Rightarrow> bundle_error + AuditBundleManifest" where
  "verify_entries c m es =
    (if length es \<noteq> mf_entry_count m then Inl (EntryCountMismatch (mf_entry_count m) (length es))
     else case bundle_chain c (mf_previous_boundary_hash m) None es of
       Inl x \<Rightarrow> Inl (InvalidChain x)
     | Inr _ \<Rightarrow>
         if first_hash es \<noteq> mf_first_hash m then Inl FirstHashMismatch
         else if last_hash es \<noteq> mf_last_hash m then Inl LastHashMismatch
         else case compute_merkle_root c (content_hashes es) of
           None \<Rightarrow> Inl HashNotHex
         | Some root \<Rightarrow> if root \<noteq> mf_merkle_root m then Inl MerkleRootMismatch else Inr m)"

definition verify_bundle :: "codec \<Rightarrow> dir \<Rightarrow> bundle_error + AuditBundleManifest" where
  "verify_bundle c d = (case (d ''manifest.json'', d ''audit.jsonl'') of
     (None, _) \<Rightarrow> Inl ManifestNotFound
   | (Some _, None) \<Rightarrow> Inl LogNotFound
   | (Some mtext, Some body) \<Rightarrow> (case parse_manifest c mtext of
       None \<Rightarrow> Inl BadManifest
     | Some m \<Rightarrow>
         if mf_version m \<noteq> 1 then Inl (UnsupportedVersion (mf_version m))
         else case read_distinct c [] (text_lines body) of
           Inl x \<Rightarrow> Inl x | Inr es \<Rightarrow> verify_entries c m es))"

subsection \<open>Verification of entries\<close>

lemma bundle_chain_ok:
  "bundle_chain c boundary prior es = Inr () \<longleftrightarrow>
     linked c (if prior = None then boundary else prior) (hashed es)"
proof (induction es arbitrary: boundary prior)
  case (Cons e es)
  show ?case
    by (cases "al_content_hash e"; cases prior; cases boundary; cases "al_previous_hash e")
      (simp_all add: Cons.IH)
qed simp

text \<open>The loop of the bundle crate is the loop of the store when no boundary is declared.\<close>

lemma bundle_chain_mirrors_store: "bundle_chain c None prior es = chain_from c prior es"
proof (induction es arbitrary: prior)
  case (Cons e es)
  show ?case
    by (cases "al_content_hash e"; cases prior; cases "al_previous_hash e") (simp_all add: Cons.IH)
qed simp

lemma linked_content_hashes:
  "linked c prior (hashed es) \<Longrightarrow>
     content_hashes es = map (compute_content_hash c) (hashed es)"
  by (auto simp: content_hashes_def linked_def)

lemma content_hashes_decode:
  "decode_all (map (compute_content_hash c) es) =
     Some (map (\<lambda>e. sha256 c (json_bytes c (canonical_entry c e))) es)"
  by (simp add: decode_all_Some compute_content_hash_def)

lemma linked_root:
  "linked c prior (hashed es) \<Longrightarrow> \<exists>r. compute_merkle_root c (content_hashes es) = Some r"
  by (simp add: linked_content_hashes compute_merkle_root_def content_hashes_decode)

lemma verify_entries_ok:
  "verify_entries c m es = Inr m' \<longleftrightarrow>
     m' = m \<and> length es = mf_entry_count m \<and>
     linked c (mf_previous_boundary_hash m) (hashed es) \<and>
     first_hash es = mf_first_hash m \<and> last_hash es = mf_last_hash m \<and>
     compute_merkle_root c (content_hashes es) = Some (mf_merkle_root m)"
  using bundle_chain_ok[of c "mf_previous_boundary_hash m" None es]
  by (auto simp: verify_entries_def split: sum.splits option.splits)

lemma built_bundle_verifies:
  assumes "linked c boundary (hashed es)"
  obtains b where "build_bundle_with_boundary c now es body boundary = Inr b"
    "bu_body b = body" "verify_entries c (bu_manifest b) es = Inr (bu_manifest b)"
    "mf_version (bu_manifest b) = 1"
proof -
  from linked_root[OF assms] obtain r where "compute_merkle_root c (content_hashes es) = Some r" ..
  then obtain b where "build_bundle_with_boundary c now es body boundary = Inr b"
    "b = \<lparr>bu_body = body, bu_manifest = \<lparr>mf_version = 1, mf_exported_at = now,
         mf_first_hash = first_hash es, mf_last_hash = last_hash es, mf_merkle_root = r,
         mf_entry_count = length es, mf_previous_boundary_hash = boundary\<rparr>\<rparr>"
    "compute_merkle_root c (content_hashes es) = Some r"
    by (simp add: build_bundle_with_boundary_def)
  then show ?thesis using assms by (intro that[of b]) (simp_all add: verify_entries_ok)
qed

subsection \<open>Text\<close>

definition faithful :: "codec \<Rightarrow> AuditLogEntry \<Rightarrow> bool" where
  "faithful c e \<longleftrightarrow> parse_entry c (print_entry c e) = Some e \<and>
     CHR 0x0A \<notin> set (print_entry c e) \<and> trim (print_entry c e) = print_entry c e \<and>
     print_entry c e \<noteq> []"

text \<open>One line per entry, each ended by a line feed, as the export endpoint writes them.\<close>

definition ndjson :: "codec \<Rightarrow> AuditLogEntry list \<Rightarrow> string" where
  "ndjson c es = concat (map (\<lambda>e. print_entry c e @ [CHR 0x0A]) es)"

lemma lines_from_line:
  "CHR 0x0A \<notin> set l \<Longrightarrow>
     lines_from acc (l @ CHR 0x0A # s) = strip_cr (rev acc @ l) # lines_from [] s"
  by (induction l arbitrary: acc) auto

lemma trim_last: "trim s \<noteq> [] \<Longrightarrow> \<not> is_whitespace (last (trim s))"
  by (simp add: trim_def last_rev hd_dropWhile)

lemma faithful_strip: "faithful c e \<Longrightarrow> strip_cr (print_entry c e) = print_entry c e"
  using trim_last[of "print_entry c e"]
  by (auto simp: faithful_def strip_cr_def is_whitespace_def)

lemma lines_ndjson:
  "\<forall>e \<in> set es. faithful c e \<Longrightarrow> text_lines (ndjson c es) = map (print_entry c) es"
  unfolding text_lines_def
  by (induction es) (auto simp: ndjson_def lines_from_line faithful_strip faithful_def)

lemma read_entries_print:
  "\<forall>e \<in> set es. faithful c e \<Longrightarrow> read_entries c (map (print_entry c) es) = Inr es"
  by (induction es) (auto simp: faithful_def)

lemma read_distinct_print:
  assumes "\<forall>e \<in> set es. faithful c e" "distinct (map al_id es)" "set seen \<inter> al_id ` set es = {}"
  shows "read_distinct c seen (map (print_entry c) es) = Inr es"
  using assms by (induction es arbitrary: seen) (auto simp: faithful_def)

lemma verify_exported:
  assumes "\<forall>e \<in> set es. faithful c e" "distinct (map al_id es)"
    and "parse_manifest c (print_manifest c (bu_manifest b)) = Some (bu_manifest b)"
    and "text_lines (bu_body b) = map (print_entry c) es" "mf_version (bu_manifest b) = 1"
  shows "verify_bundle c (export_bundle c b d) = verify_entries c (bu_manifest b) es"
  using assms by (simp add: verify_bundle_def export_bundle_def read_distinct_print)

subsection \<open>What a bundle shows\<close>

text \<open>C18: Building and verifying a bundle agree: from the lines of a log whose chain is
  valid and whose identifiers are distinct, the bundle is built, and the directory it is
  exported to verifies and gives back its manifest.\<close>

theorem bundle_round_trip:
  assumes "chain_from c None es = Inr ()" "distinct (map al_id es)" "\<forall>e \<in> set es. faithful c e"
  shows "\<exists>b. build_bundle_from_ndjson c now (ndjson c es) = Inr b \<and>
    (parse_manifest c (print_manifest c (bu_manifest b)) = Some (bu_manifest b) \<longrightarrow>
     verify_bundle c (export_bundle c b d) = Inr (bu_manifest b))"
proof -
  have "linked c None (hashed es)" using assms(1) by (simp add: chain_from_ok)
  then obtain b where b: "build_bundle_with_boundary c now es (ndjson c es) None = Inr b"
    "bu_body b = ndjson c es" "verify_entries c (bu_manifest b) es = Inr (bu_manifest b)"
    "mf_version (bu_manifest b) = 1"
    by (rule built_bundle_verifies)
  note lns = lines_ndjson[OF assms(3)] read_entries_print[OF assms(3)]
  have "build_bundle_from_ndjson c now (ndjson c es) = Inr b"
    using b(1) lns by (simp add: build_bundle_from_ndjson_def build_bundle_def)
  then show ?thesis
    using verify_exported[OF assms(3,2), of b d] b lns by (intro exI[of _ b]) auto
qed

lemma linked_last_previous:
  assumes "linked c None es" "2 \<le> length es"
  shows "al_previous_hash (last es) \<noteq> None"
proof -
  obtain fs f where f: "es = fs @ [f]" using assms(2) by (cases es rule: rev_cases) auto
  moreover obtain es' e where "fs = es' @ [e]" using assms(2) f by (cases fs rule: rev_cases) auto
  ultimately show ?thesis using assms(1) by (simp add: linked_append)
qed

lemma hashed_rev: "hashed (rev es) = rev (hashed es)"
  by (simp add: hashed_def rev_filter)

text \<open>A bundle of the log in descending order never verifies.  The export endpoint
  lists the newest entry first; a bundle built from its lines is refused as soon as the
  log has two hashed entries, because the newest entry comes first and has a
  \<open>previous_hash\<close>.\<close>

theorem descending_bundle_rejected:
  assumes "chain_from c None es = Inr ()" "2 \<le> length (hashed es)"
    and "distinct (map al_id es)" "\<forall>e \<in> set es. faithful c e"
    and "build_bundle_from_ndjson c now (ndjson c (rev es)) = Inr b"
    and "parse_manifest c (print_manifest c (bu_manifest b)) = Some (bu_manifest b)"
  shows "\<forall>m. verify_bundle c (export_bundle c b d) \<noteq> Inr m"
proof -
  have lns: "text_lines (ndjson c (rev es)) = map (print_entry c) (rev es)"
    "read_entries c (map (print_entry c) (rev es)) = Inr (rev es)"
    using assms(4) lines_ndjson[of "rev es" c] read_entries_print[of "rev es" c] by auto
  then have b: "bu_body b = ndjson c (rev es)" "mf_version (bu_manifest b) = 1"
    "mf_previous_boundary_hash (bu_manifest b) = None"
    using assms(5) by (auto simp: build_bundle_from_ndjson_def build_bundle_def
        build_bundle_with_boundary_def split: option.splits)
  have ne: "hashed es \<noteq> []" using assms(2) by auto
  have "al_previous_hash (hd (hashed (rev es))) \<noteq> None"
    using linked_last_previous[OF _ assms(2)] assms(1) ne
    by (simp add: chain_from_ok hashed_rev hd_rev)
  then have "\<not> linked c None (hashed (rev es))"
    using ne by (cases "hashed (rev es)") (auto simp: hashed_rev)
  then have "\<forall>m. verify_entries c (bu_manifest b) (rev es) \<noteq> Inr m"
    using b(3) by (simp add: verify_entries_ok)
  moreover have "verify_bundle c (export_bundle c b d) = verify_entries c (bu_manifest b) (rev es)"
    using assms(3,4,6) b lns by (intro verify_exported) (simp_all add: rev_map[symmetric])
  ultimately show ?thesis by simp
qed

definition bundle_entries :: "codec \<Rightarrow> dir \<Rightarrow> AuditLogEntry list" where
  "bundle_entries c d = (case d ''audit.jsonl'' of
     None \<Rightarrow> []
   | Some body \<Rightarrow> (case read_distinct c [] (text_lines body) of Inl _ \<Rightarrow> [] | Inr es \<Rightarrow> es))"

definition entry_inputs :: "codec \<Rightarrow> AuditLogEntry list \<Rightarrow> string list" where
  "entry_inputs c es = map (\<lambda>e. json_bytes c (canonical_entry c e)) es"

definition bundle_inputs :: "codec \<Rightarrow> dir \<Rightarrow> string list" where
  "bundle_inputs c d =
     entry_inputs c (hashed (bundle_entries c d)) @ root_inputs c (content_hashes (bundle_entries c d))"

lemma verified_entries:
  assumes "verify_bundle c d = Inr m"
  shows "verify_entries c m (bundle_entries c d) = Inr m"
proof -
  have *: "m = m'" if "verify_entries c m' es = Inr m" for m' es
    using that by (simp add: verify_entries_ok)
  then show ?thesis
    using assms
    by (auto simp: verify_bundle_def bundle_entries_def split: option.splits sum.splits if_splits)
qed

lemma decoded_hashes_eq:
  "map hex_decode (map (compute_content_hash c) es) = map hex_decode (map (compute_content_hash c) fs)
    \<Longrightarrow> map (compute_content_hash c) es = map (compute_content_hash c) fs"
  by (erule map_inj_on) (auto simp: inj_on_def compute_content_hash_def)

lemma equal_hashes_same_facts:
  assumes "collision_free c zs" "inj (rfc3339 c)"
    and "inj_on (json_bytes c) (canonical_entry c ` set (es @ fs))"
    and "set (entry_inputs c es @ entry_inputs c fs) \<subseteq> set zs"
    and "map (compute_content_hash c) es = map (compute_content_hash c) fs"
  shows "list_all2 same_fact es fs"
proof (rule list_all2_all_nthI)
  show len: "length es = length fs" using assms(5) by (metis length_map)
  fix n assume n: "n < length es"
  then have mem: "es ! n \<in> set es" "fs ! n \<in> set fs" using len by simp_all
  have "compute_content_hash c (es ! n) = compute_content_hash c (fs ! n)"
    using arg_cong[OF assms(5), of "\<lambda>xs. xs ! n"] n len by simp
  then have "sha256 c (json_bytes c (canonical_entry c (es ! n))) =
      sha256 c (json_bytes c (canonical_entry c (fs ! n)))"
    by (simp add: compute_content_hash_def hex_encode_inj)
  then have "json_bytes c (canonical_entry c (es ! n)) = json_bytes c (canonical_entry c (fs ! n))"
    by (rule inj_onD[OF collision_free_inj[OF assms(1)]])
      (use assms(4) mem in \<open>auto simp: entry_inputs_def\<close>)
  then have "canonical_entry c (es ! n) = canonical_entry c (fs ! n)"
    by (rule inj_onD[OF assms(3)]) (use mem in auto)
  then show "same_fact (es ! n) (fs ! n)" using assms(2) by (simp add: canonical_entry_eq)
qed

text \<open>C17: A manifest pins the facts of its bundle.  Two directories that verify with the
  same Merkle root and the same number of hashed entries record the same facts, entry by
  entry, unless two of the strings hashed for them have the same digest.\<close>

theorem bundle_root_pins_facts:
  assumes "verify_bundle c d = Inr m" "verify_bundle c d' = Inr m'"
    and "mf_merkle_root m = mf_merkle_root m'"
    and "length (hashed (bundle_entries c d)) = length (hashed (bundle_entries c d'))"
    and "\<And>x. length (sha256 c x) = n" "inj (rfc3339 c)"
    and "inj_on (json_bytes c) (canonical_entry c ` set (bundle_entries c d @ bundle_entries c d'))"
    and "collision_free c (bundle_inputs c d @ bundle_inputs c d')"
  shows "list_all2 same_fact (hashed (bundle_entries c d)) (hashed (bundle_entries c d'))"
proof -
  define es fs where "es = bundle_entries c d" and "fs = bundle_entries c d'"
  note def = es_def[symmetric] fs_def[symmetric]
  have ok: "linked c (mf_previous_boundary_hash m) (hashed es)"
    "linked c (mf_previous_boundary_hash m') (hashed fs)"
    "compute_merkle_root c (content_hashes es) = Some (mf_merkle_root m)"
    "compute_merkle_root c (content_hashes fs) = Some (mf_merkle_root m)"
    using verified_entries[OF assms(1)] verified_entries[OF assms(2)] assms(3)
    by (simp_all add: verify_entries_ok def)
  note hs = linked_content_hashes[OF ok(1)] linked_content_hashes[OF ok(2)]
  have cf: "collision_free c (root_inputs c (content_hashes es) @ root_inputs c (content_hashes fs))"
    using assms(8) by (auto simp: collision_free_def bundle_inputs_def def)
  have "map hex_decode (content_hashes es) = map hex_decode (content_hashes fs)"
    using assms(4) by (intro merkle_root_binding[OF assms(5) cf _ ok(3,4)]) (simp add: hs def)
  then have eq: "map (compute_content_hash c) (hashed es) = map (compute_content_hash c) (hashed fs)"
    unfolding hs by (rule decoded_hashes_eq)
  have "canonical_entry c ` set (hashed es @ hashed fs) \<subseteq> canonical_entry c ` set (es @ fs)"
    by (auto simp: hashed_def)
  then have inj: "inj_on (json_bytes c) (canonical_entry c ` set (hashed es @ hashed fs))"
    using assms(7) inj_on_subset unfolding def by blast
  show ?thesis
    unfolding def by (rule equal_hashes_same_facts[OF assms(8,6) inj _ eq])
      (auto simp: bundle_inputs_def def)
qed

subsection \<open>A small bundle\<close>

definition demo_log :: "AuditLogEntry list" where
  "demo_log = au_log (demo_audit [''alice'', ''bob''])"

lemma demo_log_rows [code]:
  "demo_log =
    [(demo_entry ''alice'')\<lparr>al_id := 1, al_content_hash := Some ''616c69636500''\<rparr>,
     (demo_entry ''bob'')\<lparr>al_id := 2, al_content_hash := Some ''626f62000000'',
       al_previous_hash := Some ''616c69636500''\<rparr>]"
  unfolding demo_log_def by code_simp

definition demo_manifest :: "AuditLogEntry list \<Rightarrow> AuditBundleManifest" where
  "demo_manifest es = (case build_bundle (demo_codec [] None) 9 es [] of
     Inr b \<Rightarrow> bu_manifest b
   | Inl _ \<Rightarrow> \<lparr>mf_version = 0, mf_exported_at = 0, mf_first_hash = [], mf_last_hash = [],
       mf_merkle_root = [], mf_entry_count = 0, mf_previous_boundary_hash = None\<rparr>)"

definition demo_reader :: "AuditLogEntry list \<Rightarrow> codec" where
  "demo_reader es = demo_codec es (Some (demo_manifest es))"

definition demo_bundle :: "AuditLogEntry list \<Rightarrow> AuditBundle" where
  "demo_bundle es =
     \<lparr>bu_body = ndjson (demo_reader es) es, bu_manifest = demo_manifest es\<rparr>"

lemma demo_log_facts:
  "chain_from (demo_reader demo_log) None demo_log = Inr ()"
  "distinct (map al_id demo_log)"
  "list_all (faithful (demo_reader demo_log)) demo_log"
  "length (hashed demo_log) = 2"
  by code_simp+

lemma demo_bundles_built:
  "build_bundle_from_ndjson (demo_reader demo_log) 9 (ndjson (demo_reader demo_log) demo_log) =
     Inr (demo_bundle demo_log)"
  "build_bundle_from_ndjson (demo_reader (rev demo_log)) 9
     (ndjson (demo_reader (rev demo_log)) (rev demo_log)) = Inr (demo_bundle (rev demo_log))"
  by code_simp+

theorem bundle_round_trip_witness:
  "verify_bundle (demo_reader demo_log) (export_bundle (demo_reader demo_log) (demo_bundle demo_log) Map.empty) =
     Inr (demo_manifest demo_log)"
  using bundle_round_trip[of "demo_reader demo_log" demo_log 9 Map.empty]
  by (simp add: demo_log_facts demo_bundles_built list_all_iff[symmetric])
    (simp add: demo_reader_def demo_codec_def demo_bundle_def)

lemma demo_rev_facts:
  "chain_from (demo_reader (rev demo_log)) None demo_log = Inr ()"
  "list_all (faithful (demo_reader (rev demo_log))) demo_log"
  by code_simp+

theorem descending_bundle_rejected_witness:
  "\<forall>m. verify_bundle (demo_reader (rev demo_log))
     (export_bundle (demo_reader (rev demo_log)) (demo_bundle (rev demo_log)) Map.empty) \<noteq> Inr m"
proof (rule descending_bundle_rejected[OF demo_rev_facts(1) _ demo_log_facts(2) _ demo_bundles_built(2)])
  show "\<forall>e \<in> set demo_log. faithful (demo_reader (rev demo_log)) e"
    using demo_rev_facts(2) by (simp add: list_all_iff)
qed (simp_all add: demo_log_facts demo_reader_def demo_codec_def demo_bundle_def)

definition demo_dir :: dir where
  "demo_dir = export_bundle (demo_reader demo_log) (demo_bundle demo_log) Map.empty"

lemma demo_dir_facts:
  "verify_bundle (demo_reader demo_log) demo_dir = Inr (demo_manifest demo_log)"
  "bundle_entries (demo_reader demo_log) demo_dir = demo_log"
  "collision_free (demo_reader demo_log)
     (bundle_inputs (demo_reader demo_log) demo_dir @ bundle_inputs (demo_reader demo_log) demo_dir)"
  "distinct (map (json_bytes (demo_reader demo_log) \<circ> canonical_entry (demo_reader demo_log)) demo_log)"
  by code_simp+

theorem bundle_root_pins_facts_witness:
  "list_all2 same_fact (hashed (bundle_entries (demo_reader demo_log) demo_dir))
     (hashed (bundle_entries (demo_reader demo_log) demo_dir))"
proof (rule bundle_root_pins_facts[OF demo_dir_facts(1,1) refl refl _ _ _ demo_dir_facts(3)])
  show "length (sha256 (demo_reader demo_log) x) = 6" for x
    by (simp add: demo_reader_def demo_codec_def)
  show "inj (rfc3339 (demo_reader demo_log))"
    by (simp add: demo_reader_def demo_codec_def unary_inj)
  show "inj_on (json_bytes (demo_reader demo_log)) (canonical_entry (demo_reader demo_log) `
      set (bundle_entries (demo_reader demo_log) demo_dir @ bundle_entries (demo_reader demo_log) demo_dir))"
    using demo_dir_facts(4) by (simp add: demo_dir_facts(2) distinct_map inj_on_imageI)
qed

end
