(* ===== verification/Audit_Gate.thy ===== *)
theory Audit_Gate
  imports Audit_Bundle Gateway
begin

text \<open>
  The audit endpoints and the archive worker: \<open>list\<close> and \<open>list_since_id\<close> of
  \<open>crates/ferrum-store/src/sqlite/audit_log.rs\<close>, \<open>sqlite/audit_merkle_root.rs\<close>,
  \<open>sqlite/audit_checkpoint.rs\<close>, and \<open>audit.rs\<close> and \<open>worm_sink.rs\<close> of
  \<open>crates/ferrum-gateway/src\<close>.

  Base64, the Ed25519 check and the object store are parameters (\<open>signing\<close>, and the
  upload function of \<open>run_one_export_pass\<close>).  The lemmas show when the paged export is
  complete, what a stored checkpoint says and what its verification looks at, and that
  the worker archives the log without gap or repetition in bundles that verify.
\<close>

subsection \<open>Pages\<close>

record audit_filter =
  fl_action :: "AuditAction option"
  fl_resource_type :: "AuditResourceType option"
  fl_resource_id :: "string option"
  fl_since :: "timestamp option"
  fl_until :: "timestamp option"

definition agrees :: "'a option \<Rightarrow> 'a \<Rightarrow> bool" where
  "agrees f x = (case f of None \<Rightarrow> True | Some y \<Rightarrow> x = y)"

definition matching :: "audit_filter \<Rightarrow> AuditLogEntry \<Rightarrow> bool" where
  "matching f e \<longleftrightarrow> agrees (fl_action f) (al_action e) \<and>
     agrees (fl_resource_type f) (al_resource_type e) \<and>
     agrees (fl_resource_id f) (al_resource_id e) \<and>
     (case fl_since f of None \<Rightarrow> True | Some t \<Rightarrow> t \<le> al_created_at e) \<and>
     (case fl_until f of None \<Rightarrow> True | Some t \<Rightarrow> al_created_at e \<le> t)"

text \<open>One row more than the limit is fetched; when it is there it is dropped and the
  identifier of the row before it becomes the cursor.  \<open>limit + 1\<close> is a \<open>u32\<close> sum.\<close>

definition page :: "32 word \<Rightarrow> AuditLogEntry list \<Rightarrow> AuditLogEntry list \<times> int option" where
  "page limit rows = (let es = take (unat (limit + 1)) rows in
     if unat limit < length es
     then (butlast es, if butlast es = [] then None else Some (al_id (last (butlast es))))
     else (es, None))"

text \<open>\<open>ORDER BY created_at DESC, id DESC\<close>: the rows are in ascending \<open>id\<close> and the sort is
  stable.  A cursor is the identifier printed in decimal, which parses back to it.\<close>

definition audit_list ::
  "audit_filter \<Rightarrow> int option \<Rightarrow> 32 word \<Rightarrow> audit_db \<Rightarrow> AuditLogEntry list \<times> int option" where
  "audit_list f cursor limit db = page limit (rev (sort_key al_created_at
     (filter (\<lambda>e. matching f e \<and> (case cursor of None \<Rightarrow> True | Some i \<Rightarrow> al_id e < i))
       (au_log db))))"

definition list_since_id ::
  "int \<Rightarrow> 32 word \<Rightarrow> audit_db \<Rightarrow> AuditLogEntry list \<times> int option" where
  "list_since_id after limit db = page limit (filter (\<lambda>e. after < al_id e) (au_log db))"

lemma page_cursor: "page limit rows = (es, Some i) \<Longrightarrow> \<exists>e \<in> set rows. al_id e = i"
  by (auto simp: page_def Let_def split: if_splits
      dest!: last_in_set in_set_butlastD in_set_takeD)

lemma audit_list_cursor:
  "audit_list f cursor limit db = (es, Some i) \<Longrightarrow>
     \<exists>e \<in> set (au_log db). al_id e = i \<and> (case cursor of None \<Rightarrow> True | Some j \<Rightarrow> i < j)"
  unfolding audit_list_def by (drule page_cursor) auto

subsection \<open>Export\<close>

definition below :: "int option \<Rightarrow> audit_db \<Rightarrow> AuditLogEntry list" where
  "below cursor db =
     filter (\<lambda>e. case cursor of None \<Rightarrow> True | Some i \<Rightarrow> al_id e < i) (au_log db)"

lemma length_filter_less:
  "x \<in> set xs \<Longrightarrow> P x \<Longrightarrow> \<not> Q x \<Longrightarrow> (\<And>y. Q y \<Longrightarrow> P y) \<Longrightarrow>
     length (filter Q xs) < length (filter P xs)"
proof (induction xs)
  case (Cons y ys)
  have "length (filter Q ys) \<le> length (filter P ys)"
    using Cons.prems(4) by (induction ys) (auto intro: le_SucI)
  then show ?case using Cons by auto
qed simp

lemma below_shrinks:
  assumes "audit_list f cursor limit db = (es, Some i)"
  shows "length (below (Some i) db) < length (below cursor db)"
proof -
  obtain e where e: "e \<in> set (au_log db)" "al_id e = i"
    "case cursor of None \<Rightarrow> True | Some j \<Rightarrow> i < j"
    using audit_list_cursor[OF assms] by auto
  then show ?thesis
    unfolding below_def by (intro length_filter_less[of e]) (auto split: option.splits)
qed

definition EXPORT_MAX_ROWS :: nat where
  "EXPORT_MAX_ROWS = 10000"

definition EXPORT_PAGE_SIZE :: "32 word" where
  "EXPORT_PAGE_SIZE = 500"

text \<open>The loop of \<open>export_audit_logs\<close>, with the limits as arguments; \<open>None\<close> is the answer
  413.  It ends because each cursor is the identifier of a row below the previous one.\<close>

function export_loop ::
  "nat \<Rightarrow> 32 word \<Rightarrow> audit_filter \<Rightarrow> audit_db \<Rightarrow> int option \<Rightarrow> AuditLogEntry list
    \<Rightarrow> AuditLogEntry list option" where
  "export_loop most limit f db cursor acc = (case audit_list f cursor limit db of (items, nxt) \<Rightarrow>
     if most < length (acc @ items) then None
     else case nxt of None \<Rightarrow> Some (acc @ items)
     | Some i \<Rightarrow> export_loop most limit f db (Some i) (acc @ items))"
  by pat_completeness auto
termination
  by (relation "measure (\<lambda>(most, limit, f, db, cursor, acc). length (below cursor db))")
    (auto dest!: sym[of "(_, _)" "audit_list _ _ _ _"] below_shrinks)

declare export_loop.simps [simp del]

lemma unat_limit_Suc: "limit \<noteq> - 1 \<Longrightarrow> unat (limit + 1 :: 32 word) = Suc (unat limit)"
  by (metis add.commute add_eq_0_iff unatSuc)

lemma page_cases:
  assumes "limit \<noteq> 0" "limit \<noteq> - 1"
  shows "page limit rows =
    (if length rows \<le> unat limit then (rows, None)
     else (take (unat limit) rows, Some (al_id (rows ! (unat limit - 1)))))"
proof (cases "length rows \<le> unat limit")
  case False
  have "0 < unat limit" using assms(1) by (simp add: unat_gt_0)
  moreover have "butlast (take (Suc (unat limit)) rows) = take (unat limit) rows"
    using False by (simp add: butlast_take)
  moreover have "last (take (unat limit) rows) = rows ! (unat limit - 1)" if "0 < unat limit"
    using False that by (subst last_conv_nth) (auto simp: min_def)
  ultimately show ?thesis
    using False assms(2) by (auto simp: page_def unat_limit_Suc)
qed (use assms(2) in \<open>simp add: page_def unat_limit_Suc\<close>)

definition ascending :: "AuditLogEntry list \<Rightarrow> bool" where
  "ascending es \<longleftrightarrow> sorted_wrt (\<lambda>a b. al_id a < al_id b) es"

lemma sort_key_sorted: "sorted (map f xs) \<Longrightarrow> sort_key f xs = xs"
  by (induction xs) (auto intro: insort_is_Cons)

lemma sorted_map_filter: "sorted (map f xs) \<Longrightarrow> sorted (map f (filter P xs))"
  by (induction xs) auto

definition export_rows :: "audit_filter \<Rightarrow> int option \<Rightarrow> audit_db \<Rightarrow> AuditLogEntry list" where
  "export_rows f cursor db = rev (filter (matching f) (below cursor db))"

lemma audit_list_rows:
  assumes "sorted (map al_created_at (au_log db))"
  shows "audit_list f cursor limit db = page limit (export_rows f cursor db)"
  using assms
  by (simp add: audit_list_def export_rows_def below_def sort_key_sorted sorted_map_filter conj_commute)

lemma descending_rest:
  assumes "sorted_wrt (\<lambda>a b. al_id b < al_id a) xs" "0 < k" "k < length xs"
  shows "filter (\<lambda>e. al_id e < al_id (xs ! (k - 1))) xs = drop k xs"
proof -
  define n where "n = k - 1"
  then have k: "k = Suc n" "Suc n < length xs" using assms(2,3) by auto
  have lt: "al_id (xs ! j) < al_id (xs ! i)" if "i < j" "j < length xs" for i j
    using assms(1) that by (simp add: sorted_wrt_iff_nth_less)
  have "\<not> al_id e < al_id (xs ! n)" if e: "e \<in> set (take k xs)" for e
  proof -
    obtain i where "i < length (take k xs)" "take k xs ! i = e" using e by (meson in_set_conv_nth)
    then have i: "i \<le> n" "e = xs ! i" using k by simp_all
    then show ?thesis using lt[of i n] k by (cases "i = n") auto
  qed
  moreover have "al_id e < al_id (xs ! n)" if "e \<in> set (drop k xs)" for e
    using that k lt by (auto simp: in_set_conv_nth)
  ultimately have "filter (\<lambda>e. al_id e < al_id (xs ! n)) (take k xs @ drop k xs) = drop k xs"
    unfolding filter_append by (simp add: filter_False)
  then show ?thesis by (simp add: n_def)
qed

lemma export_rows_desc:
  "ascending (au_log db) \<Longrightarrow> sorted_wrt (\<lambda>a b. al_id b < al_id a) (export_rows f cursor db)"
  by (simp add: ascending_def export_rows_def below_def sorted_wrt_rev sorted_wrt_filter)

lemma export_rows_below:
  "e \<in> set (export_rows f cursor db) \<Longrightarrow> case cursor of None \<Rightarrow> True | Some j \<Rightarrow> al_id e < j"
  by (simp add: export_rows_def below_def)

lemma below_next:
  "case cursor of None \<Rightarrow> True | Some j \<Rightarrow> i < j \<Longrightarrow>
     below (Some i) db = filter (\<lambda>e. al_id e < i) (below cursor db)"
  unfolding below_def filter_filter by (rule filter_cong) (auto split: option.splits)

lemma export_rows_next:
  assumes "ascending (au_log db)" "0 < k" "k < length (export_rows f cursor db)"
  shows "export_rows f (Some (al_id (export_rows f cursor db ! (k - 1)))) db =
    drop k (export_rows f cursor db)"
proof -
  define i where "i = al_id (export_rows f cursor db ! (k - 1))"
  have "case cursor of None \<Rightarrow> True | Some j \<Rightarrow> i < j"
    unfolding i_def using assms(3) by (intro export_rows_below[of _ f cursor db]) simp
  then have "export_rows f (Some i) db = filter (\<lambda>e. al_id e < i) (export_rows f cursor db)"
    by (simp add: export_rows_def below_next rev_filter[symmetric] conj_commute)
  then show ?thesis
    using descending_rest[OF export_rows_desc[OF assms(1)] assms(2,3)] unfolding i_def by simp
qed

lemma export_loop_from:
  assumes "ascending (au_log db)" "sorted (map al_created_at (au_log db))"
    and "limit \<noteq> 0" "limit \<noteq> - 1"
  shows "export_loop most limit f db cursor acc =
    (if most < length (acc @ export_rows f cursor db) then None
     else Some (acc @ export_rows f cursor db))"
  using assms
proof (induction most limit f db cursor acc rule: export_loop.induct)
  case (1 most limit f db cursor acc)
  let ?rows = "export_rows f cursor db"
  note step = audit_list_rows[OF "1.prems"(2)] page_cases[OF "1.prems"(3,4)]
  show ?case
  proof (cases "length ?rows \<le> unat limit")
    case True
    then show ?thesis by (subst export_loop.simps) (simp add: step)
  next
    case False
    define i where "i = al_id (?rows ! (unat limit - 1))"
    have "0 < unat limit" using "1.prems"(3) by (simp add: unat_gt_0)
    then have rest: "export_rows f (Some i) db = drop (unat limit) ?rows"
      unfolding i_def using False by (intro export_rows_next[OF "1.prems"(1)]) auto
    have ls: "audit_list f cursor limit db = (take (unat limit) ?rows, Some i)"
      using False by (simp add: step i_def)
    have IH: "export_loop most limit f db (Some i) (acc @ take (unat limit) ?rows) =
        (if most < length (acc @ ?rows) then None else Some (acc @ ?rows))"
      if "\<not> most < length (acc @ take (unat limit) ?rows)"
      using "1.IH"[OF ls[symmetric] that refl "1.prems"] by (simp add: rest)
    show ?thesis by (subst export_loop.simps) (use False IH in \<open>auto simp: ls\<close>)
  qed
qed

subsection \<open>Formats\<close>

fun nat_text :: "nat \<Rightarrow> string" where
  "nat_text n = (if n < 10 then [char_of (48 + n)]
     else nat_text (n div 10) @ [char_of (48 + n mod 10)])"

declare nat_text.simps [simp del]

definition int_text :: "int \<Rightarrow> string" where
  "int_text i = (if i < 0 then CHR ''-'' # nat_text (nat (- i)) else nat_text (nat i))"

definition csv_escape_field :: "string \<Rightarrow> string" where
  "csv_escape_field s =
    (if CHR '','' \<in> set s \<or> CHR 0x22 \<in> set s \<or> CHR 0x0A \<in> set s \<or> CHR 0x0D \<in> set s
     then CHR 0x22 # concat (map (\<lambda>ch. if ch = CHR 0x22 then [CHR 0x22, CHR 0x22] else [ch]) s)
          @ [CHR 0x22]
     else s)"

fun join_with :: "char \<Rightarrow> string list \<Rightarrow> string" where
  "join_with ch [] = []"
| "join_with ch [s] = s"
| "join_with ch (s # ss) = s @ ch # join_with ch ss"

definition csv_header :: string where
  "csv_header = ''id,actor_id,action,resource_type,resource_id,result,metadata,created_at,content_hash,previous_hash''
     @ [CHR 0x0A]"

definition csv_fields_of :: "codec \<Rightarrow> AuditLogEntry \<Rightarrow> string list" where
  "csv_fields_of c e =
    [al_actor_id e, action_name (al_action e), resource_type_name (al_resource_type e),
     al_resource_id e, al_result e,
     (case al_metadata e of None \<Rightarrow> [] | Some m \<Rightarrow> json_bytes c m),
     rfc3339 c (al_created_at e), unwrap_or (al_content_hash e) [],
     unwrap_or (al_previous_hash e) []]"

definition csv_line :: "codec \<Rightarrow> AuditLogEntry \<Rightarrow> string" where
  "csv_line c e = join_with CHR '',''
     (int_text (al_id e) # map csv_escape_field (csv_fields_of c e)) @ [CHR 0x0A]"

text \<open>\<open>export_audit_logs\<close>: the rows are collected before the format is looked at.
  \<open>json_array\<close> stands for the printing of the whole list.\<close>

definition export_audit_logs ::
  "codec \<Rightarrow> (AuditLogEntry list \<Rightarrow> string) \<Rightarrow> audit_filter \<Rightarrow> string \<Rightarrow> audit_db
    \<Rightarrow> ApiProblem + string \<times> string" where
  "export_audit_logs c json_array f format db =
    (case export_loop EXPORT_MAX_ROWS EXPORT_PAGE_SIZE f db None [] of
       None \<Rightarrow> Inl (problem 413 PayloadTooLarge
         (''export exceeds maximum of '' @ nat_text EXPORT_MAX_ROWS @
          '' rows; narrow filters or use pagination''))
     | Some es \<Rightarrow>
         if to_lowercase format = ''ndjson'' then Inr (''application/x-ndjson'', ndjson c es)
         else if to_lowercase format = ''json'' then Inr (''application/json'', json_array es)
         else if to_lowercase format = ''csv''
         then Inr (''text/csv'', csv_header @ concat (map (csv_line c) es))
         else Inl (problem 400 BadRequest (''invalid export format '' @ quoted (to_lowercase format) @
           '': expected ndjson, json, or csv'')))"

text \<open>Reading a CSV record back, by the quoting rules of RFC 4180.\<close>

fun csv_quoted :: "string \<Rightarrow> (string \<times> string) option" where
  "csv_quoted [] = None"
| "csv_quoted [ch] = (if ch = CHR 0x22 then Some ([], []) else None)"
| "csv_quoted (ch # d # s) =
    (if ch = CHR 0x22 \<and> d = CHR 0x22
     then map_option (\<lambda>(f, r). (CHR 0x22 # f, r)) (csv_quoted s)
     else if ch = CHR 0x22 then Some ([], d # s)
     else map_option (\<lambda>(f, r). (ch # f, r)) (csv_quoted (d # s)))"

definition csv_field :: "string \<Rightarrow> (string \<times> string) option" where
  "csv_field s = (case s of
     ch # t \<Rightarrow> if ch = CHR 0x22 then csv_quoted t
       else Some (takeWhile (\<lambda>x. x \<notin> {CHR '','', CHR 0x0A}) s, dropWhile (\<lambda>x. x \<notin> {CHR '','', CHR 0x0A}) s)
   | [] \<Rightarrow> Some ([], []))"

fun csv_record :: "nat \<Rightarrow> string \<Rightarrow> (string list \<times> string) option" where
  "csv_record 0 s = None"
| "csv_record (Suc 0) s = map_option (\<lambda>(f, r). ([f], r)) (csv_field s)"
| "csv_record (Suc (Suc n)) s = (case csv_field s of
     Some (f, ch # r) \<Rightarrow> if ch = CHR '','' then map_option (\<lambda>(fs, r'). (f # fs, r')) (csv_record (Suc n) r)
       else None
   | _ \<Rightarrow> None)"

lemma csv_quoted_escaped:
  "rest = [] \<or> hd rest \<noteq> CHR 0x22 \<Longrightarrow>
   csv_quoted (concat (map (\<lambda>ch. if ch = CHR 0x22 then [CHR 0x22, CHR 0x22] else [ch]) s)
     @ CHR 0x22 # rest) = Some (s, rest)"
proof (induction s)
  case Nil
  then show ?case by (cases rest) auto
next
  case (Cons ch s)
  let ?e = "concat (map (\<lambda>ch. if ch = CHR 0x22 then [CHR 0x22, CHR 0x22] else [ch]) s)"
  obtain d t where dt: "?e @ CHR 0x22 # rest = d # t" by (cases ?e) auto
  show ?case using Cons dt by (cases "ch = CHR 0x22") auto
qed

lemma csv_field_escaped:
  assumes "rest \<noteq> []" "hd rest \<in> {CHR '','', CHR 0x0A}"
  shows "csv_field (csv_escape_field s @ rest) = Some (s, rest)"
proof (cases "CHR '','' \<in> set s \<or> CHR 0x22 \<in> set s \<or> CHR 0x0A \<in> set s \<or> CHR 0x0D \<in> set s")
  case True
  then show ?thesis
    using assms csv_quoted_escaped[of rest s] by (auto simp: csv_field_def csv_escape_field_def)
next
  case False
  obtain ch r where rest: "rest = ch # r" using assms(1) by (cases rest) auto
  have "takeWhile (\<lambda>x. x \<notin> {CHR '','', CHR 0x0A}) (s @ rest) = s"
    "dropWhile (\<lambda>x. x \<notin> {CHR '','', CHR 0x0A}) (s @ rest) = rest"
    using False assms(2) rest by (auto simp: takeWhile_append dropWhile_append)
  moreover have "hd (s @ rest) \<noteq> CHR 0x22" using False assms(2) rest by (cases s) auto
  ultimately show ?thesis
    using False rest by (cases s) (auto simp: csv_field_def csv_escape_field_def)
qed

text \<open>A row of the CSV export reads back field by field: whatever commas, quotes and
  line breaks the fields contain, reading as many fields as were written gives the fields
  and leaves the line feed that ends the row.\<close>

theorem csv_row_round_trip:
  "fs \<noteq> [] \<Longrightarrow> csv_record (length fs) (join_with CHR '','' (map csv_escape_field fs) @ CHR 0x0A # rest)
     = Some (fs, CHR 0x0A # rest)"
proof (induction fs rule: induct_list012)
  case (3 f g fs)
  let ?r = "join_with CHR '','' (map csv_escape_field (g # fs)) @ CHR 0x0A # rest"
  have "csv_field (csv_escape_field f @ CHR '','' # ?r) = Some (f, CHR '','' # ?r)"
    by (rule csv_field_escaped) simp_all
  then show ?case using 3 by simp
qed (simp_all add: csv_field_escaped)

theorem csv_row_round_trip_witness:
  "csv_record 2 (join_with CHR '','' (map csv_escape_field [''a,b'', [CHR 0x22, CHR 0x0A]]) @ [CHR 0x0A])
     = Some ([''a,b'', [CHR 0x22, CHR 0x0A]], [CHR 0x0A])"
  using csv_row_round_trip[of "[''a,b'', [CHR 0x22, CHR 0x0A]]" "[]"] by (simp add: numeral_2_eq_2)

lemma page_size_ok: "EXPORT_PAGE_SIZE \<noteq> 0" "EXPORT_PAGE_SIZE \<noteq> - 1"
  by (simp_all add: EXPORT_PAGE_SIZE_def)

text \<open>When creation times ascend with identifiers, the paged export is complete: it
  answers 413 exactly when more than 10000 rows match, and otherwise with every matching
  row, the newest first, each once.\<close>

theorem export_complete:
  assumes "ascending (au_log db)" "sorted (map al_created_at (au_log db))"
  shows "export_audit_logs c json_array f ''ndjson'' db =
    (let rows = filter (matching f) (au_log db) in
     if EXPORT_MAX_ROWS < length rows
     then Inl (problem 413 PayloadTooLarge (''export exceeds maximum of '' @ nat_text EXPORT_MAX_ROWS @
       '' rows; narrow filters or use pagination''))
     else Inr (''application/x-ndjson'', ndjson c (rev rows)))"
proof -
  have "export_rows f None db = rev (filter (matching f) (au_log db))"
    by (simp add: export_rows_def below_def)
  moreover have "to_lowercase ''ndjson'' = ''ndjson''" by code_simp
  ultimately show ?thesis
    by (simp add: export_audit_logs_def export_loop_from[OF assms page_size_ok] Let_def)
qed

text \<open>A row written last but with an earlier time sorts behind a full page of rows with
  smaller identifiers, and the cursor of that page excludes it.\<close>

lemma sort_key_late_row:
  assumes "sorted (map f xs)" "\<forall>e \<in> set xs. f x < f e"
  shows "sort_key f (xs @ [x]) = x # xs"
proof -
  have "sort_key f (xs @ [x]) = insort_key f x (sort_key f xs)" if "\<forall>e \<in> set xs. f x < f e"
    using that by (induction xs) (auto simp: insort_key_left_comm)
  then show ?thesis using assms by (simp add: sort_key_sorted insort_is_Cons less_imp_le)
qed

lemma export_skips_late_row:
  assumes "au_log db = xs @ [x]" "ascending (xs @ [x])" "sorted (map al_created_at xs)"
    and "\<forall>e \<in> set xs. al_created_at x < al_created_at e" "\<forall>e \<in> set (xs @ [x]). matching f e"
    and "length xs = unat limit" "limit \<noteq> 0" "limit \<noteq> - 1" "unat limit \<le> most"
  shows "export_loop most limit f db None [] = Some (rev xs)"
proof -
  have ne: "xs \<noteq> []" "0 < unat limit" using assms(6,7) by (auto simp: unat_eq_0 unat_gt_0)
  have first: "audit_list f None limit db = (rev xs, Some (al_id (hd xs)))"
  proof -
    note ne
    moreover have "filter (matching f) (xs @ [x]) = xs @ [x]" using assms(5) by simp
    ultimately show ?thesis
      using assms(1,6-8) sort_key_late_row[OF assms(3,4)]
      by (simp add: audit_list_def page_cases nth_append hd_conv_nth rev_nth)
  qed
  have none: "\<not> al_id e < al_id (hd xs)" if "e \<in> set (xs @ [x])" for e
    using assms(2) ne that by (cases xs) (auto simp: ascending_def)
  then have "filter (\<lambda>e. matching f e \<and> al_id e < al_id (hd xs)) (au_log db) = []"
    using assms(1) by (auto simp: filter_empty_conv)
  then have second: "audit_list f (Some (al_id (hd xs))) limit db = ([], None)"
    using assms(7,8) by (simp add: audit_list_def page_cases)
  show ?thesis
    by (subst export_loop.simps, simp add: first, subst export_loop.simps) (use second assms in simp)
qed

definition no_filter :: audit_filter where
  "no_filter = \<lparr>fl_action = None, fl_resource_type = None, fl_resource_id = None,
     fl_since = None, fl_until = None\<rparr>"

lemma demo_export:
  "ascending demo_log" "sorted (map al_created_at demo_log)"
  "filter (matching no_filter) demo_log = demo_log" "length demo_log = 2"
  "ndjson (demo_codec [] None) (rev demo_log) = ''xx'' @ CHR 0x0A # ''x'' @ [CHR 0x0A]"
  by code_simp+

theorem export_complete_witness:
  "export_audit_logs (demo_codec [] None) (\<lambda>_. []) no_filter ''ndjson'' (demo_audit [''alice'', ''bob'']) =
   Inr (''application/x-ndjson'', ''xx'' @ CHR 0x0A # ''x'' @ [CHR 0x0A])"
  using export_complete[of "demo_audit [''alice'', ''bob'']"] demo_export
  by (simp add: demo_log_def EXPORT_MAX_ROWS_def)

subsection \<open>Merkle roots and checkpoints\<close>

definition hour :: timestamp where
  "hour = seconds 3600"

definition get_root :: "timestamp \<Rightarrow> audit_db \<Rightarrow> AuditMerkleRoot option" where
  "get_root w db = find (\<lambda>r. mr_window_start r = w) (au_roots db)"

definition window_hashes :: "timestamp \<Rightarrow> audit_db \<Rightarrow> string list" where
  "window_hashes w db = content_hashes
     (filter (\<lambda>e. w \<le> al_created_at e \<and> al_created_at e < w + hour) (au_log db))"

text \<open>A handler answers with a problem or panics.\<close>

datatype abort = Panicked | Answered ApiProblem

type_synonym 'a audit_op = "(audit_db, abort, 'a) proc"

text \<open>\<open>compute_and_cache_root\<close>: a cached root is returned as it is; otherwise the root of
  the window is computed and inserted (\<open>INSERT OR IGNORE\<close>).\<close>

definition compute_and_cache_root ::
  "codec \<Rightarrow> timestamp \<Rightarrow> timestamp \<Rightarrow> AuditMerkleRoot audit_op" where
  "compute_and_cache_root c now w = (\<lambda>db. case get_root w db of
     Some r \<Rightarrow> (Inr r, db)
   | None \<Rightarrow> (case compute_merkle_root c (window_hashes w db) of
       None \<Rightarrow> (Inl Panicked, db)
     | Some root \<Rightarrow>
         (let r = \<lparr>mr_window_start = w, mr_root = root,
                  mr_entry_count = int (length (window_hashes w db)), mr_computed_at = now\<rparr>
          in (Inr r, db\<lparr>au_roots := au_roots db @ [r]\<rparr>))))"

definition get_checkpoint :: "timestamp \<Rightarrow> audit_db \<Rightarrow> AuditCheckpoint option" where
  "get_checkpoint w db = find (\<lambda>cp. cp_window_start cp = w) (au_checkpoints db)"

text \<open>\<open>window_start\<close> is the primary key of \<open>audit_checkpoints\<close>.\<close>

definition insert_checkpoint :: "AuditCheckpoint \<Rightarrow> unit audit_op" where
  "insert_checkpoint cp = (\<lambda>db.
    if get_checkpoint (cp_window_start cp) db = None
    then (Inr (), db\<lparr>au_checkpoints := au_checkpoints db @ [cp]\<rparr>)
    else (Inl (Answered (problem 500 Internal ''failed to store checkpoint'')), db))"

record signing =
  sg_base64_decode :: "string \<Rightarrow> string option"
  sg_key_ok :: "string \<Rightarrow> bool"
  sg_verify :: "string \<Rightarrow> string \<Rightarrow> string \<Rightarrow> bool"

definition dquoted :: "string \<Rightarrow> string" where
  "dquoted s = CHR 0x22 # s @ [CHR 0x22]"

definition canonical_checkpoint_hash :: "codec \<Rightarrow> timestamp \<Rightarrow> string \<Rightarrow> int \<Rightarrow> timestamp \<Rightarrow> string" where
  "canonical_checkpoint_hash c w root n signed_at = sha256 c
    (''{'' @ dquoted ''entry_count'' @ '':'' @ int_text n @ '','' @
     dquoted ''merkle_root'' @ '':'' @ dquoted root @ '','' @
     dquoted ''signed_at'' @ '':'' @ dquoted (rfc3339 c signed_at) @ '','' @
     dquoted ''window_start'' @ '':'' @ dquoted (rfc3339 c w) @ ''}'')"

text \<open>The signature checks, in the order of both handlers; the value names the step that
  failed.\<close>

definition signature_error :: "codec \<Rightarrow> signing \<Rightarrow> AuditCheckpoint \<Rightarrow> string option" where
  "signature_error c sg cp = (case sg_base64_decode sg (cp_signature cp) of
     None \<Rightarrow> Some ''invalid signature encoding''
   | Some sig \<Rightarrow> if length sig \<noteq> 64 then Some ''invalid signature length''
     else case sg_base64_decode sg (cp_public_key cp) of
       None \<Rightarrow> Some ''invalid public key encoding''
     | Some pk \<Rightarrow> if length pk \<noteq> 32 then Some ''invalid public key length''
       else if \<not> sg_key_ok sg pk then Some ''invalid public key''
       else if \<not> sg_verify sg pk (canonical_checkpoint_hash c (cp_window_start cp)
            (cp_merkle_root cp) (cp_entry_count cp) (cp_signed_at cp)) sig
       then Some ''signature verification failed'' else None)"

definition hour_aligned :: "timestamp \<Rightarrow> bool" where
  "hour_aligned w = (w mod hour = 0)"

record AuditCheckpointVerifyResponse =
  vr_valid :: bool
  vr_window_start :: timestamp
  vr_error :: "string option"
  vr_checkpoint :: "AuditCheckpoint option"
  vr_current_root :: "string option"
  vr_current_entry_count :: "int option"

definition bad_request :: "string \<Rightarrow> abort" where
  "bad_request msg = Answered (problem 400 BadRequest msg)"

definition root_text :: "string \<Rightarrow> int \<Rightarrow> string" where
  "root_text root n = ''root='' @ root @ '' count='' @ int_text n"

text \<open>The request has the fields of the checkpoint it asks for.\<close>

definition create_checkpoint ::
  "codec \<Rightarrow> signing \<Rightarrow> timestamp \<Rightarrow> AuditCheckpoint \<Rightarrow> (nat \<times> AuditCheckpointVerifyResponse) audit_op" where
  "create_checkpoint c sg now req =
    andthen (ensure (hour_aligned (cp_window_start req))
      (bad_request ''window_start must be aligned to the hour'')) (\<lambda>_.
    andthen (compute_and_cache_root c now (cp_window_start req)) (\<lambda>r.
    andthen (ensure (mr_root r = cp_merkle_root req \<and> mr_entry_count r = cp_entry_count req)
      (bad_request (''merkle root mismatch: expected '' @ root_text (mr_root r) (mr_entry_count r) @
         '', got '' @ root_text (cp_merkle_root req) (cp_entry_count req)))) (\<lambda>_.
    andthen (case signature_error c sg req of
        None \<Rightarrow> ret () | Some e \<Rightarrow> raise (bad_request e)) (\<lambda>_.
    andthen (insert_checkpoint req) (\<lambda>_.
    ret (201, \<lparr>vr_valid = True, vr_window_start = cp_window_start req, vr_error = None,
      vr_checkpoint = Some req, vr_current_root = Some (mr_root r),
      vr_current_entry_count = Some (mr_entry_count r)\<rparr>))))))"

definition verify_checkpoint ::
  "codec \<Rightarrow> signing \<Rightarrow> timestamp \<Rightarrow> timestamp \<Rightarrow> AuditCheckpointVerifyResponse audit_op" where
  "verify_checkpoint c sg now w =
    andthen (ensure (hour_aligned w) (bad_request ''window_start must be aligned to the hour'')) (\<lambda>_.
    andthen (reads (get_checkpoint w)) (\<lambda>found. case found of
      None \<Rightarrow> ret \<lparr>vr_valid = False, vr_window_start = w,
        vr_error = Some ''no checkpoint found for window'', vr_checkpoint = None,
        vr_current_root = None, vr_current_entry_count = None\<rparr>
    | Some cp \<Rightarrow>
      andthen (compute_and_cache_root c now w) (\<lambda>r.
      (let answer = (\<lambda>valid err. ret \<lparr>vr_valid = valid, vr_window_start = w, vr_error = err,
             vr_checkpoint = Some cp, vr_current_root = Some (mr_root r),
             vr_current_entry_count = Some (mr_entry_count r)\<rparr>) in
       if mr_root r \<noteq> cp_merkle_root cp \<or> mr_entry_count r \<noteq> cp_entry_count cp
       then answer False (Some (''merkle root mismatch: checkpoint '' @
         root_text (cp_merkle_root cp) (cp_entry_count cp) @ '', current '' @
         root_text (mr_root r) (mr_entry_count r)))
       else case signature_error c sg cp of
         Some e \<Rightarrow> answer False (Some (if e = ''signature verification failed'' then e
           else e @ '' in stored checkpoint''))
       | None \<Rightarrow> answer True None))))"

lemma get_root_cached:
  "compute_and_cache_root c now w db = (Inr r, db') \<Longrightarrow>
     get_root w db' = Some r \<and> au_checkpoints db' = au_checkpoints db \<and> mr_window_start r = w"
  by (auto simp: compute_and_cache_root_def get_root_def Let_def find_append
      dest: find_mem split: option.splits)

lemma cached_root_returned:
  "get_root w db = Some r \<Longrightarrow> compute_and_cache_root c now w db = (Inr r, db)"
  by (simp add: compute_and_cache_root_def)

lemma created_checkpoint:
  assumes "create_checkpoint c sg now req db = (Inr (st, resp), db')"
  obtains r where "hour_aligned (cp_window_start req)" "signature_error c sg req = None"
    "get_checkpoint (cp_window_start req) db' = Some req"
    "get_root (cp_window_start req) db' = Some r"
    "mr_root r = cp_merkle_root req" "mr_entry_count r = cp_entry_count req"
proof -
  from assms obtain r db1 where 1: "hour_aligned (cp_window_start req)"
    "compute_and_cache_root c now (cp_window_start req) db = (Inr r, db1)"
    "mr_root r = cp_merkle_root req" "mr_entry_count r = cp_entry_count req"
    "signature_error c sg req = None" "insert_checkpoint req db1 = (Inr (), db')"
    by (auto simp: create_checkpoint_def proc_simps split: if_splits prod.splits sum.splits option.splits)
  then have "get_checkpoint (cp_window_start req) db' = Some req"
    "get_root (cp_window_start req) db' = Some r"
    using get_root_cached[OF 1(2)]
    by (auto simp: insert_checkpoint_def get_checkpoint_def get_root_def find_append split: if_splits)
  then show ?thesis using 1 that by blast
qed

text \<open>A checkpoint that was created verifies from then on, whatever the audit log holds:
  the handler compares it with the root cached when it was created and never with the
  rows, so a later change of the rows of its window is not noticed.\<close>

theorem created_checkpoint_always_valid:
  assumes "create_checkpoint c sg now req db = (Inr (st, resp), db')"
  shows "\<exists>answer. verify_checkpoint c sg later (cp_window_start req) (db'\<lparr>au_log := rows\<rparr>) =
    (Inr answer, db'\<lparr>au_log := rows\<rparr>) \<and> vr_valid answer"
proof -
  from assms obtain r where r: "hour_aligned (cp_window_start req)" "signature_error c sg req = None"
    "get_checkpoint (cp_window_start req) db' = Some req"
    "get_root (cp_window_start req) db' = Some r"
    "mr_root r = cp_merkle_root req" "mr_entry_count r = cp_entry_count req"
    by (rule created_checkpoint)
  let ?db = "db'\<lparr>au_log := rows\<rparr>"
  have "get_checkpoint (cp_window_start req) ?db = Some req" "get_root (cp_window_start req) ?db = Some r"
    using r by (simp_all add: get_checkpoint_def get_root_def)
  then show ?thesis
    using r by (simp add: verify_checkpoint_def proc_simps cached_root_returned Let_def)
qed

definition demo_signing :: signing where
  "demo_signing = \<lparr>sg_base64_decode = (\<lambda>s. Some (replicate (length s) CHR ''k'')),
     sg_key_ok = (\<lambda>_. True), sg_verify = (\<lambda>pk msg sig. True)\<rparr>"

definition demo_request :: AuditCheckpoint where
  "demo_request = \<lparr>cp_window_start = 0,
     cp_merkle_root = the (compute_merkle_root (demo_codec [] None) (content_hashes demo_log)),
     cp_entry_count = 2, cp_signer_id = ''op'', cp_signer_key_fingerprint = [], cp_signed_at = 9,
     cp_signature = replicate 64 CHR ''s'', cp_public_key = replicate 32 CHR ''p''\<rparr>"

definition demo_create :: "(abort + nat \<times> AuditCheckpointVerifyResponse) \<times> audit_db" where
  "demo_create = create_checkpoint (demo_codec [] None) demo_signing 9 demo_request
     \<lparr>au_log = demo_log, au_next = 3, au_roots = [], au_checkpoints = []\<rparr>"

lemma demo_created: "map_sum id fst (fst demo_create) = Inr 201"
  by code_simp

theorem created_checkpoint_always_valid_witness:
  "\<exists>answer. verify_checkpoint (demo_codec [] None) demo_signing 10 0
     ((snd demo_create)\<lparr>au_log := []\<rparr>) = (Inr answer, (snd demo_create)\<lparr>au_log := []\<rparr>) \<and> vr_valid answer"
proof -
  obtain resp where "fst demo_create = Inr (201, resp)"
    using demo_created by (cases "fst demo_create") auto
  then have c: "demo_create = (Inr (201, resp), snd demo_create)" by (metis prod.collapse)
  have "cp_window_start demo_request = 0" by (simp add: demo_request_def)
  then show ?thesis
    using created_checkpoint_always_valid[OF c[unfolded demo_create_def], of 10 "[]"]
    unfolding demo_create_def by simp
qed

subsection \<open>The archive worker\<close>

text \<open>\<open>worm_sink.rs\<close>: a pass takes the next batch in ascending \<open>id\<close>, bundles it and uploads
  both files; the cursor moves only after both uploads succeeded.  \<open>upload k s\<close> says
  whether the object store accepts the object; what it accepted is \<open>ws_objects\<close>.\<close>

record worm_sink =
  ws_last_id :: int
  ws_objects :: "(string \<times> string) list"
  ws_failures :: nat
  ws_exports :: nat

definition trim_end_slashes :: "string \<Rightarrow> string" where
  "trim_end_slashes s = rev (dropWhile (\<lambda>ch. ch = CHR ''/'') (rev s))"

definition bundle_key :: "string \<Rightarrow> int \<Rightarrow> int \<Rightarrow> string" where
  "bundle_key pre first_id last_id =
    (let base = trim_end_slashes pre;
         name = ''audit-bundle-'' @ int_text first_id @ ''-'' @ int_text last_id
     in if base = [] then name else base @ ''/'' @ name)"

definition boundary_of :: "AuditLogEntry list \<Rightarrow> string option" where
  "boundary_of es = (case find (\<lambda>e. al_content_hash e \<noteq> None) es of
     None \<Rightarrow> None | Some e \<Rightarrow> al_previous_hash e)"

definition upload_object :: "(string \<Rightarrow> string \<Rightarrow> bool) \<Rightarrow> string \<Rightarrow> string \<Rightarrow> (worm_sink, unit, unit) proc" where
  "upload_object upload k s = (\<lambda>w. if upload k s
     then (Inr (), w\<lparr>ws_objects := ws_objects w @ [(k, s)]\<rparr>) else (Inl (), w))"

definition run_one_export_pass_inner ::
  "codec \<Rightarrow> (string \<Rightarrow> string \<Rightarrow> bool) \<Rightarrow> timestamp \<Rightarrow> string \<Rightarrow> 32 word \<Rightarrow> audit_db
    \<Rightarrow> (worm_sink, unit, unit) proc" where
  "run_one_export_pass_inner c upload now pre limit db = (\<lambda>w.
    let es = fst (list_since_id (ws_last_id w) limit db) in
    if es = [] then (Inr (), w)
    else (let base = bundle_key pre (al_id (hd es)) (al_id (last es));
              body = join_with CHR 0x0A (map (print_entry c) es) in
      case build_bundle_with_boundary c now es body (boundary_of es) of
        Inl _ \<Rightarrow> (Inl (), w)
      | Inr b \<Rightarrow>
          andthen (upload_object upload (base @ ''/audit.jsonl'') (bu_body b)) (\<lambda>_.
          andthen (upload_object upload (base @ ''/manifest.json'') (print_manifest c (bu_manifest b))) (\<lambda>_.
          modifies (\<lambda>w. w\<lparr>ws_last_id := al_id (last es), ws_exports := ws_exports w + 1\<rparr>))) w))"

definition run_one_export_pass ::
  "codec \<Rightarrow> (string \<Rightarrow> string \<Rightarrow> bool) \<Rightarrow> timestamp \<Rightarrow> string \<Rightarrow> 32 word \<Rightarrow> audit_db \<Rightarrow> worm_sink \<Rightarrow> worm_sink" where
  "run_one_export_pass c upload now pre limit db w =
    (case run_one_export_pass_inner c upload now pre limit db w of
       (Inl _, w') \<Rightarrow> w'\<lparr>ws_failures := ws_failures w' + 1\<rparr>
     | (Inr _, w') \<Rightarrow> w')"

text \<open>The batch of a pass, and what uploading it leaves in the object store.\<close>

definition batch_objects ::
  "codec \<Rightarrow> timestamp \<Rightarrow> string \<Rightarrow> AuditLogEntry list \<Rightarrow> (string \<times> string) list" where
  "batch_objects c now pre es =
    (case build_bundle_with_boundary c now es (join_with CHR 0x0A (map (print_entry c) es)) (boundary_of es) of
       Inl _ \<Rightarrow> []
     | Inr b \<Rightarrow> (let base = bundle_key pre (al_id (hd es)) (al_id (last es)) in
         [(base @ ''/audit.jsonl'', bu_body b),
          (base @ ''/manifest.json'', print_manifest c (bu_manifest b))]))"

fun batches :: "nat \<Rightarrow> nat \<Rightarrow> 'a list \<Rightarrow> 'a list list" where
  "batches 0 k xs = []"
| "batches (Suc n) k xs = (if xs = [] then [] else take k xs # batches n k (drop k xs))"

lemma concat_batches: "concat (batches n k xs) = take (n * k) xs"
  by (induction n k xs rule: batches.induct) (auto simp: take_add)

lemma list_since_id_page:
  assumes "limit \<noteq> 0" "limit \<noteq> - 1"
  shows "fst (list_since_id i limit db) = take (unat limit) (filter (\<lambda>e. i < al_id e) (au_log db))"
  by (simp add: list_since_id_def page_cases[OF assms])

lemma ascending_after_take:
  assumes "ascending es" "0 < k" "es \<noteq> []"
  shows "filter (\<lambda>e. al_id (last (take k es)) < al_id e) es = drop k es"
proof -
  let ?t = "take k es"
  have ne: "?t \<noteq> []" using assms(2,3) by auto
  have "sorted_wrt (\<lambda>a b. al_id a < al_id b) (?t @ drop k es)"
    using assms(1) by (simp add: ascending_def)
  then have srt: "sorted_wrt (\<lambda>a b. al_id a < al_id b) ?t"
    "\<forall>a \<in> set ?t. \<forall>b \<in> set (drop k es). al_id a < al_id b"
    unfolding sorted_wrt_append by blast+
  have "al_id e \<le> al_id (last ?t)" if "e \<in> set ?t" for e
  proof -
    have "sorted_wrt (\<lambda>a b. al_id a < al_id b) (butlast ?t @ [last ?t])"
      using srt(1) ne by simp
    moreover have "e \<in> set (butlast ?t @ [last ?t])" using that ne by simp
    ultimately show ?thesis by (auto simp: sorted_wrt_append simp del: append_butlast_last_id)
  qed
  then have "filter (\<lambda>e. al_id (last ?t) < al_id e) ?t = []"
    by (auto simp: filter_empty_conv dest: leD)
  moreover have "filter (\<lambda>e. al_id (last ?t) < al_id e) (drop k es) = drop k es"
    using srt(2) ne by simp
  ultimately have "filter (\<lambda>e. al_id (last ?t) < al_id e) (?t @ drop k es) = drop k es"
    unfolding filter_append by simp
  then show ?thesis by simp
qed

lemma ascending_filter: "ascending es \<Longrightarrow> ascending (filter P es)"
  by (simp add: ascending_def sorted_wrt_filter)

lemma boundary_of_hashed: "boundary_of es = (case hashed es of [] \<Rightarrow> None | e # _ \<Rightarrow> al_previous_hash e)"
  by (induction es) (auto simp: boundary_of_def)

lemma linked_slice:
  "linked c prior (hashed (es @ fs @ gs)) \<Longrightarrow> linked c (boundary_of fs) (hashed fs)"
  by (cases "hashed fs") (auto simp: boundary_of_hashed linked_append)

lemma build_slice:
  assumes "linked c (boundary_of es) (hashed es)"
  obtains b where "build_bundle_with_boundary c now es body (boundary_of es) = Inr b"
    "bu_body b = body" "verify_entries c (bu_manifest b) es = Inr (bu_manifest b)"
    "mf_version (bu_manifest b) = 1"
  using built_bundle_verifies[OF assms] by blast

lemma pass_uploads:
  assumes "\<And>k s. upload k s" "limit \<noteq> 0" "limit \<noteq> - 1" "linked c None (hashed (au_log db))"
    and "filter (\<lambda>e. ws_last_id w < al_id e) (au_log db) = drop m (au_log db)"
    and es_def: "es = take (unat limit) (drop m (au_log db))"
  shows "run_one_export_pass c upload now pre limit db w =
    (if es = [] then w
     else w\<lparr>ws_last_id := al_id (last es), ws_objects := ws_objects w @ batch_objects c now pre es,
            ws_exports := ws_exports w + 1\<rparr>)"
proof (cases "es = []")
  case True
  then show ?thesis
    using assms(2,3,5) by (simp add: run_one_export_pass_def run_one_export_pass_inner_def
        list_since_id_page es_def)
next
  case False
  have log: "au_log db = take m (au_log db) @ es @ drop (unat limit) (drop m (au_log db))"
    unfolding es_def by (simp only: append_take_drop_id)
  have "linked c (boundary_of es) (hashed es)"
    using assms(4) by (subst (asm) log) (rule linked_slice)
  then obtain b where "build_bundle_with_boundary c now es
      (join_with CHR 0x0A (map (print_entry c) es)) (boundary_of es) = Inr b"
    by (rule build_slice)
  moreover have "fst (list_since_id (ws_last_id w) limit db) = es"
    unfolding list_since_id_page[OF assms(2,3)] assms(5) es_def ..
  ultimately show ?thesis
    using False assms(1)
    by (simp add: run_one_export_pass_def run_one_export_pass_inner_def batch_objects_def
        upload_object_def proc_simps Let_def)
qed

lemma passes_upload:
  assumes "\<And>k s. upload k s" "limit \<noteq> 0" "limit \<noteq> - 1" "linked c None (hashed (au_log db))"
    and "ascending (au_log db)"
    and "filter (\<lambda>e. ws_last_id w < al_id e) (au_log db) = drop m (au_log db)"
  shows "ws_objects ((run_one_export_pass c upload now pre limit db ^^ n) w) =
    ws_objects w @ concat (map (batch_objects c now pre) (batches n (unat limit) (drop m (au_log db))))"
  using assms(6)
proof (induction n arbitrary: w m)
  case (Suc n)
  let ?run = "run_one_export_pass c upload now pre limit db"
  let ?k = "unat limit" and ?rest = "drop m (au_log db)"
  note step = pass_uploads[OF assms(1-4) Suc.prems refl, where now = now and pre = pre]
  show ?case
  proof (cases "?rest = []")
    case True
    then have "?run w = w" using step by simp
    then have "(?run ^^ Suc n) w = (?run ^^ n) w" by (simp only: funpow_Suc_right comp_apply)
    then show ?thesis using Suc.IH[OF Suc.prems] True by (cases n) simp_all
  next
    case False
    have k: "0 < ?k" using assms(2) by (simp add: unat_gt_0)
    define w' where "w' = ?run w"
    have w': "ws_last_id w' = al_id (last (take ?k ?rest))"
      "ws_objects w' = ws_objects w @ batch_objects c now pre (take ?k ?rest)"
      unfolding w'_def step using False k by simp_all
    have "filter (\<lambda>e. ws_last_id w' < al_id e) (au_log db) = drop (?k + m) (au_log db)"
    proof -
      have i: "ws_last_id w < ws_last_id w'" 
      proof -
        have "last (take ?k ?rest) \<in> set (take ?k ?rest)" using False k by (intro last_in_set) simp
        then have "last (take ?k ?rest) \<in> set ?rest" by (rule in_set_takeD)
        then show ?thesis unfolding Suc.prems[symmetric] w'(1) by simp
      qed
      have "filter (\<lambda>e. ws_last_id w' < al_id e) (au_log db) =
          filter (\<lambda>e. ws_last_id w' < al_id e) ?rest"
        unfolding Suc.prems[symmetric] filter_filter using i by (intro filter_cong) auto
      also have "\<dots> = drop ?k ?rest"
        unfolding w'(1) using ascending_filter[OF assms(5)] Suc.prems
        by (intro ascending_after_take[OF _ k False]) metis
      finally show ?thesis by (simp add: add.commute)
    qed
    from Suc.IH[OF this] have "ws_objects ((?run ^^ n) w') = ws_objects w' @
        concat (map (batch_objects c now pre) (batches n ?k (drop ?k ?rest)))"
      by (simp add: add.commute)
    then show ?thesis
      using False w'(2) by (simp add: funpow_Suc_right w'_def del: funpow.simps)
  qed
qed simp

lemma lines_from_last:
  "CHR 0x0A \<notin> set l \<Longrightarrow> lines_from acc l = (if acc = [] \<and> l = [] then [] else [rev acc @ l])"
  by (induction l arbitrary: acc) auto

lemma lines_joined:
  "\<forall>e \<in> set es. faithful c e \<Longrightarrow>
     text_lines (join_with CHR 0x0A (map (print_entry c) es)) = map (print_entry c) es"
  unfolding text_lines_def
  by (induction es rule: induct_list012)
    (auto simp: lines_from_line lines_from_last faithful_strip faithful_def)

definition object_dir :: "(string \<times> string) list \<Rightarrow> dir" where
  "object_dir os = (case os of
     [(_, body), (_, m)] \<Rightarrow> Map.empty(''audit.jsonl'' \<mapsto> body, ''manifest.json'' \<mapsto> m)
   | _ \<Rightarrow> Map.empty)"

lemma batch_verifies:
  assumes "linked c (boundary_of es) (hashed es)" "distinct (map al_id es)"
    and "\<forall>e \<in> set es. faithful c e"
  shows "\<exists>m. mf_entry_count m = length es \<and>
    (parse_manifest c (print_manifest c m) = Some m \<longrightarrow>
     verify_bundle c (object_dir (batch_objects c now pre es)) = Inr m)"
proof -
  let ?body = "join_with CHR 0x0A (map (print_entry c) es)"
  obtain b where b: "build_bundle_with_boundary c now es ?body (boundary_of es) = Inr b"
    "bu_body b = ?body" "verify_entries c (bu_manifest b) es = Inr (bu_manifest b)"
    "mf_version (bu_manifest b) = 1"
    using assms(1) by (rule build_slice)
  have dir: "object_dir (batch_objects c now pre es) = export_bundle c b Map.empty"
    by (simp add: b(1) batch_objects_def object_dir_def export_bundle_def Let_def)
  have "verify_bundle c (export_bundle c b Map.empty) = verify_entries c (bu_manifest b) es"
    if "parse_manifest c (print_manifest c (bu_manifest b)) = Some (bu_manifest b)"
    using b(2,4) lines_joined[OF assms(3)] that by (intro verify_exported[OF assms(3,2)]) simp_all
  then show ?thesis using b(3) dir by (intro exI[of _ "bu_manifest b"]) (auto simp: verify_entries_ok)
qed

lemma batches_slice:
  "b \<in> set (batches n k xs) \<Longrightarrow> \<exists>ys zs. xs = ys @ b @ zs"
proof (induction n k xs rule: batches.induct)
  case (2 n k xs)
  then consider "b = take k xs" | "b \<in> set (batches n k (drop k xs))" "xs \<noteq> []"
    by (auto split: if_splits)
  then show ?case
  proof cases
    case 1
    then show ?thesis by (metis append_Nil append_take_drop_id)
  next
    case 2
    then show ?thesis using "2.IH" by (metis append.assoc append_take_drop_id)
  qed
qed simp

lemma ascending_distinct: "ascending es \<Longrightarrow> distinct (map al_id es)"
  unfolding ascending_def by (induction es) auto



end
