(* ===== verification/Lineage_Query.thy ===== *)
theory Lineage_Query
  imports Gateway
begin

text \<open>
  Lineage queries: \<open>crates/ferrum-graph/src/lib.rs\<close> (the in-memory lineage graph) and
  \<open>query_lineage\<close>, \<open>get_execution_lineage\<close> and \<open>get_execution\<close> of
  \<open>crates/ferrum-gateway/src/lineage.rs\<close>.

  Both searches are breadth first with a bound on the number of hops.  The reference is
  \<open>within\<close>, the nodes at most that many hops away; the lemmas show that both searches
  return exactly these nodes, each once.  The reads of one query see one state of the
  store; events and edges are only ever added to it.
\<close>

subsection \<open>Nodes within a number of hops\<close>

fun within :: "('a \<Rightarrow> 'a set) \<Rightarrow> nat \<Rightarrow> 'a \<Rightarrow> 'a set" where
  "within N 0 s = {s}"
| "within N (Suc k) s = within N k s \<union> (\<Union>v \<in> within N k s. N v)"

definition hop :: "('a \<Rightarrow> 'a set) \<Rightarrow> ('a \<times> 'a) set" where
  "hop N = {(v, u). u \<in> N v}"

lemma hop_Suc: "(s, u) \<in> hop N ^^ Suc n \<longleftrightarrow> (\<exists>v. (s, v) \<in> hop N ^^ n \<and> u \<in> N v)"
  by (auto simp: hop_def)

lemma ex_le_Suc: "(\<exists>n \<le> Suc k. P n) \<longleftrightarrow> (\<exists>n \<le> k. P n) \<or> (\<exists>n \<le> k. P (Suc n))"
proof
  assume "\<exists>n \<le> Suc k. P n"
  then obtain n where "n \<le> k \<or> n = Suc k" "P n" by (auto simp: le_Suc_eq)
  then show "(\<exists>n \<le> k. P n) \<or> (\<exists>n \<le> k. P (Suc n))" by auto
qed (auto intro: le_SucI Suc_le_mono[THEN iffD2])

lemma within_iff: "u \<in> within N k s \<longleftrightarrow> (\<exists>n \<le> k. (s, u) \<in> hop N ^^ n)"
proof (induction k arbitrary: u)
  case (Suc k)
  have "(\<exists>n \<le> Suc k. (s, u) \<in> hop N ^^ n) \<longleftrightarrow>
      (\<exists>n \<le> k. (s, u) \<in> hop N ^^ n) \<or> (\<exists>n \<le> k. (s, u) \<in> hop N ^^ Suc n)"
    by (rule ex_le_Suc)
  moreover have "u \<in> (\<Union>v \<in> within N k s. N v) \<longleftrightarrow> (\<exists>n \<le> k. (s, u) \<in> hop N ^^ Suc n)"
    unfolding hop_Suc UN_iff Bex_def Suc.IH by blast
  ultimately show ?case using Suc.IH by simp
qed auto

lemma within_closed:
  "\<forall>v \<in> within N k s. N v \<subseteq> within N k s \<Longrightarrow> within N (n + k) s = within N k s"
  by (induction n) auto

lemma within_mono: "k \<le> n \<Longrightarrow> within N k s \<subseteq> within N n s"
  by (induction n) (auto simp: le_Suc_eq)

subsection \<open>The lineage query\<close>

record LineageQueryRequest =
  lq_event_id :: uuid
  lq_direction :: LineageDirection
  lq_max_hops :: "8 word"

record LineageQueryResponse =
  lr_events :: "ProvenanceEvent list"
  lr_edges :: "ProvenanceEdge list"

record search =
  sr_visited :: "uuid list"
  sr_events :: "ProvenanceEvent list"
  sr_edges :: "ProvenanceEdge list"
  sr_next :: "uuid list"

text \<open>\<open>visited.insert\<close> and, for a node seen the first time, the lookup of its event.\<close>

definition discover :: "database \<Rightarrow> search \<Rightarrow> uuid \<Rightarrow> search" where
  "discover d st k =
    (if k \<in> set (sr_visited st) then st
     else case get_event d k of
       None \<Rightarrow> st\<lparr>sr_visited := k # sr_visited st\<rparr>
     | Some e \<Rightarrow> st\<lparr>sr_visited := k # sr_visited st, sr_events := sr_events st @ [e],
                   sr_next := sr_next st @ [k]\<rparr>)"

definition follow_parent :: "database \<Rightarrow> search \<Rightarrow> ProvenanceEdge \<Rightarrow> search" where
  "follow_parent d st edge =
    (let st' = discover d st (ed_from_event_id edge) in st'\<lparr>sr_edges := sr_edges st' @ [edge]\<rparr>)"

definition follow_child :: "database \<Rightarrow> search \<Rightarrow> ProvenanceEdge \<Rightarrow> search" where
  "follow_child d st edge =
    (let st' = (case ed_to_event_id edge of None \<Rightarrow> st | Some k \<Rightarrow> discover d st k)
     in st'\<lparr>sr_edges := sr_edges st' @ [edge]\<rparr>)"

definition expand :: "database \<Rightarrow> LineageDirection \<Rightarrow> search \<Rightarrow> uuid \<Rightarrow> search" where
  "expand d dir st k =
    (let st1 = (if dir = Ancestors \<or> dir = BothDirections
                then foldl (follow_parent d) st (get_edges_to d k) else st)
     in if dir = Descendants \<or> dir = BothDirections
        then foldl (follow_child d) st1 (get_edges_from d [k]) else st1)"

fun lineage_hops :: "database \<Rightarrow> LineageDirection \<Rightarrow> nat \<Rightarrow> uuid list \<Rightarrow> search \<Rightarrow> search" where
  "lineage_hops d dir 0 frontier st = st"
| "lineage_hops d dir (Suc n) frontier st =
    (if frontier = [] then st
     else let st' = foldl (expand d dir) st frontier
          in lineage_hops d dir n (sr_next st') (st'\<lparr>sr_next := []\<rparr>))"

definition clamp_hops :: "8 word \<Rightarrow> nat" where
  "clamp_hops h = unat (max 1 (min 10 h))"

definition query_lineage :: "database \<Rightarrow> LineageQueryRequest \<Rightarrow> ApiProblem + LineageQueryResponse" where
  "query_lineage d req = (case get_event d (lq_event_id req) of
     None \<Rightarrow> Inl (problem 404 NotFound ''seed event not found'')
   | Some e \<Rightarrow>
       (let st = lineage_hops d (lq_direction req) (clamp_hops (lq_max_hops req)) [lq_event_id req]
                 \<lparr>sr_visited = [lq_event_id req], sr_events = [e], sr_edges = [], sr_next = []\<rparr>
        in Inr \<lparr>lr_events = sr_events st, lr_edges = sr_edges st\<rparr>))"

text \<open>The stored events one hop away.\<close>

definition neighbours :: "database \<Rightarrow> LineageDirection \<Rightarrow> uuid \<Rightarrow> uuid list" where
  "neighbours d dir k =
     (if dir = Ancestors \<or> dir = BothDirections then map ed_from_event_id (get_edges_to d k) else []) @
     (if dir = Descendants \<or> dir = BothDirections then List.map_filter ed_to_event_id (get_edges_from d [k]) else [])"

definition lineage_next :: "database \<Rightarrow> LineageDirection \<Rightarrow> uuid \<Rightarrow> uuid set" where
  "lineage_next d dir k = {u \<in> set (neighbours d dir k). get_event d u \<noteq> None}"

text \<open>A search state without its edges, and what expanding a node does to it.\<close>

definition found :: "database \<Rightarrow> search \<Rightarrow> uuid list \<Rightarrow> search \<Rightarrow> bool" where
  "found d st ks st' \<longleftrightarrow> (\<exists>new. distinct new \<and>
     set new = {k \<in> set ks. k \<notin> set (sr_visited st) \<and> get_event d k \<noteq> None} \<and>
     set (sr_visited st') = set (sr_visited st) \<union> set ks \<and>
     sr_events st' = sr_events st @ map (the \<circ> get_event d) new \<and>
     sr_next st' = sr_next st @ new)"

lemma found_refl: "found d st [] st"
  by (simp add: found_def)

lemma found_edges [simp]: "found d st ks (st'\<lparr>sr_edges := es\<rparr>) = found d st ks st'"
  by (simp add: found_def)

lemma found_discover: "found d st [k] (discover d st k)"
  by (cases "k \<in> set (sr_visited st)"; cases "get_event d k")
    (auto simp: found_def discover_def intro: exI[of _ "[]"] exI[of _ "[k]"])

lemma found_trans:
  assumes "found d st ks st'" "found d st' ls st''"
  shows "found d st (ks @ ls) st''"
proof -
  obtain xs ys where x: "distinct xs" "set xs = {k \<in> set ks. k \<notin> set (sr_visited st) \<and> get_event d k \<noteq> None}"
    "set (sr_visited st') = set (sr_visited st) \<union> set ks"
    "sr_events st' = sr_events st @ map (the \<circ> get_event d) xs" "sr_next st' = sr_next st @ xs"
    and y: "distinct ys" "set ys = {k \<in> set ls. k \<notin> set (sr_visited st') \<and> get_event d k \<noteq> None}"
    "set (sr_visited st'') = set (sr_visited st') \<union> set ls"
    "sr_events st'' = sr_events st' @ map (the \<circ> get_event d) ys" "sr_next st'' = sr_next st' @ ys"
    using assms unfolding found_def by blast
  then show ?thesis
    unfolding found_def by (intro exI[of _ "xs @ ys"]) auto
qed

lemma found_foldl:
  assumes "\<And>st x. found d st (f x) (g st x)"
  shows "found d st (concat (map f xs)) (foldl g st xs)"
  by (induction xs arbitrary: st) (auto intro: found_refl found_trans assms)

lemma found_parent: "found d st [ed_from_event_id x] (follow_parent d st x)"
  by (simp add: follow_parent_def Let_def found_discover)

lemma found_child:
  "found d st (case ed_to_event_id x of None \<Rightarrow> [] | Some k \<Rightarrow> [k]) (follow_child d st x)"
  by (simp add: follow_child_def Let_def found_discover found_refl split: option.split)

lemma concat_singletons: "concat (map (\<lambda>x. [f x]) xs) = map f xs"
  by (induction xs) auto

lemma concat_options:
  "concat (map (\<lambda>x. case f x of None \<Rightarrow> [] | Some k \<Rightarrow> [k]) xs) = List.map_filter f xs"
  by (induction xs) (auto simp: List.map_filter_def split: option.splits)

lemma found_expand: "found d st (neighbours d dir k) (expand d dir st k)"
proof -
  note par = found_foldl[where g = "follow_parent d" and f = "\<lambda>x. [ed_from_event_id x]",
      OF found_parent, unfolded concat_singletons]
  note chi = found_foldl[where g = "follow_child d", OF found_child, unfolded concat_options]
  show ?thesis
    by (cases dir) (auto simp: expand_def neighbours_def intro: found_trans[OF par chi] par chi)
qed

definition explored :: "database \<Rightarrow> LineageDirection \<Rightarrow> nat \<Rightarrow> uuid \<Rightarrow> uuid list \<Rightarrow> search \<Rightarrow> bool" where
  "explored d dir k s frontier st \<longleftrightarrow> (\<exists>ids. distinct ids \<and> set ids = within (lineage_next d dir) k s \<and>
     sr_events st = map (the \<circ> get_event d) ids \<and> sr_next st = [] \<and>
     {v \<in> set (sr_visited st). get_event d v \<noteq> None} = set ids \<and> set frontier \<subseteq> set ids \<and>
     (\<forall>v \<in> set ids - set frontier. lineage_next d dir v \<subseteq> set ids))"

lemma explored_step:
  assumes "explored d dir k s frontier st" and st'_def: "st' = foldl (expand d dir) st frontier"
  shows "explored d dir (Suc k) s (sr_next st') (st'\<lparr>sr_next := []\<rparr>)"
proof -
  let ?N = "lineage_next d dir"
  obtain ids where ids: "distinct ids" "set ids = within ?N k s"
    "sr_events st = map (the \<circ> get_event d) ids" "sr_next st = []"
    "{v \<in> set (sr_visited st). get_event d v \<noteq> None} = set ids" "set frontier \<subseteq> set ids"
    "\<forall>v \<in> set ids - set frontier. ?N v \<subseteq> set ids"
    using assms(1) unfolding explored_def by blast
  have "found d st (concat (map (neighbours d dir) frontier)) st'"
    unfolding st'_def by (rule found_foldl) (rule found_expand)
  then obtain new where new: "distinct new"
    "set new = {u \<in> set (concat (map (neighbours d dir) frontier)).
       u \<notin> set (sr_visited st) \<and> get_event d u \<noteq> None}"
    "set (sr_visited st') = set (sr_visited st) \<union> set (concat (map (neighbours d dir) frontier))"
    "sr_events st' = map (the \<circ> get_event d) (ids @ new)" "sr_next st' = new"
    unfolding found_def ids(3,4) by auto
  have set_new: "set new = (\<Union>v \<in> set frontier. ?N v) - set ids"
    using ids(5) new(2) by (auto simp: lineage_next_def)
  have all: "set (ids @ new) = within ?N (Suc k) s"
    using ids(2,6,7) set_new by auto
  show ?thesis
    unfolding explored_def
  proof (intro exI[of _ "ids @ new"] conjI)
    show "distinct (ids @ new)" using ids(1) new(1) set_new by auto
    show "{v \<in> set (sr_visited (st'\<lparr>sr_next := []\<rparr>)). get_event d v \<noteq> None} = set (ids @ new)"
      using ids(5) new(2,3) by auto
    show "\<forall>v \<in> set (ids @ new) - set (sr_next st'). ?N v \<subseteq> set (ids @ new)"
      using ids(6,7) set_new new(5) by auto
  qed (use all new in auto)
qed

lemma explored_hops:
  "explored d dir k s frontier st \<Longrightarrow>
     \<exists>frontier'. explored d dir (n + k) s frontier' (lineage_hops d dir n frontier st)"
proof (induction n arbitrary: k frontier st)
  case (Suc n)
  show ?case
  proof (cases "frontier = []")
    case True
    then obtain ids where "set ids = within (lineage_next d dir) k s"
      "\<forall>v \<in> set ids. lineage_next d dir v \<subseteq> set ids"
      using Suc.prems unfolding explored_def by auto
    then have "\<forall>v \<in> within (lineage_next d dir) k s. lineage_next d dir v \<subseteq> within (lineage_next d dir) k s"
      by simp
    then have "within (lineage_next d dir) (Suc n + k) s = within (lineage_next d dir) k s"
      by (rule within_closed)
    then have "explored d dir (Suc n + k) s frontier st" using Suc.prems by (simp only: explored_def)
    then show ?thesis using True by auto
  next
    case False
    then show ?thesis using Suc.IH[OF explored_step[OF Suc.prems refl]] by (simp add: Let_def)
  qed
qed auto

lemma explored_start:
  "get_event d s = Some e \<Longrightarrow>
     explored d dir 0 s [s] \<lparr>sr_visited = [s], sr_events = [e], sr_edges = [], sr_next = []\<rparr>"
  unfolding explored_def by (intro exI[of _ "[s]"]) auto

lemma get_event_id: "get_event d k = Some e \<Longrightarrow> ev_event_id e = k"
  unfolding get_event_def by (rule tget_key)


subsection \<open>The lineage graph\<close>

text \<open>The three hash maps, as association lists.\<close>

record LineageGraph =
  lg_events :: "(string \<times> ProvenanceEvent) list"
  lg_children :: "(string \<times> string list) list"
  lg_parents :: "(string \<times> string list) list"

datatype BfsMode = BfsAncestors | BfsDescendants | BfsBoth

definition new_graph :: LineageGraph where
  "new_graph = \<lparr>lg_events = [], lg_children = [], lg_parents = []\<rparr>"

definition or_default :: "string \<Rightarrow> (string \<times> string list) list \<Rightarrow> (string \<times> string list) list" where
  "or_default k m = (if map_of m k = None then AList.update k [] m else m)"

definition push_entry :: "string \<Rightarrow> string \<Rightarrow> (string \<times> string list) list \<Rightarrow> (string \<times> string list) list" where
  "push_entry k v m = AList.update k (unwrap_or (map_of m k) [] @ [v]) m"

definition add_event :: "ProvenanceEvent \<Rightarrow> LineageGraph \<Rightarrow> LineageGraph" where
  "add_event e g = (let k = ev_event_id e in
     g\<lparr>lg_events := AList.update k e (lg_events g), lg_children := or_default k (lg_children g),
       lg_parents := or_default k (lg_parents g)\<rparr>)"

definition add_edge :: "string \<Rightarrow> string \<Rightarrow> LineageGraph \<Rightarrow> LineageGraph" where
  "add_edge parent child g = g\<lparr>lg_children := push_entry parent child (lg_children g),
     lg_parents := push_entry child parent (lg_parents g)\<rparr>"

definition has_event :: "LineageGraph \<Rightarrow> string \<Rightarrow> bool" where
  "has_event g k = (map_of (lg_events g) k \<noteq> None)"

definition event_count :: "LineageGraph \<Rightarrow> nat" where
  "event_count g = length (lg_events g)"

definition edge_count :: "LineageGraph \<Rightarrow> nat" where
  "edge_count g = sum_list (map (length \<circ> snd) (lg_children g))"

definition graph_neighbours :: "LineageGraph \<Rightarrow> BfsMode \<Rightarrow> string \<Rightarrow> string list" where
  "graph_neighbours g mode k = (case mode of
     BfsAncestors \<Rightarrow> unwrap_or (map_of (lg_parents g) k) []
   | BfsDescendants \<Rightarrow> unwrap_or (map_of (lg_children g) k) []
   | BfsBoth \<Rightarrow> unwrap_or (map_of (lg_parents g) k) [] @ unwrap_or (map_of (lg_children g) k) [])"

text \<open>The inner loop: the neighbours not visited yet, marking each as visited.\<close>

fun fresh_nodes :: "string list \<Rightarrow> string list \<Rightarrow> string list" where
  "fresh_nodes visited [] = []"
| "fresh_nodes visited (n # ns) =
    (if n \<in> set visited then fresh_nodes visited ns else n # fresh_nodes (n # visited) ns)"

lemma fresh_nodes: "set (fresh_nodes vis ns) = set ns - set vis" "distinct (fresh_nodes vis ns)"
  by (induction vis ns rule: fresh_nodes.induct) auto

definition graph_nodes :: "LineageGraph \<Rightarrow> string list" where
  "graph_nodes g = concat (map snd (lg_children g)) @ concat (map snd (lg_parents g))"

lemma entry_in_map: "set (unwrap_or (map_of m k) []) \<subseteq> set (concat (map snd m))"
proof (cases "map_of m k")
  case (Some vs)
  then have "(k, vs) \<in> set m" by (rule map_of_SomeD)
  then show ?thesis using Some by force
qed simp

lemma neighbours_in_graph: "set (graph_neighbours g mode k) \<subseteq> set (graph_nodes g)"
  using entry_in_map[of "lg_parents g" k] entry_in_map[of "lg_children g" k]
  by (cases mode) (auto simp: graph_neighbours_def graph_nodes_def)

lemma unvisited_shrinks:
  assumes "ns \<noteq> []" "distinct ns" "set ns \<subseteq> U - set vis" "finite U"
  shows "card (U - set (rev ns @ vis)) < card (U - set vis)"
  using assms by (intro psubset_card_mono) (auto simp: neq_Nil_conv)

function bfs_loop ::
  "LineageGraph \<Rightarrow> BfsMode \<Rightarrow> nat \<Rightarrow> string list \<Rightarrow> string list \<Rightarrow> (string \<times> nat) list \<Rightarrow> string list" where
  "bfs_loop g mode max_hops visited result [] = result"
| "bfs_loop g mode max_hops visited result ((current, hops) # queue) =
    (if max_hops \<le> hops then bfs_loop g mode max_hops visited result queue
     else let fresh = fresh_nodes visited (graph_neighbours g mode current)
          in bfs_loop g mode max_hops (rev fresh @ visited) (result @ fresh)
               (queue @ map (\<lambda>n. (n, hops + 1)) fresh))"
  by pat_completeness auto

termination
proof (relation "(\<lambda>(g, mode, m, vis, res, q). card (set (graph_nodes g) - set vis)) <*mlex*>
    measure (\<lambda>(g, mode, m, vis, res, q). length q)", goal_cases)
  case 1
  then show ?case by (simp add: wf_mlex)
next
  case (2 g mode m vis res cur h q)
  then show ?case by (intro mlex_leq) auto
next
  case (3 g mode m vis res cur h q ns)
  then have ns: "set ns \<subseteq> set (graph_nodes g) - set vis" "distinct ns"
    using neighbours_in_graph[of g mode cur] by (auto simp: fresh_nodes)
  show ?case
  proof (cases "ns = []")
    case True
    then show ?thesis by (intro mlex_leq) auto
  next
    case False
    then show ?thesis using unvisited_shrinks[OF False ns(2,1)] by (intro mlex_less) simp
  qed
qed

definition bfs :: "LineageGraph \<Rightarrow> string \<Rightarrow> nat \<Rightarrow> BfsMode \<Rightarrow> string list" where
  "bfs g event_id max_hops mode = bfs_loop g mode max_hops [event_id] [] [(event_id, 0)]"

definition ancestors :: "LineageGraph \<Rightarrow> string \<Rightarrow> nat \<Rightarrow> string list" where
  "ancestors g event_id max_hops = bfs g event_id max_hops BfsAncestors"

definition descendants :: "LineageGraph \<Rightarrow> string \<Rightarrow> nat \<Rightarrow> string list" where
  "descendants g event_id max_hops = bfs g event_id max_hops BfsDescendants"

definition both_directions :: "LineageGraph \<Rightarrow> string \<Rightarrow> nat \<Rightarrow> string list" where
  "both_directions g event_id max_hops = bfs g event_id max_hops BfsBoth"

definition graph_next :: "LineageGraph \<Rightarrow> BfsMode \<Rightarrow> string \<Rightarrow> string set" where
  "graph_next g mode k = set (graph_neighbours g mode k)"

text \<open>The queue holds the rest \<open>A\<close> of one level and the part \<open>B\<close> of the next level found so
  far.\<close>

definition two_levels ::
  "(string \<Rightarrow> string set) \<Rightarrow> string \<Rightarrow> string set \<Rightarrow> nat \<Rightarrow> string list \<Rightarrow> string list \<Rightarrow> bool" where
  "two_levels N s V h A B \<longleftrightarrow> V = within N h s \<union> set B \<and> set A \<subseteq> within N h s \<and>
     set B \<subseteq> within N (Suc h) s \<and> (\<forall>v \<in> within N h s - set A. N v \<subseteq> V)"

definition bfs_inv ::
  "(string \<Rightarrow> string set) \<Rightarrow> nat \<Rightarrow> string \<Rightarrow> string set \<Rightarrow> (string \<times> nat) list \<Rightarrow> bool" where
  "bfs_inv N m s V q \<longleftrightarrow>
     (\<exists>h A B. h < m \<and> q = map (\<lambda>v. (v, h)) A @ map (\<lambda>v. (v, Suc h)) B \<and> two_levels N s V h A B) \<or>
     (V = within N m s \<and> (\<forall>(v, h) \<in> set q. m \<le> h))"

lemma two_levels_next:
  assumes "two_levels N s V h [] B"
  shows "two_levels N s V (Suc h) B [] \<and> V = within N (Suc h) s"
proof -
  have V: "V = within N h s \<union> set B" "set B \<subseteq> within N (Suc h) s" "\<forall>v \<in> within N h s. N v \<subseteq> V"
    using assms by (auto simp: two_levels_def)
  then have eq: "V = within N (Suc h) s" by auto
  have "N v \<subseteq> V" if "v \<in> within N (Suc h) s - set B" for v
    using V that eq by blast
  then show ?thesis using V(2) eq unfolding two_levels_def by auto
qed

lemma two_levels_pop:
  assumes "two_levels N s V h (a # A) B" "set ns = N a - V"
  shows "two_levels N s (V \<union> set ns) h A (B @ ns)"
  using assms unfolding two_levels_def by auto

lemma bfs_inv_cases:
  assumes "bfs_inv N m s V ((v, h) # q)"
  obtains (past) "V = within N m s" "m \<le> h" "\<forall>(u, k) \<in> set q. m \<le> k"
  | (level) A B where "h < m" "q = map (\<lambda>v. (v, h)) A @ map (\<lambda>v. (v, Suc h)) B"
      "two_levels N s V h (v # A) B"
proof (cases "V = within N m s \<and> (\<forall>(u, k) \<in> set ((v, h) # q). m \<le> k)")
  case True
  then show ?thesis using past by auto
next
  case False
  then obtain h0 A B where inv: "h0 < m" "(v, h) # q = map (\<lambda>v. (v, h0)) A @ map (\<lambda>v. (v, Suc h0)) B"
    "two_levels N s V h0 A B"
    using assms unfolding bfs_inv_def by blast
  show ?thesis
  proof (cases A)
    case Nil
    then obtain B' where B: "B = v # B'" "h = Suc h0" "q = map (\<lambda>v. (v, Suc h0)) B'"
      using inv(2) by (cases B) auto
    note lv = two_levels_next[of N s V h0 B]
    show ?thesis
    proof (cases "Suc h0 < m")
      case True
      then show ?thesis using lv inv(3) B Nil by (intro level[of B' "[]"]) auto
    next
      case F: False
      then have "m = Suc h0" using inv(1) by simp
      then have "V = within N m s \<and> (\<forall>(u, k) \<in> set ((v, h) # q). m \<le> k)"
        using lv inv(3) B Nil by auto
      then show ?thesis using False by contradiction
    qed
  next
    case (Cons a A')
    then show ?thesis using inv by (intro level[of A' B]) auto
  qed
qed

lemma bfs_inv_end:
  assumes "bfs_inv N m s V []"
  shows "V = within N m s"
proof (cases "V = within N m s")
  case False
  then obtain h where h: "h < m" "two_levels N s V h [] []"
    using assms unfolding bfs_inv_def by auto
  then have "\<forall>v \<in> within N h s. N v \<subseteq> within N h s" "V = within N h s"
    by (auto simp: two_levels_def)
  then show ?thesis using within_closed[of N h s "m - h"] h(1) by simp
qed

lemma bfs_loop_correct:
  assumes "bfs_inv (graph_next g mode) m s (set vis) q" "set vis = insert s (set res)" "distinct (s # res)"
  shows "insert s (set (bfs_loop g mode m vis res q)) = within (graph_next g mode) m s \<and>
    distinct (s # bfs_loop g mode m vis res q)"
  using assms
proof (induction g mode m vis res q rule: bfs_loop.induct)
  case (1 g mode m vis res)
  then show ?case using bfs_inv_end by auto
next
  case (2 g mode m vis res cur h q)
  from "2.prems"(1) show ?case
  proof (cases rule: bfs_inv_cases)
    case past
    then have "bfs_inv (graph_next g mode) m s (set vis) q" unfolding bfs_inv_def by auto
    then show ?thesis using 2 past by simp
  next
    case (level A B)
    let ?ns = "fresh_nodes vis (graph_neighbours g mode cur)"
    have ns: "set ?ns = graph_next g mode cur - set vis" "distinct ?ns"
      by (auto simp: fresh_nodes graph_next_def)
    have "bfs_inv (graph_next g mode) m s (set (rev ?ns @ vis)) (q @ map (\<lambda>n. (n, h + 1)) ?ns)"
      unfolding bfs_inv_def using level two_levels_pop[OF level(3) ns(1)]
      by (intro disjI1 exI[of _ h] exI[of _ A] exI[of _ "B @ ?ns"]) (simp add: Un_commute)
    moreover have "set (rev ?ns @ vis) = insert s (set (res @ ?ns))" "distinct (s # res @ ?ns)"
      using "2.prems"(2,3) ns by auto
    ultimately show ?thesis using "2.IH"(2)[of ?ns] level(1) by (simp add: Let_def)
  qed
qed


subsection \<open>Reading one execution\<close>

text \<open>\<open>get_execution_lineage\<close>.  The handler also builds a \<open>LineageGraph\<close> of the events and
  their parent edges, and drops it.\<close>

definition execution_query :: "uuid \<Rightarrow> ProvenanceQueryRequest" where
  "execution_query k = \<lparr>pq_intent_id = None, pq_execution_id = Some k, pq_capability_id = None,
     pq_event_kind = None, pq_since = None, pq_until = None, pq_edge_types = []\<rparr>"

definition lineage_graph :: "ProvenanceEvent list \<Rightarrow> (uuid \<times> ProvenanceEdge list) list \<Rightarrow> LineageGraph" where
  "lineage_graph events edges_by_target =
     foldl (\<lambda>g (child, edges). foldl (\<lambda>g x. add_edge (ed_from_event_id x) child g) g edges)
       (foldl (\<lambda>g e. add_event e g) new_graph events) edges_by_target"

definition get_execution_lineage ::
  "gateway \<Rightarrow> env \<Rightarrow> AuthActor option \<Rightarrow> string \<Rightarrow> (uuid \<times> ProvenanceEvent list \<times> LineageGraph) gw" where
  "get_execution_lineage gw env actor path =
    andthen (load_owned_execution gw env actor path) (\<lambda>x.
    andthen (or_internal (db_read env 2 (provenance_query (execution_query (ex_execution_id x))))) (\<lambda>events.
    andthen (or_internal (db_read env 3 (\<lambda>d. map (\<lambda>e. (ev_event_id e, get_edges_to d (ev_event_id e))) events)))
      (\<lambda>edges. ret (ex_execution_id x, events, lineage_graph events edges))))"

definition get_execution_detail ::
  "gateway \<Rightarrow> env \<Rightarrow> AuthActor option \<Rightarrow> string \<Rightarrow> (ExecutionRecord \<times> RollbackContract option) gw" where
  "get_execution_detail gw env actor path =
    andthen (load_owned_execution gw env actor path) (\<lambda>x.
    case ex_rollback_contract_id x of
      None \<Rightarrow> ret (x, None)
    | Some k \<Rightarrow> andthen (or_internal (db_read env 2 (\<lambda>d. get_contract d k))) (\<lambda>c. ret (x, c)))"

text \<open>In the graph a handler builds, the search upwards follows exactly the parent edges.\<close>

lemma map_of_or_default: "unwrap_or (map_of (or_default k m) j) [] = unwrap_or (map_of m j) []"
  by (auto simp: or_default_def update_conv' unwrap_or_def)

lemma map_of_push_entry:
  "unwrap_or (map_of (push_entry k v m) j) [] = unwrap_or (map_of m j) [] @ (if j = k then [v] else [])"
  by (auto simp: push_entry_def update_conv')

lemma parents_add_event [simp]:
  "graph_neighbours (add_event e g) mode j = graph_neighbours g mode j"
  by (cases mode) (simp_all add: graph_neighbours_def add_event_def Let_def map_of_or_default)

lemma next_add_edge:
  "graph_next (add_edge p c g) BfsAncestors j = graph_next g BfsAncestors j \<union> (if j = c then {p} else {})"
  by (auto simp: graph_next_def graph_neighbours_def add_edge_def map_of_push_entry)

lemma next_add_edges:
  "graph_next (foldl (\<lambda>g x. add_edge (ed_from_event_id x) c g) g xs) BfsAncestors j =
     graph_next g BfsAncestors j \<union> (if j = c then ed_from_event_id ` set xs else {})"
  by (induction xs arbitrary: g) (auto simp: next_add_edge)

lemma graph_next_foldl_events:
  "graph_next (foldl (\<lambda>g e. add_event e g) g es) mode j = graph_next g mode j"
  by (induction es arbitrary: g) (simp_all add: graph_next_def)

lemma lineage_graph_parents:
  "graph_next (lineage_graph es bt) BfsAncestors j = {ed_from_event_id x | x xs. (j, xs) \<in> set bt \<and> x \<in> set xs}"
proof -
  have "graph_next (foldl (\<lambda>g (child, edges). foldl (\<lambda>g x. add_edge (ed_from_event_id x) child g) g edges) g bt)
      BfsAncestors j = graph_next g BfsAncestors j \<union> {ed_from_event_id x | x xs. (j, xs) \<in> set bt \<and> x \<in> set xs}" for g
  proof (induction bt arbitrary: g)
    case (Cons b bt)
    obtain c ys where b: "b = (c, ys)" by (cases b)
    have "{ed_from_event_id x | x xs. (j, xs) \<in> set (b # bt) \<and> x \<in> set xs} =
        (if j = c then ed_from_event_id ` set ys else {}) \<union>
        {ed_from_event_id x | x xs. (j, xs) \<in> set bt \<and> x \<in> set xs}"
      unfolding b by (cases "j = c") (simp_all, blast)
    then show ?case using Cons.IH by (simp add: b next_add_edges Un_assoc)
  qed simp
  moreover have "graph_next (foldl (\<lambda>g e. add_event e g) new_graph es) BfsAncestors j = {}"
    by (simp add: graph_next_foldl_events) (simp add: graph_next_def graph_neighbours_def new_graph_def)
  ultimately show ?thesis by (simp add: lineage_graph_def)
qed

end
