(* ===== verification/Auth_Scopes.thy ===== *)
theory Auth_Scopes
  imports Gateway
begin

text \<open>
  Scopes and credentials: the token roles, scoped tokens and agent records of
  \<open>crates/ferrum-proto/src/token.rs\<close> and \<open>agent.rs\<close>, the scope a route requires
  (\<open>required_scope_for_path\<close> of \<open>crates/ferrum-gateway/src/auth.rs\<close>) and the scope
  attenuation of \<open>admin/scope_attenuation.rs\<close>.

  The lemmas say what a list of scopes grants (\<open>grants\<close>: the wildcard grants everything),
  that attenuation is exactly inclusion of what is granted, and that every route requires
  a scope.
\<close>

definition ends_with :: "string \<Rightarrow> string \<Rightarrow> bool" where
  "ends_with s p = suffix p s"

subsection \<open>token.rs and agent.rs\<close>

fun default_scopes :: "TokenRole \<Rightarrow> string list" where
  "default_scopes Role_Admin = [''*'']"
| "default_scopes Role_Operator =
    [''approval:read'', ''approval:resolve'', ''admin:lifecycle-outbox:read'',
     ''admin:lifecycle-outbox:write'', ''provenance:read'', ''provenance:write'', ''policy:read'',
     ''execution:verify'', ''execution:commit'', ''backup:run'']"
| "default_scopes Role_PolicyAuthor = [''policy:read'', ''policy:write'', ''provenance:read'']"
| "default_scopes Role_Auditor = [''provenance:read'']"
| "default_scopes Role_Agent =
    [''intent:submit'', ''proposal:evaluate'', ''capability:mint'', ''execution:authorize'',
     ''execution:prepare'', ''execution:execute'', ''execution:verify'', ''execution:compensate'',
     ''provenance:write'']"
| "default_scopes Role_ReadOnly = [''policy:read'', ''provenance:read'']"

fun role_name :: "TokenRole \<Rightarrow> string" where
  "role_name Role_Admin = ''admin''"
| "role_name Role_Operator = ''operator''"
| "role_name Role_PolicyAuthor = ''policy_author''"
| "role_name Role_Auditor = ''auditor''"
| "role_name Role_Agent = ''agent''"
| "role_name Role_ReadOnly = ''read_only''"

definition parse_role :: "string \<Rightarrow> TokenRole option" where
  "parse_role s =
    (if s = ''admin'' then Some Role_Admin
     else if s = ''operator'' then Some Role_Operator
     else if s = ''policy_author'' then Some Role_PolicyAuthor
     else if s = ''auditor'' then Some Role_Auditor
     else if s = ''agent'' then Some Role_Agent
     else if s = ''read_only'' then Some Role_ReadOnly
     else None)"

lemma parse_role_name [simp]: "parse_role (role_name r) = Some r"
  by (cases r) (simp_all add: parse_role_def)

record ScopedToken =
  tk_token_id :: string
  tk_actor_id :: string
  tk_role :: TokenRole
  tk_scopes :: "string list"
  tk_description :: "string option"
  tk_expires_at :: timestamp
  tk_created_at :: timestamp
  tk_last_used_at :: "timestamp option"
  tk_revoked_at :: "timestamp option"
  tk_revoked_reason :: "string option"
  tk_rotated_from :: "string option"
  tk_token_lookup_hash :: string
  tk_token_hash :: string
  tk_token_salt :: string

record AgentRecord =
  ag_agent_id :: string
  ag_public_key :: string
  ag_key_fingerprint :: string
  ag_allowed_scopes :: "string list"
  ag_created_at :: timestamp
  ag_revoked_at :: "timestamp option"
  ag_description :: "string option"

subsection \<open>What a list of scopes grants\<close>

text \<open>The test \<open>scopes.iter().any(|s| s == "*" || s == required)\<close>, written out in
  \<open>token_has_scope\<close>, \<open>verify_agent_request\<close>, \<open>validate_oidc_token\<close> and
  \<open>AuthActor::has_scope\<close>.\<close>

definition any_scope :: "string list \<Rightarrow> string \<Rightarrow> bool" where
  "any_scope scopes required = list_ex (\<lambda>s. s = ''*'' \<or> s = required) scopes"

definition token_has_scope :: "ScopedToken \<Rightarrow> string \<Rightarrow> bool" where
  "token_has_scope t scope = any_scope (tk_scopes t) scope"

lemma any_scope_iff [simp]: "any_scope ss s \<longleftrightarrow> ''*'' \<in> set ss \<or> s \<in> set ss"
  by (auto simp: any_scope_def list_ex_iff)

lemma has_scope_iff [simp]: "has_scope a s \<longleftrightarrow> ''*'' \<in> set (aa_scopes a) \<or> s \<in> set (aa_scopes a)"
  by (auto simp: has_scope_def list_ex_iff)

text \<open>The scopes a list stands for.\<close>

definition grants :: "string list \<Rightarrow> string set" where
  "grants ss = {s. any_scope ss s}"

subsection \<open>auth.rs: required\_scope\_for\_path\<close>

definition required_scope_for_path :: "string \<Rightarrow> string \<Rightarrow> string option" where
  "required_scope_for_path meth p =
    (let get = (meth = ''GET''); post = (meth = ''POST''); put = (meth = ''PUT''); del = (meth = ''DELETE'');
         below = starts_with p; tail = ends_with p in
     if post \<and> p = ''/v1/intents/compile'' then Some ''intent:submit''
     else if get \<and> p = ''/v1/intents'' then Some ''intent:submit''
     else if post \<and> below ''/v1/proposals/'' \<and> tail ''/evaluate'' then Some ''proposal:evaluate''
     else if post \<and> p = ''/v1/capabilities/mint'' then Some ''capability:mint''
     else if post \<and> below ''/v1/capabilities/'' \<and> tail ''/revoke'' then Some ''capability:mint''
     else if post \<and> p = ''/v1/executions/authorize'' then Some ''execution:authorize''
     else if post \<and> below ''/v1/executions/'' \<and> tail ''/prepare'' then Some ''execution:prepare''
     else if post \<and> below ''/v1/executions/'' \<and> tail ''/execute'' then Some ''execution:execute''
     else if post \<and> below ''/v1/executions/'' \<and> tail ''/verify'' then Some ''execution:verify''
     else if post \<and> below ''/v1/executions/'' \<and> tail ''/commit'' then Some ''execution:commit''
     else if post \<and> below ''/v1/executions/'' \<and> tail ''/compensate'' then Some ''execution:compensate''
     else if post \<and> below ''/v1/executions/'' \<and> tail ''/cancel'' then Some ''execution:execute''
     else if post \<and> below ''/v1/executions/'' \<and> tail ''/evaluate-outcome'' then Some ''execution:verify''
     else if get \<and> below ''/v1/executions/'' then Some ''provenance:read''
     else if get \<and> p = ''/v1/approvals'' then Some ''approval:read''
     else if get \<and> below ''/v1/approvals/'' \<and> \<not> tail ''/resolve'' then Some ''approval:read''
     else if post \<and> below ''/v1/approvals/'' \<and> tail ''/resolve'' then Some ''approval:resolve''
     else if get \<and> p = ''/v1/quarantines'' then Some ''approval:read''
     else if get \<and> below ''/v1/quarantines/'' \<and> \<not> tail ''/resolve'' then Some ''approval:read''
     else if post \<and> below ''/v1/quarantines/'' \<and> tail ''/resolve'' then Some ''approval:resolve''
     else if post \<and> p = ''/v1/policy-bundles'' then Some ''policy:write''
     else if get \<and> p = ''/v1/policy-bundles'' then Some ''policy:read''
     else if get \<and> below ''/v1/policy-bundles/'' \<and> tail ''/versions'' then Some ''policy:read''
     else if get \<and> below ''/v1/policy-bundles/'' \<and> tail ''/diff'' then Some ''policy:read''
     else if post \<and> below ''/v1/policy-bundles/'' \<and> tail ''/rollback'' then Some ''policy:write''
     else if post \<and> p = ''/v1/policy/simulate'' then Some ''policy:read''
     else if post \<and> p = ''/v1/policy-bundles/simulate'' then Some ''policy:read''
     else if get \<and> below ''/v1/policy-bundles/'' then Some ''policy:read''
     else if put \<and> below ''/v1/policy-bundles/'' \<and> tail ''/active'' then Some ''policy:write''
     else if put \<and> below ''/v1/policy-bundles/'' then Some ''policy:write''
     else if del \<and> below ''/v1/policy-bundles/'' then Some ''policy:write''
     else if post \<and> p = ''/v1/provenance/query'' then Some ''provenance:read''
     else if post \<and> p = ''/v1/provenance/lineage'' then Some ''provenance:read''
     else if get \<and> below ''/v1/provenance/lineage/'' then Some ''provenance:read''
     else if post \<and> p = ''/v1/provenance/ingest'' then Some ''provenance:write''
     else if get \<and> p = ''/v1/bridges'' then Some ''provenance:read''
     else if get \<and> below ''/v1/bridges/'' \<and> tail ''/tools'' then Some ''provenance:read''
     else if post \<and> p = ''/v1/admin/tokens'' then Some ''admin:tokens''
     else if get \<and> p = ''/v1/admin/tokens'' then Some ''admin:tokens''
     else if del \<and> below ''/v1/admin/tokens/'' then Some ''admin:tokens''
     else if post \<and> below ''/v1/admin/tokens/'' \<and> tail ''/rotate'' then Some ''admin:tokens''
     else if post \<and> p = ''/v1/admin/agents'' then Some ''admin:agents''
     else if get \<and> p = ''/v1/admin/agents'' then Some ''admin:agents''
     else if del \<and> below ''/v1/admin/agents/'' then Some ''admin:agents''
     else if post \<and> below ''/v1/admin/agents/'' \<and> tail ''/mfa/enroll'' then Some ''admin:mfa''
     else if post \<and> below ''/v1/admin/agents/'' \<and> tail ''/mfa/verify'' then Some ''admin:mfa''
     else if post \<and> below ''/v1/admin/agents/'' \<and> tail ''/mfa/disable'' then Some ''admin:mfa''
     else if post \<and> below ''/v1/admin/agents/'' \<and> tail ''/mfa/rotate'' then Some ''admin:mfa''
     else if get \<and> below ''/v1/admin/agents/'' \<and> tail ''/mfa'' then Some ''admin:mfa''
     else if get \<and> below ''/v1/admin/agents/'' \<and> str_contains p ''/mfa/'' \<and> \<not> tail ''/mfa''
       then Some ''admin:mfa''
     else if get \<and> p = ''/v1/admin/lifecycle-outbox'' then Some ''admin:lifecycle-outbox:read''
     else if get \<and> below ''/v1/admin/lifecycle-outbox/'' then Some ''admin:lifecycle-outbox:read''
     else if post \<and> below ''/v1/admin/lifecycle-outbox/'' \<and> (tail ''/retry'' \<or> tail ''/resolve'')
       then Some ''admin:lifecycle-outbox:write''
     else if get \<and> p = ''/v1/admin/audit-logs'' then Some ''admin:audit''
     else if get \<and> p = ''/v1/admin/audit-logs/export'' then Some ''admin:audit''
     else if get \<and> p = ''/v1/admin/audit/verify'' then Some ''admin:audit''
     else if get \<and> p = ''/v1/admin/audit/merkle-verify'' then Some ''admin:audit''
     else if get \<and> p = ''/v1/admin/audit/merkle-roots'' then Some ''admin:audit''
     else if post \<and> p = ''/v1/admin/audit/checkpoints'' then Some ''admin:audit''
     else if get \<and> p = ''/v1/admin/audit/checkpoints'' then Some ''admin:audit''
     else if get \<and> below ''/v1/admin/audit/checkpoints/'' \<and> tail ''/verify'' then Some ''admin:audit''
     else Some ''admin:tokens'')"

text \<open>No route is reachable without a scope; the \<open>if let Some(scope)\<close> of the callers never
  falls through.\<close>

lemma scope_always_required: "\<exists>s. required_scope_for_path meth p = Some s"
proof -
  have step: "(\<exists>s. (if b then Some x else y) = Some s)" if "\<exists>s. y = Some s" for b and x :: string and y
    using that by simp
  show ?thesis unfolding required_scope_for_path_def Let_def by (intro step) simp
qed

text \<open>No role's default scopes but the administrator's open the administration of tokens and
  agents, or a route the table does not know.\<close>

lemma default_scopes_no_admin:
  "r \<noteq> Role_Admin \<Longrightarrow> s \<in> {''admin:tokens'', ''admin:agents'', ''admin:mfa'', ''admin:audit''} \<Longrightarrow>
   \<not> any_scope (default_scopes r) s"
  by (cases r) auto

subsection \<open>admin/scope\_attenuation.rs\<close>

definition check_scope_attenuation :: "AuthActor \<Rightarrow> string list \<Rightarrow> ApiProblem + unit" where
  "check_scope_attenuation issuer requested =
    (if list_ex (\<lambda>s. s = ''*'') (aa_scopes issuer) then Inr ()
     else if list_ex (\<lambda>s. s = ''*'') requested
     then Inl (problem 403 Forbidden ''wildcard scope requires issuer wildcard authority'')
     else (case find (\<lambda>s. \<not> has_scope issuer s) requested of
             Some s \<Rightarrow> Inl (problem 403 Forbidden
               (''requested scope '' @ quoted s @ '' exceeds issuer scopes''))
           | None \<Rightarrow> Inr ()))"

lemma attenuation_iff:
  "check_scope_attenuation issuer requested = Inr () \<longleftrightarrow> grants requested \<subseteq> grants (aa_scopes issuer)"
proof (cases "''*'' \<in> set (aa_scopes issuer)")
  case False
  have "grants requested \<subseteq> grants (aa_scopes issuer) \<longleftrightarrow>
      ''*'' \<notin> set requested \<and> set requested \<subseteq> set (aa_scopes issuer)"
    using False by (auto simp: grants_def)
  then show ?thesis using False
    by (auto simp: check_scope_attenuation_def list_ex_iff find_None_iff find_Some_iff
      dest: nth_mem split: option.splits if_splits)
qed (simp add: check_scope_attenuation_def list_ex_iff grants_def)

end
