(* ===== verification/Oidc.thy ===== *)
theory Oidc
  imports Auth_Scopes
begin

text \<open>
  Validation of bearer JWTs: the key material, the OIDC configuration and the JWKS cache
  of \<open>crates/ferrum-gateway/src/state.rs\<close>, and \<open>jwt_header_alg_is_none\<close> and
  \<open>validate_oidc_token\<close> of \<open>auth.rs\<close>.

  The \<open>jsonwebtoken\<close>, \<open>base64\<close> and \<open>serde_json\<close> crates are the functions of \<open>jwt_lib\<close>: the
  header of a token, whether a decoding key can be built from a key material, and the
  decoding of a token with a key and a validation at an instant.  What the JWKS endpoint
  answers is an argument of the calls that fetch it.  \<open>fetched_at\<close> and the expiry of the
  cache are instants in nanoseconds.
\<close>

subsection \<open>state.rs: keys and configuration\<close>

datatype KeyMaterial =
    KmHmac string
  | KmRsa string
  | KmEcdsa string
  | KmEd string
  | KmRsaJwk string string

datatype Algorithm =
    HS256 | HS384 | HS512 | ES256 | ES384 | RS256 | RS384 | RS512 | PS256 | PS384 | PS512 | EdDSA

datatype OidcTokenProfile = LegacyJwt | Rfc9068AccessToken

record OidcConfig =
  oc_issuer :: string
  oc_audiences :: "string list"
  oc_clock_skew_secs :: int
  oc_actor_id_claim :: string
  oc_role_source_claim :: string
  oc_role_mappings :: "(string \<times> TokenRole) list"
  oc_allowed_algorithms :: "Algorithm list"
  oc_static_keys :: "(string \<times> KeyMaterial) list"
  oc_require_email_verified :: bool
  oc_token_profile :: OidcTokenProfile

record jwt_header =
  jh_alg :: Algorithm
  jh_kid :: "string option"
  jh_typ :: "string option"

record jwt_validation =
  jv_algorithms :: "Algorithm list"
  jv_leeway :: int
  jv_validate_nbf :: bool
  jv_issuer :: "string list"
  jv_audience :: "string list"

record jwt_lib =
  jl_base64url_decode :: "string \<Rightarrow> string option"
  jl_parse_json :: "string \<Rightarrow> json option"
  jl_decode_header :: "string \<Rightarrow> jwt_header option"
  jl_key_ok :: "KeyMaterial \<Rightarrow> bool"
  jl_decode :: "string \<Rightarrow> KeyMaterial \<Rightarrow> jwt_validation \<Rightarrow> timestamp \<Rightarrow> JsonMap option"

subsection \<open>state.rs: the JWKS cache\<close>

datatype jwks_error = JwksLock | JwksFetch | JwksStatus | JwksParse | JwksNoKeys

datatype jwks_response = JwksUnreachable | JwksBadStatus | JwksNotJson | JwksBody json

record jwks_cache =
  jc_ttl :: int
  jc_keys :: "(string \<times> KeyMaterial) list"
  jc_fetched_at :: "int option"

definition jwk_to_key_material :: "jwt_lib \<Rightarrow> json \<Rightarrow> KeyMaterial option" where
  "jwk_to_key_material lib jwk = (case Option.bind (obj_get jwk ''kty'') as_str of
     None \<Rightarrow> None
   | Some kty \<Rightarrow> if kty = ''RSA''
       then (case (Option.bind (obj_get jwk ''n'') as_str, Option.bind (obj_get jwk ''e'') as_str) of
               (Some n, Some e) \<Rightarrow> if jl_key_ok lib (KmRsaJwk n e) then Some (KmRsaJwk n e) else None
             | _ \<Rightarrow> None)
       else None)"

text \<open>A later entry with the same \<open>kid\<close> replaces an earlier one; unusable keys are skipped.\<close>

definition jwk_kid :: "json \<Rightarrow> string" where
  "jwk_kid jwk = unwrap_or (Option.bind (obj_get jwk ''kid'') as_str) ''''"

definition add_key :: "jwt_lib \<Rightarrow> json \<Rightarrow> (string \<times> KeyMaterial) list \<Rightarrow> (string \<times> KeyMaterial) list" where
  "add_key lib jwk acc = (case jwk_to_key_material lib jwk of
     Some km \<Rightarrow> AList.update (jwk_kid jwk) km acc | None \<Rightarrow> acc)"

definition collect_keys :: "jwt_lib \<Rightarrow> json list \<Rightarrow> (string \<times> KeyMaterial) list" where
  "collect_keys lib jwks = fold (add_key lib) jwks []"

fun as_array :: "json \<Rightarrow> json list option" where
  "as_array (JArr xs) = Some xs"
| "as_array _ = None"

definition fetch_and_cache ::
  "jwt_lib \<Rightarrow> bool \<Rightarrow> jwks_response \<Rightarrow> int \<Rightarrow> (jwks_cache, jwks_error, unit) proc" where
  "fetch_and_cache lib poisoned resp now = (case resp of
     JwksUnreachable \<Rightarrow> raise JwksFetch
   | JwksBadStatus \<Rightarrow> raise JwksStatus
   | JwksNotJson \<Rightarrow> raise JwksParse
   | JwksBody jwks \<Rightarrow>
       andthen (some_or (Option.bind (obj_get jwks ''keys'') as_array) JwksNoKeys) (\<lambda>ks.
       andthen (ensure (\<not> poisoned) JwksLock) (\<lambda>_.
       modifies (\<lambda>c. c\<lparr>jc_keys := collect_keys lib ks, jc_fetched_at := Some now\<rparr>))))"

definition cached_key :: "jwks_cache \<Rightarrow> string \<Rightarrow> int \<Rightarrow> KeyMaterial option" where
  "cached_key c kid now = (case (map_of (jc_keys c) kid, jc_fetched_at c) of
     (Some key, Some t) \<Rightarrow> if now - t < jc_ttl c then Some key else None
   | _ \<Rightarrow> None)"

definition get_key ::
  "jwt_lib \<Rightarrow> bool \<Rightarrow> jwks_response \<Rightarrow> int \<Rightarrow> string \<Rightarrow> (jwks_cache, jwks_error, KeyMaterial option) proc" where
  "get_key lib poisoned resp now kid =
    andthen (ensure (\<not> poisoned) JwksLock) (\<lambda>_.
    andthen (reads (\<lambda>c. cached_key c kid now)) (\<lambda>hit. case hit of
      Some key \<Rightarrow> ret (Some key)
    | None \<Rightarrow> andthen (fetch_and_cache lib poisoned resp now) (\<lambda>_.
        reads (\<lambda>c. map_of (jc_keys c) kid))))"

subsection \<open>auth.rs: validate\_oidc\_token\<close>

definition before_dot :: "string \<Rightarrow> string" where
  "before_dot s = takeWhile (\<lambda>c. c \<noteq> CHR ''.'') s"

definition jwt_header_alg_is_none :: "jwt_lib \<Rightarrow> string \<Rightarrow> bool" where
  "jwt_header_alg_is_none lib token =
    (let header_b64 = before_dot token in
     if header_b64 = [] then False
     else (case Option.bind (jl_base64url_decode lib header_b64) (jl_parse_json lib) of
             None \<Rightarrow> False
           | Some raw \<Rightarrow> (case Option.bind (obj_get raw ''alg'') as_str of
                 Some s \<Rightarrow> to_lowercase s = ''none''
               | None \<Rightarrow> False)))"

datatype OidcAuthError = OidcUnauthorized string | OidcForbidden string

definition typ_accepted :: "OidcTokenProfile \<Rightarrow> string option \<Rightarrow> bool" where
  "typ_accepted profile typ =
    (profile = Rfc9068AccessToken \<longrightarrow> typ \<in> {Some ''at+jwt'', Some ''application/at+jwt''})"

definition select_key ::
  "jwt_lib \<Rightarrow> bool \<Rightarrow> jwks_response \<Rightarrow> int \<Rightarrow> OidcConfig \<Rightarrow> string
    \<Rightarrow> (jwks_cache option, OidcAuthError, KeyMaterial) proc" where
  "select_key lib poisoned resp now oidc kid = (case map_of (oc_static_keys oidc) kid of
     Some km \<Rightarrow> ret km
   | None \<Rightarrow> (\<lambda>cache. case cache of
       None \<Rightarrow> (Inl (OidcUnauthorized ''jwt key not found''), cache)
     | Some c \<Rightarrow> (case get_key lib poisoned resp now kid c of
         (Inr (Some km), c') \<Rightarrow> (Inr km, Some c')
       | (Inr None, c') \<Rightarrow> (Inl (OidcUnauthorized ''jwt key not found''), Some c')
       | (Inl _, c') \<Rightarrow> (Inl (OidcUnauthorized ''jwt key unavailable''), Some c'))))"

definition jwt_validation_for :: "OidcConfig \<Rightarrow> jwt_validation" where
  "jwt_validation_for oidc = \<lparr>jv_algorithms = oc_allowed_algorithms oidc,
     jv_leeway = max 0 (oc_clock_skew_secs oidc), jv_validate_nbf = True,
     jv_issuer = [oc_issuer oidc], jv_audience = oc_audiences oidc\<rparr>"

definition iat_in_future :: "OidcConfig \<Rightarrow> JsonMap \<Rightarrow> timestamp \<Rightarrow> bool" where
  "iat_in_future oidc claims now = (case Option.bind (jm_get claims ''iat'') as_i64 of
     Some iat \<Rightarrow> now div seconds 1 + max 0 (oc_clock_skew_secs oidc) < iat
   | None \<Rightarrow> False)"

definition email_verified :: "JsonMap \<Rightarrow> bool" where
  "email_verified claims = unwrap_or (Option.bind (jm_get claims ''email_verified'') as_bool) False"

definition actor_id_of :: "OidcConfig \<Rightarrow> JsonMap \<Rightarrow> string option" where
  "actor_id_of oidc claims = (case Option.bind (jm_get claims (oc_actor_id_claim oidc)) as_str of
     Some s \<Rightarrow> if s \<noteq> [] then Some s else None
   | None \<Rightarrow> None)"

definition role_source_values :: "OidcConfig \<Rightarrow> JsonMap \<Rightarrow> string list option" where
  "role_source_values oidc claims = (case jm_get claims (oc_role_source_claim oidc) of
     Some (JArr arr) \<Rightarrow> Some (List.map_filter as_str arr)
   | Some (JStr s) \<Rightarrow> Some [s]
   | _ \<Rightarrow> None)"

definition mapped_role :: "OidcConfig \<Rightarrow> string list \<Rightarrow> TokenRole option" where
  "mapped_role oidc names = (case List.map_filter (map_of (oc_role_mappings oidc)) names of
     [] \<Rightarrow> None | r # _ \<Rightarrow> Some r)"

text \<open>What the claims say of the caller, and whether the role opens the route.\<close>

definition authorize_claims ::
  "OidcConfig \<Rightarrow> JsonMap \<Rightarrow> timestamp \<Rightarrow> string \<Rightarrow> string \<Rightarrow> OidcAuthError + string \<times> string list \<times> TokenRole" where
  "authorize_claims oidc claims now meth path =
    (if iat_in_future oidc claims now then Inl (OidcUnauthorized ''invalid jwt'')
     else if oc_require_email_verified oidc \<and> \<not> email_verified claims
     then Inl (OidcUnauthorized ''email not verified'')
     else (case actor_id_of oidc claims of
       None \<Rightarrow> Inl (OidcUnauthorized ''missing actor_id claim'')
     | Some actor \<Rightarrow> (case Option.bind (role_source_values oidc claims) (mapped_role oidc) of
         None \<Rightarrow> Inl (OidcForbidden ''unmapped role'')
       | Some role \<Rightarrow>
           (let scopes = default_scopes role in
            case required_scope_for_path meth path of
              Some required \<Rightarrow> if any_scope scopes required then Inr (actor, scopes, role)
                else Inl (OidcForbidden (''required scope '' @ required))
            | None \<Rightarrow> Inr (actor, scopes, role)))))"

definition validate_oidc_token ::
  "jwt_lib \<Rightarrow> bool \<Rightarrow> jwks_response \<Rightarrow> int \<Rightarrow> timestamp \<Rightarrow> OidcConfig \<Rightarrow> string \<Rightarrow> string \<Rightarrow> string
    \<Rightarrow> (jwks_cache option, OidcAuthError, string \<times> string list \<times> TokenRole) proc" where
  "validate_oidc_token lib poisoned resp instant now oidc token meth path =
    andthen (ensure (\<not> jwt_header_alg_is_none lib token) (OidcUnauthorized ''invalid jwt'')) (\<lambda>_.
    andthen (some_or (jl_decode_header lib token) (OidcUnauthorized ''invalid jwt'')) (\<lambda>header.
    andthen (ensure (typ_accepted (oc_token_profile oidc) (jh_typ header))
      (OidcUnauthorized ''invalid jwt'')) (\<lambda>_.
    andthen (ensure (jh_alg header \<in> set (oc_allowed_algorithms oidc))
      (OidcUnauthorized ''unsupported jwt algorithm'')) (\<lambda>_.
    andthen (select_key lib poisoned resp instant oidc (unwrap_or (jh_kid header) '''')) (\<lambda>km.
    andthen (ensure (jl_key_ok lib km) (OidcUnauthorized ''jwt key invalid'')) (\<lambda>_.
    andthen (some_or (jl_decode lib token km (jwt_validation_for oidc) now)
      (OidcUnauthorized ''invalid jwt'')) (\<lambda>claims.
    of_result (authorize_claims oidc claims now meth path))))))))"

subsection \<open>Keys come from the configuration or a fresh fetch\<close>

lemma add_key_from:
  "map_of (add_key lib jwk acc) kid = Some km \<Longrightarrow>
   (jwk_kid jwk = kid \<and> jwk_to_key_material lib jwk = Some km) \<or> map_of acc kid = Some km"
  by (auto simp: add_key_def update_conv' split: option.splits if_splits)

lemma collect_keys_from:
  assumes "map_of (collect_keys lib jwks) kid = Some km"
  shows "\<exists>jwk \<in> set jwks. jwk_kid jwk = kid \<and> jwk_to_key_material lib jwk = Some km"
proof -
  have "(\<exists>jwk \<in> set jwks. jwk_kid jwk = kid \<and> jwk_to_key_material lib jwk = Some km) \<or> map_of acc kid = Some km"
    if "map_of (fold (add_key lib) jwks acc) kid = Some km" for acc
    using that
  proof (induction jwks arbitrary: acc)
    case (Cons jwk jwks)
    then show ?case using add_key_from[of lib jwk acc kid km] Cons.IH[of "add_key lib jwk acc"] by auto
  qed simp
  then show ?thesis using assms by (fastforce simp: collect_keys_def)
qed

lemma jwk_key_is_rsa: "jwk_to_key_material lib jwk = Some km \<Longrightarrow> \<exists>n e. km = KmRsaJwk n e \<and> jl_key_ok lib km"
  by (auto simp: jwk_to_key_material_def split: option.splits if_splits)

text \<open>The keys a cache holds are RSA keys the library accepts.\<close>

definition jwks_wf :: "jwt_lib \<Rightarrow> jwks_cache \<Rightarrow> bool" where
  "jwks_wf lib c \<longleftrightarrow> (\<forall>kid km. map_of (jc_keys c) kid = Some km \<longrightarrow> (\<exists>n e. km = KmRsaJwk n e) \<and> jl_key_ok lib km)"

lemma collected_wf: "jwks_wf lib (c\<lparr>jc_keys := collect_keys lib ks, jc_fetched_at := t\<rparr>)"
  using collect_keys_from jwk_key_is_rsa by (fastforce simp: jwks_wf_def)

text \<open>A key comes out of the cache while it is fresh, or out of the answer fetched for this
  lookup.\<close>

lemma get_key_result:
  assumes "get_key lib poisoned resp now kid c = (Inr (Some km), c')"
  shows "(c' = c \<and> cached_key c kid now = Some km) \<or>
    (\<exists>jwks ks. resp = JwksBody jwks \<and> obj_get jwks ''keys'' = Some (JArr ks) \<and>
       c' = c\<lparr>jc_keys := collect_keys lib ks, jc_fetched_at := Some now\<rparr> \<and>
       map_of (collect_keys lib ks) kid = Some km)"
proof (cases "cached_key c kid now")
  case None
  then have "andthen (fetch_and_cache lib poisoned resp now) (\<lambda>_. reads (\<lambda>c. map_of (jc_keys c) kid)) c
      = (Inr (Some km), c')"
    using assms by (simp add: get_key_def andthen_def ensure_def ret_def raise_def reads_def split: if_splits)
  then obtain c1 where c1: "fetch_and_cache lib poisoned resp now c = (Inr (), c1)"
    "c' = c1" "map_of (jc_keys c1) kid = Some km"
    by (auto simp: proc_Inr)
  then obtain jwks v where v: "resp = JwksBody jwks" "obj_get jwks ''keys'' = Some v"
    by (auto simp: fetch_and_cache_def proc_Inr bind_eq_Some_conv split: jwks_response.splits)
  then show ?thesis using c1
    by (cases v) (auto simp: fetch_and_cache_def proc_Inr)
qed (use assms in \<open>auto simp: get_key_def proc_Inr\<close>)

text \<open>What an accepted token has passed.\<close>

lemma authorize_claims_Inr:
  assumes "authorize_claims oidc claims now meth path = Inr (actor, scopes, role)"
  shows "\<not> iat_in_future oidc claims now" "oc_require_email_verified oidc \<Longrightarrow> email_verified claims"
    "actor_id_of oidc claims = Some actor" "actor \<noteq> []"
    "\<exists>names. role_source_values oidc claims = Some names \<and> mapped_role oidc names = Some role"
    "scopes = default_scopes role"
    "\<exists>required. required_scope_for_path meth path = Some required \<and> any_scope scopes required"
  using assms scope_always_required[of meth path]
  by (auto simp: authorize_claims_def Let_def actor_id_of_def bind_eq_Some_conv simp del: any_scope_iff
      split: if_splits option.splits)

lemma validate_Inr:
  assumes "validate_oidc_token lib poisoned resp instant now oidc token meth path c = (Inr (actor, scopes, role), c')"
  obtains header km claims where
    "\<not> jwt_header_alg_is_none lib token" "jl_decode_header lib token = Some header"
    "typ_accepted (oc_token_profile oidc) (jh_typ header)" "jh_alg header \<in> set (oc_allowed_algorithms oidc)"
    "select_key lib poisoned resp instant oidc (unwrap_or (jh_kid header) '''') c = (Inr km, c')"
    "jl_key_ok lib km" "jl_decode lib token km (jwt_validation_for oidc) now = Some claims"
    "authorize_claims oidc claims now meth path = Inr (actor, scopes, role)"
  using assms unfolding validate_oidc_token_def by (auto simp: proc_Inr)

end
