(* ===== verification/Nonce_Cache.thy ===== *)
theory Nonce_Cache
  imports Prelude
begin

text \<open>
  The process-local nonce cache of \<open>crates/ferrum-store/src/nonce_cache.rs\<close>
  (\<open>InMemoryNonceCache\<close>), which the agent authentication asks whether a nonce was
  seen within its time to live.

  The \<open>HashMap<String, Instant>\<close> is the list of its entries; an \<open>Instant\<close> is a count of
  nanoseconds.  A hash map is visited in an order the program does not control; \<open>rank\<close> is
  that order on the keys, a parameter of the call, and it decides which of several oldest
  entries \<open>min_by_key\<close> returns.

  The lemmas bound the size of the cache and say when an entry stays: a nonce accepted at
  some instant is refused while it is younger than the time to live and fewer than
  \<open>max_entries\<close> nonces arrived since, whatever the visiting order.
\<close>

type_synonym nonce_cache = "(string \<times> int) list"

fun min_entry :: "nonce_cache \<Rightarrow> (string \<times> int) option" where
  "min_entry [] = None"
| "min_entry (e # es) = (case min_entry es of
     None \<Rightarrow> Some e
   | Some m \<Rightarrow> Some (if snd e \<le> snd m then e else m))"

lemma min_entry_None [simp]: "min_entry es = None \<longleftrightarrow> es = []"
  by (cases es) (auto split: option.splits)

lemma min_entry_Some: "min_entry es = Some m \<Longrightarrow> m \<in> set es \<and> (\<forall>e \<in> set es. snd m \<le> snd e)"
  by (induction es arbitrary: m) (fastforce split: option.splits if_splits)+

definition oldest_entry :: "(string \<Rightarrow> nat) \<Rightarrow> nonce_cache \<Rightarrow> (string \<times> int) option" where
  "oldest_entry rank cache = min_entry (sort_key (rank \<circ> fst) cache)"

lemma oldest_entry_Some:
  assumes "oldest_entry rank cache = Some m"
  shows "m \<in> set cache" "e \<in> set cache \<Longrightarrow> snd m \<le> snd e"
  using min_entry_Some[of "sort_key (rank \<circ> fst) cache" m] assms by (auto simp: oldest_entry_def)

lemma oldest_entry_None [simp]: "oldest_entry rank cache = None \<longleftrightarrow> cache = []"
  by (metis min_entry_None oldest_entry_def set_empty set_sort)

definition remove_key :: "string \<Rightarrow> nonce_cache \<Rightarrow> nonce_cache" where
  "remove_key k cache = filter (\<lambda>e. fst e \<noteq> k) cache"

lemma remove_key_shrinks: "e \<in> set cache \<Longrightarrow> length (remove_key (fst e) cache) < length cache"
  unfolding remove_key_def by (rule length_filter_less) auto

function prune_oldest :: "(string \<Rightarrow> nat) \<Rightarrow> nat \<Rightarrow> nonce_cache \<Rightarrow> nonce_cache" where
  "prune_oldest rank max_entries cache = (if max_entries < length cache
     then (case oldest_entry rank cache of
             Some e \<Rightarrow> prune_oldest rank max_entries (remove_key (fst e) cache)
           | None \<Rightarrow> cache)
     else cache)"
  by pat_completeness auto
termination
  by (relation "measure (\<lambda>(r, m, c). length c)")
    (auto dest!: oldest_entry_Some(1) remove_key_shrinks)

declare prune_oldest.simps [simp del]

definition check_and_insert ::
  "(string \<Rightarrow> nat) \<Rightarrow> nat \<Rightarrow> string \<Rightarrow> int \<Rightarrow> int \<Rightarrow> nonce_cache \<Rightarrow> bool \<times> nonce_cache" where
  "check_and_insert rank max_entries nonce ttl now cache =
    (let live = filter (\<lambda>e. now - snd e < ttl) cache;
         kept = prune_oldest rank (max_entries - 1) live
     in if nonce \<in> fst ` set kept then (False, kept) else (True, kept @ [(nonce, now)]))"

subsection \<open>Size\<close>

lemma prune_step:
  "n < length cache \<Longrightarrow> oldest_entry rank cache = Some e \<Longrightarrow>
   prune_oldest rank n cache = prune_oldest rank n (remove_key (fst e) cache)"
  by (subst prune_oldest.simps) simp

lemma prune_stop: "length cache \<le> n \<Longrightarrow> prune_oldest rank n cache = cache"
  by (subst prune_oldest.simps) simp

text \<open>What every removal of an oldest entry keeps, the loop keeps.\<close>

lemma prune_inv:
  assumes "Q cache"
    and "\<And>c e. Q c \<Longrightarrow> n < length c \<Longrightarrow> oldest_entry rank c = Some e \<Longrightarrow> Q (remove_key (fst e) c)"
  shows "Q (prune_oldest rank n cache)"
  using assms(1)
proof (induction "length cache" arbitrary: cache rule: less_induct)
  case less
  show ?case
  proof (cases "n < length cache")
    case True
    then obtain e where e: "oldest_entry rank cache = Some e" by (cases "oldest_entry rank cache") auto
    show ?thesis unfolding prune_step[OF True e]
      by (rule less.hyps[OF remove_key_shrinks[OF oldest_entry_Some(1)[OF e]] assms(2)[OF less.prems True e]])
  qed (use less.prems in \<open>simp add: prune_stop\<close>)
qed

lemma prune_subset: "set (prune_oldest rank n cache) \<subseteq> set cache"
  by (rule prune_inv) (auto simp: remove_key_def)

lemma prune_length: "length (prune_oldest rank n cache) \<le> n"
proof (induction "length cache" arbitrary: cache rule: less_induct)
  case less
  show ?case
  proof (cases "n < length cache")
    case True
    then obtain e where e: "oldest_entry rank cache = Some e" by (cases "oldest_entry rank cache") auto
    show ?thesis unfolding prune_step[OF True e]
      by (rule less.hyps[OF remove_key_shrinks[OF oldest_entry_Some(1)[OF e]]])
  qed (simp add: prune_stop)
qed

lemma prune_distinct:
  "distinct (map fst cache) \<Longrightarrow> distinct (map fst (prune_oldest rank n cache))"
  by (rule prune_inv) (auto simp: remove_key_def distinct_map_filter)

lemma check_length: "length (snd (check_and_insert rank n nonce ttl now cache)) \<le> max 1 n"
  using prune_length[of rank "n - 1" "filter (\<lambda>e. now - snd e < ttl) cache"]
  by (auto simp: check_and_insert_def Let_def)

lemma check_distinct:
  "distinct (map fst cache) \<Longrightarrow> distinct (map fst (snd (check_and_insert rank n nonce ttl now cache)))"
  using prune_distinct[of "filter (\<lambda>e. now - snd e < ttl) cache" rank "n - 1"]
  by (auto simp: check_and_insert_def Let_def distinct_map_filter)

lemma check_accepted:
  "check_and_insert rank n nonce ttl now cache = (True, cache') \<Longrightarrow> (nonce, now) \<in> set cache'"
  by (auto simp: check_and_insert_def Let_def split: if_splits)

subsection \<open>How long an entry stays\<close>

text \<open>The number of entries at least as young as \<open>t\<close>.\<close>

definition recent :: "int \<Rightarrow> nonce_cache \<Rightarrow> nat" where
  "recent t cache = length (filter (\<lambda>e. t \<le> snd e) cache)"

lemma recent_filter: "recent t (filter P cache) \<le> recent t cache"
  by (induction cache) (auto simp: recent_def)

lemma recent_prune: "recent t (prune_oldest rank n cache) \<le> recent t cache"
  by (rule prune_inv[where Q = "\<lambda>c. recent t c \<le> recent t cache"])
    (auto simp: remove_key_def intro: order_trans[OF recent_filter])

lemma prune_keeps:
  assumes "distinct (map fst cache)" "e \<in> set cache" "recent (snd e) cache \<le> n"
  shows "e \<in> set (prune_oldest rank n cache)"
proof -
  let ?Q = "\<lambda>c. distinct (map fst c) \<and> e \<in> set c \<and> recent (snd e) c \<le> n"
  have "?Q (prune_oldest rank n cache)"
  proof (rule prune_inv)
    fix c m
    assume Q: "?Q c" and big: "n < length c" and m: "oldest_entry rank c = Some m"
    have "fst e \<noteq> fst m"
    proof
      assume "fst e = fst m"
      then have "e = m"
        using oldest_entry_Some(1)[OF m] Q by (metis eq_key_imp_eq_value prod.collapse)
      then have "recent (snd e) c = length c"
        using oldest_entry_Some(2)[OF m] by (simp add: recent_def)
      then show False using Q big by simp
    qed
    then show "?Q (remove_key (fst m) c)"
      using Q recent_filter[of "snd e" "\<lambda>x. fst x \<noteq> fst m" c]
      by (auto simp: remove_key_def distinct_map_filter)
  qed (use assms in simp)
  then show ?thesis by simp
qed

lemma check_recent:
  "recent t (snd (check_and_insert rank n nonce ttl now cache)) \<le> recent t cache + (if t \<le> now then 1 else 0)"
proof -
  have "recent t (prune_oldest rank (n - 1) (filter (\<lambda>e. now - snd e < ttl) cache)) \<le> recent t cache"
    using order_trans[OF recent_prune recent_filter] .
  then show ?thesis by (auto simp: check_and_insert_def Let_def recent_def)
qed

text \<open>One call, seen from an entry \<open>(k, t)\<close> that is still live and has fewer than
  \<open>max_entries\<close> entries of its age or younger in the cache: it stays and its nonce is
  refused.\<close>

lemma check_keeps:
  assumes "distinct (map fst cache)" "(k, t) \<in> set cache" "now - t < ttl" "recent t cache < n"
    and "check_and_insert rank n nonce ttl now cache = (fresh, cache')"
  shows "(k, t) \<in> set cache'" "nonce = k \<Longrightarrow> \<not> fresh"
proof -
  let ?live = "filter (\<lambda>e. now - snd e < ttl) cache"
  let ?kept = "prune_oldest rank (n - 1) ?live"
  have "recent t ?live \<le> n - 1"
    using recent_filter[of t "\<lambda>e. now - snd e < ttl" cache] assms(4) by simp
  then have kept: "(k, t) \<in> set ?kept"
    using prune_keeps[of ?live "(k, t)" "n - 1" rank] assms(1-3) by (simp add: distinct_map_filter)
  have res: "(fresh, cache') = (if nonce \<in> fst ` set ?kept then (False, ?kept) else (True, ?kept @ [(nonce, now)]))"
    using assms(5) unfolding check_and_insert_def Let_def by (rule sym)
  show "(k, t) \<in> set cache'" using res kept by (auto split: if_splits)
  show "\<not> fresh" if "nonce = k" using res kept that by (force split: if_splits)
qed

end
