(* ===== verification/Authentication.thy ===== *)
theory Authentication
  imports Oidc Nonce_Cache Audit_Gate
begin

text \<open>
  The authentication middleware of \<open>crates/ferrum-gateway/src/auth.rs\<close>
  (\<open>auth_middleware\<close>, \<open>verify_agent_request\<close>) over the token and agent tables of
  \<open>crates/ferrum-store/src/sqlite/tokens.rs\<close> and \<open>agents.rs\<close>.

  The state \<open>auth_state\<close> is the part of the database the middleware uses (tokens, agents,
  audit log), the nonce cache, the JWKS cache, and the spawned \<open>touch\<close> tasks that have not
  run yet.  The configuration \<open>auth_config\<close> carries the hash and signature functions of the
  libraries.  As for the other handlers, the environment of a request says what the clocks
  read, which calls fail and what other requests did to the database before a call.  The
  middleware returns the actor it attaches to the request when it passes the request on,
  and the error response otherwise.  A plain-text 403 of the OIDC branch is represented by
  its status and message.
\<close>

record auth_db =
  ad_tokens :: "ScopedToken list"
  ad_agents :: "AgentRecord list"
  ad_audit :: audit_db

record auth_state =
  as_db :: auth_db
  as_nonces :: nonce_cache
  as_jwks :: "jwks_cache option"
  as_touches :: "string list"

record auth_config =
  ac_mode :: AuthMode
  ac_bearer_token :: "string option"
  ac_oidc :: "OidcConfig option"
  ac_agent_clock_skew_secs :: int
  ac_nonce_cache_ttl_secs :: nat
  ac_nonce_cache_max_entries :: nat
  ac_audit_fail_closed :: bool
  ac_blake3_hex :: "string \<Rightarrow> string"
  ac_parse_rfc3339 :: "string \<Rightarrow> timestamp option"
  ac_base64url_encode :: "string \<Rightarrow> string"
  ac_signing :: signing
  ac_jwt :: jwt_lib
  ac_codec :: codec

record auth_env =
  ae_now :: "nat \<Rightarrow> timestamp"
  ae_instant :: int
  ae_rank :: "string \<Rightarrow> nat"
  ae_draw :: "nat \<Rightarrow> string"
  ae_down :: "nat \<Rightarrow> bool"
  ae_others :: "nat \<Rightarrow> auth_db \<Rightarrow> auth_db"
  ae_poisoned :: bool
  ae_jwks :: jwks_response

record http_request =
  rq_method :: string
  rq_path :: string
  rq_header :: "string \<Rightarrow> string option"
  rq_body :: "string option"

type_synonym 'a auth = "(auth_state, ApiProblem, 'a) proc"

subsection \<open>The tables\<close>

definition auth_db_op ::
  "auth_env \<Rightarrow> nat \<Rightarrow> (auth_db, StoreError, 'a) proc \<Rightarrow> (auth_state, StoreError, 'a) proc" where
  "auth_db_op env n m = (\<lambda>s. let d = ae_others env n (as_db s) in
     if ae_down env n then (Inl SE_Database, s\<lparr>as_db := d\<rparr>)
     else (case m d of (r, d') \<Rightarrow> (r, s\<lparr>as_db := d'\<rparr>)))"

definition token_get :: "auth_db \<Rightarrow> string \<Rightarrow> ScopedToken option" where
  "token_get d k = find (\<lambda>t. tk_token_id t = k) (ad_tokens d)"

definition get_by_lookup_hash :: "auth_db \<Rightarrow> string \<Rightarrow> ScopedToken option" where
  "get_by_lookup_hash d h = find (\<lambda>t. tk_token_lookup_hash t = h) (ad_tokens d)"

definition agent_get :: "auth_db \<Rightarrow> string \<Rightarrow> AgentRecord option" where
  "agent_get d k = find (\<lambda>a. ag_agent_id a = k) (ad_agents d)"

definition touch :: "timestamp \<Rightarrow> string \<Rightarrow> auth_db \<Rightarrow> auth_db" where
  "touch now k d = d\<lparr>ad_tokens := map (\<lambda>t. if tk_token_id t = k
     then t\<lparr>tk_last_used_at := Some now\<rparr> else t) (ad_tokens d)\<rparr>"

subsection \<open>audit.rs: append\_audit\<close>

definition append_audit ::
  "auth_config \<Rightarrow> auth_env \<Rightarrow> nat \<Rightarrow> string \<Rightarrow> AuditAction \<Rightarrow> AuditResourceType \<Rightarrow> string \<Rightarrow> string
    \<Rightarrow> json option \<Rightarrow> (auth_state, StoreError, unit) proc" where
  "append_audit cfg env n actor action rtype rid result metadata =
    auth_db_op env n (modifies (\<lambda>d. d\<lparr>ad_audit := audit_append (ac_codec cfg) id
      \<lparr>al_id = 0, al_actor_id = actor, al_action = action, al_resource_type = rtype,
       al_resource_id = rid, al_result = result, al_metadata = metadata,
       al_created_at = ae_now env n, al_content_hash = None, al_previous_hash = None\<rparr>
      (ad_audit d)\<rparr>))"

text \<open>\<open>let _ = append_audit(..)\<close>\<close>

definition note_failure ::
  "auth_config \<Rightarrow> auth_env \<Rightarrow> nat \<Rightarrow> AuditAction \<Rightarrow> string \<Rightarrow> string \<Rightarrow> string \<Rightarrow> unit auth" where
  "note_failure cfg env n action rid result reason =
    andthen (attempt (append_audit cfg env n ''unknown'' action RtAuth rid result
      (Some (JObj [(''reason'', JStr reason)])))) (\<lambda>_. ret ())"

subsection \<open>auth.rs\<close>

definition auth_error :: "string \<Rightarrow> ApiProblem" where
  "auth_error msg = problem 401 Unauthorized msg"

definition forbidden_error :: "string \<Rightarrow> ApiProblem" where
  "forbidden_error msg = problem 403 Forbidden msg"

definition hash_token_value :: "auth_config \<Rightarrow> string \<Rightarrow> string" where
  "hash_token_value cfg v = ac_blake3_hex cfg v"

definition hash_token_with_salt :: "auth_config \<Rightarrow> string \<Rightarrow> string \<Rightarrow> string" where
  "hash_token_with_salt cfg v salt = ac_blake3_hex cfg (salt @ v)"

definition bearer_header :: "http_request \<Rightarrow> ApiProblem + string" where
  "bearer_header r = (case rq_header r ''Authorization'' of
     None \<Rightarrow> Inl (auth_error ''missing authorization header'')
   | Some h \<Rightarrow> if starts_with h ''Bearer '' then Inr (drop 7 h)
       else Inl (auth_error ''invalid authorization header format''))"

definition public_path :: "string \<Rightarrow> bool" where
  "public_path p \<longleftrightarrow> p = ''/v1/healthz'' \<or> p = ''/v1/readyz''"

definition bearer_auth :: "auth_config \<Rightarrow> http_request \<Rightarrow> AuthActor option auth" where
  "bearer_auth cfg r =
    andthen (of_result (bearer_header r)) (\<lambda>provided.
    andthen (ensure (provided = unwrap_or (ac_bearer_token cfg) '''') (auth_error ''invalid bearer token'')) (\<lambda>_.
    ret None))"

definition scope_guard :: "http_request \<Rightarrow> string list \<Rightarrow> unit auth" where
  "scope_guard r scopes = (case required_scope_for_path (rq_method r) (rq_path r) of
     Some required \<Rightarrow> ensure (any_scope scopes required) (forbidden_error (''required scope '' @ required))
   | None \<Rightarrow> ret ())"

definition scoped_auth :: "auth_config \<Rightarrow> auth_env \<Rightarrow> http_request \<Rightarrow> AuthActor option auth" where
  "scoped_auth cfg env r =
    andthen (of_result (bearer_header r)) (\<lambda>provided.
    andthen (map_err (\<lambda>_. auth_error ''token lookup failed'')
      (auth_db_op env 0 (reads (\<lambda>d. get_by_lookup_hash d (hash_token_value cfg provided))))) (\<lambda>found.
    andthen (some_or found (auth_error ''invalid scoped token'')) (\<lambda>t.
    andthen (ensure (hash_token_with_salt cfg provided (tk_token_salt t) = tk_token_hash t)
      (auth_error ''invalid scoped token'')) (\<lambda>_.
    andthen (ensure (tk_revoked_at t = None) (auth_error ''token revoked'')) (\<lambda>_.
    andthen (ensure (\<not> tk_expires_at t < ae_now env 0) (auth_error ''token expired'')) (\<lambda>_.
    andthen (scope_guard r (tk_scopes t)) (\<lambda>_.
    andthen (modifies (\<lambda>s. s\<lparr>as_touches := as_touches s @ [tk_token_id t]\<rparr>)) (\<lambda>_.
    ret (Some \<lparr>aa_actor_id = tk_actor_id t, aa_source = ''scoped'', aa_scopes = tk_scopes t,
      aa_role = Some (tk_role t)\<rparr>)))))))))"

definition oidc_auth :: "auth_config \<Rightarrow> auth_env \<Rightarrow> http_request \<Rightarrow> AuthActor option auth" where
  "oidc_auth cfg env r =
    andthen (of_result (bearer_header r)) (\<lambda>provided. case ac_oidc cfg of
      None \<Rightarrow> andthen (note_failure cfg env 0 AuthFailed ''oidc'' ''oidc auth misconfigured'' ''oidc config missing'')
        (\<lambda>_. raise (auth_error ''oidc auth misconfigured''))
    | Some oidc \<Rightarrow> (\<lambda>s. case validate_oidc_token (ac_jwt cfg) (ae_poisoned env) (ae_jwks env) (ae_instant env)
          (ae_now env 0) oidc provided (rq_method r) (rq_path r) (as_jwks s) of
        (Inr (actor, scopes, role), c) \<Rightarrow> (Inr (Some \<lparr>aa_actor_id = actor, aa_source = ''oidc'',
            aa_scopes = scopes, aa_role = Some role\<rparr>), s\<lparr>as_jwks := c\<rparr>)
      | (Inl (OidcUnauthorized msg), c) \<Rightarrow>
          andthen (note_failure cfg env 0 AuthFailed ''oidc'' ''unauthorized'' msg)
            (\<lambda>_. raise (auth_error msg)) (s\<lparr>as_jwks := c\<rparr>)
      | (Inl (OidcForbidden msg), c) \<Rightarrow>
          andthen (note_failure cfg env 0 AuthFailed ''oidc'' ''forbidden'' msg)
            (\<lambda>_. raise (forbidden_error msg)) (s\<lparr>as_jwks := c\<rparr>)))"

subsection \<open>auth.rs: verify\_agent\_request\<close>

datatype AgentAuthError = AgentUnauthorized string | AgentForbidden string

type_synonym 'a agent_auth = "(auth_state, AgentAuthError, 'a) proc"

definition need_header :: "http_request \<Rightarrow> string \<Rightarrow> string agent_auth" where
  "need_header r name = some_or (rq_header r name) (AgentUnauthorized (''missing '' @ name))"

definition nonce_ttl :: "auth_config \<Rightarrow> int" where
  "nonce_ttl cfg = seconds (if 0 < ac_nonce_cache_ttl_secs cfg then int (ac_nonce_cache_ttl_secs cfg)
     else max (ac_agent_clock_skew_secs cfg * 2) 60)"

definition within_skew :: "auth_config \<Rightarrow> timestamp \<Rightarrow> timestamp \<Rightarrow> bool" where
  "within_skew cfg now ts = (let skew = seconds (ac_agent_clock_skew_secs cfg) in
     \<not> (ts < now - skew \<or> now + skew < ts))"

definition check_nonce :: "auth_config \<Rightarrow> auth_env \<Rightarrow> string \<Rightarrow> unit agent_auth" where
  "check_nonce cfg env nonce = (if ae_poisoned env
     then raise (AgentUnauthorized ''nonce cache unavailable'')
     else (\<lambda>s. case check_and_insert (ae_rank env) (ac_nonce_cache_max_entries cfg) nonce
            (nonce_ttl cfg) (ae_instant env) (as_nonces s) of
          (True, c) \<Rightarrow> (Inr (), s\<lparr>as_nonces := c\<rparr>)
        | (False, c) \<Rightarrow> (Inl (AgentUnauthorized ''replayed nonce''), s\<lparr>as_nonces := c\<rparr>)))"

definition read_body :: "http_request \<Rightarrow> string option" where
  "read_body r = (case rq_body r of
     Some b \<Rightarrow> if int (length b) \<le> 10 * 1024 * 1024 then Some b else None
   | None \<Rightarrow> None)"

definition body_hash :: "auth_config \<Rightarrow> string \<Rightarrow> string" where
  "body_hash cfg bytes = (if bytes = [] then ''null'' else ac_blake3_hex cfg bytes)"

definition canonical_payload ::
  "string \<Rightarrow> string \<Rightarrow> string \<Rightarrow> string \<Rightarrow> string \<Rightarrow> string \<Rightarrow> string" where
  "canonical_payload agent ts nonce bhash meth path =
    agent @ '':'' @ ts @ '':'' @ nonce @ '':'' @ bhash @ '':'' @ meth @ '':'' @ path"

definition agent_signature_error :: "auth_config \<Rightarrow> AgentRecord \<Rightarrow> string \<Rightarrow> string \<Rightarrow> string option" where
  "agent_signature_error cfg agent payload signature_b64 =
    (let sg = ac_signing cfg in
     case sg_base64_decode sg signature_b64 of
       None \<Rightarrow> Some ''invalid signature encoding''
     | Some sig \<Rightarrow> if length sig \<noteq> 64 then Some ''invalid signature length''
       else (case sg_base64_decode sg (ag_public_key agent) of
         None \<Rightarrow> Some ''invalid public key encoding''
       | Some pk \<Rightarrow> if length pk \<noteq> 32 then Some ''invalid public key length''
         else if \<not> sg_key_ok sg pk then Some ''invalid public key''
         else if \<not> sg_verify sg pk payload sig then Some ''signature verification failed''
         else None))"

definition verify_agent_request ::
  "auth_config \<Rightarrow> auth_env \<Rightarrow> http_request \<Rightarrow> AuthActor agent_auth" where
  "verify_agent_request cfg env r =
    andthen (need_header r ''X-Ferrum-Agent-Id'') (\<lambda>agent_id.
    andthen (need_header r ''X-Ferrum-Timestamp'') (\<lambda>ts_text.
    andthen (need_header r ''X-Ferrum-Nonce'') (\<lambda>nonce.
    andthen (need_header r ''X-Ferrum-Body-Hash'') (\<lambda>bhash.
    andthen (need_header r ''X-Ferrum-Signature'') (\<lambda>sig_b64.
    andthen (some_or (ac_parse_rfc3339 cfg ts_text) (AgentUnauthorized ''invalid timestamp format'')) (\<lambda>ts.
    andthen (ensure (within_skew cfg (ae_now env 0) ts) (AgentUnauthorized ''timestamp out of skew window'')) (\<lambda>_.
    andthen (ensure (length nonce \<le> 256) (AgentUnauthorized ''nonce exceeds maximum length'')) (\<lambda>_.
    andthen (check_nonce cfg env nonce) (\<lambda>_.
    andthen (some_or (read_body r) (AgentUnauthorized ''failed to read body'')) (\<lambda>bytes.
    andthen (ensure (body_hash cfg bytes = bhash) (AgentUnauthorized ''body hash mismatch'')) (\<lambda>_.
    andthen (map_err (\<lambda>_. AgentUnauthorized ''agent lookup failed'')
      (auth_db_op env 0 (reads (\<lambda>d. agent_get d agent_id)))) (\<lambda>found.
    andthen (some_or found (AgentUnauthorized ''agent not found'')) (\<lambda>agent.
    andthen (ensure (ag_revoked_at agent = None) (AgentUnauthorized ''agent revoked'')) (\<lambda>_.
    andthen (case agent_signature_error cfg agent
        (canonical_payload agent_id ts_text nonce bhash (rq_method r) (rq_path r)) sig_b64 of
        Some msg \<Rightarrow> raise (AgentUnauthorized msg) | None \<Rightarrow> ret ()) (\<lambda>_.
    andthen (case required_scope_for_path (rq_method r) (rq_path r) of
        Some required \<Rightarrow> ensure (any_scope (ag_allowed_scopes agent) required)
          (AgentForbidden (''required scope '' @ required))
      | None \<Rightarrow> ret ()) (\<lambda>_.
    ret \<lparr>aa_actor_id = agent_id, aa_source = ''agent'', aa_scopes = ag_allowed_scopes agent,
      aa_role = None\<rparr>))))))))))))))))"

definition agent_auth :: "auth_config \<Rightarrow> auth_env \<Rightarrow> http_request \<Rightarrow> AuthActor option auth" where
  "agent_auth cfg env r =
    andthen (attempt (verify_agent_request cfg env r)) (\<lambda>res. case res of
      Inr a \<Rightarrow> ret (Some a)
    | Inl (AgentUnauthorized msg) \<Rightarrow>
        andthen (note_failure cfg env 1 AgentAuthFailed ''agent'' ''unauthorized'' msg)
          (\<lambda>_. raise (auth_error msg))
    | Inl (AgentForbidden msg) \<Rightarrow> raise (forbidden_error msg))"

definition auth_middleware :: "auth_config \<Rightarrow> auth_env \<Rightarrow> http_request \<Rightarrow> AuthActor option auth" where
  "auth_middleware cfg env r =
    (if public_path (rq_path r) then ret None
     else (case ac_mode cfg of
       AuthDisabled \<Rightarrow> ret None
     | AuthBearer \<Rightarrow> bearer_auth cfg r
     | AuthOidc \<Rightarrow> oidc_auth cfg env r
     | AuthScoped \<Rightarrow> scoped_auth cfg env r
     | AuthAgent \<Rightarrow> agent_auth cfg env r))"

end
