(* ===== verification/Auth_Safety.thy ===== *)
theory Auth_Safety
  imports Authentication
begin

text \<open>
  What the authentication middleware guarantees: every request it passes on carries a
  valid credential that grants the scope of its route, and a signed agent
  request is admitted once.
\<close>

subsection \<open>What an admitted request has shown\<close>

text \<open>The token, agent key or JWT behind an admitted request.\<close>

definition scoped_credential ::
  "auth_config \<Rightarrow> timestamp \<Rightarrow> http_request \<Rightarrow> ScopedToken \<Rightarrow> AuthActor \<Rightarrow> bool" where
  "scoped_credential cfg now r t a \<longleftrightarrow> (\<exists>v. rq_header r ''Authorization'' = Some (''Bearer '' @ v) \<and>
     tk_token_lookup_hash t = hash_token_value cfg v \<and>
     tk_token_hash t = hash_token_with_salt cfg v (tk_token_salt t)) \<and>
     tk_revoked_at t = None \<and> now \<le> tk_expires_at t \<and>
     a = \<lparr>aa_actor_id = tk_actor_id t, aa_source = ''scoped'', aa_scopes = tk_scopes t, aa_role = Some (tk_role t)\<rparr>"

definition signed_with :: "auth_config \<Rightarrow> AgentRecord \<Rightarrow> string \<Rightarrow> string \<Rightarrow> bool" where
  "signed_with cfg g payload sig_b64 \<longleftrightarrow> (\<exists>sig pk. sg_base64_decode (ac_signing cfg) sig_b64 = Some sig \<and>
     sg_base64_decode (ac_signing cfg) (ag_public_key g) = Some pk \<and>
     length sig = 64 \<and> length pk = 32 \<and> sg_key_ok (ac_signing cfg) pk \<and> sg_verify (ac_signing cfg) pk payload sig)"

definition agent_credential ::
  "auth_config \<Rightarrow> auth_env \<Rightarrow> http_request \<Rightarrow> AgentRecord \<Rightarrow> AuthActor \<Rightarrow> bool" where
  "agent_credential cfg env r g a \<longleftrightarrow> ag_revoked_at g = None \<and>
     (\<exists>ts_text ts nonce bytes sig_b64.
       rq_header r ''X-Ferrum-Agent-Id'' = Some (ag_agent_id g) \<and>
       rq_header r ''X-Ferrum-Timestamp'' = Some ts_text \<and> ac_parse_rfc3339 cfg ts_text = Some ts \<and>
       \<bar>ts - ae_now env 0\<bar> \<le> seconds (ac_agent_clock_skew_secs cfg) \<and>
       rq_header r ''X-Ferrum-Nonce'' = Some nonce \<and> rq_body r = Some bytes \<and>
       rq_header r ''X-Ferrum-Body-Hash'' = Some (body_hash cfg bytes) \<and>
       rq_header r ''X-Ferrum-Signature'' = Some sig_b64 \<and>
       signed_with cfg g (canonical_payload (ag_agent_id g) ts_text nonce (body_hash cfg bytes)
         (rq_method r) (rq_path r)) sig_b64) \<and>
     a = \<lparr>aa_actor_id = ag_agent_id g, aa_source = ''agent'', aa_scopes = ag_allowed_scopes g, aa_role = None\<rparr>"

definition oidc_credential ::
  "auth_config \<Rightarrow> auth_env \<Rightarrow> http_request \<Rightarrow> AuthActor \<Rightarrow> bool" where
  "oidc_credential cfg env r a \<longleftrightarrow> (\<exists>v oidc header km claims role.
     rq_header r ''Authorization'' = Some (''Bearer '' @ v) \<and> ac_oidc cfg = Some oidc \<and>
     \<not> jwt_header_alg_is_none (ac_jwt cfg) v \<and>
     jl_decode_header (ac_jwt cfg) v = Some header \<and> jh_alg header \<in> set (oc_allowed_algorithms oidc) \<and>
     jl_decode (ac_jwt cfg) v km (jwt_validation_for oidc) (ae_now env 0) = Some claims \<and>
     \<not> iat_in_future oidc claims (ae_now env 0) \<and> actor_id_of oidc claims = Some (aa_actor_id a) \<and>
     Option.bind (role_source_values oidc claims) (mapped_role oidc) = Some role \<and>
     aa_role a = Some role \<and> aa_scopes a = default_scopes role \<and> aa_source a = ''oidc'')"

lemma bearer_header_Inr: "bearer_header r = Inr v \<longleftrightarrow> rq_header r ''Authorization'' = Some (''Bearer '' @ v)"
  by (auto simp: bearer_header_def starts_with_def prefix_def split: option.splits if_splits)

lemma scope_guard_Inr [proc_Inr]:
  "scope_guard r scopes s = (Inr u, s') \<longleftrightarrow> s' = s \<and>
   (\<exists>required. required_scope_for_path (rq_method r) (rq_path r) = Some required \<and> any_scope scopes required)"
  using scope_always_required[of "rq_method r" "rq_path r"]
  by (auto simp: scope_guard_def proc_Inr simp del: any_scope_iff)

lemma auth_read_Inr [proc_Inr]:
  "auth_db_op env n (reads f) s = (Inr x, s') \<longleftrightarrow>
   \<not> ae_down env n \<and> x = f (ae_others env n (as_db s)) \<and> s' = s\<lparr>as_db := ae_others env n (as_db s)\<rparr>"
  by (auto simp: auth_db_op_def reads_def Let_def)

lemma found_token: "get_by_lookup_hash d h = Some t \<Longrightarrow> t \<in> set (ad_tokens d) \<and> tk_token_lookup_hash t = h"
  unfolding get_by_lookup_hash_def by (rule find_mem)

lemma found_agent: "agent_get d k = Some g \<Longrightarrow> g \<in> set (ad_agents d) \<and> ag_agent_id g = k"
  unfolding agent_get_def by (rule find_mem)

lemma scoped_auth_Inr:
  assumes "scoped_auth cfg env r s = (Inr actor, s')"
  shows "\<exists>a required. actor = Some a \<and> required_scope_for_path (rq_method r) (rq_path r) = Some required \<and>
    any_scope (aa_scopes a) required \<and>
    (\<exists>t \<in> set (ad_tokens (ae_others env 0 (as_db s))). scoped_credential cfg (ae_now env 0) r t a)"
proof -
  obtain v t required where "bearer_header r = Inr v"
    and t: "get_by_lookup_hash (ae_others env 0 (as_db s)) (hash_token_value cfg v) = Some t"
    and "hash_token_with_salt cfg v (tk_token_salt t) = tk_token_hash t" "tk_revoked_at t = None"
      "\<not> tk_expires_at t < ae_now env 0"
      "required_scope_for_path (rq_method r) (rq_path r) = Some required" "any_scope (tk_scopes t) required"
    and a: "actor = Some \<lparr>aa_actor_id = tk_actor_id t, aa_source = ''scoped'', aa_scopes = tk_scopes t,
      aa_role = Some (tk_role t)\<rparr>"
    using assms unfolding scoped_auth_def by (auto simp: proc_Inr simp del: any_scope_iff)
  moreover from this have "scoped_credential cfg (ae_now env 0) r t (the actor)"
    using found_token[OF t] by (auto simp: scoped_credential_def bearer_header_Inr)
  ultimately show ?thesis using found_token[OF t] by (auto simp del: any_scope_iff)
qed

lemma agent_signature_ok:
  "agent_signature_error cfg g payload sig_b64 = None \<longleftrightarrow> signed_with cfg g payload sig_b64"
  by (auto simp: agent_signature_error_def signed_with_def Let_def split: option.splits if_splits)

lemma check_nonce_Inr [proc_Inr]:
  "check_nonce cfg env nonce s = (Inr u, s') \<longleftrightarrow> \<not> ae_poisoned env \<and> (\<exists>c. s' = s\<lparr>as_nonces := c\<rparr> \<and>
     check_and_insert (ae_rank env) (ac_nonce_cache_max_entries cfg) nonce (nonce_ttl cfg) (ae_instant env)
       (as_nonces s) = (True, c))"
  by (auto simp: check_nonce_def raise_def split: prod.splits bool.splits)

lemma read_body_Some: "read_body r = Some b \<Longrightarrow> rq_body r = Some b"
  by (auto simp: read_body_def split: option.splits if_splits)

lemma within_skew_iff: "within_skew cfg now ts \<longleftrightarrow> \<bar>ts - now\<bar> \<le> seconds (ac_agent_clock_skew_secs cfg)"
  by (auto simp: within_skew_def Let_def)

lemma need_header_Inr [proc_Inr]: "need_header r n s = (Inr v, s') \<longleftrightarrow> rq_header r n = Some v \<and> s' = s"
  by (auto simp: need_header_def proc_Inr)

text \<open>What a signed request has passed, with the nonce call it made.\<close>

lemma verify_agent_Inr:
  assumes "verify_agent_request cfg env r s = (Inr a, s')"
  obtains g ts_text ts nonce c required where
    "g \<in> set (ad_agents (ae_others env 0 (as_db s)))" "agent_credential cfg env r g a"
    "rq_header r ''X-Ferrum-Nonce'' = Some nonce" "rq_header r ''X-Ferrum-Timestamp'' = Some ts_text"
    "ac_parse_rfc3339 cfg ts_text = Some ts" "within_skew cfg (ae_now env 0) ts"
    "check_and_insert (ae_rank env) (ac_nonce_cache_max_entries cfg) nonce (nonce_ttl cfg) (ae_instant env)
       (as_nonces s) = (True, c)" "as_nonces s' = c"
    "required_scope_for_path (rq_method r) (rq_path r) = Some required" "any_scope (aa_scopes a) required"
proof -
  obtain agent_id ts_text nonce sig_b64 ts bytes g c required where h:
    "rq_header r ''X-Ferrum-Agent-Id'' = Some agent_id" "rq_header r ''X-Ferrum-Timestamp'' = Some ts_text"
    "rq_header r ''X-Ferrum-Nonce'' = Some nonce" "rq_header r ''X-Ferrum-Signature'' = Some sig_b64"
    "rq_header r ''X-Ferrum-Body-Hash'' = Some (body_hash cfg bytes)"
    "ac_parse_rfc3339 cfg ts_text = Some ts" "within_skew cfg (ae_now env 0) ts"
    "check_and_insert (ae_rank env) (ac_nonce_cache_max_entries cfg) nonce (nonce_ttl cfg) (ae_instant env)
       (as_nonces s) = (True, c)" "as_nonces s' = c"
    "read_body r = Some bytes" "agent_get (ae_others env 0 (as_db s)) agent_id = Some g" "ag_revoked_at g = None"
    "agent_signature_error cfg g (canonical_payload agent_id ts_text nonce (body_hash cfg bytes)
        (rq_method r) (rq_path r)) sig_b64 = None"
    "required_scope_for_path (rq_method r) (rq_path r) = Some required" "any_scope (ag_allowed_scopes g) required"
    "a = \<lparr>aa_actor_id = agent_id, aa_source = ''agent'', aa_scopes = ag_allowed_scopes g, aa_role = None\<rparr>"
    using assms scope_always_required[of "rq_method r" "rq_path r"] unfolding verify_agent_request_def
    by (auto simp: proc_Inr simp del: any_scope_iff split: option.splits)
  have g: "g \<in> set (ad_agents (ae_others env 0 (as_db s)))" "ag_agent_id g = agent_id"
    using found_agent[OF h(11)] by auto
  have "agent_credential cfg env r g a"
    using h g read_body_Some[OF h(10)] by (auto simp: agent_credential_def agent_signature_ok within_skew_iff)
  then show ?thesis using that[OF g(1) _ h(3) h(2) h(6) h(7) h(8) h(9) h(14)] h(15,16) by simp
qed

lemma agent_auth_Inr:
  assumes "agent_auth cfg env r s = (Inr actor, s')"
  obtains a where "actor = Some a" "verify_agent_request cfg env r s = (Inr a, s')"
proof (cases "verify_agent_request cfg env r s")
  case (Pair res s1)
  show ?thesis
  proof (cases res)
    case (Inl e)
    then show ?thesis using assms Pair by (cases e) (auto simp: agent_auth_def proc_Inr)
  qed (use assms Pair that in \<open>auto simp: agent_auth_def proc_Inr\<close>)
qed

lemma oidc_auth_validated:
  assumes "oidc_auth cfg env r s = (Inr actor, s')"
  obtains v oidc aid scopes role c where "bearer_header r = Inr v" "ac_oidc cfg = Some oidc"
    "validate_oidc_token (ac_jwt cfg) (ae_poisoned env) (ae_jwks env) (ae_instant env) (ae_now env 0)
      oidc v (rq_method r) (rq_path r) (as_jwks s) = (Inr (aid, scopes, role), c)"
    "actor = Some \<lparr>aa_actor_id = aid, aa_source = ''oidc'', aa_scopes = scopes, aa_role = Some role\<rparr>"
proof -
  obtain v where v: "bearer_header r = Inr v"
    using assms by (auto simp: oidc_auth_def proc_Inr)
  obtain oidc where o: "ac_oidc cfg = Some oidc"
    using assms by (cases "ac_oidc cfg") (auto simp: oidc_auth_def proc_Inr)
  obtain res c where rc: "validate_oidc_token (ac_jwt cfg) (ae_poisoned env) (ae_jwks env) (ae_instant env)
      (ae_now env 0) oidc v (rq_method r) (rq_path r) (as_jwks s) = (res, c)" by fastforce
  show ?thesis
  proof (cases res)
    case (Inl e)
    then show ?thesis using assms v o rc by (cases e) (auto simp: oidc_auth_def proc_Inr)
  next
    case (Inr x)
    then show ?thesis using assms v o rc that by (cases x) (auto simp: oidc_auth_def proc_Inr)
  qed
qed

lemma oidc_auth_Inr:
  assumes "oidc_auth cfg env r s = (Inr actor, s')"
  shows "\<exists>a required. actor = Some a \<and> required_scope_for_path (rq_method r) (rq_path r) = Some required \<and>
    any_scope (aa_scopes a) required \<and> oidc_credential cfg env r a"
proof -
  obtain v oidc aid scopes role c where v: "bearer_header r = Inr v" "ac_oidc cfg = Some oidc"
    and ok: "validate_oidc_token (ac_jwt cfg) (ae_poisoned env) (ae_jwks env) (ae_instant env) (ae_now env 0)
      oidc v (rq_method r) (rq_path r) (as_jwks s) = (Inr (aid, scopes, role), c)"
    and a: "actor = Some \<lparr>aa_actor_id = aid, aa_source = ''oidc'', aa_scopes = scopes, aa_role = Some role\<rparr>"
    using assms by (rule oidc_auth_validated)
  from ok obtain header km claims where cl: "\<not> jwt_header_alg_is_none (ac_jwt cfg) v"
    "jl_decode_header (ac_jwt cfg) v = Some header" "jh_alg header \<in> set (oc_allowed_algorithms oidc)"
    "jl_decode (ac_jwt cfg) v km (jwt_validation_for oidc) (ae_now env 0) = Some claims"
    "authorize_claims oidc claims (ae_now env 0) (rq_method r) (rq_path r) = Inr (aid, scopes, role)"
    by (rule validate_Inr)
  show ?thesis using v a cl authorize_claims_Inr[OF cl(5)]
    by (auto simp: oidc_credential_def bearer_header_Inr bind_eq_Some_conv simp del: any_scope_iff)
qed


subsection \<open>A signed request is admitted once\<close>

text \<open>The middleware touches the nonce cache by at most one call of \<open>check_and_insert\<close>.\<close>

definition same_nonces :: "auth_state \<Rightarrow> auth_state \<Rightarrow> bool" where
  "same_nonces s s' \<longleftrightarrow> as_nonces s' = as_nonces s"

interpretation nonce_frame: state_preorder same_nonces
  by unfold_locales (simp_all add: same_nonces_def)

lemma along_auth_db_op [preserves_intros]: "along same_nonces (auth_db_op env n m)"
  by (auto simp: along_def auth_db_op_def Let_def same_nonces_def split: prod.splits)

lemma along_note_failure [preserves_intros]: "along same_nonces (note_failure cfg env n act rid res msg)"
  unfolding note_failure_def append_audit_def by (intro preserves_intros)

definition one_nonce_call :: "auth_config \<Rightarrow> auth_env \<Rightarrow> auth_state \<Rightarrow> auth_state \<Rightarrow> bool" where
  "one_nonce_call cfg env s s' \<longleftrightarrow> as_nonces s' = as_nonces s \<or>
     (\<exists>nonce. as_nonces s' = snd (check_and_insert (ae_rank env) (ac_nonce_cache_max_entries cfg) nonce
        (nonce_ttl cfg) (ae_instant env) (as_nonces s)))"

lemma one_call_start: "along same_nonces m \<Longrightarrow> along (one_nonce_call cfg env) m"
  by (auto simp: along_def same_nonces_def one_nonce_call_def)

lemma one_call_then:
  "along (one_nonce_call cfg env) m \<Longrightarrow> (\<And>x. along same_nonces (f x)) \<Longrightarrow>
   along (one_nonce_call cfg env) (andthen m f)"
  by (auto simp: along_def andthen_def same_nonces_def one_nonce_call_def split: prod.splits sum.splits)
    (metis snd_conv)+

lemma one_call_later:
  "along same_nonces m \<Longrightarrow> (\<And>x. along (one_nonce_call cfg env) (f x)) \<Longrightarrow>
   along (one_nonce_call cfg env) (andthen m f)"
  by (auto simp: along_def andthen_def same_nonces_def one_nonce_call_def split: prod.splits sum.splits)
    (metis snd_conv)+

lemma one_call_check: "along (one_nonce_call cfg env) (check_nonce cfg env nonce)"
  by (auto simp: along_def check_nonce_def raise_def one_nonce_call_def split: prod.splits bool.splits)
    (metis snd_conv)+

lemma one_call_attempt: "along (one_nonce_call cfg env) m \<Longrightarrow> along (one_nonce_call cfg env) (attempt m)"
  by (auto simp: along_def attempt_def split: prod.splits) (metis snd_conv)

lemma along_case_sig [preserves_intros]:
  "along same_nonces (case x of Some msg \<Rightarrow> raise (f msg) | None \<Rightarrow> ret ())"
  by (cases x) (simp_all add: nonce_frame.along_raise nonce_frame.along_ret)

lemma along_need_header [preserves_intros]: "along same_nonces (need_header r n)"
  unfolding need_header_def by (intro preserves_intros)

lemma verify_one_call: "along (one_nonce_call cfg env) (verify_agent_request cfg env r)"
  unfolding verify_agent_request_def
  apply (rule one_call_later, intro preserves_intros)+
  apply (rule one_call_then[OF one_call_check])
  apply (intro preserves_intros)
  done

lemma bearer_frame: "along same_nonces (bearer_auth cfg r)"
  unfolding bearer_auth_def by (intro preserves_intros)

lemma scoped_frame: "along same_nonces (scoped_auth cfg env r)"
  unfolding scoped_auth_def scope_guard_def
  by (intro preserves_intros) (simp add: along_def modifies_def same_nonces_def)

lemma failed_frame:
  "as_nonces (snd (andthen (note_failure cfg env n act rid res msg) (\<lambda>_. raise p) s)) = as_nonces s"
  by (auto simp: note_failure_def append_audit_def auth_db_op_def Let_def proc_simps split: prod.splits sum.splits)

lemma oidc_frame: "along same_nonces (oidc_auth cfg env r)"
  unfolding oidc_auth_def
  apply (intro preserves_intros)
  apply (auto simp: along_def same_nonces_def failed_frame split: prod.splits sum.splits OidcAuthError.splits)
  done

lemma agent_one_call: "along (one_nonce_call cfg env) (agent_auth cfg env r)"
  unfolding agent_auth_def
  apply (rule one_call_then[OF one_call_attempt[OF verify_one_call]])
  apply (intro preserves_intros)
  apply (simp split: AgentAuthError.split)
  apply (intro conjI allI impI preserves_intros)
  done

lemma middleware_one_call: "along (one_nonce_call cfg env) (auth_middleware cfg env r)"
  by (auto simp: auth_middleware_def split: AuthMode.split intro: agent_one_call
      one_call_start[OF bearer_frame] one_call_start[OF scoped_frame] one_call_start[OF oidc_frame]
      one_call_start[OF nonce_frame.along_ret])

text \<open>The requests of one process, in the order of their nonce checks.\<close>

fun serve ::
  "auth_config \<Rightarrow> (auth_env \<times> http_request) list \<Rightarrow> auth_state
    \<Rightarrow> (ApiProblem + AuthActor option) list \<times> auth_state" where
  "serve cfg [] s = ([], s)"
| "serve cfg ((env, r) # rs) s = (case auth_middleware cfg env r s of (res, s1) \<Rightarrow>
     (case serve cfg rs s1 of (out, s2) \<Rightarrow> (res # out, s2)))"

lemma serve_append:
  "serve cfg (xs @ ys) s = (fst (serve cfg xs s) @ fst (serve cfg ys (snd (serve cfg xs s))),
     snd (serve cfg ys (snd (serve cfg xs s))))"
  by (induction cfg xs s rule: serve.induct) (auto split: prod.splits)

lemma length_serve [simp]: "length (fst (serve cfg rs s)) = length rs"
  by (induction cfg rs s rule: serve.induct) (auto split: prod.splits)

text \<open>How many of the requests come at or after \<open>t\<close>.\<close>

definition arrivals :: "int \<Rightarrow> (auth_env \<times> http_request) list \<Rightarrow> nat" where
  "arrivals t rs = length (filter (\<lambda>er. t \<le> ae_instant (fst er)) rs)"

lemma arrivals_simps [simp]:
  "arrivals t [] = 0" "arrivals t (er # rs) = (if t \<le> ae_instant (fst er) then 1 else 0) + arrivals t rs"
  "arrivals t (xs @ ys) = arrivals t xs + arrivals t ys"
  by (simp_all add: arrivals_def)

lemma middleware_nonces:
  assumes "auth_middleware cfg env r s = (res, s1)"
  shows "as_nonces s1 = as_nonces s \<or> (\<exists>nonce fresh. check_and_insert (ae_rank env) (ac_nonce_cache_max_entries cfg)
    nonce (nonce_ttl cfg) (ae_instant env) (as_nonces s) = (fresh, as_nonces s1))"
  using middleware_one_call[of cfg env r] assms unfolding along_def one_nonce_call_def
  by (metis prod.collapse snd_conv)

lemma middleware_nonces_inv:
  assumes "auth_middleware cfg env r s = (res, s1)"
  shows "distinct (map fst (as_nonces s)) \<Longrightarrow> distinct (map fst (as_nonces s1))"
    "recent t (as_nonces s1) \<le> recent t (as_nonces s) + (if t \<le> ae_instant env then 1 else 0)"
    "\<lbrakk>distinct (map fst (as_nonces s)); (k, t) \<in> set (as_nonces s); ae_instant env - t < nonce_ttl cfg;
      recent t (as_nonces s) < ac_nonce_cache_max_entries cfg\<rbrakk> \<Longrightarrow> (k, t) \<in> set (as_nonces s1)"
  using middleware_nonces[OF assms] check_distinct check_recent check_keeps(1)
  by (metis snd_conv, (metis le_add1 snd_conv), metis)

lemma serve_inv:
  "distinct (map fst (as_nonces s)) \<Longrightarrow> distinct (map fst (as_nonces (snd (serve cfg rs s)))) \<and>
   recent t (as_nonces (snd (serve cfg rs s))) \<le> recent t (as_nonces s) + arrivals t rs"
proof (induction rs arbitrary: s)
  case (Cons er rs)
  obtain env r where er: "er = (env, r)" by fastforce
  obtain res s1 where m: "auth_middleware cfg env r s = (res, s1)" by fastforce
  have "distinct (map fst (as_nonces s1))"
    "recent t (as_nonces s1) \<le> recent t (as_nonces s) + (if t \<le> ae_instant env then 1 else 0)"
    using middleware_nonces_inv(1,2)[OF m] Cons.prems by auto
  moreover have "snd (serve cfg (er # rs) s) = snd (serve cfg rs s1)"
    using er m by (simp split: prod.splits)
  ultimately show ?case using Cons.IH[of s1] er by simp
qed simp

lemma serve_keeps:
  assumes "distinct (map fst (as_nonces s))" "(k, t) \<in> set (as_nonces s)"
    and "\<forall>er \<in> set rs. ae_instant (fst er) - t < nonce_ttl cfg"
    and "recent t (as_nonces s) + arrivals t rs < ac_nonce_cache_max_entries cfg"
  shows "(k, t) \<in> set (as_nonces (snd (serve cfg rs s)))"
  using assms
proof (induction rs arbitrary: s)
  case (Cons er rs)
  obtain env r where er: "er = (env, r)" by fastforce
  obtain res s1 where m: "auth_middleware cfg env r s = (res, s1)" by fastforce
  have "distinct (map fst (as_nonces s1))" "(k, t) \<in> set (as_nonces s1)"
    "recent t (as_nonces s1) \<le> recent t (as_nonces s) + (if t \<le> ae_instant env then 1 else 0)"
    using middleware_nonces_inv[OF m] Cons.prems er by auto
  moreover have "snd (serve cfg (er # rs) s) = snd (serve cfg rs s1)"
    using er m by (simp split: prod.splits)
  ultimately show ?case using Cons.IH[of s1] Cons.prems er by simp
qed simp

text \<open>The nonce call an admitted agent request made.\<close>

lemma admitted_agent_nonce:
  assumes "auth_middleware cfg env r s = (Inr a, s1)" "ac_mode cfg = AuthAgent" "\<not> public_path (rq_path r)"
  obtains nonce ts_text ts where
    "rq_header r ''X-Ferrum-Nonce'' = Some nonce" "rq_header r ''X-Ferrum-Timestamp'' = Some ts_text"
    "ac_parse_rfc3339 cfg ts_text = Some ts" "\<bar>ts - ae_now env 0\<bar> \<le> seconds (ac_agent_clock_skew_secs cfg)"
    "check_and_insert (ae_rank env) (ac_nonce_cache_max_entries cfg) nonce (nonce_ttl cfg) (ae_instant env)
       (as_nonces s) = (True, as_nonces s1)"
proof -
  have "agent_auth cfg env r s = (Inr a, s1)" using assms by (simp add: auth_middleware_def)
  then obtain b where "verify_agent_request cfg env r s = (Inr b, s1)" by (rule agent_auth_Inr)
  then show ?thesis by (rule verify_agent_Inr) (use that in \<open>auto simp: within_skew_iff\<close>)
qed

lemma replay_refused:
  assumes first: "auth_middleware cfg env r s = (Inr a, s1)" and later: "serve cfg rs s1 = (out, s2)"
    and mode: "ac_mode cfg = AuthAgent" and np: "\<not> public_path (rq_path r)" "\<not> public_path (rq_path r')"
    and same: "rq_header r' ''X-Ferrum-Nonce'' = rq_header r ''X-Ferrum-Nonce''"
      "rq_header r' ''X-Ferrum-Timestamp'' = rq_header r ''X-Ferrum-Timestamp''"
    and mono: "\<forall>er \<in> set rs. ae_instant (fst er) \<le> ae_instant env'"
    and drift: "ae_instant env' - ae_instant env \<le> ae_now env' 0 - ae_now env 0 + slack"
    and ttl: "2 * seconds (ac_agent_clock_skew_secs cfg) + slack < nonce_ttl cfg"
    and dist: "distinct (map fst (as_nonces s))"
    and room: "recent (ae_instant env) (as_nonces s) + Suc (arrivals (ae_instant env) rs) < ac_nonce_cache_max_entries cfg"
  shows "\<exists>p. fst (auth_middleware cfg env' r' s2) = Inl p"
proof (rule ccontr)
  let ?t = "ae_instant env"
  assume "\<not> ?thesis"
  then obtain a' s3 where second: "auth_middleware cfg env' r' s2 = (Inr a', s3)"
    by (cases "fst (auth_middleware cfg env' r' s2)") (auto simp: prod_eq_iff)
  obtain nonce tx ts where n1: "rq_header r ''X-Ferrum-Nonce'' = Some nonce"
    "rq_header r ''X-Ferrum-Timestamp'' = Some tx" "ac_parse_rfc3339 cfg tx = Some ts"
    "\<bar>ts - ae_now env 0\<bar> \<le> seconds (ac_agent_clock_skew_secs cfg)"
    "check_and_insert (ae_rank env) (ac_nonce_cache_max_entries cfg) nonce (nonce_ttl cfg) ?t (as_nonces s)
       = (True, as_nonces s1)"
    by (rule admitted_agent_nonce[OF first mode np(1)])
  obtain nonce' tx' ts' where n2: "rq_header r' ''X-Ferrum-Nonce'' = Some nonce'"
    "rq_header r' ''X-Ferrum-Timestamp'' = Some tx'" "ac_parse_rfc3339 cfg tx' = Some ts'"
    "\<bar>ts' - ae_now env' 0\<bar> \<le> seconds (ac_agent_clock_skew_secs cfg)"
    "check_and_insert (ae_rank env') (ac_nonce_cache_max_entries cfg) nonce' (nonce_ttl cfg) (ae_instant env')
       (as_nonces s2) = (True, as_nonces s3)"
    by (rule admitted_agent_nonce[OF second mode np(2)])
  have eq: "nonce' = nonce" "ts' = ts" using n1 n2 same by auto
  have live: "ae_instant env' - ?t < nonce_ttl cfg" using n1(4) n2(4) eq drift ttl by linarith
  have s1: "distinct (map fst (as_nonces s1))" "(nonce, ?t) \<in> set (as_nonces s1)"
    "recent ?t (as_nonces s1) \<le> Suc (recent ?t (as_nonces s))"
    using middleware_nonces_inv(1)[OF first dist] middleware_nonces_inv(2)[OF first, of ?t] check_accepted[OF n1(5)] by auto
  have "(nonce, ?t) \<in> set (as_nonces s2)"
    using serve_keeps[OF s1(1,2), of rs cfg] later mono live room s1(3) by fastforce
  moreover have "distinct (map fst (as_nonces s2))" "recent ?t (as_nonces s2) < ac_nonce_cache_max_entries cfg"
    using serve_inv[OF s1(1), of cfg rs ?t] later s1(3) room by auto
  ultimately show False using check_keeps(2)[OF _ _ live _ n2(5)] eq(1) by blast
qed

lemma serve_nth:
  assumes "k < length rs" "rs ! k = (env, r)"
  shows "fst (serve cfg rs s) ! k = fst (auth_middleware cfg env r (snd (serve cfg (take k rs) s)))"
proof -
  have "rs = take k rs @ (env, r) # drop (Suc k) rs" using assms by (metis id_take_nth_drop)
  then have "fst (serve cfg rs s) = fst (serve cfg (take k rs) s) @
      fst (serve cfg ((env, r) # drop (Suc k) rs) (snd (serve cfg (take k rs) s)))"
    using serve_append[of cfg "take k rs" "(env, r) # drop (Suc k) rs" s] by simp
  then show ?thesis using assms(1) by (simp add: nth_append split: prod.splits)
qed

text \<open>C14: In agent mode a signed request is admitted at most once.  Of all the requests one process
  serves from an empty nonce cache, two with the same timestamp and nonce are not both
  admitted, whatever else differs and whatever other requests change in the database,
  provided that the monotonic clock does not run backwards nor ahead of the wall clock by
  more than \<open>slack\<close>, the nonces live longer than twice the allowed skew plus that slack, and
  fewer than \<open>max_entries\<close> requests arrived since the first one.\<close>

theorem signed_request_admitted_once:
  assumes "ac_mode cfg = AuthAgent" "as_nonces s = []" "i < j" "j < length reqs"
    and "reqs ! i = (env, r)" "reqs ! j = (env', r')"
    and "\<not> public_path (rq_path r)" "\<not> public_path (rq_path r')"
    and "rq_header r' ''X-Ferrum-Nonce'' = rq_header r ''X-Ferrum-Nonce''"
    and "rq_header r' ''X-Ferrum-Timestamp'' = rq_header r ''X-Ferrum-Timestamp''"
    and "\<forall>k < j. ae_instant (fst (reqs ! k)) \<le> ae_instant env'"
    and "ae_instant env' - ae_instant env \<le> ae_now env' 0 - ae_now env 0 + slack"
    and "2 * seconds (ac_agent_clock_skew_secs cfg) + slack < nonce_ttl cfg"
    and "arrivals (ae_instant env) (take j reqs) < ac_nonce_cache_max_entries cfg"
    and "fst (serve cfg reqs s) ! i = Inr a"
  shows "\<exists>p. fst (serve cfg reqs s) ! j = Inl p"
proof -
  let ?before = "take i reqs" and ?mid = "drop (Suc i) (take j reqs)"
  let ?s = "snd (serve cfg ?before s)"
  have tk: "take j reqs = ?before @ (env, r) # ?mid"
    using id_take_nth_drop[of i "take j reqs"] assms(3-5) by (simp add: min_def)
  obtain s1 where first: "auth_middleware cfg env r ?s = (Inr a, s1)"
    using serve_nth[of i reqs env r cfg s] assms(3-5,15) by (metis less_trans prod.collapse)
  obtain out s2 where later: "serve cfg ?mid s1 = (out, s2)" by fastforce
  have s2: "snd (serve cfg (take j reqs) s) = s2"
    by (subst tk) (simp add: serve_append first later)
  have start: "distinct (map fst (as_nonces ?s)) \<and> recent (ae_instant env) (as_nonces ?s) \<le> arrivals (ae_instant env) ?before"
    using serve_inv[of s cfg ?before "ae_instant env"] assms(2) by (simp add: recent_def)
  have mono: "\<forall>er \<in> set ?mid. ae_instant (fst er) \<le> ae_instant env'"
  proof
    fix er assume "er \<in> set ?mid"
    then have "er \<in> set (take j reqs)" by (rule in_set_dropD)
    then show "ae_instant (fst er) \<le> ae_instant env'"
      using assms(4,11) by (auto simp: in_set_conv_nth)
  qed
  have room: "recent (ae_instant env) (as_nonces ?s) + Suc (arrivals (ae_instant env) ?mid) < ac_nonce_cache_max_entries cfg"
  proof -
    have "arrivals (ae_instant env) (take j reqs) = arrivals (ae_instant env) ?before + Suc (arrivals (ae_instant env) ?mid)"
      by (subst tk) simp
    then show ?thesis using start assms(14) by simp
  qed
  show ?thesis
    using replay_refused[OF first later assms(1,7,8,9,10) mono assms(12,13) conjunct1[OF start] room]
      serve_nth[OF assms(4,6), of cfg s] s2 by simp
qed

subsection \<open>A small deployment\<close>

definition demo_jwt :: jwt_lib where
  "demo_jwt = \<lparr>jl_base64url_decode = Some, jl_parse_json = (\<lambda>_. None), jl_decode_header = (\<lambda>_. None),
     jl_key_ok = (\<lambda>_. False), jl_decode = (\<lambda>_ _ _ _. None)\<rparr>"

definition demo_auth :: "AuthMode \<Rightarrow> nat \<Rightarrow> nat \<Rightarrow> auth_config" where
  "demo_auth mode ttl entries = \<lparr>ac_mode = mode, ac_bearer_token = None, ac_oidc = None,
     ac_agent_clock_skew_secs = 30, ac_nonce_cache_ttl_secs = ttl, ac_nonce_cache_max_entries = entries,
     ac_audit_fail_closed = False, ac_blake3_hex = (\<lambda>s. s),
     ac_parse_rfc3339 = (\<lambda>s. if s = ''t'' then Some (seconds 30) else None),
     ac_base64url_encode = (\<lambda>s. s), ac_signing = demo_signing, ac_jwt = demo_jwt,
     ac_codec = demo_codec [] None\<rparr>"

definition demo_auth_env :: "int \<Rightarrow> auth_env" where
  "demo_auth_env sec = \<lparr>ae_now = (\<lambda>_. seconds sec), ae_instant = seconds sec, ae_rank = (\<lambda>_. 0),
     ae_draw = (\<lambda>_. ''v''), ae_down = (\<lambda>_. False), ae_others = (\<lambda>_ d. d), ae_poisoned = False,
     ae_jwks = JwksUnreachable\<rparr>"

definition demo_agent :: AgentRecord where
  "demo_agent = \<lparr>ag_agent_id = ''a'', ag_public_key = replicate 32 CHR ''p'', ag_key_fingerprint = ''f'',
     ag_allowed_scopes = [''intent:submit''], ag_created_at = 0, ag_revoked_at = None, ag_description = None\<rparr>"

definition demo_auth_state :: auth_state where
  "demo_auth_state = \<lparr>as_db = \<lparr>ad_tokens = [], ad_agents = [demo_agent], ad_audit = empty_audit\<rparr>,
     as_nonces = [], as_jwks = None, as_touches = []\<rparr>"

definition demo_signed :: "string \<Rightarrow> http_request" where
  "demo_signed nonce = \<lparr>rq_method = ''GET'', rq_path = ''/v1/intents'',
     rq_header = map_of [(''X-Ferrum-Agent-Id'', ''a''), (''X-Ferrum-Timestamp'', ''t''),
       (''X-Ferrum-Nonce'', nonce), (''X-Ferrum-Body-Hash'', ''null''),
       (''X-Ferrum-Signature'', replicate 64 CHR ''s'')],
     rq_body = Some []\<rparr>"

definition demo_actor :: AuthActor where
  "demo_actor = \<lparr>aa_actor_id = ''a'', aa_source = ''agent'', aa_scopes = [''intent:submit''], aa_role = None\<rparr>"

lemma demo_signature:
  "agent_signature_error (demo_auth AuthAgent ttl n) demo_agent payload (replicate 64 CHR ''s'') = None"
  by (simp add: agent_signature_error_def demo_auth_def demo_agent_def demo_signing_def)

lemma demo_fresh:
  assumes "0 \<le> sec" "sec \<le> 60" "length nonce \<le> 256"
    and "check_and_insert (\<lambda>_. 0) n nonce (nonce_ttl (demo_auth AuthAgent ttl n)) (seconds sec) c = (True, c')"
  shows "auth_middleware (demo_auth AuthAgent ttl n) (demo_auth_env sec) (demo_signed nonce)
    (demo_auth_state\<lparr>as_nonces := c\<rparr>) = (Inr (Some demo_actor), demo_auth_state\<lparr>as_nonces := c'\<rparr>)"
proof -
  let ?r = "demo_signed nonce" and ?cfg = "demo_auth AuthAgent ttl n" and ?env = "demo_auth_env sec"
  have fields: "rq_header ?r ''X-Ferrum-Agent-Id'' = Some ''a''" "rq_header ?r ''X-Ferrum-Timestamp'' = Some ''t''"
    "rq_header ?r ''X-Ferrum-Nonce'' = Some nonce" "rq_header ?r ''X-Ferrum-Body-Hash'' = Some ''null''"
    "rq_header ?r ''X-Ferrum-Signature'' = Some (replicate 64 CHR ''s'')" "read_body ?r = Some []"
    "required_scope_for_path (rq_method ?r) (rq_path ?r) = Some ''intent:submit''" "\<not> public_path (rq_path ?r)"
    by (simp_all add: demo_signed_def read_body_def required_scope_for_path_def Let_def public_path_def)
  have cfg: "ac_mode ?cfg = AuthAgent" "ac_parse_rfc3339 ?cfg ''t'' = Some (seconds 30)"
    "within_skew ?cfg (ae_now ?env 0) (seconds 30)" "body_hash ?cfg [] = ''null''"
    "ac_nonce_cache_max_entries ?cfg = n"
    using assms(1,2) by (auto simp: demo_auth_def within_skew_def demo_auth_env_def body_hash_def seconds_def Let_def)
  have env: "ae_rank ?env = (\<lambda>_. 0)" "ae_instant ?env = seconds sec" "\<not> ae_poisoned ?env"
    "\<not> ae_down ?env 0" "ae_others ?env 0 d = d" for d
    by (simp_all add: demo_auth_env_def)
  have st: "agent_get (as_db demo_auth_state) ''a'' = Some demo_agent" "ag_revoked_at demo_agent = None"
    "ag_allowed_scopes demo_agent = [''intent:submit'']"
    by (simp_all add: agent_get_def demo_auth_state_def demo_agent_def)
  have "verify_agent_request ?cfg ?env ?r (demo_auth_state\<lparr>as_nonces := c\<rparr>)
      = (Inr demo_actor, demo_auth_state\<lparr>as_nonces := c'\<rparr>)"
    unfolding verify_agent_request_def
    by (simp add: need_header_def some_or_def andthen_def ret_def ensure_def check_nonce_def auth_db_op_def Let_def
        map_err_def reads_def fields cfg env st assms demo_signature demo_actor_def)
  then show ?thesis using fields cfg by (simp add: auth_middleware_def agent_auth_def andthen_def attempt_def ret_def)
qed

text \<open>What the nonce cache answers on a sequence of nonces, and that the deployment admits
  what it answers \<open>True\<close> to.\<close>

lemma demo_cache:
  "check_and_insert (\<lambda>_. 0) 9 ''n'' (seconds 61) 0 [] = (True, [(''n'', 0)])"
  "check_and_insert (\<lambda>_. 0) 9 ''n'' (seconds 60) (seconds 60) [(''n'', 0)] = (True, [(''n'', seconds 60)])"
  by code_simp+

lemma demo_state_empty: "demo_auth_state = demo_auth_state\<lparr>as_nonces := []\<rparr>"
  by (simp add: demo_auth_state_def)

lemma demo_ttl: "nonce_ttl (demo_auth m 61 n) = seconds 61" "nonce_ttl (demo_auth m 0 n) = seconds 60"
  by (simp_all add: nonce_ttl_def demo_auth_def)

lemma demo_admitted:
  "auth_middleware (demo_auth AuthAgent 61 9) (demo_auth_env 0) (demo_signed ''n'') demo_auth_state
     = (Inr (Some demo_actor), demo_auth_state\<lparr>as_nonces := [(''n'', 0)]\<rparr>)"
  by (subst demo_state_empty, rule demo_fresh) (simp_all add: demo_ttl demo_cache seconds_def[of 0])


text \<open>The same request 59 seconds later, still within the skew of its timestamp, is refused.\<close>

lemma demo_served:
  "fst (serve (demo_auth AuthAgent 61 9) ((demo_auth_env 0, demo_signed ''n'') # rs) demo_auth_state) ! 0
     = Inr (Some demo_actor)"
  by (simp add: demo_admitted split: prod.splits)

theorem signed_request_admitted_once_witness:
  "\<exists>p. fst (serve (demo_auth AuthAgent 61 9) [(demo_auth_env 0, demo_signed ''n''), (demo_auth_env 5, demo_signed ''m''),
     (demo_auth_env 59, demo_signed ''n'')] demo_auth_state) ! 2 = Inl p"
  by (rule signed_request_admitted_once[OF _ _ _ _ _ _ _ _ _ _ _ _ _ _ demo_served, where slack = 0 and j = 2])
    (auto simp: demo_auth_def demo_auth_state_def demo_auth_env_def demo_signed_def public_path_def seconds_def
      nonce_ttl_def less_Suc_eq numeral_eq_Suc)

text \<open>The conditions are needed.  With the default time to live, which is exactly twice the
  skew, a request stamped 30 seconds ahead is admitted again 60 seconds later; and a full
  cache forgets a nonce before it expires.\<close>

lemma default_ttl_replay:
  "fst (serve (demo_auth AuthAgent 0 9) [(demo_auth_env 0, demo_signed ''n''), (demo_auth_env 60, demo_signed ''n'')]
     demo_auth_state) = [Inr (Some demo_actor), Inr (Some demo_actor)]"
proof -
  have "check_and_insert (\<lambda>_. 0) 9 ''n'' (seconds 60) (seconds 0) [] = (True, [(''n'', 0)])" by code_simp
  then have "auth_middleware (demo_auth AuthAgent 0 9) (demo_auth_env 0) (demo_signed ''n'') demo_auth_state
      = (Inr (Some demo_actor), demo_auth_state\<lparr>as_nonces := [(''n'', 0)]\<rparr>)"
    by (subst demo_state_empty, intro demo_fresh) (simp_all add: demo_ttl)
  moreover have "auth_middleware (demo_auth AuthAgent 0 9) (demo_auth_env 60) (demo_signed ''n'')
      (demo_auth_state\<lparr>as_nonces := [(''n'', 0)]\<rparr>)
      = (Inr (Some demo_actor), demo_auth_state\<lparr>as_nonces := [(''n'', seconds 60)]\<rparr>)"
    by (rule demo_fresh) (simp_all add: demo_ttl demo_cache)
  ultimately show ?thesis by simp
qed

lemma full_cache_forgets:
  "(\<exists>c. check_and_insert (\<lambda>_. 0) 2 ''n'' (seconds 61) (seconds 3)
     (snd (check_and_insert (\<lambda>_. 0) 2 ''k'' (seconds 61) (seconds 2)
       (snd (check_and_insert (\<lambda>_. 0) 2 ''m'' (seconds 61) (seconds 1) [(''n'', 0)])))) = (True, c))"
  by (rule exI[of _ "[(''k'', seconds 2), (''n'', seconds 3)]"]) code_simp

end
