(* ===== verification/Admin_Tokens.thy ===== *)
theory Admin_Tokens
  imports Auth_Safety
begin

text \<open>
  The administration of credentials: \<open>create_token\<close>, \<open>revoke_token\<close> and \<open>rotate_token\<close> of
  \<open>crates/ferrum-gateway/src/admin/tokens.rs\<close>, \<open>create_agent\<close> and \<open>revoke_agent\<close> of
  \<open>admin/agents.rs\<close>, and the inserts and updates they make in
  \<open>crates/ferrum-store/src/sqlite/tokens.rs\<close> and \<open>agents.rs\<close>.

  A handler runs after the middleware, with the actor the middleware attached.  Random
  draws are the 16 bytes of a UUID; its text without hyphens is their hexadecimal form.
  Metrics and response sanitising are left out.
\<close>

subsection \<open>The stores\<close>

definition token_insert :: "ScopedToken \<Rightarrow> (auth_db, StoreError, unit) proc" where
  "token_insert t = (\<lambda>d. if token_get d (tk_token_id t) \<noteq> None then (Inl SE_Database, d)
     else (Inr (), d\<lparr>ad_tokens := ad_tokens d @ [t]\<rparr>))"

definition token_revoke :: "timestamp \<Rightarrow> string \<Rightarrow> string option \<Rightarrow> (auth_db, StoreError, bool) proc" where
  "token_revoke now k reason = (\<lambda>d.
     (Inr (list_ex (\<lambda>t. tk_token_id t = k \<and> tk_revoked_at t = None) (ad_tokens d)),
      d\<lparr>ad_tokens := map (\<lambda>t. if tk_token_id t = k \<and> tk_revoked_at t = None
         then t\<lparr>tk_revoked_at := Some now, tk_revoked_reason := reason\<rparr> else t) (ad_tokens d)\<rparr>))"

definition get_by_fingerprint :: "auth_db \<Rightarrow> string \<Rightarrow> AgentRecord option" where
  "get_by_fingerprint d f = find (\<lambda>a. ag_key_fingerprint a = f) (ad_agents d)"

definition agent_insert :: "AgentRecord \<Rightarrow> (auth_db, StoreError, unit) proc" where
  "agent_insert a = (\<lambda>d.
     if agent_get d (ag_agent_id a) \<noteq> None \<or> get_by_fingerprint d (ag_key_fingerprint a) \<noteq> None
     then (Inl SE_Database, d) else (Inr (), d\<lparr>ad_agents := ad_agents d @ [a]\<rparr>))"

definition agent_revoke :: "timestamp \<Rightarrow> string \<Rightarrow> (auth_db, StoreError, bool) proc" where
  "agent_revoke now k = (\<lambda>d.
     (Inr (list_ex (\<lambda>a. ag_agent_id a = k \<and> ag_revoked_at a = None) (ad_agents d)),
      d\<lparr>ad_agents := map (\<lambda>a. if ag_agent_id a = k \<and> ag_revoked_at a = None
         then a\<lparr>ag_revoked_at := Some now\<rparr> else a) (ad_agents d)\<rparr>))"

subsection \<open>Shared pieces\<close>

definition append_checked ::
  "auth_config \<Rightarrow> auth_env \<Rightarrow> nat \<Rightarrow> string \<Rightarrow> AuditAction \<Rightarrow> AuditResourceType \<Rightarrow> string \<Rightarrow> string
    \<Rightarrow> json option \<Rightarrow> unit auth" where
  "append_checked cfg env n actor action rtype rid result metadata =
    andthen (attempt (append_audit cfg env n actor action rtype rid result metadata)) (\<lambda>res. case res of
      Inr _ \<Rightarrow> ret ()
    | Inl _ \<Rightarrow> ensure (\<not> ac_audit_fail_closed cfg)
        (problem 503 Internal ''audit append failed: action blocked by fail-closed policy''))"

definition or_500 :: "string \<Rightarrow> (auth_state, StoreError, 'a) proc \<Rightarrow> 'a auth" where
  "or_500 msg m = map_err (\<lambda>_. problem 500 Internal msg) m"

definition audit_actor :: "AuthActor option \<Rightarrow> string" where
  "audit_actor a = (case a of Some x \<Rightarrow> aa_actor_id x | None \<Rightarrow> ''unknown'')"

definition generate_token_value :: "auth_config \<Rightarrow> auth_env \<Rightarrow> string" where
  "generate_token_value cfg env =
    ''fgt_'' @ ac_base64url_encode cfg (ae_draw env 0 @ ae_draw env 1 @ ae_draw env 2)"

definition generate_token_salt :: "auth_env \<Rightarrow> string" where
  "generate_token_salt env = hex_encode (ae_draw env 3)"

definition new_token_id :: "auth_env \<Rightarrow> string" where
  "new_token_id env = ''tok_'' @ hex_encode (ae_draw env 4)"

definition max_ttl :: timestamp where
  "max_ttl = seconds (90 * 24 * 3600)"

definition role_debug :: "TokenRole \<Rightarrow> string" where
  "role_debug r = (case r of Role_Admin \<Rightarrow> ''Admin'' | Role_Operator \<Rightarrow> ''Operator''
     | Role_PolicyAuthor \<Rightarrow> ''PolicyAuthor'' | Role_Auditor \<Rightarrow> ''Auditor'' | Role_Agent \<Rightarrow> ''Agent''
     | Role_ReadOnly \<Rightarrow> ''ReadOnly'')"

definition json_opt :: "string option \<Rightarrow> json" where
  "json_opt x = (case x of Some s \<Rightarrow> JStr s | None \<Rightarrow> JNull)"

text \<open>The checks on the issuer that \<open>create_token\<close> and \<open>rotate_token\<close> share.\<close>

definition caller :: "AuthActor option \<Rightarrow> AuthActor auth" where
  "caller actor = some_or actor
     (problem 403 Forbidden ''caller identity and scopes could not be established'')"

definition may_issue :: "AuthActor \<Rightarrow> TokenRole \<Rightarrow> string list \<Rightarrow> string \<Rightarrow> unit auth" where
  "may_issue issuer role scopes denied =
    andthen (ensure (\<not> (role = Role_Admin \<and> \<not> list_ex (\<lambda>s. s = ''*'') (aa_scopes issuer)))
      (problem 403 Forbidden denied)) (\<lambda>_.
    of_result (check_scope_attenuation issuer scopes))"

subsection \<open>admin/tokens.rs\<close>

record CreateTokenRequest =
  ct_actor_id :: string
  ct_role :: TokenRole
  ct_scopes :: "string list option"
  ct_description :: "string option"
  ct_expires_at :: timestamp

definition create_token ::
  "auth_config \<Rightarrow> auth_env \<Rightarrow> AuthActor option \<Rightarrow> CreateTokenRequest \<Rightarrow> (ScopedToken \<times> string) auth" where
  "create_token cfg env actor req =
    andthen (ensure (\<not> ae_now env 2 + max_ttl < ct_expires_at req)
      (problem 400 ValidationError ''expires_at exceeds maximum TTL of 90 days'')) (\<lambda>_.
    andthen (caller actor) (\<lambda>issuer.
    let scopes = unwrap_or (ct_scopes req) (default_scopes (ct_role req)) in
    andthen (may_issue issuer (ct_role req) scopes ''Admin role issuance requires issuer wildcard authority'') (\<lambda>_.
    let token_value = generate_token_value cfg env; salt = generate_token_salt env;
        t = \<lparr>tk_token_id = new_token_id env, tk_actor_id = ct_actor_id req, tk_role = ct_role req,
             tk_scopes = scopes, tk_description = ct_description req, tk_expires_at = ct_expires_at req,
             tk_created_at = ae_now env 3, tk_last_used_at = None, tk_revoked_at = None,
             tk_revoked_reason = None, tk_rotated_from = None,
             tk_token_lookup_hash = hash_token_value cfg token_value,
             tk_token_hash = hash_token_with_salt cfg token_value salt, tk_token_salt = salt\<rparr> in
    andthen (or_500 ''failed to create token'' (auth_db_op env 3 (token_insert t))) (\<lambda>_.
    andthen (append_checked cfg env 4 (tk_actor_id t) TokenCreate RtToken (tk_token_id t) ''success''
      (Some (JObj [(''issuer'', JStr (aa_actor_id issuer)), (''role'', JStr (role_debug (ct_role req)))]))) (\<lambda>_.
    ret (t, token_value))))))"

definition revoke_token ::
  "auth_config \<Rightarrow> auth_env \<Rightarrow> AuthActor option \<Rightarrow> string \<Rightarrow> string option \<Rightarrow> unit auth" where
  "revoke_token cfg env actor k reason =
    andthen (or_500 ''failed to revoke token'' (auth_db_op env 2 (token_revoke (ae_now env 2) k reason))) (\<lambda>changed.
    andthen (ensure changed (problem 404 NotFound ''token not found or already revoked'')) (\<lambda>_.
    append_checked cfg env 3 (audit_actor actor) TokenRevoke RtToken k ''success''
      (Some (JObj [(''reason'', json_opt reason)]))))"

definition rotate_token ::
  "auth_config \<Rightarrow> auth_env \<Rightarrow> AuthActor option \<Rightarrow> string \<Rightarrow> timestamp option \<Rightarrow> string option
    \<Rightarrow> (ScopedToken \<times> string) auth" where
  "rotate_token cfg env actor k requested reason =
    andthen (or_500 ''failed to rotate token'' (auth_db_op env 2 (reads (\<lambda>d. token_get d k)))) (\<lambda>found.
    andthen (some_or found (problem 404 NotFound ''token not found'')) (\<lambda>old.
    andthen (ensure (\<not> (tk_revoked_at old \<noteq> None \<or> tk_expires_at old < ae_now env 2))
      (problem 409 ValidationError ''token is already revoked or expired'')) (\<lambda>_.
    let expires = unwrap_or requested (ae_now env 3 + max_ttl) in
    andthen (ensure (\<not> (case requested of Some e \<Rightarrow> ae_now env 3 + max_ttl < e | None \<Rightarrow> False))
      (problem 400 ValidationError ''expires_at exceeds maximum TTL of 90 days'')) (\<lambda>_.
    andthen (caller actor) (\<lambda>issuer.
    andthen (may_issue issuer (tk_role old) (tk_scopes old)
      ''Admin role token rotation requires issuer wildcard authority'') (\<lambda>_.
    andthen (attempt (auth_db_op env 4 (token_revoke (ae_now env 4) k reason))) (\<lambda>_.
    let token_value = generate_token_value cfg env; salt = generate_token_salt env;
        t = \<lparr>tk_token_id = new_token_id env, tk_actor_id = tk_actor_id old, tk_role = tk_role old,
             tk_scopes = tk_scopes old, tk_description = tk_description old, tk_expires_at = expires,
             tk_created_at = ae_now env 5, tk_last_used_at = None, tk_revoked_at = None,
             tk_revoked_reason = None, tk_rotated_from = Some k,
             tk_token_lookup_hash = hash_token_value cfg token_value,
             tk_token_hash = hash_token_with_salt cfg token_value salt, tk_token_salt = salt\<rparr> in
    andthen (or_500 ''failed to rotate token'' (auth_db_op env 5 (token_insert t))) (\<lambda>_.
    andthen (append_checked cfg env 6 (tk_actor_id t) TokenRotate RtToken (tk_token_id t) ''success''
      (Some (JObj [(''issuer'', JStr (aa_actor_id issuer)), (''old_token_id'', JStr k), (''reason'', json_opt reason)]))) (\<lambda>_.
    ret (t, token_value))))))))))"

subsection \<open>admin/agents.rs\<close>

record RegisterAgentRequest =
  ra_agent_id :: string
  ra_public_key :: string
  ra_scopes :: "string list option"
  ra_description :: "string option"

definition agent_default_scopes :: "string list" where
  "agent_default_scopes = [''intent:submit'', ''proposal:evaluate'', ''capability:mint'', ''execution:authorize'',
     ''execution:prepare'', ''execution:execute'', ''execution:verify'', ''execution:compensate'']"

definition create_agent ::
  "auth_config \<Rightarrow> auth_env \<Rightarrow> AuthActor option \<Rightarrow> RegisterAgentRequest \<Rightarrow> AgentRecord auth" where
  "create_agent cfg env actor req =
    andthen (some_or (sg_base64_decode (ac_signing cfg) (ra_public_key req))
      (problem 400 ValidationError ''invalid public_key: must be valid base64'')) (\<lambda>pk.
    andthen (ensure (length pk = 32)
      (problem 400 ValidationError ''invalid public_key: must decode to 32 bytes'')) (\<lambda>_.
    let fingerprint = ac_base64url_encode cfg (sha256 (ac_codec cfg) pk);
        scopes = unwrap_or (ra_scopes req) agent_default_scopes in
    andthen (caller actor) (\<lambda>issuer.
    andthen (of_result (check_scope_attenuation issuer scopes)) (\<lambda>_.
    andthen (or_500 ''failed to register agent'' (auth_db_op env 2 (reads (\<lambda>d. agent_get d (ra_agent_id req))))) (\<lambda>dup.
    andthen (ensure (dup = None)
      (problem 409 Conflict (''agent_id '' @ quoted (ra_agent_id req) @ '' already exists''))) (\<lambda>_.
    andthen (or_500 ''failed to register agent'' (auth_db_op env 3 (reads (\<lambda>d. get_by_fingerprint d fingerprint)))) (\<lambda>existing.
    andthen (case existing of
        Some g \<Rightarrow> raise (problem 409 Conflict (''public_key already registered for agent '' @ quoted (ag_agent_id g)))
      | None \<Rightarrow> ret ()) (\<lambda>_.
    let agent = \<lparr>ag_agent_id = ra_agent_id req, ag_public_key = ra_public_key req, ag_key_fingerprint = fingerprint,
                 ag_allowed_scopes = scopes, ag_created_at = ae_now env 4, ag_revoked_at = None,
                 ag_description = ra_description req\<rparr> in
    andthen (or_500 ''failed to register agent'' (auth_db_op env 4 (agent_insert agent))) (\<lambda>_.
    andthen (append_checked cfg env 5 (ra_agent_id req) AgentRegister RtAgent (ra_agent_id req) ''success''
      (Some (JObj [(''fingerprint'', JStr fingerprint), (''issuer'', JStr (aa_actor_id issuer))]))) (\<lambda>_.
    ret agent))))))))))"

definition revoke_agent ::
  "auth_config \<Rightarrow> auth_env \<Rightarrow> AuthActor option \<Rightarrow> string \<Rightarrow> string option \<Rightarrow> unit auth" where
  "revoke_agent cfg env actor k reason =
    andthen (or_500 ''failed to revoke agent'' (auth_db_op env 2 (agent_revoke (ae_now env 2) k))) (\<lambda>changed.
    andthen (ensure changed (problem 404 NotFound ''agent not found or already revoked'')) (\<lambda>_.
    append_checked cfg env 3 (audit_actor actor) AgentRevoke RtAgent k ''success''
      (Some (JObj [(''reason'', json_opt reason)]))))"

subsection \<open>No credential grants more than those before it\<close>

text \<open>An administrative request: the middleware, then the handler of its route.\<close>

datatype admin_call =
    CreateTokenCall CreateTokenRequest
  | RevokeTokenCall string "string option"
  | RotateTokenCall string "timestamp option" "string option"
  | CreateAgentCall RegisterAgentRequest
  | RevokeAgentCall string "string option"

definition dispatch :: "auth_config \<Rightarrow> auth_env \<Rightarrow> AuthActor option \<Rightarrow> admin_call \<Rightarrow> unit auth" where
  "dispatch cfg env actor call = (case call of
     CreateTokenCall req \<Rightarrow> andthen (create_token cfg env actor req) (\<lambda>_. ret ())
   | RevokeTokenCall k reason \<Rightarrow> revoke_token cfg env actor k reason
   | RotateTokenCall k expires reason \<Rightarrow> andthen (rotate_token cfg env actor k expires reason) (\<lambda>_. ret ())
   | CreateAgentCall req \<Rightarrow> andthen (create_agent cfg env actor req) (\<lambda>_. ret ())
   | RevokeAgentCall k reason \<Rightarrow> revoke_agent cfg env actor k reason)"

definition admin_request :: "auth_config \<Rightarrow> auth_env \<Rightarrow> http_request \<Rightarrow> admin_call \<Rightarrow> unit auth" where
  "admin_request cfg env r call = andthen (auth_middleware cfg env r) (\<lambda>actor. dispatch cfg env actor call)"

fun admin_run ::
  "auth_config \<Rightarrow> (auth_env \<times> http_request \<times> admin_call) list \<Rightarrow> auth_state \<Rightarrow> auth_state" where
  "admin_run cfg [] s = s"
| "admin_run cfg ((env, r, call) # reqs) s = admin_run cfg reqs (snd (admin_request cfg env r call s))"

text \<open>The scopes that some row of the token and agent tables grants, revoked rows included: a
  request that was admitted before a revocation may still insert its row after it.\<close>

definition authority :: "auth_db \<Rightarrow> string set" where
  "authority d = (\<Union>t \<in> set (ad_tokens d). grants (tk_scopes t)) \<union>
     (\<Union>a \<in> set (ad_agents d). grants (ag_allowed_scopes a))"

lemma grants_token: "t \<in> set (ad_tokens d) \<Longrightarrow> grants (tk_scopes t) \<subseteq> authority d"
  by (auto simp: authority_def)

lemma grants_agent: "a \<in> set (ad_agents d) \<Longrightarrow> grants (ag_allowed_scopes a) \<subseteq> authority d"
  by (auto simp: authority_def)

text \<open>What the other requests do between two calls of this one adds no authority: they are
  requests of the same kind.\<close>

definition others_bounded :: "auth_env \<Rightarrow> bool" where
  "others_bounded env \<longleftrightarrow> (\<forall>n d. authority (ae_others env n d) \<subseteq> authority d)"

definition stays_within :: "string set \<Rightarrow> auth_state \<Rightarrow> auth_state \<Rightarrow> bool" where
  "stays_within A s s' \<longleftrightarrow> (authority (as_db s) \<subseteq> A \<longrightarrow> authority (as_db s') \<subseteq> A)"

interpretation within_frame: state_preorder "stays_within A" for A
  by unfold_locales (auto simp: stays_within_def)

context state_preorder
begin

text \<open>Sequencing where the second part relies on what the first one returned.\<close>

lemma along_then:
  assumes "along R m" and "\<And>x s s'. m s = (Inr x, s') \<Longrightarrow> along R (f x)"
  shows "along R (andthen m f)"
proof -
  have "R s (snd (andthen m f s))" for s
  proof (cases "m s")
    case (Pair r s')
    have "R s s'" using assms(1) Pair by (metis along_def snd_conv)
    then show ?thesis
      using assms(2) Pair R_trans by (cases r) (auto simp: andthen_def along_def)
  qed
  then show ?thesis by (simp add: along_def)
qed

end

lemma within_op:
  assumes "others_bounded env" "\<And>d. authority d \<subseteq> A \<Longrightarrow> authority (snd (m d)) \<subseteq> A"
  shows "along (stays_within A) (auth_db_op env n m)"
proof -
  have "authority (ae_others env n d) \<subseteq> A" if "authority d \<subseteq> A" for d
    using assms(1) that by (auto simp: others_bounded_def)
  then show ?thesis
    using assms(2) by (fastforce simp: along_def auth_db_op_def stays_within_def Let_def split: prod.splits)
qed

lemma within_reads: "others_bounded env \<Longrightarrow> along (stays_within A) (auth_db_op env n (reads f))"
  by (rule within_op) (simp_all add: reads_def)

lemma within_append_audit: "others_bounded env \<Longrightarrow> along (stays_within A) (append_audit cfg env n a b c d e m)"
  unfolding append_audit_def by (rule within_op) (simp_all add: modifies_def authority_def)

lemma within_token_insert:
  "others_bounded env \<Longrightarrow> grants (tk_scopes t) \<subseteq> A \<Longrightarrow> along (stays_within A) (auth_db_op env n (token_insert t))"
  by (rule within_op) (auto simp: token_insert_def authority_def)

lemma within_agent_insert:
  "others_bounded env \<Longrightarrow> grants (ag_allowed_scopes a) \<subseteq> A \<Longrightarrow> along (stays_within A) (auth_db_op env n (agent_insert a))"
  by (rule within_op) (auto simp: agent_insert_def authority_def)

lemma within_token_revoke: "others_bounded env \<Longrightarrow> along (stays_within A) (auth_db_op env n (token_revoke now k reason))"
  by (rule within_op) (auto simp: token_revoke_def authority_def split: if_splits)

lemma within_agent_revoke: "others_bounded env \<Longrightarrow> along (stays_within A) (auth_db_op env n (agent_revoke now k))"
  by (rule within_op) (auto simp: agent_revoke_def authority_def split: if_splits)

lemma within_append_checked [preserves_intros]:
  "others_bounded env \<Longrightarrow> along (stays_within A) (append_checked cfg env n a b c d e m)"
  unfolding append_checked_def by (intro preserves_intros within_append_audit)

lemma within_note_failure [preserves_intros]:
  "others_bounded env \<Longrightarrow> along (stays_within A) (note_failure cfg env n a b c d)"
  unfolding note_failure_def by (intro preserves_intros within_append_audit)

lemma within_or_500 [preserves_intros]: "along (stays_within A) m \<Longrightarrow> along (stays_within A) (or_500 msg m)"
  unfolding or_500_def by (rule within_frame.along_map_err)

lemma within_frame_only:
  "(\<And>s. as_db (snd (m s)) = as_db s) \<Longrightarrow> along (stays_within A) m"
  by (simp add: along_def stays_within_def)

lemma may_issue_Inr: "may_issue issuer role scopes msg s = (Inr u, s') \<Longrightarrow> grants scopes \<subseteq> grants (aa_scopes issuer)"
  by (auto simp: may_issue_def proc_Inr simp flip: attenuation_iff)

lemma caller_Inr: "caller actor s = (Inr a, s') \<Longrightarrow> actor = Some a"
  by (simp add: caller_def proc_Inr)

lemma within_issue [preserves_intros]: "along (stays_within A) (may_issue issuer role scopes msg)"
  unfolding may_issue_def by (intro preserves_intros)

lemma within_caller [preserves_intros]: "along (stays_within A) (caller actor)"
  unfolding caller_def by (intro preserves_intros)

text \<open>The scopes of the caller are within \<open>A\<close>.\<close>

definition actor_within :: "string set \<Rightarrow> AuthActor option \<Rightarrow> bool" where
  "actor_within A actor \<longleftrightarrow> (\<forall>a. actor = Some a \<longrightarrow> grants (aa_scopes a) \<subseteq> A)"

lemma create_token_within:
  assumes "others_bounded env" "actor_within A actor"
  shows "along (stays_within A) (create_token cfg env actor req)"
  unfolding create_token_def Let_def
  apply (rule within_frame.along_then, intro preserves_intros)
  apply (rule within_frame.along_then, intro preserves_intros)
  apply (drule caller_Inr)
  apply (rule within_frame.along_then, intro preserves_intros)
  apply (drule may_issue_Inr)
  apply (rule within_frame.along_then)
   apply (rule within_or_500, rule within_token_insert[OF assms(1)])
   apply (use assms(2) in \<open>force simp: actor_within_def\<close>)
  apply (intro preserves_intros assms(1))
  done

lemma rotate_token_within:
  assumes "others_bounded env" "actor_within A actor"
  shows "along (stays_within A) (rotate_token cfg env actor k expires reason)"
  unfolding rotate_token_def Let_def
  apply (rule within_frame.along_then, intro preserves_intros within_reads assms(1))
  apply (rule within_frame.along_then, intro preserves_intros)
  apply (rule within_frame.along_then, intro preserves_intros)
  apply (rule within_frame.along_then, intro preserves_intros)
  apply (rule within_frame.along_then, intro preserves_intros)
  apply (drule caller_Inr)
  apply (rule within_frame.along_then, intro preserves_intros)
  apply (drule may_issue_Inr)
  apply (rule within_frame.along_then, intro preserves_intros within_token_revoke assms(1))
  apply (rule within_frame.along_then)
   apply (rule within_or_500, rule within_token_insert[OF assms(1)])
   apply (use assms(2) in \<open>force simp: actor_within_def\<close>)
  apply (intro preserves_intros assms(1))
  done

lemma create_agent_within:
  assumes "others_bounded env" "actor_within A actor"
  shows "along (stays_within A) (create_agent cfg env actor req)"
  unfolding create_agent_def Let_def
  apply (rule within_frame.along_then, intro preserves_intros)
  apply (rule within_frame.along_then, intro preserves_intros)
  apply (rule within_frame.along_then, intro preserves_intros)
  apply (drule caller_Inr)
  apply (rule within_frame.along_then, intro preserves_intros)
  apply (rule within_frame.along_then, intro preserves_intros within_reads assms(1))
  apply (rule within_frame.along_then, intro preserves_intros)
  apply (rule within_frame.along_then, intro preserves_intros within_reads assms(1))
  apply (rule within_frame.along_then, intro preserves_intros)
  apply (rule within_frame.along_then)
   apply (rule within_or_500, rule within_agent_insert[OF assms(1)])
   apply (use assms(2) in \<open>force simp: actor_within_def proc_Inr attenuation_iff\<close>)
  apply (intro preserves_intros assms(1))
  done

lemma revoke_within:
  assumes "others_bounded env"
  shows "along (stays_within A) (revoke_token cfg env actor k reason)"
    "along (stays_within A) (revoke_agent cfg env actor k reason)"
  unfolding revoke_token_def revoke_agent_def
  by (intro preserves_intros within_token_revoke within_agent_revoke assms)+

lemma dispatch_within:
  assumes "others_bounded env" "actor_within A actor"
  shows "along (stays_within A) (dispatch cfg env actor call)"
  using assms by (cases call)
    (auto simp: dispatch_def intro!: within_frame.along_andthen within_frame.along_ret
      create_token_within rotate_token_within create_agent_within revoke_within)

lemma within_check_nonce: "along (stays_within A) (check_nonce cfg env nonce)"
  by (rule within_frame_only) (simp add: check_nonce_def raise_def split: prod.split bool.split)

lemma verify_within:
  assumes "others_bounded env"
  shows "along (stays_within A) (verify_agent_request cfg env r)"
  unfolding verify_agent_request_def need_header_def
  by (intro preserves_intros within_check_nonce within_reads assms)

lemma middleware_within:
  assumes "others_bounded env" "ac_mode cfg \<in> {AuthScoped, AuthAgent}"
  shows "along (stays_within A) (auth_middleware cfg env r)"
proof -
  have "along (stays_within A) (scoped_auth cfg env r)"
    unfolding scoped_auth_def scope_guard_def
    by (intro preserves_intros within_reads assms(1)) (rule within_frame_only, simp add: modifies_def)
  moreover have "along (stays_within A) (agent_auth cfg env r)"
    unfolding agent_auth_def
    apply (intro within_frame.along_andthen within_frame.along_attempt verify_within[OF assms(1)])
    apply (intro preserves_intros)
    apply (simp split: AgentAuthError.split)
    apply (intro conjI allI impI preserves_intros assms(1))
    done
  ultimately show ?thesis
    using assms(2) within_frame.along_ret by (auto simp: auth_middleware_def)
qed

lemma admitted_within:
  assumes "auth_middleware cfg env r s = (Inr actor, s1)" "ac_mode cfg \<in> {AuthScoped, AuthAgent}"
    and "others_bounded env" "authority (as_db s) \<subseteq> A"
  shows "actor_within A actor"
proof (cases "public_path (rq_path r)")
  case True
  then show ?thesis using assms(1) by (simp add: auth_middleware_def ret_def actor_within_def)
next
  case False
  have "authority (ae_others env 0 (as_db s)) \<subseteq> A"
    using assms(3,4) by (auto simp: others_bounded_def)
  moreover obtain a where "actor = Some a"
    "(\<exists>t \<in> set (ad_tokens (ae_others env 0 (as_db s))). aa_scopes a = tk_scopes t) \<or>
     (\<exists>g \<in> set (ad_agents (ae_others env 0 (as_db s))). aa_scopes a = ag_allowed_scopes g)"
    using assms(2)
  proof (elim insertE)
    assume m: "ac_mode cfg = AuthScoped"
    then show ?thesis using scoped_auth_Inr[of cfg env r s actor s1] assms(1) False that
      by (fastforce simp: auth_middleware_def scoped_credential_def)
  next
    assume m: "ac_mode cfg = AuthAgent"
    then have "agent_auth cfg env r s = (Inr actor, s1)" using assms(1) False by (simp add: auth_middleware_def)
    then obtain a where a: "actor = Some a" "verify_agent_request cfg env r s = (Inr a, s1)"
      by (rule agent_auth_Inr)
    show ?thesis by (rule verify_agent_Inr[OF a(2)]) (use a(1) that in \<open>auto simp: agent_credential_def\<close>)
  qed simp
  ultimately show ?thesis using grants_token grants_agent by (fastforce simp: actor_within_def)
qed

lemma admin_request_within:
  assumes "ac_mode cfg \<in> {AuthScoped, AuthAgent}" "others_bounded env"
  shows "authority (as_db (snd (admin_request cfg env r call s))) \<subseteq> authority (as_db s)"
proof (cases "auth_middleware cfg env r s")
  case (Pair res s1)
  let ?A = "authority (as_db s)"
  have s1: "authority (as_db s1) \<subseteq> ?A"
    using middleware_within[OF assms(2,1), of ?A r] Pair unfolding along_def stays_within_def
    by (metis order_refl snd_conv)
  show ?thesis
  proof (cases res)
    case (Inr actor)
    have "along (stays_within ?A) (dispatch cfg env actor call)"
      using dispatch_within[OF assms(2)] admitted_within[OF _ assms(1,2) order_refl] Pair Inr by blast
    then show ?thesis
      using s1 Pair Inr by (simp add: admin_request_def andthen_def along_def stays_within_def)
  qed (use s1 Pair in \<open>simp add: admin_request_def andthen_def\<close>)
qed


definition demo_register :: RegisterAgentRequest where
  "demo_register = \<lparr>ra_agent_id = ''b'', ra_public_key = replicate 32 CHR ''q'',
     ra_scopes = Some [''intent:submit''], ra_description = None\<rparr>"

lemma demo_registered:
  "map ag_agent_id (ad_agents (as_db (snd (create_agent (demo_auth AuthAgent 61 9) (demo_auth_env 0) (Some demo_actor)
     demo_register (demo_auth_state\<lparr>as_nonces := c\<rparr>))))) = [''a'', ''b'']"
  by (simp add: create_agent_def Let_def andthen_def some_or_def ensure_def ret_def raise_def of_result_def
      caller_def or_500_def map_err_def auth_db_op_def reads_def append_checked_def append_audit_def modifies_def
      attempt_def agent_get_def get_by_fingerprint_def agent_insert_def check_scope_attenuation_def
      demo_register_def demo_actor_def demo_auth_state_def demo_auth_env_def demo_agent_def demo_auth_def
      demo_signing_def demo_codec_def numeral_eq_Suc)

lemma demo_env_bounded: "others_bounded (demo_auth_env n)"
  by (simp add: others_bounded_def demo_auth_env_def)


subsection \<open>Tokens\<close>

text \<open>The token that a successful creation or rotation returns: what it inherits, that its
  value authenticates, and how long it lives.\<close>

lemma create_token_Inr:
  assumes "create_token cfg env actor req s = (Inr (t, v), s')"
  shows "tk_expires_at t \<le> ae_now env 2 + max_ttl" "tk_actor_id t = ct_actor_id req" "tk_role t = ct_role req"
    "tk_revoked_at t = None" "tk_token_lookup_hash t = hash_token_value cfg v"
    "tk_token_hash t = hash_token_with_salt cfg v (tk_token_salt t)"
    "\<exists>issuer. actor = Some issuer \<and> grants (tk_scopes t) \<subseteq> grants (aa_scopes issuer)"
  using assms unfolding create_token_def Let_def
  by (auto simp: proc_Inr or_500_def dest!: caller_Inr may_issue_Inr)

lemma rotate_token_Inr:
  assumes "rotate_token cfg env actor k expires reason s = (Inr (t, v), s')"
  shows "tk_expires_at t \<le> ae_now env 3 + max_ttl" "tk_rotated_from t = Some k" "tk_revoked_at t = None"
    "tk_token_lookup_hash t = hash_token_value cfg v"
    "tk_token_hash t = hash_token_with_salt cfg v (tk_token_salt t)"
    "\<exists>old. token_get (ae_others env 2 (as_db s)) k = Some old \<and> tk_revoked_at old = None \<and>
       tk_actor_id t = tk_actor_id old \<and> tk_role t = tk_role old \<and> tk_scopes t = tk_scopes old"
  using assms unfolding rotate_token_def Let_def
  by (auto simp: proc_Inr or_500_def split: option.splits)

subsection \<open>Revocation is final\<close>

text \<open>Rows of the token table are appended and updated in place; an update keeps the
  identity, the secret hashes and a revocation.\<close>

definition same_token :: "ScopedToken \<Rightarrow> ScopedToken \<Rightarrow> bool" where
  "same_token t t' \<longleftrightarrow> tk_token_id t' = tk_token_id t \<and> tk_token_lookup_hash t' = tk_token_lookup_hash t \<and>
     (tk_revoked_at t \<noteq> None \<longrightarrow> tk_revoked_at t' \<noteq> None)"

definition rows_kept :: "auth_db \<Rightarrow> auth_db \<Rightarrow> bool" where
  "rows_kept d d' \<longleftrightarrow> (\<exists>ts new. ad_tokens d' = ts @ new \<and> list_all2 same_token (ad_tokens d) ts)"

lemma same_token_refl [simp]: "same_token t t"
  by (simp add: same_token_def)

lemma rows_keptI: "list_all2 same_token (ad_tokens d) ts \<Longrightarrow> ad_tokens d' = ts @ new \<Longrightarrow> rows_kept d d'"
  by (auto simp: rows_kept_def)

lemma rows_kept_same [simp]: "ad_tokens d' = ad_tokens d \<Longrightarrow> rows_kept d d'"
  by (rule rows_keptI[where new = "[]"]) (simp_all add: list_all2_refl)

lemma rows_kept_trans: "rows_kept a b \<Longrightarrow> rows_kept b c \<Longrightarrow> rows_kept a c"
proof -
  assume "rows_kept a b" "rows_kept b c"
  then obtain ts new us rest where h: "ad_tokens b = ts @ new" "list_all2 same_token (ad_tokens a) ts"
    "ad_tokens c = us @ rest" "list_all2 same_token (ts @ new) us"
    by (auto simp: rows_kept_def)
  then obtain us1 us2 where us: "us = us1 @ us2" "list_all2 same_token ts us1"
    by (auto simp: list_all2_append1)
  have "list_all2 same_token (ad_tokens a) us1"
    by (rule list_all2_trans[OF _ h(2) us(2)]) (auto simp: same_token_def)
  then show ?thesis using h us by (auto simp: rows_kept_def)
qed

lemma find_same_token:
  assumes "list_all2 same_token ts us" "find (\<lambda>t. tk_token_lookup_hash t = h) ts = Some t"
  shows "\<exists>t'. find (\<lambda>t. tk_token_lookup_hash t = h) us = Some t' \<and> same_token t t'"
  using assms by (induction rule: list_all2_induct) (auto simp: same_token_def split: if_splits)

lemma rows_kept_lookup:
  assumes "rows_kept d d'" "get_by_lookup_hash d h = Some t"
  shows "\<exists>t'. get_by_lookup_hash d' h = Some t' \<and> same_token t t'"
  using assms find_same_token unfolding rows_kept_def get_by_lookup_hash_def
  by (fastforce simp: find_append)

definition keeps_rows :: "auth_state \<Rightarrow> auth_state \<Rightarrow> bool" where
  "keeps_rows s s' \<longleftrightarrow> rows_kept (as_db s) (as_db s')"

interpretation rows_frame: state_preorder keeps_rows
  by unfold_locales (auto simp: keeps_rows_def intro: rows_kept_trans)

text \<open>The other requests keep the rows too.\<close>

definition others_keep_rows :: "auth_env \<Rightarrow> bool" where
  "others_keep_rows env \<longleftrightarrow> (\<forall>n d. rows_kept d (ae_others env n d))"

lemma keeps_op:
  assumes "others_keep_rows env" "\<And>d. rows_kept d (snd (m d))"
  shows "along keeps_rows (auth_db_op env n m)"
proof -
  have "rows_kept d (snd (m (ae_others env n d)))" for d
    using assms rows_kept_trans unfolding others_keep_rows_def by blast
  then show ?thesis
    using assms(1) by (auto simp: along_def auth_db_op_def keeps_rows_def Let_def others_keep_rows_def split: prod.splits)
      (metis snd_conv)
qed

lemma rows_kept_map:
  "(\<And>t. same_token t (f t)) \<Longrightarrow> rows_kept d (d\<lparr>ad_tokens := map f (ad_tokens d)\<rparr>)"
  by (rule rows_keptI[where new = "[]" and ts = "map f (ad_tokens d)"]) (simp_all add: list_all2_map2 list_all2_refl)

lemma keeps_ops [preserves_intros]:
  assumes "others_keep_rows env"
  shows "along keeps_rows (auth_db_op env n (reads f))" "along keeps_rows (auth_db_op env n (token_insert t))"
    "along keeps_rows (auth_db_op env n (token_revoke now k reason))" "along keeps_rows (auth_db_op env n (agent_insert a))"
    "along keeps_rows (auth_db_op env n (agent_revoke now k))" "along keeps_rows (append_audit cfg env n b c d e g h)"
proof -
  have "rows_kept d (snd (token_insert t d))" for d
    by (auto simp: token_insert_def list_all2_refl intro: rows_keptI[where ts = "ad_tokens d"])
  then show "along keeps_rows (auth_db_op env n (token_insert t))" by (rule keeps_op[OF assms])
  have "rows_kept d (snd (token_revoke now k reason d))" for d
    unfolding token_revoke_def snd_conv by (rule rows_kept_map) (simp add: same_token_def)
  then show "along keeps_rows (auth_db_op env n (token_revoke now k reason))" by (rule keeps_op[OF assms])
  show "along keeps_rows (append_audit cfg env n b c d e g h)"
    unfolding append_audit_def by (rule keeps_op[OF assms]) (simp add: modifies_def)
qed (rule keeps_op[OF assms], simp add: reads_def agent_insert_def agent_revoke_def)+

lemma keeps_append_checked [preserves_intros]:
  "others_keep_rows env \<Longrightarrow> along keeps_rows (append_checked cfg env n a b c d e m)"
  unfolding append_checked_def by (intro preserves_intros)

lemma keeps_note_failure [preserves_intros]:
  "others_keep_rows env \<Longrightarrow> along keeps_rows (note_failure cfg env n a b c d)"
  unfolding note_failure_def by (intro preserves_intros)

lemma keeps_or_500 [preserves_intros]: "along keeps_rows m \<Longrightarrow> along keeps_rows (or_500 msg m)"
  unfolding or_500_def by (rule rows_frame.along_map_err)

lemma keeps_same_db: "(\<And>s. as_db (snd (m s)) = as_db s) \<Longrightarrow> along keeps_rows m"
  by (simp add: along_def keeps_rows_def)

lemma keeps_handlers:
  assumes "others_keep_rows env"
  shows "along keeps_rows (dispatch cfg env actor call)"
  unfolding dispatch_def create_token_def rotate_token_def create_agent_def revoke_token_def revoke_agent_def
    may_issue_def caller_def Let_def
  by (cases call; simp only: admin_call.case; intro preserves_intros assms)

lemma keeps_middleware:
  assumes "others_keep_rows env"
  shows "along keeps_rows (auth_middleware cfg env r)"
proof -
  have nonce: "along keeps_rows (check_nonce cfg env nonce)" for nonce
    by (rule keeps_same_db) (simp add: check_nonce_def raise_def split: prod.split bool.split)
  have "along keeps_rows (bearer_auth cfg r)" unfolding bearer_auth_def by (intro preserves_intros)
  moreover have "along keeps_rows (scoped_auth cfg env r)"
    unfolding scoped_auth_def scope_guard_def
    by (intro preserves_intros assms) (rule keeps_same_db, simp add: modifies_def)
  moreover have "along keeps_rows (agent_auth cfg env r)"
    unfolding agent_auth_def verify_agent_request_def need_header_def
    apply (intro preserves_intros nonce assms)
    apply (simp split: AgentAuthError.split)
    apply (intro conjI allI impI preserves_intros assms)
    done
  moreover have "along keeps_rows (oidc_auth cfg env r)"
  proof -
    have fail: "rows_kept (as_db s) (as_db (snd (andthen (note_failure cfg env n act rid res msg)
        (\<lambda>_. raise p :: AuthActor option auth) (s\<lparr>as_jwks := c\<rparr>))))" for n act rid res msg p s c
    proof -
      have "along keeps_rows (andthen (note_failure cfg env n act rid res msg) (\<lambda>_. raise p :: AuthActor option auth))"
        by (intro preserves_intros assms)
      from this[unfolded along_def, rule_format, of "s\<lparr>as_jwks := c\<rparr>"] show ?thesis by (simp add: keeps_rows_def)
    qed
    show ?thesis
      unfolding oidc_auth_def
      apply (intro preserves_intros assms)
      apply (auto simp: along_def keeps_rows_def split: prod.split sum.split OidcAuthError.split intro!: fail)
      done
  qed
  ultimately show ?thesis using rows_frame.along_ret
    by (auto simp: auth_middleware_def split: AuthMode.split)
qed

lemma admin_run_keeps:
  assumes "\<forall>(env, r, call) \<in> set reqs. others_keep_rows env"
  shows "rows_kept (as_db s) (as_db (admin_run cfg reqs s))"
  using assms
proof (induction reqs arbitrary: s)
  case (Cons x reqs)
  obtain env r call where x: "x = (env, r, call)" by (cases x) auto
  have "along keeps_rows (admin_request cfg env r call)"
    unfolding admin_request_def using Cons.prems x
    by (intro rows_frame.along_andthen keeps_middleware keeps_handlers) auto
  then have "rows_kept (as_db s) (as_db (snd (admin_request cfg env r call s)))"
    by (simp add: along_def keeps_rows_def)
  then show ?case using Cons.IH[of "snd (admin_request cfg env r call s)"] Cons.prems x
    by (auto intro: rows_kept_trans)
qed simp

lemma find_revoked_row:
  assumes "find (\<lambda>t. tk_token_lookup_hash t = h) ts = Some t" "tk_token_id t = k"
  shows "\<exists>t'. find (\<lambda>t. tk_token_lookup_hash t = h) (map (\<lambda>t. if tk_token_id t = k \<and> tk_revoked_at t = None
      then t\<lparr>tk_revoked_at := Some now, tk_revoked_reason := reason\<rparr> else t) ts) = Some t' \<and> tk_revoked_at t' \<noteq> None"
  using assms by (induction ts) (auto split: if_splits)

lemma revoke_token_row:
  assumes "revoke_token cfg env actor k reason s = (Inr (), s1)" "others_keep_rows env"
    and "get_by_lookup_hash (as_db s) h = Some t" "tk_token_id t = k"
  shows "\<exists>t'. get_by_lookup_hash (as_db s1) h = Some t' \<and> tk_revoked_at t' \<noteq> None"
proof -
  let ?d = "ae_others env 2 (as_db s)"
  obtain changed s2 where op: "auth_db_op env 2 (token_revoke (ae_now env 2) k reason) s = (Inr changed, s2)"
    and rest: "append_checked cfg env 3 (audit_actor actor) TokenRevoke RtToken k ''success''
      (Some (JObj [(''reason'', json_opt reason)])) s2 = (Inr (), s1)"
    using assms(1) by (auto simp: revoke_token_def or_500_def proc_Inr)
  obtain t1 where t1: "get_by_lookup_hash ?d h = Some t1" "tk_token_id t1 = k"
    using rows_kept_lookup[OF _ assms(3), of ?d] assms(2,4) by (auto simp: others_keep_rows_def same_token_def)
  have "as_db s2 = snd (token_revoke (ae_now env 2) k reason ?d)"
    using op by (auto simp: auth_db_op_def token_revoke_def Let_def split: if_splits)
  then obtain t2 where t2: "get_by_lookup_hash (as_db s2) h = Some t2" "tk_revoked_at t2 \<noteq> None"
    using find_revoked_row[OF t1(1)[unfolded get_by_lookup_hash_def] t1(2), of reason "ae_now env 2"]
    by (auto simp: get_by_lookup_hash_def token_revoke_def)
  have "rows_kept (as_db s2) (as_db s1)"
    using keeps_append_checked[OF assms(2), unfolded along_def keeps_rows_def, rule_format] rest by (metis snd_conv)
  then show ?thesis using rows_kept_lookup[OF _ t2(1)] t2(2) by (fastforce simp: same_token_def)
qed

text \<open>C16: Revoking a token is final.  After a successful revocation of the token that a value
  belongs to, no request that presents the value is admitted in scoped mode, whatever
  administrative requests run in between and whatever else is stored, as long as the other
  requests only append rows and keep revocations.\<close>

theorem revoked_token_stays_refused:
  assumes "ac_mode cfg = AuthScoped" "get_by_lookup_hash (as_db s) (hash_token_value cfg v) = Some t"
    and "revoke_token cfg env0 actor (tk_token_id t) reason s = (Inr (), s1)" "others_keep_rows env0"
    and "\<forall>(env, r, call) \<in> set reqs. others_keep_rows env" "others_keep_rows env"
    and "rq_header r ''Authorization'' = Some (''Bearer '' @ v)" "\<not> public_path (rq_path r)"
  shows "\<exists>p. fst (auth_middleware cfg env r (admin_run cfg reqs s1)) = Inl p"
proof -
  let ?s = "admin_run cfg reqs s1" and ?h = "hash_token_value cfg v"
  obtain t1 where t1: "get_by_lookup_hash (as_db s1) ?h = Some t1" "tk_revoked_at t1 \<noteq> None"
    using revoke_token_row[OF assms(3,4,2) refl] by blast
  have "rows_kept (as_db s1) (ae_others env 0 (as_db ?s))"
    using admin_run_keeps[OF assms(5), of s1 cfg] assms(6) rows_kept_trans unfolding others_keep_rows_def by blast
  then obtain t2 where t2: "get_by_lookup_hash (ae_others env 0 (as_db ?s)) ?h = Some t2" "tk_revoked_at t2 \<noteq> None"
    using rows_kept_lookup[OF _ t1(1)] t1(2) by (fastforce simp: same_token_def)
  have "bearer_header r = Inr v" using assms(7) by (simp add: bearer_header_Inr)
  then have "\<not> (\<exists>a s'. scoped_auth cfg env r ?s = (Inr a, s'))"
    using t2 by (auto simp: scoped_auth_def proc_Inr)
  then have "\<not> (\<exists>a s'. auth_middleware cfg env r ?s = (Inr a, s'))"
    using assms(1,8) by (simp add: auth_middleware_def)
  then show ?thesis by (cases "auth_middleware cfg env r ?s"; cases "fst (auth_middleware cfg env r ?s)") auto
qed

definition demo_token :: ScopedToken where
  "demo_token = \<lparr>tk_token_id = ''tok_1'', tk_actor_id = ''op'', tk_role = Role_Operator,
     tk_scopes = [''policy:read'', ''admin:tokens''], tk_description = None, tk_expires_at = seconds 100,
     tk_created_at = 0, tk_last_used_at = None, tk_revoked_at = None, tk_revoked_reason = None,
     tk_rotated_from = None, tk_token_lookup_hash = ''secret'', tk_token_hash = ''saltsecret'', tk_token_salt = ''salt''\<rparr>"

definition demo_scoped_state :: auth_state where
  "demo_scoped_state = \<lparr>as_db = \<lparr>ad_tokens = [demo_token], ad_agents = [], ad_audit = empty_audit\<rparr>,
     as_nonces = [], as_jwks = None, as_touches = []\<rparr>"

definition demo_bearer :: http_request where
  "demo_bearer = \<lparr>rq_method = ''POST'', rq_path = ''/v1/admin/tokens'',
     rq_header = map_of [(''Authorization'', ''Bearer secret'')], rq_body = Some []\<rparr>"

definition demo_create_token :: CreateTokenRequest where
  "demo_create_token = \<lparr>ct_actor_id = ''eve'', ct_role = Role_ReadOnly, ct_scopes = Some [''policy:read''],
     ct_description = None, ct_expires_at = seconds 50\<rparr>"

lemma demo_revoked:
  "fst (revoke_token (demo_auth AuthScoped 61 9) (demo_auth_env 1) None ''tok_1'' None demo_scoped_state) = Inr ()"
  by (simp add: revoke_token_def andthen_def ensure_def ret_def or_500_def map_err_def auth_db_op_def Let_def
      append_checked_def append_audit_def modifies_def attempt_def token_revoke_def demo_scoped_state_def
      demo_auth_env_def demo_token_def)

theorem revoked_token_stays_refused_witness:
  "\<exists>p. fst (auth_middleware (demo_auth AuthScoped 61 9) (demo_auth_env 3) demo_bearer
     (admin_run (demo_auth AuthScoped 61 9) [(demo_auth_env 2, demo_bearer, CreateTokenCall demo_create_token)]
       (snd (revoke_token (demo_auth AuthScoped 61 9) (demo_auth_env 1) None (tk_token_id demo_token) None demo_scoped_state)))) = Inl p"
proof (rule revoked_token_stays_refused)
  show "revoke_token (demo_auth AuthScoped 61 9) (demo_auth_env 1) None (tk_token_id demo_token) None demo_scoped_state =
      (Inr (), snd (revoke_token (demo_auth AuthScoped 61 9) (demo_auth_env 1) None (tk_token_id demo_token) None demo_scoped_state))"
    using demo_revoked by (simp add: prod_eq_iff demo_token_def)
  show "rq_header demo_bearer ''Authorization'' = Some (''Bearer '' @ ''secret'')" by (simp add: demo_bearer_def)
qed (simp_all add: demo_auth_def demo_scoped_state_def get_by_lookup_hash_def hash_token_value_def demo_token_def
      others_keep_rows_def demo_auth_env_def demo_bearer_def public_path_def)

text \<open>Rotation revokes the old token on a best-effort basis: when that statement fails, the
  rotation still succeeds and both tokens stay valid.\<close>

lemma rotation_may_keep_old_token:
  "case rotate_token (demo_auth AuthScoped 61 9) ((demo_auth_env 1)\<lparr>ae_down := (\<lambda>n. n = 4)\<rparr>)
      (Some \<lparr>aa_actor_id = ''op'', aa_source = ''scoped'', aa_scopes = [''*''], aa_role = None\<rparr>)
      ''tok_1'' None None demo_scoped_state of
     (Inr (t, v), s) \<Rightarrow> map tk_revoked_at (ad_tokens (as_db s)) = [None, None] | (Inl p, s) \<Rightarrow> False"
  by (simp add: rotate_token_def andthen_def ensure_def ret_def some_or_def or_500_def map_err_def auth_db_op_def Let_def
      append_checked_def append_audit_def modifies_def attempt_def token_revoke_def token_insert_def token_get_def
      reads_def caller_def may_issue_def of_result_def check_scope_attenuation_def demo_scoped_state_def
      demo_auth_env_def demo_token_def seconds_def max_ttl_def new_token_id_def)

text \<open>With \<open>audit_fail_closed\<close> a creation whose audit entry cannot be written answers 503, but
  the token is already stored.\<close>

lemma fail_closed_after_insert:
  "case create_token ((demo_auth AuthScoped 61 9)\<lparr>ac_audit_fail_closed := True\<rparr>) ((demo_auth_env 1)\<lparr>ae_down := (\<lambda>n. n = 4)\<rparr>)
      (Some \<lparr>aa_actor_id = ''op'', aa_source = ''scoped'', aa_scopes = [''*''], aa_role = None\<rparr>)
      demo_create_token demo_scoped_state of
     (Inl p, s) \<Rightarrow> pb_status p = 503 \<and> length (ad_tokens (as_db s)) = 2 | (Inr x, s) \<Rightarrow> False"
  by (simp add: create_token_def andthen_def ensure_def ret_def raise_def some_or_def or_500_def map_err_def auth_db_op_def
      Let_def append_checked_def append_audit_def modifies_def attempt_def token_insert_def token_get_def problem_def
      caller_def may_issue_def of_result_def check_scope_attenuation_def demo_scoped_state_def demo_create_token_def
      demo_auth_env_def demo_token_def seconds_def max_ttl_def new_token_id_def)

end
