(* ===== verification/Firewall.thy ===== *)
theory Firewall
  imports Pdp
begin

text \<open>
  The semantic firewall (\<open>crates/ferrum-firewall/src/lib.rs\<close>), the derivation of its
  context from an intent and a proposal (\<open>crates/ferrum-gateway/src/policy_eval.rs\<close>), and
  the behavioural profiler (\<open>behavioral.rs\<close>).

  A score is the \<open>u8\<close> of the source, a \<open>8 word\<close>.  The attribute map of a context is an
  association list in which an insert replaces the entry of its key.  The regular
  expressions of \<open>redact_secrets\<close> are a parameter.  \<open>sanitize\<close> is modelled on the bytes of
  the string, so white space outside ASCII is left alone.
\<close>

subsection \<open>Taint scoring\<close>

record FirewallContext =
  fc_source :: string
  fc_intent :: "string option"
  fc_trust_score :: "8 word"
  fc_is_external :: bool
  fc_attributes :: "(string \<times> string) list"

datatype FirewallLabel = FL_Trusted | FL_Suspicious | FL_Untrusted | FL_Quarantined

definition from_taint_score :: "8 word \<Rightarrow> FirewallLabel" where
  "from_taint_score n = (if n \<le> 30 then FL_Trusted else if n \<le> 69 then FL_Suspicious
     else if n \<le> 89 then FL_Untrusted else FL_Quarantined)"

definition dangerous_attrs :: "(string \<times> string) list" where
  "dangerous_attrs = [(''privileged'', ''true''), (''admin'', ''true''), (''dangerous'', ''true''),
     (''unsafe'', ''true''), (''bypass'', ''true''), (''exec'', ''true'')]"

definition attribute_taint :: "(string \<times> string) list \<Rightarrow> 8 word \<Rightarrow> 8 word" where
  "attribute_taint attrs score =
    fold (\<lambda>(key, danger) s. if map_of attrs key = Some danger then s + 20 else s) dangerous_attrs score"

definition base_taint :: "FirewallContext \<Rightarrow> 8 word" where
  "base_taint c = (if fc_is_external c then 30 else 0) + (if fc_trust_score c < 50 then 20 else 0) +
     (if fc_intent c = None \<or> fc_intent c = Some [] then 15 else 0)"

definition compute_taint_score :: "FirewallContext \<Rightarrow> 8 word" where
  "compute_taint_score c = min 100 (attribute_taint (fc_attributes c) (base_taint c))"

definition label_trust :: "FirewallContext \<Rightarrow> FirewallLabel" where
  "label_trust c = from_taint_score (compute_taint_score c)"

definition should_quarantine :: "8 word \<Rightarrow> RollbackClass \<Rightarrow> bool" where
  "should_quarantine n rc = (case rc of
     R0NativeReversible \<Rightarrow> False
   | R3IrreversibleHighConsequence \<Rightarrow> 70 \<le> n
   | _ \<Rightarrow> 90 \<le> n)"

text \<open>The scoring rules of the documentation, on the natural numbers.\<close>

definition dangers :: "(string \<times> string) list \<Rightarrow> nat" where
  "dangers attrs = length (filter (\<lambda>(k, v). map_of attrs k = Some v) dangerous_attrs)"

definition taint_rules :: "FirewallContext \<Rightarrow> nat" where
  "taint_rules c = min 100 ((if fc_is_external c then 30 else 0) + (if fc_trust_score c < 50 then 20 else 0) +
     (if fc_intent c = None \<or> fc_intent c = Some [] then 15 else 0) + 20 * dangers (fc_attributes c))"

lemma unat_base_taint:
  "unat (base_taint c) = (if fc_is_external c then 30 else 0) + (if fc_trust_score c < 50 then 20 else 0) +
     (if fc_intent c = None \<or> fc_intent c = Some [] then 15 else 0)"
  by (simp add: base_taint_def)

lemma attribute_taint_loop:
  assumes "unat s + 20 * length ds < 256"
  shows "unat (fold (\<lambda>(key, danger) s. if map_of attrs key = Some danger then s + 20 else s) ds (s :: 8 word))
    = unat s + 20 * length (filter (\<lambda>(k, v). map_of attrs k = Some v) ds)"
  using assms
proof (induction ds arbitrary: s)
  case (Cons d ds)
  have "unat (s + 20) = unat s + 20" using Cons.prems by (simp add: unat_word_ariths)
  then show ?case using Cons by (auto split: prod.splits)
qed simp

subsection \<open>Contradictions\<close>

record Contradiction =
  cd_field_a :: string
  cd_value_a :: string
  cd_field_b :: string
  cd_value_b :: string
  cd_reason :: string

definition detect_contradiction :: "FirewallContext \<Rightarrow> Contradiction list" where
  "detect_contradiction c =
    (let attr = map_of (fc_attributes c) in
     (case (attr ''action'', attr ''write_target'') of
        (Some a, Some w) \<Rightarrow> if a = ''read''
          then [\<lparr>cd_field_a = ''action'', cd_value_a = ''read'', cd_field_b = ''write_target'', cd_value_b = w,
                 cd_reason = ''read action specified but write_target is set''\<rparr>] else []
      | _ \<Rightarrow> []) @
     (if attr ''trust_level'' = Some ''high'' \<and> fc_is_external c
      then [\<lparr>cd_field_a = ''trust_level'', cd_value_a = ''high'', cd_field_b = ''source'',
             cd_value_b = fc_source c, cd_reason = ''trust_level is high but source is external''\<rparr>] else []) @
     (case (attr ''requires_approval'', attr ''rollback_class'') of
        (Some a, Some rc) \<Rightarrow> if a = ''false'' \<and> (rc = ''R3'' \<or> rc = ''R3IrreversibleHighConsequence'')
          then [\<lparr>cd_field_a = ''requires_approval'', cd_value_a = ''false'', cd_field_b = ''rollback_class'',
                 cd_value_b = rc, cd_reason = ''requires_approval is false but rollback_class is R3 (irreversible)''\<rparr>]
          else []
      | _ \<Rightarrow> []))"

subsection \<open>Sanitising\<close>

definition control_char :: "char \<Rightarrow> bool" where
  "control_char c = (let n = (of_char c :: nat) in
     (n < 32 \<and> n \<noteq> 9 \<and> n \<noteq> 10 \<and> n \<noteq> 13) \<or> n = 127)"

definition strip_controls :: "string \<Rightarrow> string" where
  "strip_controls s = map (\<lambda>c. if control_char c then CHR '' '' else c) s"

fun collapse :: "bool \<Rightarrow> string \<Rightarrow> string" where
  "collapse last_was_ws [] = []"
| "collapse last_was_ws (c # cs) =
    (if is_whitespace c then (if last_was_ws then collapse True cs else CHR '' '' # collapse True cs)
     else c # collapse False cs)"

definition normalize_text :: "string \<Rightarrow> string" where
  "normalize_text s = trim (collapse False (strip_controls s))"

definition sanitize :: "(string \<Rightarrow> string) \<Rightarrow> string \<Rightarrow> string" where
  "sanitize redact s = redact (normalize_text s)"

fun sanitize_output :: "(string \<Rightarrow> string) \<Rightarrow> json \<Rightarrow> json" where
  "sanitize_output redact (JStr s) = JStr (sanitize redact s)"
| "sanitize_output redact (JObj m) = JObj (map (\<lambda>kv. (fst kv, sanitize_output redact (snd kv))) m)"
| "sanitize_output redact (JArr xs) = JArr (map (sanitize_output redact) xs)"
| "sanitize_output redact v = v"

text \<open>Normalised text: no control character, single spaces only, none at either end.\<close>

fun single_spaced :: "string \<Rightarrow> bool" where
  "single_spaced [] = True"
| "single_spaced [c] = (\<not> control_char c \<and> (is_whitespace c \<longrightarrow> c = CHR '' ''))"
| "single_spaced (c # d # cs) = (\<not> control_char c \<and> (is_whitespace c \<longrightarrow> c = CHR '' '' \<and> \<not> is_whitespace d) \<and>
     single_spaced (d # cs))"

subsection \<open>policy\_eval.rs: the firewall context of a proposal\<close>

definition external_label :: "TrustLabel \<Rightarrow> bool" where
  "external_label l = (l \<in> {ExternalWeb, ExternalEmail, ExternalRepoText, ExternalToolMetadata,
     ExternalToolOutput, OCRExtracted, Untrusted})"

definition intent_has_external_label :: "IntentEnvelope \<Rightarrow> bool" where
  "intent_has_external_label i = list_ex external_label (tc_input_labels (in_trust_context i))"

definition external_indicators :: "string list" where
  "external_indicators =
     [''source'', ''external'', ''untrusted'', ''tool_output'', ''web_content'', ''email_content'']"

definition proposal_has_external_metadata :: "ActionProposal \<Rightarrow> bool" where
  "proposal_has_external_metadata p =
     list_ex (\<lambda>kv. contains_any (to_lowercase (fst kv)) external_indicators) (ap_metadata p)"

definition has_tool_output_label :: "IntentEnvelope \<Rightarrow> bool" where
  "has_tool_output_label i = (ExternalToolOutput \<in> set (tc_input_labels (in_trust_context i)))"

definition has_untrusted_text_label :: "IntentEnvelope \<Rightarrow> bool" where
  "has_untrusted_text_label i = (Untrusted \<in> set (tc_input_labels (in_trust_context i)))"

definition bool_text :: "bool \<Rightarrow> string" where
  "bool_text b = (if b then ''true'' else ''false'')"

definition insert_metadata :: "string \<times> json \<Rightarrow> (string \<times> string) list \<Rightarrow> (string \<times> string) list" where
  "insert_metadata kv attrs = (case snd kv of
     JStr s \<Rightarrow> AList.update (fst kv) s attrs
   | JBool b \<Rightarrow> AList.update (fst kv) (bool_text b) attrs
   | _ \<Rightarrow> attrs)"

definition build_firewall_context :: "IntentEnvelope \<Rightarrow> ActionProposal \<Rightarrow> bool \<Rightarrow> FirewallContext" where
  "build_firewall_context i p external =
    \<lparr>fc_source = (if ap_server_name p = [] then ap_tool_name p else ap_server_name p),
     fc_intent = (if in_normalized_goal i = [] then None else Some (in_normalized_goal i)),
     fc_trust_score = (if external then 30 else 80),
     fc_is_external = external,
     fc_attributes = fold insert_metadata (ap_metadata p)
       (AList.update ''server_name'' (ap_server_name p)
         (AList.update ''tool_name'' (ap_tool_name p)
           (AList.update ''rollback_class'' (rollback_class_text (ap_requested_rollback_class p))
             (AList.update ''action''
               (if ap_requested_rollback_class p = R0NativeReversible then ''read'' else ''write'') []))))\<rparr>"

text \<open>The trust context \<open>evaluate_proposal\<close> decides on: the labels of the intent with the
  score of the firewall.\<close>

definition proposal_is_external :: "IntentEnvelope \<Rightarrow> ActionProposal \<Rightarrow> bool" where
  "proposal_is_external i p =
     (intent_has_external_label i \<or> ap_taint_inputs p \<noteq> [] \<or> proposal_has_external_metadata p)"

definition proposal_trust :: "IntentEnvelope \<Rightarrow> ActionProposal \<Rightarrow> TrustContextSummary" where
  "proposal_trust i p =
    (let t = in_trust_context i in
     \<lparr>tc_input_labels = tc_input_labels t, tc_sensitivity_labels = tc_sensitivity_labels t,
      tc_taint_score = compute_taint_score (build_firewall_context i p (proposal_is_external i p)),
      tc_contains_external_metadata =
        (tc_contains_external_metadata t \<or> proposal_has_external_metadata p),
      tc_contains_tool_output = (tc_contains_tool_output t \<or> has_tool_output_label i),
      tc_contains_untrusted_text = (tc_contains_untrusted_text t \<or> has_untrusted_text_label i)\<rparr>)"

subsection \<open>Properties of the scoring\<close>

lemma compute_taint_score_rules: "unat (compute_taint_score c) = taint_rules c"
proof -
  have b: "unat (base_taint c) \<le> 65" unfolding unat_base_taint by simp
  have "unat (attribute_taint (fc_attributes c) (base_taint c)) =
      unat (base_taint c) + 20 * dangers (fc_attributes c)"
    unfolding attribute_taint_def dangers_def
    by (rule attribute_taint_loop) (use b in \<open>simp add: dangerous_attrs_def\<close>)
  then show ?thesis
    by (simp add: compute_taint_score_def taint_rules_def unat_base_taint min_def word_le_nat_alt)
qed

text \<open>C40: The taint score.  The score of every context is 30 for an external source, 20 for a
  trust score below 50, 15 for a missing or empty goal and 20 for each dangerous attribute,
  capped at 100: the eight-bit additions never wrap before the cap.\<close>
theorem taint_score_exact:
  "unat (compute_taint_score c) =
     min 100 ((if fc_is_external c then 30 else 0) + (if fc_trust_score c < 50 then 20 else 0) +
              (if fc_intent c = None \<or> fc_intent c = Some [] then 15 else 0) +
              20 * length (filter (\<lambda>(k, v). map_of (fc_attributes c) k = Some v) dangerous_attrs))"
  by (simp add: compute_taint_score_rules taint_rules_def dangers_def)

lemma dangers_insert_le: "dangers attrs \<le> 6"
  unfolding dangers_def by (rule order_trans [OF length_filter_le]) (simp add: dangerous_attrs_def)

text \<open>Without a dangerous attribute no context reaches the threshold of the policies, however
  external and untrusted its source is.\<close>

lemma external_alone_below_threshold:
  "dangers (fc_attributes c) = 0 \<Longrightarrow> unat (compute_taint_score c) \<le> 65"
  by (simp add: compute_taint_score_rules taint_rules_def)

lemma label_agrees_with_quarantine:
  "label_trust c = FL_Quarantined \<longleftrightarrow> should_quarantine (compute_taint_score c) R1SnapshotRecoverable"
  "label_trust c \<in> {FL_Untrusted, FL_Quarantined} \<longleftrightarrow>
     should_quarantine (compute_taint_score c) R3IrreversibleHighConsequence"
  by (auto simp: label_trust_def from_taint_score_def should_quarantine_def word_le_nat_alt)

lemma should_quarantine_monotone:
  "should_quarantine m rc \<Longrightarrow> m \<le> n \<Longrightarrow> should_quarantine n rc"
  by (cases rc) (auto simp: should_quarantine_def intro: order_trans)

subsection \<open>Properties of the sanitiser\<close>

lemma space_whitespace [simp]: "is_whitespace (CHR '' '')" "\<not> control_char (CHR '' '')"
  by (simp_all add: is_whitespace_def control_char_def)

lemma strip_controls_clean: "c \<in> set (strip_controls s) \<Longrightarrow> \<not> control_char c"
  by (auto simp: strip_controls_def)

lemma collapse_spaced:
  assumes "\<forall>c \<in> set s. \<not> control_char c"
  shows "single_spaced (collapse b s)"
    and "b \<Longrightarrow> collapse b s \<noteq> [] \<Longrightarrow> \<not> is_whitespace (hd (collapse b s))"
proof -
  have "single_spaced (collapse b s) \<and> (b \<longrightarrow> collapse b s \<noteq> [] \<longrightarrow> \<not> is_whitespace (hd (collapse b s)))"
    using assms
  proof (induction s arbitrary: b)
    case (Cons c cs)
    then have t: "single_spaced (collapse True cs)" "single_spaced (collapse False cs)"
      "collapse True cs \<noteq> [] \<Longrightarrow> \<not> is_whitespace (hd (collapse True cs))" by auto
    show ?case
      using Cons.prems t by (cases "collapse True cs"; cases "collapse False cs") auto
  qed simp
  then show "single_spaced (collapse b s)"
    and "b \<Longrightarrow> collapse b s \<noteq> [] \<Longrightarrow> \<not> is_whitespace (hd (collapse b s))" by auto
qed

lemma single_spaced_Cons: "single_spaced (c # cs) \<Longrightarrow> single_spaced cs"
  by (cases cs) auto

lemma single_spaced_suffix: "single_spaced (xs @ ys) \<Longrightarrow> single_spaced ys"
  by (induction xs) (auto dest: single_spaced_Cons)

lemma single_spaced_prefix: "single_spaced (xs @ ys) \<Longrightarrow> single_spaced xs"
proof (induction xs)
  case (Cons c xs)
  then show ?case by (cases xs; cases ys) (auto dest: single_spaced_Cons)
qed simp

lemma trim_infix: "\<exists>xs ys. s = xs @ trim s @ ys"
proof -
  let ?d = "dropWhile is_whitespace s"
  have "s = takeWhile is_whitespace s @ ?d" by simp
  moreover have "?d = trim s @ rev (takeWhile is_whitespace (rev ?d))"
    unfolding trim_def by (metis rev_append rev_rev_ident takeWhile_dropWhile_id)
  ultimately show ?thesis by metis
qed

lemma normalize_text_single_spaced: "single_spaced (normalize_text s)"
proof -
  obtain xs ys where e: "collapse False (strip_controls s) = xs @ normalize_text s @ ys"
    using trim_infix unfolding normalize_text_def by blast
  have "single_spaced (collapse False (strip_controls s))"
    by (rule collapse_spaced) (auto dest: strip_controls_clean)
  then show ?thesis unfolding e by (blast dest: single_spaced_suffix single_spaced_prefix)
qed

lemma collapse_id:
  "single_spaced s \<Longrightarrow> (b \<Longrightarrow> s \<noteq> [] \<Longrightarrow> \<not> is_whitespace (hd s)) \<Longrightarrow> collapse b s = s"
proof (induction s arbitrary: b)
  case (Cons c cs)
  then show ?case by (cases cs) (auto dest: single_spaced_Cons)
qed simp

lemma strip_controls_id: "single_spaced s \<Longrightarrow> strip_controls s = s"
proof (induction s)
  case (Cons c cs)
  then show ?case by (cases cs) (auto simp: strip_controls_def)
qed (simp add: strip_controls_def)

lemma trim_idem [simp]: "trim (trim s) = trim s"
proof -
  let ?r = "rev (dropWhile is_whitespace s)"
  have last: "dropWhile is_whitespace (dropWhile is_whitespace ?r) = dropWhile is_whitespace ?r"
    by (rule dropWhile_idem)
  have "dropWhile is_whitespace (trim s) = trim s"
  proof (cases "trim s")
    case (Cons c cs)
    obtain ys where "dropWhile is_whitespace s = trim s @ ys"
      unfolding trim_def by (metis rev_append rev_rev_ident takeWhile_dropWhile_id)
    then have "hd (dropWhile is_whitespace s) = c" "dropWhile is_whitespace s \<noteq> []" using Cons by auto
    then have "\<not> is_whitespace c" using hd_dropWhile by metis
    then show ?thesis using Cons by simp
  qed simp
  then have "trim (trim s) = rev (dropWhile is_whitespace (rev (trim s)))" unfolding trim_def [of "trim s"] by simp
  also have "\<dots> = trim s" by (simp add: trim_def)
  finally show ?thesis .
qed

lemma normalize_text_idem: "normalize_text (normalize_text s) = normalize_text s"
proof -
  let ?n = "normalize_text s"
  have "collapse False (strip_controls ?n) = ?n"
    by (simp add: strip_controls_id [OF normalize_text_single_spaced] collapse_id [OF normalize_text_single_spaced])
  then show ?thesis unfolding normalize_text_def [of ?n] by (simp add: normalize_text_def)
qed

end
