(* ===== verification/Behavioral.thy ===== *)
theory Behavioral
  imports Samples
begin

text \<open>
  The behavioural profiler of \<open>crates/ferrum-gateway/src/behavioral.rs\<close>: a rolling window of
  high-risk proposals per principal.  The clock reading is an argument, in nanoseconds.  The
  hash map of the actors is an association list; the key its iterator yields first, which
  is the one evicted when the map is full, is \<open>first_key\<close>, an argument.
\<close>

datatype BehavioralSeverity = Warning | CriticalSeverity

record BehavioralFinding =
  bf_severity :: BehavioralSeverity
  bf_principal_id :: string
  bf_window_count :: nat
  bf_window_secs :: int
  bf_threshold :: nat

type_synonym actor_windows = "(string \<times> int list) list"

record ThresholdProfiler =
  bp_window :: int
  bp_warning_threshold :: nat
  bp_critical_threshold :: nat
  bp_max_actors :: nat

definition max_events_per_actor :: "ThresholdProfiler \<Rightarrow> nat" where
  "max_events_per_actor pr = bp_critical_threshold pr + 1"

text \<open>\<open>duration_since\<close> of an instant that is still to come is zero.\<close>

definition prune_window :: "int \<Rightarrow> int \<Rightarrow> int list \<Rightarrow> int list" where
  "prune_window now window events = dropWhile (\<lambda>t. window \<le> max 0 (now - t)) events"

definition is_target :: "RiskTier \<Rightarrow> RollbackClass \<Rightarrow> bool" where
  "is_target risk rollback =
     (risk = RT_High \<or> risk = RT_Critical \<or> rollback = R3IrreversibleHighConsequence)"

definition evict_actor ::
  "ThresholdProfiler \<Rightarrow> (string list \<Rightarrow> string option) \<Rightarrow> string \<Rightarrow> actor_windows \<Rightarrow> actor_windows" where
  "evict_actor pr first_key who actors =
    (if map_of actors who = None \<and> bp_max_actors pr \<le> length actors then
       (case first_key (map fst actors) of
          Some oldest \<Rightarrow> AList.delete oldest actors | None \<Rightarrow> actors)
     else actors)"

definition keep_newest :: "nat \<Rightarrow> int list \<Rightarrow> int list" where
  "keep_newest n events = drop (length events - n) events"

definition push_event :: "ThresholdProfiler \<Rightarrow> int \<Rightarrow> int list \<Rightarrow> int list" where
  "push_event pr now events =
     keep_newest (max_events_per_actor pr) (prune_window now (bp_window pr) events @ [now])"

definition window_finding :: "ThresholdProfiler \<Rightarrow> string \<Rightarrow> nat \<Rightarrow> BehavioralFinding option" where
  "window_finding pr who seen =
    (if bp_critical_threshold pr \<le> seen then
       Some \<lparr>bf_severity = CriticalSeverity, bf_principal_id = who, bf_window_count = seen,
             bf_window_secs = bp_window pr div 1000000000, bf_threshold = bp_critical_threshold pr\<rparr>
     else if bp_warning_threshold pr \<le> seen then
       Some \<lparr>bf_severity = Warning, bf_principal_id = who, bf_window_count = seen,
             bf_window_secs = bp_window pr div 1000000000, bf_threshold = bp_warning_threshold pr\<rparr>
     else None)"

definition threshold_inspect ::
  "ThresholdProfiler \<Rightarrow> (string list \<Rightarrow> string option) \<Rightarrow> int \<Rightarrow> string \<Rightarrow> RiskTier \<Rightarrow> RollbackClass \<Rightarrow>
   actor_windows \<Rightarrow> BehavioralFinding option \<times> actor_windows" where
  "threshold_inspect pr first_key now who risk rollback actors =
    (if \<not> is_target risk rollback then (None, actors)
     else (let actors' = evict_actor pr first_key who actors;
               events = push_event pr now (unwrap_or (map_of actors' who) [])
           in (window_finding pr who (length events), AList.update who events actors')))"

datatype BehavioralProfiler = NoopProfiler | Threshold ThresholdProfiler

fun inspect_proposal ::
  "BehavioralProfiler \<Rightarrow> (string list \<Rightarrow> string option) \<Rightarrow> int \<Rightarrow> string \<Rightarrow> RiskTier \<Rightarrow> RollbackClass \<Rightarrow>
   actor_windows \<Rightarrow> BehavioralFinding option \<times> actor_windows" where
  "inspect_proposal NoopProfiler first_key now who risk rollback actors = (None, actors)"
| "inspect_proposal (Threshold pr) first_key now who risk rollback actors =
     threshold_inspect pr first_key now who risk rollback actors"

text \<open>\<open>HashMap::keys().next()\<close>: some key of a map that has one.\<close>

definition yields_key :: "(string list \<Rightarrow> string option) \<Rightarrow> bool" where
  "yields_key f = (\<forall>ks. ks \<noteq> [] \<longrightarrow> (\<exists>k \<in> set ks. f ks = Some k))"

subsection \<open>Memory is bounded\<close>

definition bounded_actors :: "ThresholdProfiler \<Rightarrow> actor_windows \<Rightarrow> bool" where
  "bounded_actors pr actors = (distinct (map fst actors) \<and> length actors \<le> max 1 (bp_max_actors pr) \<and>
     (\<forall>(k, events) \<in> set actors. length events \<le> max_events_per_actor pr))"

lemma keep_newest_length [simp]: "length (keep_newest n events) = min n (length events)"
  by (simp add: keep_newest_def)

lemma delete_shorter: "k \<in> fst ` set xs \<Longrightarrow> length (AList.delete k xs) < length xs"
  by (auto simp: AList.delete_eq intro!: length_filter_less)

lemma update_length: "length (AList.update k v xs) = (if k \<in> fst ` set xs then length xs else Suc (length xs))"
  by (induction xs) auto

lemma set_update: "(k, v) \<in> set (AList.update k' v' xs) \<Longrightarrow> k = k' \<and> v = v' \<or> (k, v) \<in> set xs"
  by (induction xs) (auto split: if_splits)

lemma evict_actor_bounded:
  assumes "bounded_actors pr actors"
  shows "bounded_actors pr (evict_actor pr f p actors)"
  using assms
  by (auto simp: bounded_actors_def evict_actor_def AList.delete_eq distinct_map_filter
      split: option.splits intro: order_trans [OF length_filter_le])

lemma evict_actor_room:
  assumes b: "bounded_actors pr actors" and f: "yields_key f"
    and new: "map_of (evict_actor pr f p actors) p = None"
  shows "length (evict_actor pr f p actors) < max 1 (bp_max_actors pr)"
proof (cases "map_of actors p = None \<and> bp_max_actors pr \<le> length actors")
  case True
  show ?thesis
  proof (cases actors)
    case Nil
    with True show ?thesis using f by (auto simp: evict_actor_def split: option.splits)
  next
    case (Cons a as)
    then obtain k where k: "k \<in> fst ` set actors" "f (map fst actors) = Some k"
      using f unfolding yields_key_def by (metis list.set_map list.simps(9) list.distinct(1))
    have "length (AList.delete k actors) < length actors" using delete_shorter [OF k(1)] .
    then show ?thesis using True k b by (auto simp: evict_actor_def bounded_actors_def)
  qed
next
  case False
  then show ?thesis using new b by (auto simp: evict_actor_def bounded_actors_def)
qed

lemma threshold_inspect_bounded:
  assumes b: "bounded_actors pr actors" and f: "yields_key f"
  shows "bounded_actors pr (snd (threshold_inspect pr f now who risk rollback actors))"
proof (cases "is_target risk rollback")
  case True
  let ?a = "evict_actor pr f who actors"
  let ?es = "push_event pr now (unwrap_or (map_of ?a who) [])"
  have b': "bounded_actors pr ?a" using evict_actor_bounded [OF b] .
  have es: "length ?es \<le> max_events_per_actor pr" by (simp add: push_event_def)
  have len: "length (AList.update who ?es ?a) \<le> max 1 (bp_max_actors pr)"
    using evict_actor_room [OF b f, of who] b'
    by (auto simp: update_length bounded_actors_def map_of_eq_None_iff)
  have dist: "distinct (map fst (AList.update who ?es ?a))"
    using b' by (simp add: bounded_actors_def distinct_update)
  have "\<forall>(k, v) \<in> set (AList.update who ?es ?a). length v \<le> max_events_per_actor pr"
    using b' es unfolding bounded_actors_def by (auto dest!: set_update)
  then show ?thesis using True len dist
    by (simp add: threshold_inspect_def Let_def bounded_actors_def)
qed (simp add: threshold_inspect_def b)

lemma push_event_recent:
  assumes "0 < bp_window pr" and "t \<in> set (push_event pr now events)" and "sorted events"
    and "\<forall>e \<in> set events. e \<le> now"
  shows "now - t < bp_window pr"
proof -
  have t: "t = now \<or> t \<in> set (prune_window now (bp_window pr) events)"
    using assms(2) set_drop_subset by (fastforce simp: push_event_def keep_newest_def)
  have "now - t < bp_window pr" if "t \<in> set (dropWhile (\<lambda>t. bp_window pr \<le> max 0 (now - t)) events)"
    using assms(3,4) that
  proof (induction events)
    case (Cons e es)
    then show ?case by (cases "bp_window pr \<le> max 0 (now - e)") auto
  qed simp
  with t show ?thesis using assms(1) by (auto simp: prune_window_def)
qed

end
