(* ===== verification/Governance.thy ===== *)
theory Governance
  imports Authorize Firewall Behavioral
begin

text \<open>
  The front half of the gateway: compiling an intent (\<open>intents.rs\<close>), evaluating a proposal
  (\<open>proposals.rs\<close>, \<open>policy_eval.rs\<close>), minting and revoking a capability
  (\<open>capabilities.rs\<close>) and ingesting an external event (\<open>bridge.rs\<close>), all in
  \<open>crates/ferrum-gateway/src\<close>.

  The sites of the environment are numbered in the order a handler reaches them.
  \<open>governance\<close> is the part of the configuration these handlers read; the capability service
  is the store-backed one.  The profiler keeps its windows in memory, beside the database,
  so \<open>evaluate_proposal\<close> runs on a pair of states.
\<close>

datatype PdpMode = PM_Static | PM_Bundles | PM_Dual

datatype PdpEngine = StaticPdpEngine | BundlePdpEngine "PolicyBundle list"

fun pdp_evaluate ::
  "PdpEngine \<Rightarrow> IntentEnvelope \<Rightarrow> ActionProposal \<Rightarrow> TrustContextSummary \<Rightarrow> EvaluateProposalResponse" where
  "pdp_evaluate StaticPdpEngine i p t = static_evaluate i p t"
| "pdp_evaluate (BundlePdpEngine bundles) i p t = bundles_evaluate bundles i p t"

record governance =
  gv_pdp_mode :: PdpMode
  gv_pdp :: PdpEngine
  gv_profiler :: BehavioralProfiler
  gv_first_key :: "string list \<Rightarrow> string option"
  gv_quarantine_timeout_seconds :: "64 word"
  gv_bridges :: "string list"

subsection \<open>intents.rs\<close>

record IntentInputRef =
  ii_source_id :: string
  ii_source_type :: string
  ii_trust_labels :: "TrustLabel list"
  ii_sensitivity_labels :: "SensitivityLabel list"
  ii_summary :: string
  ii_event_id :: "uuid option"

record IntentCompileRequest =
  ic_principal_id :: uuid
  ic_session_id :: "uuid option"
  ic_channel_id :: "uuid option"
  ic_title :: string
  ic_goal :: string
  ic_agent_plan_summary :: "string option"
  ic_trusted_context :: JsonMap
  ic_raw_inputs :: "IntentInputRef list"
  ic_requested_resource_scope :: "ResourceSelector list"
  ic_requested_risk_tier :: "RiskTier option"
  ic_approval_mode :: "ApprovalMode option"
  ic_metadata :: JsonMap

definition read_outcome :: OutcomeClause where
  "read_outcome = \<lparr>oc_id = ''read'', oc_description = ''read only analysis'',
     oc_effect_type = ReadOnlyAnalysis, oc_required = True\<rparr>"

definition minutes :: "int \<Rightarrow> timestamp" where
  "minutes n = seconds (60 * n)"

definition compiled_envelope ::
  "uuid \<Rightarrow> timestamp \<Rightarrow> AuthActor option \<Rightarrow> IntentCompileRequest \<Rightarrow> IntentEnvelope" where
  "compiled_envelope new_id now actor rq =
    \<lparr>in_intent_id = new_id, in_principal_id = ic_principal_id rq, in_session_id = ic_session_id rq,
     in_channel_id = ic_channel_id rq, in_title = ic_title rq, in_goal = ic_goal rq,
     in_normalized_goal = to_lowercase (trim (ic_goal rq)), in_allowed_outcomes = [read_outcome],
     in_forbidden_outcomes = [], in_resource_scope = ic_requested_resource_scope rq,
     in_risk_tier = unwrap_or (ic_requested_risk_tier rq) RT_Medium,
     in_approval_mode = unwrap_or (ic_approval_mode rq) AM_None,
     in_default_rollback_class = infer_rollback_class (ic_requested_resource_scope rq),
     in_time_budget = \<lparr>tb_max_duration_ms = 30000, tb_max_steps = 8, tb_max_retries_per_step = 1\<rparr>,
     in_trust_context = \<lparr>tc_input_labels = concat (map ii_trust_labels (ic_raw_inputs rq)),
       tc_sensitivity_labels = concat (map ii_sensitivity_labels (ic_raw_inputs rq)), tc_taint_score = 0,
       tc_contains_external_metadata = False, tc_contains_tool_output = False,
       tc_contains_untrusted_text = False\<rparr>,
     in_derived_from_event_ids = List.map_filter ii_event_id (ic_raw_inputs rq), in_tags = [],
     in_metadata = ic_metadata rq, in_status = IS_Active, in_created_at = now,
     in_expires_at = now + minutes 15, in_owner_actor_id = map_option aa_actor_id actor\<rparr>"

definition compile_intent :: "env \<Rightarrow> AuthActor option \<Rightarrow> IntentCompileRequest \<Rightarrow> IntentEnvelope gw" where
  "compile_intent env actor rq =
    (let i = compiled_envelope (at_id env 0) (at_now env 0) actor rq in
     andthen (case validate_intent i of
                Inl msg \<Rightarrow> raise (problem 400 ValidationError msg) | Inr _ \<Rightarrow> ret ()) (\<lambda>_.
     andthen (or_internal (db_op env 0 (intent_insert i))) (\<lambda>_.
     ret i)))"

subsection \<open>policy\_eval.rs\<close>

definition minimal_intent_for :: "uuid \<Rightarrow> timestamp \<Rightarrow> uuid \<Rightarrow> RollbackClass \<Rightarrow> IntentEnvelope" where
  "minimal_intent_for new_principal now intent_id rollback =
    \<lparr>in_intent_id = intent_id, in_principal_id = new_principal, in_session_id = None,
     in_channel_id = None, in_title = ''scaffold-intent'', in_goal = ''scaffold evaluation'',
     in_normalized_goal = ''scaffold evaluation'', in_allowed_outcomes = [read_outcome],
     in_forbidden_outcomes = [], in_resource_scope = [], in_risk_tier = RT_Medium,
     in_approval_mode = AM_None, in_default_rollback_class = rollback,
     in_time_budget = \<lparr>tb_max_duration_ms = 30000, tb_max_steps = 8, tb_max_retries_per_step = 1\<rparr>,
     in_trust_context = \<lparr>tc_input_labels = [], tc_sensitivity_labels = [], tc_taint_score = 0,
       tc_contains_external_metadata = False, tc_contains_tool_output = False,
       tc_contains_untrusted_text = False\<rparr>,
     in_derived_from_event_ids = [], in_tags = [], in_metadata = [], in_status = IS_Active,
     in_created_at = now, in_expires_at = now + minutes 15, in_owner_actor_id = None\<rparr>"

text \<open>The first active bundle with a matching rule; a store that cannot be read counts as
  having none.\<close>

definition bundle_response ::
  "PolicyBundle list \<Rightarrow> IntentEnvelope \<Rightarrow> ActionProposal \<Rightarrow> TrustContextSummary \<Rightarrow>
   EvaluateProposalResponse option" where
  "bundle_response bundles i p t =
     map_option (\<lambda>(rule_id, decision, reason).
         \<lparr>ep_decision = decision, ep_reason = reason, ep_matched_rule_ids = [rule_id], ep_warnings = []\<rparr>)
       (find_map (\<lambda>b. evaluate_bundle_rules b i p t) bundles)"

definition evaluate_active_policy_bundles ::
  "env \<Rightarrow> nat \<Rightarrow> IntentEnvelope \<Rightarrow> ActionProposal \<Rightarrow> TrustContextSummary \<Rightarrow>
   EvaluateProposalResponse option gw" where
  "evaluate_active_policy_bundles env n i p t =
    andthen (attempt (db_read env n active_bundles)) (\<lambda>r.
    ret (case r of Inl _ \<Rightarrow> None | Inr bundles \<Rightarrow> bundle_response bundles i p t))"

subsection \<open>proposals.rs\<close>

definition default_allow :: EvaluateProposalResponse where
  "default_allow = \<lparr>ep_decision = Allow, ep_reason = ''no active bundle matched; default allow'',
     ep_matched_rule_ids = [''allow.default''], ep_warnings = []\<rparr>"

definition evaluate_proposal_decision ::
  "governance \<Rightarrow> env \<Rightarrow> nat \<Rightarrow> IntentEnvelope \<Rightarrow> ActionProposal \<Rightarrow> TrustContextSummary \<Rightarrow>
   EvaluateProposalResponse gw" where
  "evaluate_proposal_decision gv env n i p t = (case gv_pdp_mode gv of
     PM_Static \<Rightarrow> ret (pdp_evaluate (gv_pdp gv) i p t)
   | PM_Bundles \<Rightarrow> andthen (evaluate_active_policy_bundles env n i p t) (\<lambda>r.
       ret (unwrap_or r default_allow))
   | PM_Dual \<Rightarrow> andthen (evaluate_active_policy_bundles env n i p t) (\<lambda>r.
       ret (unwrap_or r (pdp_evaluate (gv_pdp gv) i p t))))"

text \<open>Up to the insertion of the proposal: the intent, the proposal as stored and the
  decision.\<close>

definition evaluate_and_store ::
  "governance \<Rightarrow> env \<Rightarrow> ActionProposal \<Rightarrow>
   (IntentEnvelope \<times> ActionProposal \<times> EvaluateProposalResponse) gw" where
  "evaluate_and_store gv env proposal =
    andthen (or_internal (db_read env 0 (\<lambda>d. get_intent d (ap_intent_id proposal)))) (\<lambda>found.
    let i = unwrap_or found (minimal_intent_for (at_id env 0) (at_now env 0) (ap_intent_id proposal)
              (ap_requested_rollback_class proposal)) in
    andthen (evaluate_proposal_decision gv env 1 i proposal (proposal_trust i proposal)) (\<lambda>out.
    let p = proposal\<lparr>ap_owner_actor_id := in_owner_actor_id i\<rparr> in
    andthen (or_internal (db_op env 2 (proposal_insert p))) (\<lambda>_.
    ret (i, p, out))))"

definition jnat :: "nat \<Rightarrow> json" where
  "jnat n = JNum (PosInt (of_nat n))"

definition anomaly_metadata :: "BehavioralFinding \<Rightarrow> json" where
  "anomaly_metadata f = JObj
    [(''severity'', JStr (case bf_severity f of Warning \<Rightarrow> ''warning'' | CriticalSeverity \<Rightarrow> ''critical'')),
     (''window_count'', jnat (bf_window_count f)), (''window_secs'', jnat (nat (bf_window_secs f))),
     (''threshold'', jnat (bf_threshold f))]"

definition policy_metadata :: "Decision \<Rightarrow> BehavioralFinding option \<Rightarrow> JsonMap" where
  "policy_metadata decision anomaly =
    (let m = jm_insert ''reason'' (JStr ''policy_evaluation'')
               (jm_insert ''decision'' (JStr (decision_text decision)) [])
     in case anomaly of None \<Rightarrow> m | Some f \<Rightarrow> jm_insert ''behavioral_anomaly'' (anomaly_metadata f) m)"

definition governance_event ::
  "uuid \<Rightarrow> timestamp \<Rightarrow> ProvenanceEventKind \<Rightarrow> ActorRef \<Rightarrow> ObjectRef \<Rightarrow> uuid \<Rightarrow> uuid \<Rightarrow> uuid option \<Rightarrow>
   uuid option \<Rightarrow> JsonMap \<Rightarrow> ProvenanceEvent" where
  "governance_event new_id now kind actor object intent_id proposal_id capability_id bundle_id metadata =
    \<lparr>ev_event_id = new_id, ev_kind = kind, ev_occurred_at = now, ev_actor = actor, ev_object = object,
     ev_intent_id = Some intent_id, ev_proposal_id = Some proposal_id, ev_execution_id = None,
     ev_capability_id = capability_id, ev_rollback_contract_id = None, ev_policy_bundle_id = bundle_id,
     ev_trust_labels = [], ev_sensitivity_labels = [], ev_parent_edges = [],
     ev_hash_chain = empty_hash_chain, ev_metadata = metadata, ev_source_runtime_id = None\<rparr>"

definition policy_event ::
  "uuid \<Rightarrow> timestamp \<Rightarrow> ActionProposal \<Rightarrow> Decision \<Rightarrow> BehavioralFinding option \<Rightarrow> ProvenanceEvent" where
  "policy_event new_id now p decision anomaly =
     governance_event new_id now PolicyEvaluated ferrum_gateway_actor
       (object_ref OT_PolicyBundle (ap_proposal_id p) ''Policy evaluated for proposal'')
       (ap_intent_id p) (ap_proposal_id p) None None (policy_metadata decision anomaly)"

definition quarantine_hold ::
  "governance \<Rightarrow> uuid \<Rightarrow> timestamp \<Rightarrow> IntentEnvelope \<Rightarrow> ActionProposal \<Rightarrow> EvaluateProposalResponse \<Rightarrow>
   QuarantineHold" where
  "quarantine_hold gv new_id now i p out =
    \<lparr>qh_hold_id = new_id, qh_intent_id = in_intent_id i, qh_proposal_id = ap_proposal_id p,
     qh_reason = ep_reason out, qh_matched_rule_ids = ep_matched_rule_ids out,
     qh_policy_bundle_id = None, qh_state = QS_Pending,
     qh_expires_at = now + seconds (sint (gv_quarantine_timeout_seconds gv)), qh_created_at = now,
     qh_resolved_at = None, qh_resolved_by = None, qh_resolution_reason = None, qh_metadata = [],
     qh_owner_actor_id = ap_owner_actor_id p\<rparr>"

definition create_quarantine_hold ::
  "governance \<Rightarrow> env \<Rightarrow> nat \<Rightarrow> IntentEnvelope \<Rightarrow> ActionProposal \<Rightarrow> EvaluateProposalResponse \<Rightarrow> unit gw" where
  "create_quarantine_hold gv env n i p out =
    (let h = quarantine_hold gv (at_id env n) (at_now env n) i p out in
     andthen (or_internal (db_op env n (hold_insert h))) (\<lambda>_.
     or_internal (append_governance_event env (n + 1)
       (governance_event (at_id env (n + 1)) (at_now env n) QuarantineHoldCreated ferrum_gateway_actor
         (object_ref OT_QuarantineHold (qh_hold_id h) ''Quarantine hold created for proposal'')
         (in_intent_id i) (ap_proposal_id p) None None
         (jm_insert ''matched_rule_ids'' (JArr (map JStr (qh_matched_rule_ids h)))
           (jm_insert ''hold_id'' (JStr (qh_hold_id h)) []))))))"

text \<open>From the inspection on: record the decision, and hold a quarantined proposal.\<close>

definition record_decision ::
  "gateway \<Rightarrow> governance \<Rightarrow> env \<Rightarrow> IntentEnvelope \<Rightarrow> ActionProposal \<Rightarrow> EvaluateProposalResponse \<Rightarrow>
   BehavioralFinding option \<Rightarrow> EvaluateProposalResponse gw" where
  "record_decision gw gv env i p out anomaly =
    andthen (case anomaly of None \<Rightarrow> ret () | Some _ \<Rightarrow> append_audit_checked gw env 3) (\<lambda>_.
    andthen (or_internal (append_governance_event env 4
      (policy_event (at_id env 4) (at_now env 4) p (ep_decision out) anomaly))) (\<lambda>_.
    andthen (if ep_decision out = Quarantine then create_quarantine_hold gv env 6 i p out else ret ()) (\<lambda>_.
    ret out)))"

definition evaluate_proposal ::
  "gateway \<Rightarrow> governance \<Rightarrow> env \<Rightarrow> int \<Rightarrow> ActionProposal \<Rightarrow>
   (gstate \<times> actor_windows, ApiProblem, EvaluateProposalResponse) proc" where
  "evaluate_proposal gw gv env instant proposal = (\<lambda>(g, actors).
    case evaluate_and_store gv env proposal g of
      (Inl e, g1) \<Rightarrow> (Inl e, (g1, actors))
    | (Inr (i, p, out), g1) \<Rightarrow>
      (case inspect_proposal (gv_profiler gv) (gv_first_key gv) instant (in_principal_id i)
              (ap_estimated_risk p) (ap_requested_rollback_class p) actors of
         (anomaly, actors') \<Rightarrow>
           (case record_decision gw gv env i p out anomaly g1 of (r, g2) \<Rightarrow> (r, (g2, actors')))))"

end
