(* ===== verification/Mint.thy ===== *)
theory Mint
  imports Governance
begin

text \<open>
  Minting and revoking a capability (\<open>crates/ferrum-gateway/src/capabilities.rs\<close>) and the
  ingestion of external provenance events (\<open>bridge.rs\<close>).
\<close>

subsection \<open>The policy decision a mint relies on\<close>

definition policy_query :: "uuid \<Rightarrow> ProvenanceQueryRequest" where
  "policy_query intent_id = parent_query (Some intent_id) (Some PolicyEvaluated)"

text \<open>\<open>max_by_key\<close> returns the last of several maximal elements.\<close>

fun latest_event :: "ProvenanceEvent list \<Rightarrow> ProvenanceEvent option" where
  "latest_event [] = None"
| "latest_event (e # es) =
    Some (fold (\<lambda>x best. if ev_occurred_at best \<le> ev_occurred_at x then x else best) es e)"

definition latest_policy_decision_for_proposal :: "env \<Rightarrow> nat \<Rightarrow> uuid \<Rightarrow> uuid \<Rightarrow> Decision gw" where
  "latest_policy_decision_for_proposal env n proposal_id intent_id =
    andthen (or_internal (db_read env n (provenance_query (policy_query intent_id)))) (\<lambda>events.
    andthen (some_or (latest_event (filter (\<lambda>e. ev_proposal_id e = Some proposal_id) events))
      (problem 409 Conflict ''capability mint requires prior PolicyEvaluated event for proposal'')) (\<lambda>e.
    some_or (decision_from_policy_event e)
      (problem 409 Conflict ''PolicyEvaluated event is missing a valid decision'')))"

definition validate_quarantine_hold_for_proposal :: "env \<Rightarrow> nat \<Rightarrow> uuid \<Rightarrow> unit gw" where
  "validate_quarantine_hold_for_proposal env n proposal_id =
    andthen (fetch env n (\<lambda>d. hold_by_proposal d proposal_id)
      (problem 403 PolicyDenied ''quarantine hold is missing for quarantined proposal'')) (\<lambda>hold.
    case qh_state hold of
      QS_Allowed \<Rightarrow> ret ()
    | QS_Pending \<Rightarrow> raise (problem 403 PolicyDenied
        ''proposal is under quarantine and awaiting operator resolution'')
    | QS_Denied \<Rightarrow> raise (problem 403 PolicyDenied ''proposal was denied by quarantine resolution'')
    | QS_Expired \<Rightarrow> raise (problem 403 PolicyDenied
        ''quarantine hold expired; proposal cannot be minted''))"

subsection \<open>Minting\<close>

definition owned_lease ::
  "uuid \<Rightarrow> uuid \<Rightarrow> timestamp \<Rightarrow> CapabilityMintRequest \<Rightarrow> string option \<Rightarrow> CapabilityLease" where
  "owned_lease cap_id bundle_id now rq owner =
     (new_lease cap_id bundle_id now rq)\<lparr>cl_owner_actor_id := owner\<rparr>"

definition mint_capability_with_owner ::
  "env \<Rightarrow> nat \<Rightarrow> CapabilityMintRequest \<Rightarrow> string option \<Rightarrow> CapabilityMintResponse gw_cap" where
  "mint_capability_with_owner env n rq owner =
    andthen (ensure (\<not> 300 < mr_requested_ttl_secs rq) CE_TtlTooLong) (\<lambda>_.
    let lease = owned_lease (at_id env n) (at_id env (n + 1)) (at_now env n) rq owner in
    andthen (map_err map_store_error (db_op env n (capability_insert lease))) (\<lambda>_.
    ret \<lparr>mp_lease = lease, mp_warnings = []\<rparr>))"

definition mint_binding_matches :: "CapabilityMintRequest \<Rightarrow> ActionProposal \<Rightarrow> bool" where
  "mint_binding_matches rq p =
    (ap_intent_id p = mr_intent_id rq \<and>
     ap_server_name p = tb_server_name (mr_tool_binding rq) \<and>
     ap_tool_name p = tb_tool_name (mr_tool_binding rq))"

definition decision_permits_mint ::
  "gateway \<Rightarrow> env \<Rightarrow> nat \<Rightarrow> CapabilityMintRequest \<Rightarrow> Decision \<Rightarrow> unit gw" where
  "decision_permits_mint gw env n rq decision = (case decision of
     Allow \<Rightarrow> ret ()
   | RequireApproval \<Rightarrow>
       (case mr_approval_binding rq of
          None \<Rightarrow> raise (problem 403 PolicyDenied ''policy requires approval before capability mint'')
        | Some b \<Rightarrow> validate_approval_binding_digest gw env n b (mr_proposal_id rq))
   | Quarantine \<Rightarrow> validate_quarantine_hold_for_proposal env n (mr_proposal_id rq)
   | d \<Rightarrow> raise (problem 403 PolicyDenied
       (''policy decision '' @ decision_text d @ '' does not allow capability mint'')))"

definition mint_capability ::
  "gateway \<Rightarrow> env \<Rightarrow> AuthActor option \<Rightarrow> CapabilityMintRequest \<Rightarrow> CapabilityMintResponse gw" where
  "mint_capability gw env actor rq =
    andthen (fetch env 0 (\<lambda>d. get_proposal d (mr_proposal_id rq))
      (problem 404 NotFound ''proposal not found for capability mint'')) (\<lambda>p.
    andthen (ensure (mint_binding_matches rq p)
      (problem 403 IntegrityMismatch ''capability mint binding does not match proposal'')) (\<lambda>_.
    andthen (of_result (wrap 403 PolicyDenied ConstraintMsg (validate_argument_constraints (gw_regex gw)
      (ap_raw_arguments p) (mr_argument_constraints rq)))) (\<lambda>_.
    andthen (fetch env 1 (\<lambda>d. get_intent d (mr_intent_id rq))
      (problem 404 NotFound ''intent not found for capability mint'')) (\<lambda>_.
    andthen (latest_policy_decision_for_proposal env 2 (mr_proposal_id rq) (mr_intent_id rq)) (\<lambda>decision.
    andthen (decision_permits_mint gw env 3 rq decision) (\<lambda>_.
    andthen (map_err from_capability
      (mint_capability_with_owner env 6 rq (map_option aa_actor_id actor))) (\<lambda>response.
    let lease = mp_lease response in
    andthen (or_internal (append_governance_event env 8
      (governance_event (at_id env 8) (at_now env 8) CapabilityMinted ferrum_gateway_actor
        (object_ref OT_Capability (cl_capability_id lease) ''Capability minted'')
        (cl_intent_id lease) (cl_proposal_id lease) (Some (cl_capability_id lease))
        (Some (cl_policy_bundle_id lease)) []))) (\<lambda>_.
    ret response))))))))"

subsection \<open>Revoking\<close>

definition parse_capability_id :: "gateway \<Rightarrow> string \<Rightarrow> uuid gw" where
  "parse_capability_id gw s =
    some_or (gw_parse_uuid gw s) (problem 400 ValidationError ''path id is not a valid capability uuid'')"

text \<open>The fallback of the handler when the service reports that the lease is missing.\<close>

definition revoke_in_store :: "env \<Rightarrow> nat \<Rightarrow> uuid \<Rightarrow> CapabilityLease gw" where
  "revoke_in_store env n k =
    andthen (fetch env n (\<lambda>d. get_capability d k) object_not_found) (\<lambda>lease.
    andthen (ensure (cl_status lease \<noteq> CS_Revoked) (from_capability CE_Revoked)) (\<lambda>_.
    andthen (ensure (cl_status lease \<noteq> CS_Used) (from_capability CE_AlreadyUsed)) (\<lambda>_.
    andthen (ensure (\<not> cl_expires_at lease < at_now env n) (from_capability CE_Expired)) (\<lambda>_.
    let lease' = lease\<lparr>cl_status := CS_Revoked, cl_revoked_at := Some (at_now env (n + 1))\<rparr> in
    andthen (or_internal (db_op env (n + 1) (capability_update lease'))) (\<lambda>_.
    ret lease')))))"

definition revoke_capability :: "gateway \<Rightarrow> env \<Rightarrow> AuthActor option \<Rightarrow> string \<Rightarrow> uuid gw" where
  "revoke_capability gw env actor path =
    andthen (parse_capability_id gw path) (\<lambda>k.
    andthen (fetch env 0 (\<lambda>d. get_capability d k) object_not_found) (\<lambda>lease.
    andthen (owner_guard gw env 1 actor (cl_owner_actor_id lease)) (\<lambda>_.
    andthen (attempt (cap_revoke env 2 k)) (\<lambda>r.
    andthen (case r of
               Inr revoked \<Rightarrow> ret revoked
             | Inl e \<Rightarrow> if e = CE_NotFound then revoke_in_store env 5 k else raise (from_capability e)) (\<lambda>revoked.
    andthen (or_internal (append_governance_event env 7
      (governance_event (at_id env 7) (at_now env 7) CapabilityRevoked
        \<lparr>ar_actor_type = AT_Gateway, ar_actor_id = ''gateway'', ar_display_name = None\<rparr>
        \<lparr>or_object_type = OT_Capability, or_object_id = cl_capability_id revoked, or_summary = None\<rparr>
        (cl_intent_id revoked) (cl_proposal_id revoked) (Some (cl_capability_id revoked))
        (Some (cl_policy_bundle_id revoked)) []))) (\<lambda>_.
    ret (cl_capability_id revoked)))))))"

subsection \<open>bridge.rs\<close>

record ProvenanceIngestRequest =
  pi_source_runtime_id :: string
  pi_kind :: ProvenanceEventKind
  pi_description :: string
  pi_execution_id :: "uuid option"
  pi_intent_id :: "uuid option"
  pi_trust_labels :: "TrustLabel list"
  pi_sensitivity_labels :: "SensitivityLabel list"
  pi_metadata :: JsonMap

definition is_externally_ingestible_kind :: "ProvenanceEventKind \<Rightarrow> bool" where
  "is_externally_ingestible_kind k = (k = ExternalEventReceived \<or> k = UserGoalReceived)"

definition ingested_event :: "uuid \<Rightarrow> timestamp \<Rightarrow> ProvenanceIngestRequest \<Rightarrow> ProvenanceEvent" where
  "ingested_event new_id now rq =
    \<lparr>ev_event_id = new_id, ev_kind = pi_kind rq, ev_occurred_at = now,
     ev_actor = \<lparr>ar_actor_type = AT_Gateway, ar_actor_id = pi_source_runtime_id rq, ar_display_name = None\<rparr>,
     ev_object = object_ref OT_ProvenanceEvent (pi_source_runtime_id rq) (pi_description rq),
     ev_intent_id = pi_intent_id rq, ev_proposal_id = None, ev_execution_id = pi_execution_id rq,
     ev_capability_id = None, ev_rollback_contract_id = None, ev_policy_bundle_id = None,
     ev_trust_labels = pi_trust_labels rq, ev_sensitivity_labels = pi_sensitivity_labels rq,
     ev_parent_edges = [], ev_hash_chain = empty_hash_chain, ev_metadata = pi_metadata rq,
     ev_source_runtime_id = Some (pi_source_runtime_id rq)\<rparr>"

definition ingest_provenance :: "governance \<Rightarrow> env \<Rightarrow> ProvenanceIngestRequest \<Rightarrow> uuid gw" where
  "ingest_provenance gv env rq =
    andthen (ensure (pi_source_runtime_id rq \<in> set (gv_bridges gv))
      (problem 400 ValidationError (''unknown source_runtime_id: '' @ pi_source_runtime_id rq))) (\<lambda>_.
    andthen (ensure (is_externally_ingestible_kind (pi_kind rq))
      (problem 400 ValidationError (''provenance event kind is not externally ingestible: '' @
        event_kind_text (pi_kind rq)))) (\<lambda>_.
    let e = ingested_event (at_id env 0) (at_now env 0) rq in
    andthen (or_internal (db_op env 0 (event_append e))) (\<lambda>_.
    ret (ev_event_id e))))"

end
