(* ===== verification/Mint_Gate.thy ===== *)
theory Mint_Gate
  imports Mint Scenario
begin

text \<open>
  What minting, revoking and ingesting establish, for any interleaving with other
  requests.  A fact that may be falsified again, such as which event is the latest, is stated
  of a database the request has seen: one between its start and its end.
\<close>

definition since :: "database \<Rightarrow> gstate \<Rightarrow> bool" where
  "since start g = store_step\<^sup>*\<^sup>* start (g_db g)"

definition seen :: "database \<Rightarrow> (database \<Rightarrow> bool) \<Rightarrow> gstate \<Rightarrow> bool" where
  "seen start P g = (\<exists>d. store_step\<^sup>*\<^sup>* start d \<and> store_step\<^sup>*\<^sup>* d (g_db g) \<and> P d)"

definition allowed_hold :: "QuarantineHold \<Rightarrow> gstate \<Rightarrow> bool" where
  "allowed_hold h g = (h \<in> set (t_holds (g_db g)) \<and> qh_state h = QS_Allowed)"

lemma lasting_since [simp]: "lasting (since start)"
  by (auto simp: lasting_def since_def)

lemma lasting_seen [simp]: "lasting (seen start P)"
  by (auto simp: lasting_def seen_def intro: rtranclp_trans)

lemma lasting_allowed_hold [simp]: "lasting (allowed_hold h)"
  using store_steps_holds by (fastforce simp: lasting_def allowed_hold_def hold_history_def)

lemma seen_now: "since start g \<Longrightarrow> P (g_db g) \<Longrightarrow> seen start P g"
  by (auto simp: since_def seen_def)

lemma last_some_or:
  assumes "\<And>g. P g \<Longrightarrow> E g" "\<And>x g. \<lbrakk>P g; r = Some x\<rbrakk> \<Longrightarrow> R x g"
  shows "spec P (some_or r e) R E"
  using assms by (auto simp: some_or_def split: option.splits intro: spec_ret spec_raise)

lemma hold_by_proposal_in:
  assumes "hold_by_proposal d k = Some h"
  shows "h \<in> set (t_holds d) \<and> qh_proposal_id h = k"
proof -
  let ?hs = "sort_key (\<lambda>h. - qh_created_at h) (filter (\<lambda>h. qh_proposal_id h = k) (t_holds d))"
  have "\<exists>hs. ?hs = h # hs" using assms by (auto simp: hold_by_proposal_def split: list.splits)
  then have "h \<in> set ?hs" by (metis list.set_intros(1))
  then show ?thesis by simp
qed

lemma latest_event_max:
  assumes "latest_event es = Some e"
  shows "e \<in> set es \<and> (\<forall>x \<in> set es. ev_occurred_at x \<le> ev_occurred_at e)"
proof -
  let ?f = "\<lambda>x best. if ev_occurred_at best \<le> ev_occurred_at x then x else best"
  have "fold ?f xs b \<in> insert b (set xs) \<and>
      (\<forall>x \<in> insert b (set xs). ev_occurred_at x \<le> ev_occurred_at (fold ?f xs b))" for xs b
  proof (induction xs arbitrary: b)
    case (Cons x xs)
    show ?case using Cons.IH[of "?f x b"] by (cases "ev_occurred_at b \<le> ev_occurred_at x") auto
  qed simp
  then show ?thesis using assms by (cases es) auto
qed

subsection \<open>The decision a mint rests on\<close>

definition latest_decision :: "uuid \<Rightarrow> uuid \<Rightarrow> ProvenanceEvent \<Rightarrow> database \<Rightarrow> bool" where
  "latest_decision proposal_id intent_id e d =
    (e \<in> set (t_events d) \<and> ev_kind e = PolicyEvaluated \<and> ev_intent_id e = Some intent_id \<and>
     ev_proposal_id e = Some proposal_id \<and>
     (\<forall>x \<in> set (t_events d). ev_kind x = PolicyEvaluated \<and> ev_intent_id x = Some intent_id \<and>
        ev_proposal_id x = Some proposal_id \<longrightarrow> ev_occurred_at x \<le> ev_occurred_at e))"

lemma latest_decision_query:
  assumes "latest_event (filter (\<lambda>e. ev_proposal_id e = Some k) (provenance_query (policy_query i) d)) = Some e"
  shows "latest_decision k i e d"
  using latest_event_max[OF assms]
  by (auto simp: latest_decision_def provenance_query_def event_matches_def policy_query_def parent_query_def)

definition mint_permitted ::
  "database \<Rightarrow> gateway \<Rightarrow> env \<Rightarrow> CapabilityMintRequest \<Rightarrow> ActionProposal \<Rightarrow> Decision \<Rightarrow> gstate \<Rightarrow> bool" where
  "mint_permitted start gw env rq p decision g = (case decision of
     Allow \<Rightarrow> True
   | RequireApproval \<Rightarrow> (\<exists>b. mr_approval_binding rq = Some b \<and> bound_approval gw env 3 p b g)
   | Quarantine \<Rightarrow> (\<exists>h. allowed_hold h g \<and> qh_proposal_id h = mr_proposal_id rq \<and>
                        seen start (\<lambda>d. hold_by_proposal d (mr_proposal_id rq) = Some h) g)
   | _ \<Rightarrow> False)"

lemma lasting_mint_permitted [simp]: "lasting (mint_permitted start gw env rq p decision)"
  unfolding mint_permitted_def by (cases decision) (auto intro!: lasting_ex lasting_conj)

text \<open>What the handler has established when it stores the lease.\<close>

definition mintable ::
  "database \<Rightarrow> gateway \<Rightarrow> env \<Rightarrow> CapabilityMintRequest \<Rightarrow> gstate \<Rightarrow> bool" where
  "mintable start gw env rq g =
    (\<exists>p i e decision. has_proposal p g \<and> ap_proposal_id p = mr_proposal_id rq \<and> mint_binding_matches rq p \<and>
       validate_argument_constraints (gw_regex gw) (ap_raw_arguments p) (mr_argument_constraints rq) = Inr () \<and>
       has_intent i g \<and> in_intent_id i = mr_intent_id rq \<and>
       seen start (latest_decision (mr_proposal_id rq) (mr_intent_id rq) e) g \<and>
       decision_from_policy_event e = Some decision \<and> mint_permitted start gw env rq p decision g)"

lemma lasting_mintable [simp]: "lasting (mintable start gw env rq)"
  unfolding mintable_def by (intro lasting_ex lasting_conj) simp_all

lemma spec_latest_decision:
  assumes ok: "others_ok env" and P: "lasting P" "\<And>g. P g \<Longrightarrow> E g" and s: "\<And>g. P g \<Longrightarrow> since start g"
  shows "spec P (latest_policy_decision_for_proposal env n k i)
    (\<lambda>decision g. P g \<and> (\<exists>e. seen start (latest_decision k i e) g \<and>
       decision_from_policy_event e = Some decision)) E"
  unfolding latest_policy_decision_for_proposal_def
  apply (rule spec_andthen[OF spec_or_internal[OF spec_db_read[OF ok P]]], assumption)
  apply (rule then_some_or, simp add: P)
  apply (rule last_some_or, simp add: P)
  apply (auto intro: seen_now[OF s] dest: latest_decision_query)
  done

lemma spec_quarantine_hold:
  assumes ok: "others_ok env" and P: "lasting P" "\<And>g. P g \<Longrightarrow> E g" and s: "\<And>g. P g \<Longrightarrow> since start g"
  shows "spec P (validate_quarantine_hold_for_proposal env n k)
    (\<lambda>_ g. P g \<and> (\<exists>h. allowed_hold h g \<and> qh_proposal_id h = k \<and>
       seen start (\<lambda>d. hold_by_proposal d k = Some h) g)) E"
  unfolding validate_quarantine_hold_for_proposal_def
  apply (rule then_fetch[OF ok P], assumption)
  subgoal for h
    using s hold_by_proposal_in
    by (cases "qh_state h") (auto intro!: spec_raise spec_ret P exI[of _ h] seen_now simp: allowed_hold_def)
  done

lemma spec_decision_permits:
  assumes ok: "others_ok env" and P: "lasting P" "\<And>g. P g \<Longrightarrow> E g" and s: "\<And>g. P g \<Longrightarrow> since start g"
    and p: "\<And>g. P g \<Longrightarrow> has_proposal p g" "ap_proposal_id p = mr_proposal_id rq"
  shows "spec P (decision_permits_mint gw env 3 rq decision)
    (\<lambda>_ g. P g \<and> mint_permitted start gw env rq p decision g) E"
proof (cases decision)
  case RequireApproval
  then show ?thesis
    using spec_approval_binding[OF ok P p(1) p(2), where n = 3]
    by (cases "mr_approval_binding rq")
       (auto simp: decision_permits_mint_def mint_permitted_def intro: spec_raise P)
next
  case Quarantine
  then show ?thesis
    using spec_quarantine_hold[OF ok P s, where n = 3 and k = "mr_proposal_id rq"]
    by (simp add: decision_permits_mint_def mint_permitted_def)
qed (auto simp: decision_permits_mint_def mint_permitted_def intro: spec_ret spec_raise P)

subsection \<open>Appending, with the event in the log\<close>

definition event_core :: "ProvenanceEvent \<Rightarrow> ProvenanceEvent" where
  "event_core e = e\<lparr>ev_parent_edges := [], ev_metadata := []\<rparr>"

definition logged :: "ProvenanceEvent \<Rightarrow> gstate \<Rightarrow> bool" where
  "logged e g = (\<exists>e'. in_log e' g \<and> event_core e' = event_core e \<and>
     (lineage_parent_spec (ev_kind e) = None \<longrightarrow> e' = e))"

lemma lasting_logged [simp]: "lasting (logged e)"
  unfolding logged_def by (intro lasting_ex lasting_conj) simp_all

lemma link_event_core:
  "link_event e parent_kind edge_type candidates = Inr e' \<Longrightarrow> event_core e' = event_core e"
  by (auto simp: link_event_def event_core_def split: option.splits if_splits)

lemma append_governance_event_logged:
  assumes "append_governance_event env n e g = (Inr u, g')"
  shows "logged e g'"
proof -
  obtain e' g1 where app: "db_op env (n + 1) (event_append_with_edges e' (ev_parent_edges e')) g1 = (Inr u, g')"
    and first: "(case lineage_parent_spec (ev_kind e) of None \<Rightarrow> ret e
             | Some (parent_kind, edge_type) \<Rightarrow>
               andthen (db_read env n (provenance_query (parent_query (ev_intent_id e) (Some parent_kind))))
                 (\<lambda>candidates. of_result (link_event e parent_kind edge_type candidates))) g = (Inr e', g1)"
    using assms unfolding append_governance_event_def by (rule andthen_InrE)
  have e': "event_core e' = event_core e" "lineage_parent_spec (ev_kind e) = None \<Longrightarrow> e' = e"
    using first by (cases "lineage_parent_spec (ev_kind e)"; auto simp: proc_Inr dest: link_event_core)+
  have "e' \<in> set (t_events (g_db g'))"
    using app by (auto simp: proc_Inr event_append_with_edges_def split: if_splits)
  then show ?thesis using e' by (auto simp: logged_def in_log_def)
qed

lemma spec_both:
  assumes "spec P m Q E" "\<And>g x g'. m g = (Inr x, g') \<Longrightarrow> R x g'"
  shows "spec P m (\<lambda>x g. Q x g \<and> R x g) E"
  using assms unfolding spec_def by (fastforce split: prod.splits sum.splits)

lemma spec_outcome:
  assumes "spec P m Q E" "store_wf (g_db g)" "P g" "m g = (r, g')"
  shows "store_step\<^sup>*\<^sup>* (g_db g) (g_db g') \<and> (case r of Inl _ \<Rightarrow> E g' | Inr x \<Rightarrow> Q x g')"
  using assms unfolding spec_def by (cases r) force+

lemma spec_append_logged:
  assumes "others_ok env" "lasting P" "\<And>g. P g \<Longrightarrow> E g" "ev_parent_edges e = []"
  shows "spec P (append_governance_event env n e) (\<lambda>_ g. P g \<and> logged e g) E"
  using spec_both[OF spec_append[OF assms] append_governance_event_logged] .

lemma governance_event_edges [simp]:
  "ev_parent_edges (governance_event i t k a ob ii pp cc bb m) = []"
  by (simp add: governance_event_def)

subsection \<open>Minting\<close>

lemma owned_lease_active [simp]: "cl_status (owned_lease c b now rq ow) = CS_Active"
  by (simp add: owned_lease_def new_lease_def)

lemma owned_lease_bounded:
  assumes "\<not> 300 < mr_requested_ttl_secs rq"
  shows "cl_expires_at (owned_lease c b now rq ow) \<le> cl_issued_at (owned_lease c b now rq ow) + seconds 300"
  using new_lease_bounded[of rq now] assms by (simp add: owned_lease_def new_lease_def MAX_TTL_SECS_def)

lemma capability_insert_kept:
  "capability_insert l d = (Inr u, d') \<Longrightarrow> get_capability d' (cl_capability_id l) = Some l"
  by (auto simp: capability_insert_def get_capability_def tget_snoc split: if_splits)

definition stored_lease_of ::
  "env \<Rightarrow> AuthActor option \<Rightarrow> CapabilityMintRequest \<Rightarrow> CapabilityMintResponse \<Rightarrow> gstate \<Rightarrow> bool" where
  "stored_lease_of env actor rq resp g =
    (mp_lease resp = owned_lease (at_id env 6) (at_id env 7) (at_now env 6) rq (map_option aa_actor_id actor) \<and>
     has_lease (mp_lease resp) g \<and>
     cl_expires_at (mp_lease resp) \<le> cl_issued_at (mp_lease resp) + seconds 300)"

lemma lasting_stored_lease_of [simp]: "lasting (stored_lease_of env actor rq resp)"
  unfolding stored_lease_of_def by (intro lasting_conj) simp_all

lemma spec_mint_with_owner:
  assumes ok: "others_ok env" and P: "lasting P" "\<And>g. P g \<Longrightarrow> E g"
  shows "spec P (mint_capability_with_owner env 6 rq (map_option aa_actor_id actor))
    (\<lambda>resp g. P g \<and> stored_lease_of env actor rq resp g) E"
  unfolding mint_capability_with_owner_def Let_def
proof (rule then_ensure)
  assume ttl: "\<not> 300 < mr_requested_ttl_secs rq"
  let ?l = "owned_lease (at_id env 6) (at_id env (6 + 1)) (at_now env 6) rq (map_option aa_actor_id actor)"
  have "spec P (db_op env 6 (capability_insert ?l)) (\<lambda>_ g. P g) E"
    by (rule spec_keep[OF ok P]) (auto intro!: r_into_rtranclp Capability_insert owned_lease_bounded[OF ttl])
  then have ins: "spec P (map_err map_store_error (db_op env 6 (capability_insert ?l)))
      (\<lambda>_ g. P g \<and> get_capability (g_db g) (cl_capability_id ?l) = Some ?l) E"
    by (rule spec_map_err[OF spec_both]) (auto simp: proc_Inr dest: capability_insert_kept)
  show "spec P (andthen (map_err map_store_error (db_op env 6 (capability_insert ?l)))
      (\<lambda>_. ret \<lparr>mp_lease = ?l, mp_warnings = []\<rparr>)) (\<lambda>resp g. P g \<and> stored_lease_of env actor rq resp g) E"
    by (rule spec_andthen[OF ins], rule last_ret)
       (use owned_lease_bounded[OF ttl] in \<open>auto simp: stored_lease_of_def dest: stored_lease\<close>)
qed (rule P)

definition minted_event :: "env \<Rightarrow> CapabilityLease \<Rightarrow> ProvenanceEvent" where
  "minted_event env lease =
     governance_event (at_id env 8) (at_now env 8) CapabilityMinted ferrum_gateway_actor
       (object_ref OT_Capability (cl_capability_id lease) ''Capability minted'')
       (cl_intent_id lease) (cl_proposal_id lease) (Some (cl_capability_id lease))
       (Some (cl_policy_bundle_id lease)) []"

lemma spec_mint_tail:
  assumes ok: "others_ok env"
  shows "spec (\<lambda>g. g_calls g = calls \<and> mintable start gw env rq g)
    (andthen (map_err from_capability (mint_capability_with_owner env 6 rq (map_option aa_actor_id actor))) (\<lambda>response.
     andthen (or_internal (append_governance_event env 8 (minted_event env (mp_lease response)))) (\<lambda>_.
     ret response)))
    (\<lambda>resp g. g_calls g = calls \<and> mintable start gw env rq g \<and> stored_lease_of env actor rq resp g \<and>
       logged (minted_event env (mp_lease resp)) g)
    (\<lambda>g. g_calls g = calls)"
  apply (rule spec_andthen[OF spec_map_err[OF spec_mint_with_owner[OF ok]]], simp, simp)
  apply (rule spec_andthen[OF spec_or_internal[OF spec_append_logged[OF ok]]], simp, simp)
   apply (simp add: minted_event_def)
  apply (rule last_ret, simp)
  done

lemma spec_mint:
  assumes ok: "others_ok env"
  shows "spec (\<lambda>g. since start g \<and> g_calls g = calls) (mint_capability gw env actor rq)
    (\<lambda>resp g. g_calls g = calls \<and> mintable start gw env rq g \<and> stored_lease_of env actor rq resp g \<and>
       logged (minted_event env (mp_lease resp)) g)
    (\<lambda>g. g_calls g = calls)"
  unfolding mint_capability_def Let_def minted_event_def[symmetric]
  apply (rule then_fetch_proposal[OF ok], simp, simp)
  apply (rule then_ensure, simp)
  apply (rule then_of_result, simp)
  apply (rule then_fetch_intent[OF ok], simp, simp)
  apply (rule spec_andthen[OF spec_latest_decision[OF ok, where start = start]], simp, simp, simp)
  subgoal for p _ i decision
    apply (rule spec_andthen[OF spec_decision_permits[OF ok, where start = start and p = p]])
         apply (intro lasting_ex lasting_conj; simp)
        apply simp_all
    apply (rule spec_conseq[OF spec_mint_tail[OF ok, where start = start and calls = calls]])
      apply (auto simp: mintable_def wrap_Inr)
    done
  done

text \<open>C5: Minting.  A request to mint makes no adapter call.  When it succeeds, the stored
  lease belongs to the authenticated actor, lives at most 300 seconds and is logged; the
  stored proposal has its intent and tool and satisfies the argument constraints; and the
  latest policy decision on that proposal, as of some moment of the request, was to allow it,
  to require an approval which the request binds and which was granted for this very
  action, or to quarantine it under a hold an operator has allowed.\<close>
theorem mint_gate:
  assumes "store_step\<^sup>*\<^sup>* empty_database (g_db g)" "others_ok env"
    and "mint_capability gw env actor rq g = (r, g')"
  shows "store_step\<^sup>*\<^sup>* (g_db g) (g_db g') \<and> g_calls g' = g_calls g \<and>
    (case r of
       Inl _ \<Rightarrow> True
     | Inr resp \<Rightarrow> mintable (g_db g) gw env rq g' \<and> stored_lease_of env actor rq resp g' \<and>
         logged (minted_event env (mp_lease resp)) g')"
  using spec_outcome[OF spec_mint[OF assms(2), of "g_db g" "g_calls g"] reachable_wf[OF assms(1)] _ assms(3)]
  by (cases r) (simp_all add: since_def)

end
