(* ===== verification/Evaluate_Gate.thy ===== *)
theory Evaluate_Gate
  imports Mint_Gate
begin

text \<open>
  What evaluating a proposal, revoking a capability and ingesting an event establish, for any
  interleaving with other requests.
\<close>

subsection \<open>Compiling an intent\<close>

lemma compiled_envelope_valid: "validate_intent (compiled_envelope k now actor rq) = Inr ()"
  by (simp add: validate_intent_def compiled_envelope_def minutes_def seconds_def)

lemma intent_insert_kept: "intent_insert i d = (Inr u, d') \<Longrightarrow> get_intent d' (in_intent_id i) = Some i"
  by (auto simp: intent_insert_def get_intent_def tget_snoc split: if_splits)

lemma spec_compile:
  assumes ok: "others_ok env"
  shows "spec (\<lambda>g. g_calls g = calls) (compile_intent env actor rq)
    (\<lambda>i g. g_calls g = calls \<and> i = compiled_envelope (at_id env 0) (at_now env 0) actor rq \<and> has_intent i g)
    (\<lambda>g. g_calls g = calls)"
proof -
  let ?i = "compiled_envelope (at_id env 0) (at_now env 0) actor rq"
  have "spec (\<lambda>g. g_calls g = calls) (or_internal (db_op env 0 (intent_insert ?i)))
      (\<lambda>_ g. g_calls g = calls \<and> has_intent ?i g) (\<lambda>g. g_calls g = calls)"
    by (rule spec_or_internal[OF spec_both[OF spec_keep[OF ok]]])
       (auto intro!: r_into_rtranclp Intent_insert
         simp: proc_Inr has_intent_def dest: intent_insert_kept)
  then show ?thesis
    unfolding compile_intent_def Let_def compiled_envelope_valid sum.case andthen_ret
    by (rule spec_andthen) (rule last_ret, simp)
qed

subsection \<open>The decision\<close>

definition intent_found :: "database \<Rightarrow> env \<Rightarrow> ActionProposal \<Rightarrow> IntentEnvelope \<Rightarrow> gstate \<Rightarrow> bool" where
  "intent_found start env p i g =
    (seen start (\<lambda>d. get_intent d (ap_intent_id p) = Some i) g \<or>
     seen start (\<lambda>d. get_intent d (ap_intent_id p) = None) g \<and>
     i = minimal_intent_for (at_id env 0) (at_now env 0) (ap_intent_id p) (ap_requested_rollback_class p))"

definition bundles_seen :: "database \<Rightarrow> PolicyBundle list option \<Rightarrow> gstate \<Rightarrow> bool" where
  "bundles_seen start bs g = (case bs of None \<Rightarrow> True | Some bs \<Rightarrow> seen start (\<lambda>d. active_bundles d = bs) g)"

definition decided ::
  "database \<Rightarrow> governance \<Rightarrow> IntentEnvelope \<Rightarrow> ActionProposal \<Rightarrow> EvaluateProposalResponse \<Rightarrow> gstate \<Rightarrow> bool" where
  "decided start gv i p out g =
    (let t = proposal_trust i p; engine = pdp_evaluate (gv_pdp gv) i p t in
     case gv_pdp_mode gv of
       PM_Static \<Rightarrow> out = engine
     | PM_Bundles \<Rightarrow> (\<exists>bs. bundles_seen start bs g \<and>
         out = unwrap_or (Option.bind bs (\<lambda>b. bundle_response b i p t)) default_allow)
     | PM_Dual \<Rightarrow> (\<exists>bs. bundles_seen start bs g \<and>
         out = unwrap_or (Option.bind bs (\<lambda>b. bundle_response b i p t)) engine))"

lemma lasting_or: "lasting P \<Longrightarrow> lasting Q \<Longrightarrow> lasting (\<lambda>g. P g \<or> Q g)"
  by (auto simp: lasting_def)

lemma lasting_intent_found [simp]: "lasting (intent_found start env p i)"
  unfolding intent_found_def by (intro lasting_or lasting_conj) simp_all

lemma intent_found_now:
  assumes "since start g"
  shows "intent_found start env p (unwrap_or (get_intent (g_db g) (ap_intent_id p))
    (minimal_intent_for (at_id env 0) (at_now env 0) (ap_intent_id p) (ap_requested_rollback_class p))) g"
  using assms by (cases "get_intent (g_db g) (ap_intent_id p)") (auto simp: intent_found_def intro: seen_now)

lemma lasting_bundles_seen [simp]: "lasting (bundles_seen start bs)"
  unfolding bundles_seen_def by (cases bs) simp_all

lemma lasting_decided [simp]: "lasting (decided start gv i p out)"
  unfolding decided_def Let_def by (cases "gv_pdp_mode gv") (auto intro!: lasting_ex lasting_conj)

lemma spec_active_bundles:
  assumes ok: "others_ok env" and P: "lasting P" and s: "\<And>g. P g \<Longrightarrow> since start g"
  shows "spec P (evaluate_active_policy_bundles env n i p t)
    (\<lambda>r g. P g \<and> (\<exists>bs. bundles_seen start bs g \<and> r = Option.bind bs (\<lambda>b. bundle_response b i p t))) E"
  unfolding evaluate_active_policy_bundles_def
  apply (rule spec_andthen[OF spec_attempt_result[OF spec_db_read[OF ok P, where E = P]]], assumption)
  apply (rule last_ret)
  subgoal for r g
  proof (cases r)
    case (Inl e)
    assume "case r of Inr x \<Rightarrow> P g \<and> x = active_bundles (g_db g) | Inl _ \<Rightarrow> P g"
    then show ?thesis using Inl by (auto simp: bundles_seen_def intro!: exI[of _ None])
  next
    case (Inr bs)
    assume "case r of Inr x \<Rightarrow> P g \<and> x = active_bundles (g_db g) | Inl _ \<Rightarrow> P g"
    then show ?thesis using Inr s
      by (auto simp: bundles_seen_def intro!: exI[of _ "Some bs"] seen_now)
  qed
  done

lemma spec_evaluate_decision:
  assumes ok: "others_ok env" and P: "lasting P" and s: "\<And>g. P g \<Longrightarrow> since start g"
  shows "spec P (evaluate_proposal_decision gv env n i p (proposal_trust i p))
    (\<lambda>out g. P g \<and> decided start gv i p out g) E"
proof (cases "gv_pdp_mode gv")
  case PM_Static
  then show ?thesis by (auto simp: evaluate_proposal_decision_def decided_def intro: spec_ret)
next
  case PM_Bundles
  show ?thesis
    unfolding evaluate_proposal_decision_def PM_Bundles PdpMode.case
    by (rule spec_andthen[OF spec_active_bundles[OF ok P s]], assumption)
       (auto simp: decided_def PM_Bundles Let_def intro!: last_ret)
next
  case PM_Dual
  show ?thesis
    unfolding evaluate_proposal_decision_def PM_Dual PdpMode.case
    by (rule spec_andthen[OF spec_active_bundles[OF ok P s]], assumption)
       (auto simp: decided_def PM_Dual Let_def intro!: last_ret)
qed

definition evaluated ::
  "database \<Rightarrow> governance \<Rightarrow> env \<Rightarrow> ActionProposal \<Rightarrow>
   IntentEnvelope \<times> ActionProposal \<times> EvaluateProposalResponse \<Rightarrow> gstate \<Rightarrow> bool" where
  "evaluated start gv env proposal r g = (case r of (i, p, out) \<Rightarrow>
     intent_found start env proposal i g \<and> decided start gv i proposal out g \<and>
     p = proposal\<lparr>ap_owner_actor_id := in_owner_actor_id i\<rparr> \<and> has_proposal p g)"

lemma lasting_evaluated [simp]: "lasting (evaluated start gv env proposal r)"
  unfolding evaluated_def by (cases r) (auto intro!: lasting_conj)

lemma proposal_insert_kept:
  "proposal_insert p d = (Inr u, d') \<Longrightarrow> get_proposal d' (ap_proposal_id p) = Some p"
  by (auto simp: proposal_insert_def get_proposal_def tget_snoc split: if_splits)

lemma spec_insert_proposal:
  assumes ok: "others_ok env" and P: "lasting P" "\<And>g. P g \<Longrightarrow> E g"
  shows "spec P (or_internal (db_op env n (proposal_insert p))) (\<lambda>_ g. P g \<and> has_proposal p g) E"
  by (rule spec_or_internal[OF spec_both[OF spec_keep[OF ok P]]])
     (auto intro!: r_into_rtranclp Proposal_insert simp: proc_Inr has_proposal_def dest: proposal_insert_kept)

lemma spec_evaluate_and_store:
  assumes ok: "others_ok env"
  shows "spec (\<lambda>g. since start g \<and> g_calls g = calls) (evaluate_and_store gv env proposal)
    (\<lambda>r g. since start g \<and> g_calls g = calls \<and> evaluated start gv env proposal r g) (\<lambda>g. g_calls g = calls)"
  unfolding evaluate_and_store_def Let_def
proof (rule spec_andthen)
  let ?P = "\<lambda>g. since start g \<and> g_calls g = calls"
  let ?i = "\<lambda>found. unwrap_or found (minimal_intent_for (at_id env 0) (at_now env 0) (ap_intent_id proposal)
              (ap_requested_rollback_class proposal))"
  show "spec ?P (or_internal (db_read env 0 (\<lambda>d. get_intent d (ap_intent_id proposal))))
      (\<lambda>found g. ?P g \<and> intent_found start env proposal (?i found) g) (\<lambda>g. g_calls g = calls)"
    by (rule spec_conseq[OF spec_or_internal[OF spec_db_read[OF ok, where P = ?P and E = "\<lambda>g. g_calls g = calls"]]])
       (auto intro: intent_found_now)
  show "spec (\<lambda>g. ?P g \<and> intent_found start env proposal (?i found) g)
      (andthen (evaluate_proposal_decision gv env 1 (?i found) proposal (proposal_trust (?i found) proposal)) (\<lambda>out.
       andthen (or_internal (db_op env 2 (proposal_insert (proposal\<lparr>ap_owner_actor_id := in_owner_actor_id (?i found)\<rparr>))))
        (\<lambda>_. ret (?i found, proposal\<lparr>ap_owner_actor_id := in_owner_actor_id (?i found)\<rparr>, out))))
      (\<lambda>r g. since start g \<and> g_calls g = calls \<and> evaluated start gv env proposal r g) (\<lambda>g. g_calls g = calls)" for found
    apply (rule spec_andthen[OF spec_evaluate_decision[OF ok, where start = start]], simp, simp)
    apply (rule spec_andthen[OF spec_insert_proposal[OF ok]], simp, simp)
    apply (rule last_ret, simp add: evaluated_def)
    done
qed

subsection \<open>Recording it\<close>

definition held ::
  "database \<Rightarrow> governance \<Rightarrow> env \<Rightarrow> IntentEnvelope \<Rightarrow> ActionProposal \<Rightarrow> EvaluateProposalResponse \<Rightarrow> gstate \<Rightarrow> bool" where
  "held start gv env i p out g =
    (ep_decision out = Quarantine \<longrightarrow>
     seen start (\<lambda>d. get_hold d (at_id env 6) = Some (quarantine_hold gv (at_id env 6) (at_now env 6) i p out)) g)"

lemma lasting_held [simp]: "lasting (held start gv env i p out)"
  unfolding held_def by (cases "ep_decision out = Quarantine") simp_all

lemma hold_insert_kept: "hold_insert h d = (Inr u, d') \<Longrightarrow> get_hold d' (qh_hold_id h) = Some h"
  by (auto simp: hold_insert_def get_hold_def tget_snoc split: if_splits)

lemma spec_create_hold:
  assumes ok: "others_ok env" and P: "lasting P" "\<And>g. P g \<Longrightarrow> E g" and s: "\<And>g. P g \<Longrightarrow> since start g"
  shows "spec P (create_quarantine_hold gv env 6 i p out) (\<lambda>_ g. P g \<and> held start gv env i p out g) E"
proof -
  let ?h = "quarantine_hold gv (at_id env 6) (at_now env 6) i p out"
  have "spec P (db_op env 6 (hold_insert ?h)) (\<lambda>_ g. P g) E"
    by (rule spec_keep[OF ok P]) (auto intro!: r_into_rtranclp Hold_insert)
  then have ins: "spec P (or_internal (db_op env 6 (hold_insert ?h)))
      (\<lambda>_ g. P g \<and> get_hold (g_db g) (qh_hold_id ?h) = Some ?h) E"
    by (rule spec_or_internal[OF spec_both]) (auto simp: proc_Inr dest: hold_insert_kept)
  have "spec P (or_internal (db_op env 6 (hold_insert ?h))) (\<lambda>_ g. P g \<and> held start gv env i p out g) E"
    by (rule spec_conseq[OF ins]) (auto simp: held_def quarantine_hold_def intro!: seen_now s)
  then show ?thesis
    unfolding create_quarantine_hold_def Let_def
    by (rule spec_andthen) (rule spec_or_internal, rule spec_append[OF ok], simp_all add: P)
qed

lemma policy_event_decision: "decision_from_policy_event (policy_event k t p decision anomaly) = Some decision"
  by (cases decision; cases anomaly)
     (simp_all add: decision_from_policy_event_def policy_event_def governance_event_def policy_metadata_def)

lemma policy_event_edges [simp]: "ev_parent_edges (policy_event k t p decision anomaly) = []"
  by (simp add: policy_event_def)

lemma spec_record_decision:
  assumes ok: "others_ok env" and P: "lasting P" "\<And>g. P g \<Longrightarrow> E g" and s: "\<And>g. P g \<Longrightarrow> since start g"
  shows "spec P (record_decision gw gv env i p out anomaly)
    (\<lambda>r g. r = out \<and> P g \<and> in_log (policy_event (at_id env 4) (at_now env 4) p (ep_decision out) anomaly) g \<and>
       held start gv env i p out g) E"
proof -
  let ?e = "policy_event (at_id env 4) (at_now env 4) p (ep_decision out) anomaly"
  have audit: "spec P (case anomaly of None \<Rightarrow> ret () | Some _ \<Rightarrow> append_audit_checked gw env 3) (\<lambda>_. P) E"
    by (cases anomaly) (auto intro: spec_ret spec_append_audit P)
  have app: "spec P (or_internal (append_governance_event env 4 ?e)) (\<lambda>_ g. P g \<and> in_log ?e g) E"
    by (rule spec_conseq[OF spec_or_internal[OF spec_append_logged[OF ok P]]])
       (auto simp: logged_def policy_event_def governance_event_def)
  have hold: "spec (\<lambda>g. P g \<and> in_log ?e g)
      (if ep_decision out = Quarantine then create_quarantine_hold gv env 6 i p out else ret ())
      (\<lambda>_ g. (P g \<and> in_log ?e g) \<and> held start gv env i p out g) E"
    by (rule spec_if, rule spec_create_hold[OF ok]) (simp_all add: P s spec_ret held_def)
  show ?thesis
    unfolding record_decision_def
    apply (rule spec_andthen[OF audit])
    apply (rule spec_andthen[OF app])
    apply (rule spec_andthen[OF hold])
    apply (rule last_ret, simp)
    done
qed

lemma evaluate_guarantee:
  assumes "store_step\<^sup>*\<^sup>* empty_database (g_db g)" "others_ok env"
    and "evaluate_proposal gw gv env instant proposal (g, actors) = (r, (g', actors'))"
  shows "store_step\<^sup>*\<^sup>* (g_db g) (g_db g') \<and> g_calls g' = g_calls g \<and>
    (case r of
       Inl _ \<Rightarrow> True
     | Inr out \<Rightarrow> \<exists>i p e. evaluated (g_db g) gv env proposal (i, p, out) g' \<and>
         in_log e g' \<and> ev_kind e = PolicyEvaluated \<and> ev_intent_id e = Some (ap_intent_id proposal) \<and>
         ev_proposal_id e = Some (ap_proposal_id proposal) \<and>
         decision_from_policy_event e = Some (ep_decision out) \<and> held (g_db g) gv env i p out g')"
proof -
  let ?P = "\<lambda>r g'. since (g_db g) g' \<and> g_calls g' = g_calls g \<and> evaluated (g_db g) gv env proposal r g'"
  have wf: "store_wf (g_db g)" using reachable_wf[OF assms(1)] .
  obtain r1 g1 where e1: "evaluate_and_store gv env proposal g = (r1, g1)" by force
  have s1: "store_step\<^sup>*\<^sup>* (g_db g) (g_db g1) \<and> (case r1 of Inl _ \<Rightarrow> g_calls g1 = g_calls g | Inr x \<Rightarrow> ?P x g1)"
    using spec_outcome[OF spec_evaluate_and_store[OF assms(2), of "g_db g" "g_calls g"] wf _ e1]
    by (simp add: since_def)
  show ?thesis
  proof (cases r1)
    case (Inl e)
    then show ?thesis using s1 e1 assms(3) by (auto simp: evaluate_proposal_def)
  next
    case (Inr x)
    obtain i p out where x: "x = (i, p, out)" by (cases x)
    obtain an ac where insp: "inspect_proposal (gv_profiler gv) (gv_first_key gv) instant (in_principal_id i)
        (ap_estimated_risk p) (ap_requested_rollback_class p) actors = (an, ac)" by force
    have rec: "record_decision gw gv env i p out an g1 = (r, g')"
      using assms(3) e1 Inr x insp by (auto simp: evaluate_proposal_def split: prod.splits)
    have P1: "?P x g1" "store_wf (g_db g1)" using s1 Inr store_steps wf by auto
    have s2: "store_step\<^sup>*\<^sup>* (g_db g1) (g_db g') \<and> (case r of
          Inl _ \<Rightarrow> g_calls g' = g_calls g
        | Inr y \<Rightarrow> y = out \<and> ?P x g' \<and>
           in_log (policy_event (at_id env 4) (at_now env 4) p (ep_decision out) an) g' \<and>
           held (g_db g) gv env i p out g')"
      by (rule spec_outcome[OF spec_record_decision[OF assms(2), where P = "?P x" and
            E = "\<lambda>h. g_calls h = g_calls g" and start = "g_db g"] P1(2) P1(1) rec]) simp_all
    then have steps: "store_step\<^sup>*\<^sup>* (g_db g) (g_db g')" using s1 by (auto intro: rtranclp_trans)
    show ?thesis
    proof (cases r)
      case (Inl e)
      then show ?thesis using steps s2 by simp
    next
      case y: (Inr y)
      let ?e = "policy_event (at_id env 4) (at_now env 4) p (ep_decision out) an"
      have p: "p = proposal\<lparr>ap_owner_actor_id := in_owner_actor_id i\<rparr>" using P1 x by (simp add: evaluated_def)
      have "ev_kind ?e = PolicyEvaluated" "ev_intent_id ?e = Some (ap_intent_id proposal)"
        "ev_proposal_id ?e = Some (ap_proposal_id proposal)"
        by (simp_all add: policy_event_def governance_event_def p)
      with y x s2 steps show ?thesis using policy_event_decision[of "at_id env 4" "at_now env 4" p _ an] by auto
    qed
  qed
qed


end
