(* ===== verification/Revoke_Gate.thy ===== *)
theory Revoke_Gate
  imports Evaluate_Gate
begin

text \<open>
  What revoking a capability and ingesting an external event establish: a revoked lease
  never authorizes an execution, and no ingested event takes part in a policy decision.
\<close>

subsection \<open>Revoking\<close>

lemma revoked_again:
  assumes "same_lease l c"
  shows "l\<lparr>cl_status := st, cl_revoked_at := t\<rparr> = c\<lparr>cl_status := st, cl_revoked_at := t\<rparr>"
  using assms by (cases l; cases c) (auto simp: same_lease_def lease_core_def)

lemma spec_revoke_in_store:
  assumes ok: "others_ok env" and P: "lasting P" "\<And>g. P g \<Longrightarrow> E g"
  shows "spec P (revoke_in_store env n k) (\<lambda>l g. P g \<and> spent k g \<and> cl_capability_id l = k) E"
  unfolding revoke_in_store_def Let_def
proof (rule then_fetch_capability[OF ok P], assumption, (rule then_ensure, simp add: P)+)
  fix l :: CapabilityLease assume k: "cl_capability_id l = k"
  let ?l = "l\<lparr>cl_status := CS_Revoked, cl_revoked_at := Some (at_now env (n + 1))\<rparr>"
  have "spec (\<lambda>g. P g \<and> has_lease l g) (db_op env (n + 1) (capability_update ?l)) (\<lambda>_ g. P g \<and> has_lease l g) E"
  proof (rule spec_keep[OF ok])
    fix g assume "P g \<and> has_lease l g"
    then obtain c where "get_capability (g_db g) (cl_capability_id l) = Some c" "same_lease l c"
      by (auto simp: has_lease_def)
    then show "store_step\<^sup>*\<^sup>* (g_db g) (snd (capability_update ?l (g_db g)))"
      using Capability_force_revoke[of "g_db g" _ c "at_now env (n + 1)"] revoked_again[of l c]
      by (auto intro: r_into_rtranclp)
  qed (simp_all add: P)
  then have "spec (\<lambda>g. P g \<and> has_lease l g) (or_internal (db_op env (n + 1) (capability_update ?l)))
      (\<lambda>_ g. (P g \<and> has_lease l g) \<and> (get_capability (g_db g) k \<noteq> None \<longrightarrow> spent k g)) E"
    by (rule spec_or_internal[OF spec_both])
       (auto simp: proc_Inr capability_update_def spent_def get_capability_def tget_tupd k)
  then show "spec (\<lambda>g. P g \<and> has_lease l g)
      (andthen (or_internal (db_op env (n + 1) (capability_update ?l))) (\<lambda>_. ret ?l))
      (\<lambda>l g. P g \<and> spent k g \<and> cl_capability_id l = k) E"
    by (rule spec_andthen) (rule last_ret, auto simp: has_lease_def k)
qed

definition revoked_event :: "env \<Rightarrow> CapabilityLease \<Rightarrow> ProvenanceEvent" where
  "revoked_event env l =
     governance_event (at_id env 7) (at_now env 7) CapabilityRevoked
        \<lparr>ar_actor_type = AT_Gateway, ar_actor_id = ''gateway'', ar_display_name = None\<rparr>
        \<lparr>or_object_type = OT_Capability, or_object_id = cl_capability_id l, or_summary = None\<rparr>
        (cl_intent_id l) (cl_proposal_id l) (Some (cl_capability_id l)) (Some (cl_policy_bundle_id l)) []"

definition may_revoke :: "gateway \<Rightarrow> env \<Rightarrow> AuthActor option \<Rightarrow> string \<Rightarrow> uuid \<Rightarrow> gstate \<Rightarrow> bool" where
  "may_revoke gw env actor path k g =
    (gw_parse_uuid gw path = Some k \<and>
     (\<exists>l. has_lease l g \<and> cl_capability_id l = k \<and>
        enforce_object_owner_guard actor (cl_owner_actor_id l) (gw_auth_mode gw)
          (gw_legacy_object_compat_allow_until gw) (at_now env 1) = Inr ()))"

lemma lasting_may_revoke [simp]: "lasting (may_revoke gw env actor path k)"
  unfolding may_revoke_def by (intro lasting_conj lasting_ex) simp_all

lemma spec_cap_revoke_id:
  assumes ok: "others_ok env" and P: "lasting P" "\<And>g. P g \<Longrightarrow> E g"
  shows "spec P (cap_revoke env n k) (\<lambda>l g. P g \<and> spent k g \<and> cl_capability_id l = k) E"
proof -
  have "cl_capability_id l = k" if "cap_load env n k g = (Inr l, g')" for n l g g'
    using that by (auto simp: cap_load_def proc_Inr get_capability_def dest: tget_key)
  then have "cl_capability_id l = k" if "cap_revoke env n k g = (Inr l, g')" for l g g'
    using that by (auto simp: cap_revoke_def cap_cas_lost_def proc_Inr split: if_splits)
  then show ?thesis
    by (intro spec_conseq[OF spec_both[OF spec_cap_revoke[OF ok P]]]) auto
qed

lemma spec_revoke_fallback:
  assumes ok: "others_ok env" and P: "lasting P" "\<And>g. P g \<Longrightarrow> E g"
  shows "spec (\<lambda>g. case r of Inr l \<Rightarrow> P g \<and> spent k g \<and> cl_capability_id l = k | Inl _ \<Rightarrow> P g)
    (case r of Inr revoked \<Rightarrow> ret revoked
     | Inl e \<Rightarrow> if e = CE_NotFound then revoke_in_store env n k else raise (from_capability e))
    (\<lambda>l g. P g \<and> spent k g \<and> cl_capability_id l = k) E"
proof (cases r)
  case (Inl e)
  then show ?thesis using spec_revoke_in_store[OF ok P] by (auto intro: spec_raise P)
qed (auto intro: spec_ret)

lemma spec_revoke:
  assumes ok: "others_ok env"
  shows "spec (\<lambda>g. g_calls g = calls) (revoke_capability gw env actor path)
    (\<lambda>k g. g_calls g = calls \<and> may_revoke gw env actor path k g \<and> spent k g \<and>
       (\<exists>l. cl_capability_id l = k \<and> logged (revoked_event env l) g)) (\<lambda>g. g_calls g = calls)"
  unfolding revoke_capability_def parse_capability_id_def revoked_event_def[symmetric]
  apply (rule then_some_or, simp)
  apply (rule then_fetch_capability[OF ok], simp, simp)
  apply (rule then_owner_guard, simp)
  subgoal for k l
    apply (rule spec_conseq[where P = "\<lambda>g. g_calls g = calls \<and> may_revoke gw env actor path k g"])
       prefer 2 apply (auto simp: may_revoke_def)[1]
      prefer 2 apply assumption
     prefer 2 apply assumption
    apply (rule spec_andthen[OF spec_attempt_result[OF spec_cap_revoke_id[OF ok, where
          E = "\<lambda>g. g_calls g = calls \<and> may_revoke gw env actor path k g"]]], simp, assumption)
    apply (rule spec_andthen[OF spec_revoke_fallback[OF ok]], simp, simp)
    apply (rule spec_andthen[OF spec_or_internal[OF spec_append_logged[OF ok]]], simp, simp)
     apply (simp add: revoked_event_def)
    apply (rule last_ret, auto)
    done
  done

text \<open>A spent lease never authorizes an execution.\<close>

lemma spec_authorize_spent:
  assumes ok: "others_ok env"
  shows "spec (spent (aer_capability_id rq)) (authorize_execution gw env actor rq) (\<lambda>_ _. False) (\<lambda>_. True)"
  unfolding authorize_execution_def Let_def
proof (rule spec_andthen[OF spec_authorize_checks[OF ok, where E = "\<lambda>_. True"]])
  fix l
  let ?k = "aer_capability_id rq"
  let ?x = "authorized_record (at_id env 8) (at_now env 8) rq l"
  let ?ob = "authorize_outbox (at_id env 9) (at_now env 9) ?x"
  let ?P = "\<lambda>g. spent ?k g \<and> authorizable gw env actor rq l g"
  have lost: "fst (record_authorization (at_now env 10) l ?x ?ob (g_db g)) \<noteq> Inr True" if "?P g" for g
  proof
    assume "fst (record_authorization (at_now env 10) l ?x ?ob (g_db g)) = Inr True"
    then obtain d where "record_authorization (at_now env 10) l ?x ?ob (g_db g) = (Inr True, d)"
      by (metis prod.collapse)
    from record_authorization_Inr[OF this] that show False
      by (auto simp: authorized_def authorizable_def spent_def capability_active_def)
  qed
  have step: "store_step\<^sup>*\<^sup>* d (snd (record_authorization (at_now env 10) l ?x ?ob d))" for d
    by (rule r_into_rtranclp, rule Authorization)
       (simp_all add: fresh_authorize_outbox, simp_all add: authorized_record_def)
  have rec: "spec ?P (or_internal (db_op env 10 (record_authorization (at_now env 10) l ?x ?ob)))
      (\<lambda>won g. spent ?k g \<and> \<not> won) (\<lambda>_. True)"
  proof (rule spec_or_internal, rule spec_db_op[OF ok])
    fix g won d assume g: "store_wf (g_db g)" "?P g" and m: "record_authorization (at_now env 10) l ?x ?ob (g_db g) = (Inr won, d)"
    have "spent ?k (g\<lparr>g_db := d\<rparr>)"
      using lasting_spent[of ?k] g step[of "g_db g"] m by (auto simp: lasting_def)
    then show "spent ?k (g\<lparr>g_db := d\<rparr>) \<and> \<not> won" using lost[OF g(2)] m by auto
  qed (use step in simp_all)
  show "spec ?P
    (andthen (or_internal (db_op env 10 (record_authorization (at_now env 10) l ?x ?ob))) (\<lambda>recorded.
     andthen (if recorded then ret ()
              else andthen (classify_authorization_cas_failure env 11 ?k) (\<lambda>e. raise (capability_problem e))) (\<lambda>_.
     andthen (attempt (cap_mark_used env 12 ?k)) (\<lambda>_.
     andthen (settle_transition env 15 ?ob (gateway_event (at_id env 15) (at_now env 15) ActionProposalSubmitted
          (object_ref OT_SideEffect (ex_execution_id ?x) ''Execution authorized'') ?x None
          (lifecycle_event_metadata ?ob []))) (\<lambda>_.
     ret ?x))))) (\<lambda>_ _. False) (\<lambda>_. True)"
    apply (rule spec_andthen[OF rec])
    apply (rule spec_andthen[where Q = "\<lambda>_ _. False"])
    subgoal for won
      by (cases won) (auto intro!: then_keep[OF spec_classify[OF ok, where P = "spent ?k"]] spec_raise)
    apply simp
    done
qed simp_all

text \<open>C8: Revocation.  A successful revocation was made by the owner of the lease (or under
  the configured compatibility rule), makes no adapter call and is logged; and from then
  on, whatever other requests do in between, no request to authorize an execution with
  this lease succeeds, in whatever way they interleave.\<close>
theorem revoked_never_authorizes:
  assumes "store_step\<^sup>*\<^sup>* empty_database (g_db g)" "others_ok env"
    and "revoke_capability gw env actor path g = (Inr k, g1)"
    and "store_step\<^sup>*\<^sup>* (g_db g1) (g_db g2)" "others_ok env'" "aer_capability_id rq = k"
  shows "may_revoke gw env actor path k g1 \<and> g_calls g1 = g_calls g \<and>
    (\<exists>l. cl_capability_id l = k \<and> logged (revoked_event env l) g1) \<and>
    isl (fst (authorize_execution gw env' actor' rq g2))"
proof -
  have wf: "store_wf (g_db g)" using reachable_wf[OF assms(1)] .
  note r = spec_outcome[OF spec_revoke[OF assms(2)] wf _ assms(3), of "g_calls g", simplified]
  have wf1: "store_wf (g_db g1)" using store_steps wf r by blast
  have "spent k (g1\<lparr>g_db := g_db g2\<rparr>)"
    using lasting_spent[of k] r wf1 assms(4) unfolding lasting_def by blast
  then have s: "spent (aer_capability_id rq) g2" by (simp add: spent_def assms(6))
  have wf2: "store_wf (g_db g2)" using store_steps wf1 assms(4) by blast
  obtain r2 g3 where a: "authorize_execution gw env' actor' rq g2 = (r2, g3)" by force
  show ?thesis
    using r spec_outcome[OF spec_authorize_spent[OF assms(5)] wf2 s a] a by (cases r2) auto
qed

subsection \<open>Ingesting\<close>

text \<open>C9: External events cannot forge a decision.  An event is ingested only from a
  registered bridge and only with an external kind; the request appends exactly this event,
  without a proposal and without edges, and changes nothing else; and the policy events a
  mint would find are the same as before, for every intent.\<close>
theorem ingest_never_forges:
  assumes "ingest_provenance gv env rq g = (Inr k, g')"
    and d_def: "d = at_others env 0 (g_db g)" and e_def: "e = ingested_event (at_id env 0) (at_now env 0) rq"
  shows "g' = g\<lparr>g_db := d\<lparr>t_events := t_events d @ [e]\<rparr>\<rparr> \<and> k = ev_event_id e \<and>
    pi_source_runtime_id rq \<in> set (gv_bridges gv) \<and>
    ev_kind e \<in> {ExternalEventReceived, UserGoalReceived} \<and> ev_proposal_id e = None \<and>
    provenance_query (policy_query i) (g_db g') = provenance_query (policy_query i) d"
proof -
  have k: "pi_kind rq \<in> {ExternalEventReceived, UserGoalReceived}"
    and g': "g' = g\<lparr>g_db := d\<lparr>t_events := t_events d @ [e]\<rparr>\<rparr>" "k = ev_event_id e"
      "pi_source_runtime_id rq \<in> set (gv_bridges gv)"
    using assms(1) unfolding d_def e_def
    by (auto simp: ingest_provenance_def proc_Inr Let_def is_externally_ingestible_kind_def event_append_def
        split: if_splits)
  have e: "ev_kind e = pi_kind rq" "ev_proposal_id e = None" by (simp_all add: e_def ingested_event_def)
  have m: "event_matches (d\<lparr>t_events := t_events d @ [e]\<rparr>) (policy_query i) = event_matches d (policy_query i)"
    by (auto simp: fun_eq_iff event_matches_def policy_query_def parent_query_def)
  have no: "\<not> event_matches d (policy_query i) e"
    using k e by (auto simp: event_matches_def policy_query_def parent_query_def)
  have "filter P (sort_key f (xs @ [e])) = filter P (sort_key f xs)" if "\<not> P e"
    for P and f :: "ProvenanceEvent \<Rightarrow> int" and xs
    using that by (simp add: filter_sort)
  then have "provenance_query (policy_query i) (g_db g') = provenance_query (policy_query i) d"
    using no by (simp add: g'(1) provenance_query_def m)
  then show ?thesis using k g' e by auto
qed

end
