(* ===== verification/Governance_Scenario.thy ===== *)
theory Governance_Scenario
  imports Revoke_Gate
begin

text \<open>
  A complete run from the goal to the side effect on concrete data: compile an intent,
  evaluate a proposal, mint a capability, authorize, prepare and execute; the same with a
  tainted proposal, which is quarantined, released by an operator and minted; and a
  revocation.  The properties of the front half of the gateway are applied along it.
\<close>

definition front_gv :: governance where
  "front_gv = \<lparr>gv_pdp_mode = PM_Dual, gv_pdp = StaticPdpEngine, gv_profiler = NoopProfiler,
     gv_first_key = (\<lambda>_. None), gv_quarantine_timeout_seconds = 86400, gv_bridges = [''b1'']\<rparr>"

definition front_request :: IntentCompileRequest where
  "front_request = \<lparr>ic_principal_id = ''u1'', ic_session_id = None, ic_channel_id = None, ic_title = ''t'',
     ic_goal = '' Write '', ic_agent_plan_summary = None, ic_trusted_context = [], ic_raw_inputs = [],
     ic_requested_resource_scope = [RSel_FilesystemPath ''/data'' RM_ReadWrite None],
     ic_requested_risk_tier = None, ic_approval_mode = None, ic_metadata = []\<rparr>"

definition front_compiled :: "(ApiProblem + IntentEnvelope) \<times> gstate" where
  "front_compiled = compile_intent (demo_env 0) None front_request \<lparr>g_db = empty_database, g_calls = []\<rparr>"

definition front_proposal :: ActionProposal where
  "front_proposal = sample_proposal\<lparr>ap_intent_id := ''r''\<rparr>"

definition tainted_proposal :: ActionProposal where
  "tainted_proposal = front_proposal\<lparr>ap_metadata := [(''source'', JStr ''web''), (''admin'', JBool True)]\<rparr>"

definition front_evaluated ::
  "ActionProposal \<Rightarrow> (ApiProblem + EvaluateProposalResponse) \<times> gstate \<times> actor_windows" where
  "front_evaluated p = evaluate_proposal demo_gw front_gv (demo_env 1) 0 p (snd front_compiled, [])"

definition front_mint_request :: CapabilityMintRequest where
  "front_mint_request = sample_mint_request\<lparr>mr_intent_id := ''r''\<rparr>"

definition front_minted :: "(ApiProblem + CapabilityMintResponse) \<times> gstate" where
  "front_minted = mint_capability demo_gw (demo_env 2) None front_mint_request (fst (snd (front_evaluated front_proposal)))"

definition front_cap :: string where
  "front_cap = ''rqqnnnnnn''"

definition front_authorize :: AuthorizeExecutionRequest where
  "front_authorize = \<lparr>aer_proposal_id = ''p1'', aer_capability_id = front_cap, aer_dry_run = False\<rparr>"

definition front_executed :: "bool list" where
  "front_executed =
    (let a = authorize_execution demo_gw (demo_env 3) None front_authorize (snd front_minted);
         p = prepare_execution demo_gw (demo_env 4) None ''rqqqnnnnnnnn'' (snd a);
         x = execute_execution demo_gw (demo_env 5) None ''rqqqnnnnnnnn'' JNull (snd p)
     in [isl (fst front_compiled), isl (fst (front_evaluated front_proposal)), isl (fst front_minted), isl (fst a), isl (fst p), isl (fst x)])"

text \<open>A goal becomes a side effect: every step of the path succeeds.\<close>

lemma front_run: "front_executed = replicate 6 False"
  by code_simp

lemma front_decisions:
  "map_sum id ep_decision (fst (front_evaluated front_proposal)) = Inr Allow"
  "map_sum id ep_decision (fst (front_evaluated tainted_proposal)) = Inr Quarantine"
  by code_simp+

subsection \<open>Its states are reachable\<close>

lemma front_compiled_reachable: "store_step\<^sup>*\<^sup>* empty_database (g_db (snd front_compiled))"
  unfolding front_compiled_def by (rule spec_reach[OF spec_compile[OF demo_env_ok, where calls = "[]"]]) simp_all

lemma evaluated_pair: "front_evaluated p = (fst (front_evaluated p), fst (snd (front_evaluated p)), snd (snd (front_evaluated p)))"
  by simp

lemma front_evaluated_steps:
  "store_step\<^sup>*\<^sup>* (g_db (snd front_compiled)) (g_db (fst (snd (front_evaluated p))))"
  using evaluate_guarantee[OF front_compiled_reachable demo_env_ok evaluated_pair[of p, unfolded front_evaluated_def]]
  unfolding front_evaluated_def by blast

lemma front_evaluated_reachable: "store_step\<^sup>*\<^sup>* empty_database (g_db (fst (snd (front_evaluated p))))"
  using front_compiled_reachable front_evaluated_steps by (rule rtranclp_trans)

lemma front_minted_reachable: "store_step\<^sup>*\<^sup>* empty_database (g_db (snd front_minted))"
  unfolding front_minted_def
  by (rule spec_reach[OF spec_mint[OF demo_env_ok, where calls = "g_calls (fst (snd (front_evaluated front_proposal)))" and start = empty_database]
        front_evaluated_reachable]) (simp add: since_def front_evaluated_reachable)

lemma front_succeeds: "\<not> isl (fst front_minted)"
  using front_run unfolding front_executed_def Let_def by (simp add: eval_nat_numeral)

subsection \<open>Witnesses\<close>


theorem mint_gate_witness:
  "\<exists>resp. fst front_minted = Inr resp \<and>
     mintable (g_db (fst (snd (front_evaluated front_proposal)))) demo_gw (demo_env 2) front_mint_request (snd front_minted)"
proof -
  obtain r where r: "fst front_minted = Inr r" using not_isl_Inr front_succeeds by blast
  then have "mint_capability demo_gw (demo_env 2) None front_mint_request
      (fst (snd (front_evaluated front_proposal))) = (Inr r, snd front_minted)"
    unfolding front_minted_def by (metis prod.collapse)
  from mint_gate[OF front_evaluated_reachable demo_env_ok this] r show ?thesis by simp
qed

theorem revoked_never_authorizes_witness:
  "isl (fst (authorize_execution demo_gw (demo_env 5) None front_authorize
     (snd (revoke_capability demo_gw (demo_env 4) None front_cap (snd front_minted)))))"
proof -
  let ?r = "revoke_capability demo_gw (demo_env 4) None front_cap (snd front_minted)"
  have "fst ?r = Inr front_cap" by code_simp
  then have "?r = (Inr front_cap, snd ?r)" by (metis prod.collapse)
  from revoked_never_authorizes[OF front_minted_reachable demo_env_ok this rtranclp.rtrancl_refl demo_env_ok]
  show ?thesis by (simp add: front_authorize_def)
qed

definition front_ingest :: ProvenanceIngestRequest where
  "front_ingest = \<lparr>pi_source_runtime_id = ''b1'', pi_kind = ExternalEventReceived, pi_description = ''d'',
     pi_execution_id = None, pi_intent_id = Some ''r'', pi_trust_labels = [], pi_sensitivity_labels = [],
     pi_metadata = [(''decision'', JStr ''Allow'')]\<rparr>"

theorem ingest_never_forges_witness:
  "provenance_query (policy_query ''r'') (g_db (snd (ingest_provenance front_gv (demo_env 7) front_ingest (snd front_minted)))) =
   provenance_query (policy_query ''r'') (g_db (snd front_minted))"
proof -
  let ?r = "ingest_provenance front_gv (demo_env 7) front_ingest (snd front_minted)"
  have "\<not> isl (fst ?r)" by code_simp
  then obtain k where "fst ?r = Inr k" using not_isl_Inr by blast
  then have "?r = (Inr k, snd ?r)" by (metis prod.collapse)
  from ingest_never_forges[OF this refl refl, of "''r''"]
  have "provenance_query (policy_query ''r'') (g_db (snd ?r)) =
      provenance_query (policy_query ''r'') (at_others (demo_env 7) 0 (g_db (snd front_minted)))" by blast
  moreover have "at_others (demo_env 7) 0 d = d" for d by (simp add: demo_env_def)
  ultimately show ?thesis by simp
qed

end
