(* ===== verification/Foreign_Keys.thy ===== *)
theory Foreign_Keys
  imports Interleaving
begin

text \<open>
  Referential integrity: in every state the gateway can reach, every identifier a row
  carries names a row of the table it refers to.  The schema declares these references
  (\<open>crates/ferrum-store/migrations\<close>) and the inserts check them; updates rewrite whole rows
  and could break them, so the invariant is about the gateway's updates.
\<close>

definition subject_ok :: "database \<Rightarrow> uuid \<Rightarrow> uuid \<Rightarrow> bool" where
  "subject_ok d i p = (get_intent d i \<noteq> None \<and> get_proposal d p \<noteq> None)"

definition proposal_ok :: "database \<Rightarrow> ActionProposal \<Rightarrow> bool" where
  "proposal_ok d p = (get_intent d (ap_intent_id p) \<noteq> None)"

definition lease_ok :: "database \<Rightarrow> CapabilityLease \<Rightarrow> bool" where
  "lease_ok d c = subject_ok d (cl_intent_id c) (cl_proposal_id c)"

definition execution_ok :: "database \<Rightarrow> ExecutionRecord \<Rightarrow> bool" where
  "execution_ok d x = (subject_ok d (ex_intent_id x) (ex_proposal_id x) \<and> get_capability d (ex_capability_id x) \<noteq> None)"

definition contract_ok :: "database \<Rightarrow> RollbackContract \<Rightarrow> bool" where
  "contract_ok d c = (subject_ok d (rc_intent_id c) (rc_proposal_id c) \<and> get_execution d (rc_execution_id c) \<noteq> None)"

definition approval_ok :: "database \<Rightarrow> ApprovalRequest \<Rightarrow> bool" where
  "approval_ok d a = subject_ok d (aq_intent_id a) (aq_proposal_id a)"

definition hold_ok :: "database \<Rightarrow> QuarantineHold \<Rightarrow> bool" where
  "hold_ok d h = subject_ok d (qh_intent_id h) (qh_proposal_id h)"

definition outbox_row_ok :: "database \<Rightarrow> OutboxRow \<Rightarrow> bool" where
  "outbox_row_ok d w = (get_execution d (lo_execution_id (ow_record w)) \<noteq> None)"

definition refs_ok :: "database \<Rightarrow> bool" where
  "refs_ok d =
    (list_all (proposal_ok d) (t_proposals d) \<and> list_all (lease_ok d) (t_capabilities d) \<and>
     list_all (execution_ok d) (t_executions d) \<and> list_all (contract_ok d) (t_contracts d) \<and>
     list_all (approval_ok d) (t_approvals d) \<and> list_all (hold_ok d) (t_holds d) \<and>
     list_all (outbox_row_ok d) (t_outbox d))"

lemmas row_ok_defs = subject_ok_def proposal_ok_def lease_ok_def execution_ok_def contract_ok_def
  approval_ok_def hold_ok_def outbox_row_ok_def

subsection \<open>References persist\<close>

lemma keys_persist:
  assumes "history d d'"
  shows "get_intent d k \<noteq> None \<Longrightarrow> get_intent d' k \<noteq> None"
    "get_proposal d k \<noteq> None \<Longrightarrow> get_proposal d' k \<noteq> None"
    "get_capability d k \<noteq> None \<Longrightarrow> get_capability d' k \<noteq> None"
    "get_execution d k \<noteq> None \<Longrightarrow> get_execution d' k \<noteq> None"
  using assms unfolding history_defs by fastforce+

lemma rows_persist:
  assumes "history d d'"
  shows "proposal_ok d p \<Longrightarrow> proposal_ok d' p" "lease_ok d c \<Longrightarrow> lease_ok d' c"
    "execution_ok d x \<Longrightarrow> execution_ok d' x" "contract_ok d rc \<Longrightarrow> contract_ok d' rc"
    "approval_ok d a \<Longrightarrow> approval_ok d' a" "hold_ok d h \<Longrightarrow> hold_ok d' h"
    "outbox_row_ok d w \<Longrightarrow> outbox_row_ok d' w"
  using keys_persist[OF assms] by (auto simp: row_ok_defs)

text \<open>So it is enough to show of each table that a step writes only good rows into it.\<close>

lemma refsI:
  assumes "refs_ok d" "history d d'"
    and "list_all (proposal_ok d') (t_proposals d) \<Longrightarrow> list_all (proposal_ok d') (t_proposals d')"
    and "list_all (lease_ok d') (t_capabilities d) \<Longrightarrow> list_all (lease_ok d') (t_capabilities d')"
    and "list_all (execution_ok d') (t_executions d) \<Longrightarrow> list_all (execution_ok d') (t_executions d')"
    and "list_all (contract_ok d') (t_contracts d) \<Longrightarrow> list_all (contract_ok d') (t_contracts d')"
    and "list_all (approval_ok d') (t_approvals d) \<Longrightarrow> list_all (approval_ok d') (t_approvals d')"
    and "list_all (hold_ok d') (t_holds d) \<Longrightarrow> list_all (hold_ok d') (t_holds d')"
    and "list_all (outbox_row_ok d') (t_outbox d) \<Longrightarrow> list_all (outbox_row_ok d') (t_outbox d')"
  shows "refs_ok d'"
proof -
  have "list_all (proposal_ok d') (t_proposals d)" "list_all (lease_ok d') (t_capabilities d)"
    "list_all (execution_ok d') (t_executions d)" "list_all (contract_ok d') (t_contracts d)"
    "list_all (approval_ok d') (t_approvals d)" "list_all (hold_ok d') (t_holds d)"
    "list_all (outbox_row_ok d') (t_outbox d)"
    using assms(1) rows_persist[OF assms(2)] by (auto simp: refs_ok_def list_all_iff)
  then show ?thesis using assms(3-9) by (simp add: refs_ok_def)
qed

lemma tupd_ok:
  assumes "list_all P t" "\<And>r. r \<in> set t \<Longrightarrow> P r \<Longrightarrow> key r = k \<Longrightarrow> P (f r)"
  shows "list_all P (tupd key k f t)"
  using assms by (auto simp: tupd_def list_all_iff)

lemma lease_ok_core: "lease_core c' = lease_core c \<Longrightarrow> lease_ok d c' = lease_ok d c"
  by (cases c; cases c') (simp add: lease_ok_def lease_core_def)

lemma execution_ok_same: "same_execution x x' \<Longrightarrow> execution_ok d x' = execution_ok d x"
  by (simp add: execution_ok_def same_execution_def)

lemma contract_ok_same: "same_contract c c' \<Longrightarrow> contract_ok d c' = contract_ok d c"
  by (simp add: contract_ok_def same_contract_def)

subsection \<open>Table by table\<close>

lemma proposals_frame [simp]:
  "t_proposals (snd (intent_insert i d)) = t_proposals d"
  "t_proposals (snd (intent_update_status k st d)) = t_proposals d"
  "t_proposals (snd (capability_insert c d)) = t_proposals d"
  "t_proposals (snd (capability_update c d)) = t_proposals d"
  "t_proposals (snd (capability_cas f now k d)) = t_proposals d"
  "t_proposals (snd (approval_insert a d)) = t_proposals d"
  "t_proposals (snd (resolve_approval_sqlite k ast now d)) = t_proposals d"
  "t_proposals (snd (expire_stale_approvals now age batch d)) = t_proposals d"
  "t_proposals (snd (hold_insert h d)) = t_proposals d"
  "t_proposals (snd (hold_resolve k allow actor reason t d)) = t_proposals d"
  "t_proposals (snd (expire_stale_holds now age batch d)) = t_proposals d"
  "t_proposals (snd (event_append_with_edges e edges d)) = t_proposals d"
  "t_proposals (snd (execution_compare_and_set_state now k expected es d)) = t_proposals d"
  by (simp_all add: intent_insert_def intent_update_status_def intent_update_def
      capability_insert_def capability_update_def capability_cas_def approval_insert_def
      resolve_approval_sqlite_def expire_stale_approvals_def hold_insert_def hold_resolve_def
      expire_stale_holds_def Let_def event_append_with_edges_def execution_compare_and_set_state_def
      proc_defs split: option.splits)

lemma lifecycle_proposals_frame [simp]:
  "t_proposals (snd (record_authorization now c e ob d)) = t_proposals d"
  "t_proposals (snd (record_lifecycle_transition e co ob d)) = t_proposals d"
proof -
  show "t_proposals (snd (record_authorization now c e ob d)) = t_proposals d"
    by (rule record_authorization_snd[of now c e ob d]) (simp_all add: authorized_def)
  show "t_proposals (snd (record_lifecycle_transition e co ob d)) = t_proposals d"
    by (rule record_lifecycle_transition_snd[of e co ob d])
       (auto simp: transitioned_def contract_written_def split: option.splits)
qed

lemma step_proposals_ok:
  assumes "store_step d d'" "outbox_wf d" "list_all (proposal_ok d') (t_proposals d)"
  shows "list_all (proposal_ok d') (t_proposals d')"
  using assms(1)
proof cases
  case (Proposal_insert p)
  then show ?thesis
    using assms(3) keys_persist(1)[OF store_step_history[OF assms(1,2)]]
    by (auto simp: proposal_insert_def proposal_ok_def split: if_splits)
next
  case Outbox
  then have "t_proposals d' = t_proposals d"
    using outbox_step_evolves assms(2) outbox_wf_distinct by (force simp: outbox_evolves_def)
  then show ?thesis using assms(3) by simp
qed (use assms(3) in \<open>simp_all add: capability_update_status_if_active_def capability_revoke_if_active_def\<close>)

lemma step_leases_ok:
  assumes "store_step d d'" "outbox_wf d" "keys_ok d" "list_all (lease_ok d') (t_capabilities d)"
  shows "list_all (lease_ok d') (t_capabilities d')"
  using assms(1,2)
proof (cases rule: step_capabilities)
  case (2 c)
  then show ?thesis
    using assms(4) rows_persist(2)[OF store_step_history[OF assms(1,2)], of c] by (simp add: lease_ok_def subject_ok_def)
next
  case (3 k f)
  show ?thesis unfolding 3(1)
  proof (rule tupd_ok[OF assms(4)])
    fix c assume "c \<in> set (t_capabilities d)" "lease_ok d' c" "cl_capability_id c = k"
    then show "lease_ok d' (f c)"
      using 3(2)[of c] tget_unique[of cl_capability_id "t_capabilities d" c] assms(3)
      by (auto simp: get_capability_def keys_ok_def same_lease_def dest: lease_ok_core)
  qed
qed (use assms(4) in simp)

lemma step_executions_ok:
  assumes "store_step d d'" "outbox_wf d" "keys_ok d" "list_all (execution_ok d') (t_executions d)"
  shows "list_all (execution_ok d') (t_executions d')"
  using assms(1,2)
proof (cases rule: step_executions)
  case (2 now c e ob)
  then have "execution_ok d e" by (simp add: authorized_def execution_ok_def subject_ok_def)
  then show ?thesis
    using assms(4) authorized_tables(1)[OF 2(1)] rows_persist(3)[OF store_step_history[OF assms(1,2)]] by simp
next
  case (3 e c ob)
  show ?thesis unfolding transitioned_tables(1)[OF 3(1)]
  proof (rule tupd_ok[OF assms(4)])
    fix x assume "x \<in> set (t_executions d)" "execution_ok d' x" "ex_execution_id x = ex_execution_id e"
    then show "execution_ok d' e"
      using 3(2) tget_unique[of ex_execution_id "t_executions d" x] assms(3)
      by (auto simp: execution_arg_ok_def get_execution_def keys_ok_def dest: execution_ok_same)
  qed
next
  case (4 now k expected st)
  let ?f = "\<lambda>e. if execution_state_is_terminal st
    then e\<lparr>ex_state := st, ex_finished_at := Some now\<rparr> else e\<lparr>ex_state := st\<rparr>"
  have "t_executions d' = t_executions d \<or> t_executions d' = tupd ex_execution_id k ?f (t_executions d)"
    using 4 by (auto simp: execution_compare_and_set_state_def split: option.splits)
  moreover have "list_all (execution_ok d') (tupd ex_execution_id k ?f (t_executions d))"
    by (rule tupd_ok[OF assms(4)]) (simp add: execution_ok_def)
  ultimately show ?thesis using assms(4) by auto
qed (use assms(4) in simp)

lemma step_approvals_ok:
  assumes "store_step d d'" "outbox_wf d" "list_all (approval_ok d') (t_approvals d)"
  shows "list_all (approval_ok d') (t_approvals d')"
  using assms(1,2)
proof (cases rule: step_approvals)
  case (2 a)
  then show ?thesis
    using assms(3) rows_persist(5)[OF store_step_history[OF assms(1,2)], of a] by (simp add: approval_ok_def subject_ok_def)
next
  case (3 k a st v)
  have "approval_ok d' a" using 3(1) assms(3) by (auto simp: get_approval_def list_all_iff dest: tget_in)
  then show ?thesis unfolding 3(3) by (intro tupd_ok[OF assms(3)]) (simp add: approval_ok_def)
next
  case (4 ids)
  then show ?thesis using assms(3) by (auto simp: list_all_iff approval_ok_def)
qed (use assms(3) in simp)

lemma step_holds_ok:
  assumes "store_step d d'" "outbox_wf d" "list_all (hold_ok d') (t_holds d)"
  shows "list_all (hold_ok d') (t_holds d')"
  using assms(1)
proof cases
  case (Hold_insert h)
  then show ?thesis
    using assms(3) rows_persist(6)[OF store_step_history[OF assms(1,2)], of h]
    by (auto simp: hold_insert_def hold_ok_def subject_ok_def split: if_splits)
next
  case (Hold_resolve k allow actor reason t)
  show ?thesis
  proof (cases "get_hold d k")
    case None
    then show ?thesis using assms(3) Hold_resolve by (simp add: hold_resolve_def)
  next
    case (Some h)
    then have h: "hold_ok d' h" using assms(3) by (auto simp: get_hold_def list_all_iff dest: tget_in)
    have "t_holds d' = t_holds d \<or> t_holds d' = tupd qh_hold_id k (\<lambda>r. if qh_state r = QS_Pending
      then h\<lparr>qh_state := (if allow then QS_Allowed else QS_Denied), qh_resolved_at := Some t,
              qh_resolved_by := Some actor, qh_resolution_reason := reason\<rparr> else r) (t_holds d)"
      using Some Hold_resolve by (auto simp: hold_resolve_def)
    then show ?thesis
    proof
      assume eq: "t_holds d' = tupd qh_hold_id k (\<lambda>r. if qh_state r = QS_Pending
        then h\<lparr>qh_state := (if allow then QS_Allowed else QS_Denied), qh_resolved_at := Some t,
                qh_resolved_by := Some actor, qh_resolution_reason := reason\<rparr> else r) (t_holds d)"
      show ?thesis unfolding eq by (rule tupd_ok[OF assms(3)]) (use h in \<open>simp add: hold_ok_def\<close>)
    qed (use assms(3) in simp)
  qed
next
  case (Hold_expire now age batch)
  then show ?thesis using assms(3) by (auto simp: expire_stale_holds_def Let_def list_all_iff hold_ok_def)
next
  case Outbox
  then have "t_holds d' = t_holds d"
    using outbox_step_evolves assms(2) outbox_wf_distinct by (force simp: outbox_evolves_def)
  then show ?thesis using assms(3) by simp
qed (use assms(3) in \<open>simp_all add: capability_update_status_if_active_def capability_revoke_if_active_def\<close>)

lemma transitioned_contracts_ok:
  assumes t: "transitioned e c ob d d'" and c: "contract_arg_ok d c (lo_previous_rollback_state ob)"
    and e: "execution_arg_ok d e"
    and d: "distinct (map rc_contract_id (t_contracts d))" "list_all (contract_ok d') (t_contracts d)"
    and h: "history d d'"
  shows "list_all (contract_ok d') (t_contracts d')"
proof (cases c)
  case None
  then show ?thesis using t d(2) by (auto simp: transitioned_def contract_written_def)
next
  case (Some c1)
  let ?d1 = "d\<lparr>t_executions := tupd ex_execution_id (ex_execution_id e) (\<lambda>_. e) (t_executions d)\<rparr>"
  have ex: "get_execution ?d1 k \<noteq> None \<Longrightarrow> get_execution d k \<noteq> None" for k
    by (auto simp: get_execution_def tget_tupd split: if_splits)
  show ?thesis
  proof (cases "lo_previous_rollback_state ob")
    case None
    then have "t_contracts d' = t_contracts d @ [c1]" "contract_ok d c1"
      using t Some ex[of "rc_execution_id c1"]
      by (auto simp: transitioned_def contract_written_def contract_ok_def subject_ok_def get_intent_def get_proposal_def)
    then show ?thesis using d(2) rows_persist(4)[OF h] by simp
  next
    case prev: (Some p)
    then have tc: "t_contracts d' = tupd rc_contract_id (rc_contract_id c1) (\<lambda>_. c1) (t_contracts d)"
      using t Some by (auto simp: transitioned_def contract_written_def)
    show ?thesis unfolding tc
    proof (rule tupd_ok[OF d(2)])
      fix r assume "r \<in> set (t_contracts d)" "contract_ok d' r" "rc_contract_id r = rc_contract_id c1"
      then show "contract_ok d' c1"
        using c Some prev tget_unique[of rc_contract_id "t_contracts d" r] d(1)
        by (auto simp: contract_arg_ok_def get_contract_def dest: contract_ok_same)
    qed
  qed
qed

lemma step_contracts_ok:
  assumes "store_step d d'" "outbox_wf d" "keys_ok d" "list_all (contract_ok d') (t_contracts d)"
  shows "list_all (contract_ok d') (t_contracts d')"
proof -
  have h: "history d d'" using assms(1,2) by (rule store_step_history)
  show ?thesis
    using assms(1)
  proof cases
    case (Authorization e c ob now)
    then show ?thesis
      using record_authorization_snd[of now c e ob d] authorized_tables(3) assms(4) by metis
  next
    case (Transition e c ob)
    show ?thesis
    proof (rule record_lifecycle_transition_snd[of e c ob d])
      assume "transitioned e c ob d (snd (record_lifecycle_transition e c ob d))"
      then show ?thesis
        using transitioned_contracts_ok[of e c ob d d'] Transition assms(3,4) h by (simp add: keys_ok_def)
    qed (use Transition assms(4) in simp)
  next
    case Outbox
    then show ?thesis
      using outbox_step_evolves assms(2,4) outbox_wf_distinct outbox_evolves_tables(3) by metis
  qed (use assms(4) in \<open>simp_all add: capability_update_status_if_active_def capability_revoke_if_active_def\<close>)
qed

lemma evolves_rows_ok:
  assumes "list_all2 (row_evolves d) ws ws'" "list_all (outbox_row_ok d') ws"
  shows "list_all (outbox_row_ok d') ws'"
  using assms by (induction rule: list_all2_induct) (auto simp: row_evolves_def outbox_row_ok_def)

lemma step_outbox_ok:
  assumes "store_step d d'" "outbox_wf d" "list_all (outbox_row_ok d') (t_outbox d)"
  shows "list_all (outbox_row_ok d') (t_outbox d')"
proof -
  have h: "history d d'" using assms(1,2) by (rule store_step_history)
  show ?thesis
    using assms(1)
  proof cases
    case (Authorization e c ob now)
    show ?thesis
    proof (rule record_authorization_snd[of now c e ob d])
      assume "authorized now c e ob d (snd (record_authorization now c e ob d))"
      then show ?thesis
        using assms(3) Authorization
        by (simp add: authorized_def outbox_row_ok_def new_outbox_row_def get_execution_def tget_snoc split: option.splits)
    qed (use Authorization assms(3) in simp)
  next
    case (Transition e c ob)
    show ?thesis
    proof (rule record_lifecycle_transition_snd[of e c ob d])
      assume "transitioned e c ob d (snd (record_lifecycle_transition e c ob d))"
      then have "get_execution d (ex_execution_id e) \<noteq> None" "t_outbox d' = t_outbox d @ [new_outbox_row ob]"
        using Transition by (auto simp: transitioned_def)
      then show ?thesis
        using assms(3) Transition keys_persist(4)[OF h] by (simp add: outbox_row_ok_def new_outbox_row_def)
    qed (use Transition assms(3) in simp)
  next
    case Outbox
    then have "outbox_evolves d d'"
      using outbox_step_evolves assms(2) outbox_wf_distinct by blast
    then show ?thesis using assms(3) evolves_rows_ok by (auto simp: outbox_evolves_def)
  qed (use assms(3) in \<open>simp_all add: capability_update_status_if_active_def capability_revoke_if_active_def\<close>)
qed

lemma step_refs:
  assumes "store_step d d'" "store_wf d" "refs_ok d"
  shows "refs_ok d'"
proof -
  have w: "outbox_wf d" "keys_ok d" using assms(2) by (simp_all add: store_wf_def)
  show ?thesis
    using refsI[OF assms(3) store_step_history[OF assms(1) w(1)]]
      step_proposals_ok[OF assms(1) w(1)] step_leases_ok[OF assms(1) w] step_executions_ok[OF assms(1) w]
      step_contracts_ok[OF assms(1) w] step_approvals_ok[OF assms(1) w(1)] step_holds_ok[OF assms(1) w(1)]
      step_outbox_ok[OF assms(1) w(1)]
    by blast
qed

lemma steps_refs:
  assumes "store_step\<^sup>*\<^sup>* empty_database d"
  shows "refs_ok d"
  using assms
proof (induction rule: rtranclp_induct)
  case base
  then show ?case by (simp add: refs_ok_def empty_database_def)
next
  case (step y z)
  then show ?case using step_refs reachable_wf by blast
qed



end
