(* ===== verification/Spec2Isabelle.thy ===== *)
theory Spec2Isabelle
  imports Pdp Scenario Audit_Gate Lineage_Query Admin_Tokens Governance_Scenario Foreign_Keys
begin

text \<open>
  Verification of FerrumGate.
\<close>

end
